(* ===== verification/Prelude.thy ===== *)
theory Prelude
  imports Main "HOL-Library.AList" "HOL-Library.Multiset" "HOL-Library.Char_ord"
    "HOL-Library.List_Lexorder"
begin

text \<open>
  What every component of the development shares: how a Go program's values, errors and
  panics are written in HOL, and the generic lemmas on association lists, sums and sorting.

  \<^item> A Go map is an association list with distinct keys (\<open>gomap\<close>). The order of the list is
    one order in which \<^verbatim>\<open>range\<close> may visit the map; Go leaves that order open, so a theorem
    that must hold for every order says so with \<open>mset\<close> or \<open>set\<close>.
  \<^item> A Go \<^verbatim>\<open>error\<close> is a value of \<open>error\<close>; a function returning only an error returns
    \<open>error option\<close> (\<open>None\<close> is nil), one returning a value and an error returns
    \<open>error + 'a\<close>.
  \<^item> A run-time panic (a nil pointer dereference) is the constructor \<open>Panic\<close> of \<open>'a go\<close>.
  \<^item> \<^verbatim>\<open>sort.Slice\<close> is a parameter under the contract \<open>sort_slice_contract\<close>.
\<close>

named_theorems map_simps "lookup after update or delete in Go maps"
named_theorems frame_simps "what an operation leaves unchanged"

section \<open>Go values\<close>

type_synonym ('k, 'v) gomap = "('k \<times> 'v) list"
type_synonym strmap = "(string, string) gomap"

text \<open>\<^verbatim>\<open>int64\<close> values are only compared in the code modelled with this synonym, never added.\<close>

type_synonym int64 = int

definition gomap_wf :: "('k, 'v) gomap \<Rightarrow> bool" where
  "gomap_wf m \<longleftrightarrow> distinct (map fst m)"

abbreviation gomap_keys :: "('k, 'v) gomap \<Rightarrow> 'k list" where
  "gomap_keys m \<equiv> map fst m"

lemma gomap_wf_Nil [simp]: "gomap_wf []"
  by (simp add: gomap_wf_def)

lemma gomap_wf_update [simp, intro]: "gomap_wf m \<Longrightarrow> gomap_wf (AList.update k v m)"
  by (simp add: gomap_wf_def distinct_update)

lemma gomap_wf_delete [simp, intro]: "gomap_wf m \<Longrightarrow> gomap_wf (AList.delete k m)"
  by (simp add: gomap_wf_def distinct_delete)

lemma map_of_update [map_simps, simp]: "map_of (AList.update k v m) = (map_of m)(k \<mapsto> v)"
  by (simp add: update_conv')

lemma map_of_delete [map_simps, simp]: "map_of (AList.delete k m) = (map_of m)(k := None)"
  by (simp add: delete_conv')

lemma keys_update [simp]: "fst ` set (AList.update k v m) = insert k (fst ` set m)"
  by (simp add: dom_update)

lemma length_update:
  "length (AList.update k v m) = (if k \<in> fst ` set m then length m else Suc (length m))"
  by (induction m) auto

lemma update_absorb: "map_of m k = Some v \<Longrightarrow> AList.update k v m = m"
  by (induction m) (auto split: if_splits)

lemma card_gomap_keys: "gomap_wf m \<Longrightarrow> card (fst ` set m) = length m"
  by (metis distinct_card gomap_wf_def length_map list.set_map)

section \<open>Errors\<close>

text \<open>
  \<open>Errorf\<close> is an error made by \<^verbatim>\<open>errors.New\<close> or \<^verbatim>\<open>fmt.Errorf\<close> (with \<^verbatim>\<open>%v\<close>, so the
  cause is kept only as text), \<open>StatusError\<close> an error of the API server, \<open>Wrapf\<close> an error of
  \<^verbatim>\<open>pkg/errors\<close>, which keeps its cause.
\<close>

datatype error = Errorf string | StatusError string int string | Wrapf string error

fun Error :: "error \<Rightarrow> string" where
  "Error (Errorf m) = m"
| "Error (StatusError r c m) = m"
| "Error (Wrapf m e) = m @ '': '' @ Error e"

text \<open>
  \<^verbatim>\<open>reasonAndCodeForError\<close> and \<^verbatim>\<open>IsNotFound\<close> of \<^verbatim>\<open>k8s.io/apimachinery/pkg/api/errors\<close>: an error of
  the server is found through wrapping, and a not-found error is told by its reason or, for an
  unknown reason, by its code.
\<close>

fun reasonAndCodeForError :: "error \<Rightarrow> string \<times> int" where
  "reasonAndCodeForError (Errorf m) = ([], 0)"
| "reasonAndCodeForError (StatusError r c m) = (r, c)"
| "reasonAndCodeForError (Wrapf m e) = reasonAndCodeForError e"

definition knownReasons :: "string list" where
  "knownReasons = [''Unauthorized'', ''Forbidden'', ''NotFound'', ''AlreadyExists'', ''Conflict'',
     ''Gone'', ''Invalid'', ''ServerTimeout'', ''Timeout'', ''TooManyRequests'', ''BadRequest'',
     ''MethodNotAllowed'', ''NotAcceptable'', ''RequestEntityTooLarge'', ''UnsupportedMediaType'',
     ''InternalError'', ''Expired'', ''ServiceUnavailable'']"

definition IsNotFound :: "error \<Rightarrow> bool" where
  "IsNotFound err =
     (let (reason, code) = reasonAndCodeForError err in
      if reason = ''NotFound'' then True
      else if reason \<notin> set knownReasons \<and> code = 404 then True else False)"

definition NewNotFound :: "string \<Rightarrow> string \<Rightarrow> error" where
  "NewNotFound resource name =
     StatusError ''NotFound'' 404 (resource @ '' '' @ [CHR 0x22] @ name @ [CHR 0x22] @ '' not found'')"

definition NewAlreadyExists :: "string \<Rightarrow> string \<Rightarrow> error" where
  "NewAlreadyExists resource name =
     StatusError ''AlreadyExists'' 409
       (resource @ '' '' @ [CHR 0x22] @ name @ [CHR 0x22] @ '' already exists'')"

definition NewBadRequest :: "string \<Rightarrow> error" where
  "NewBadRequest msg = StatusError ''BadRequest'' 400 msg"

lemma IsNotFound_simps [simp]:
  "IsNotFound (NewNotFound r n)" "\<not> IsNotFound (NewAlreadyExists r n)"
  "\<not> IsNotFound (NewBadRequest m)" "\<not> IsNotFound (Errorf m)"
  by (simp_all add: IsNotFound_def NewNotFound_def NewAlreadyExists_def NewBadRequest_def
      knownReasons_def)

section \<open>Panics\<close>

datatype 'a go = Ret 'a | Panic string

fun bind_go :: "'a go \<Rightarrow> ('a \<Rightarrow> 'b go) \<Rightarrow> 'b go" where
  "bind_go (Ret x) f = f x"
| "bind_go (Panic m) f = Panic m"

lemma bind_go_Ret_iff: "bind_go x f = Ret y \<longleftrightarrow> (\<exists>v. x = Ret v \<and> f v = Ret y)"
  by (cases x) auto

definition nilPanic :: string where
  "nilPanic = ''invalid memory address or nil pointer dereference''"

definition deref :: "'a option \<Rightarrow> 'a go" where
  "deref p = (case p of None \<Rightarrow> Panic nilPanic | Some v \<Rightarrow> Ret v)"

lemma deref_simps [simp]: "deref None = Panic nilPanic" "deref (Some v) = Ret v"
  by (simp_all add: deref_def)

lemma deref_Ret_iff [simp]: "deref p = Ret v \<longleftrightarrow> p = Some v"
  by (cases p) auto

section \<open>Sorting\<close>

text \<open>
  The contract of \<^verbatim>\<open>sort.Slice\<close>: the result is a permutation of the slice, and when the
  comparison is a strict weak order no element stands after one it is less than. The order of
  equal elements is not specified.
\<close>

definition strict_weak_order :: "('a \<Rightarrow> 'a \<Rightarrow> bool) \<Rightarrow> bool" where
  "strict_weak_order lt \<longleftrightarrow>
     (\<forall>x. \<not> lt x x) \<and>
     (\<forall>x y z. lt x y \<longrightarrow> lt y z \<longrightarrow> lt x z) \<and>
     (\<forall>x y z. \<not> lt x y \<longrightarrow> \<not> lt y z \<longrightarrow> \<not> lt x z)"

lemma strict_weak_orderD:
  assumes "strict_weak_order lt"
  shows "\<not> lt x x" "lt x y \<Longrightarrow> lt y z \<Longrightarrow> lt x z"
    "\<not> lt x y \<Longrightarrow> \<not> lt y z \<Longrightarrow> \<not> lt x z" "lt x y \<Longrightarrow> \<not> lt y x"
  using assms unfolding strict_weak_order_def by blast+

locale sort_slice_contract =
  fixes sort_slice :: "('a \<Rightarrow> 'a \<Rightarrow> bool) \<Rightarrow> 'a list \<Rightarrow> 'a list"
  assumes sort_slice_perm: "mset (sort_slice lt xs) = mset xs"
    and sort_slice_ordered:
      "strict_weak_order lt \<Longrightarrow> sorted_wrt (\<lambda>x y. \<not> lt y x) (sort_slice lt xs)"
begin

lemma set_sort_slice [simp]: "set (sort_slice lt xs) = set xs"
  by (metis set_mset_mset sort_slice_perm)

lemma length_sort_slice [simp]: "length (sort_slice lt xs) = length xs"
  by (metis size_mset sort_slice_perm)

end

text \<open>
  Go's \<^verbatim>\<open>sort.Slice\<close> sorts a slice of at most twelve elements by insertion: element \<open>x\<close> moves
  left while it is less than its left neighbour. The prefix sorted so far is kept reversed, so
  the neighbour is its head.
\<close>

fun sift :: "('a \<Rightarrow> 'a \<Rightarrow> bool) \<Rightarrow> 'a \<Rightarrow> 'a list \<Rightarrow> 'a list" where
  "sift lt x [] = [x]"
| "sift lt x (y # ys) = (if lt x y then y # sift lt x ys else x # y # ys)"

definition insertionSort :: "('a \<Rightarrow> 'a \<Rightarrow> bool) \<Rightarrow> 'a list \<Rightarrow> 'a list" where
  "insertionSort lt xs = rev (fold (sift lt) xs [])"

lemma mset_sift: "mset (sift lt x ys) = add_mset x (mset ys)"
  by (induction ys) auto

lemma mset_fold_sift: "mset (fold (sift lt) xs acc) = mset xs + mset acc"
  by (induction xs arbitrary: acc) (auto simp: mset_sift)

lemma set_sift: "set (sift lt x ys) = insert x (set ys)"
  by (metis mset_sift set_mset_add_mset_insert set_mset_mset)

lemma sift_ordered:
  assumes swo: "strict_weak_order lt" and "sorted_wrt (\<lambda>x y. \<not> lt x y) ys"
  shows "sorted_wrt (\<lambda>x y. \<not> lt x y) (sift lt x ys)"
  using assms(2)
proof (induction ys)
  case Nil
  then show ?case by simp
next
  case (Cons y ys)
  show ?case
  proof (cases "lt x y")
    case True
    with Cons strict_weak_orderD(4) [OF swo True] show ?thesis
      by (auto simp: set_sift)
  next
    case False
    with Cons.prems strict_weak_orderD(3) [OF swo False] show ?thesis by auto
  qed
qed

lemma fold_sift_ordered:
  assumes "strict_weak_order lt" and "sorted_wrt (\<lambda>x y. \<not> lt x y) acc"
  shows "sorted_wrt (\<lambda>x y. \<not> lt x y) (fold (sift lt) xs acc)"
  using assms(2) by (induction xs arbitrary: acc) (auto intro: sift_ordered [OF assms(1)])

interpretation ins: sort_slice_contract insertionSort
proof unfold_locales
  show "mset (insertionSort lt xs) = mset xs" for lt and xs :: "'a list"
    by (simp add: insertionSort_def mset_fold_sift)
  show "sorted_wrt (\<lambda>x y. \<not> lt y x) (insertionSort lt xs)"
    if "strict_weak_order lt" for lt and xs :: "'a list"
    using fold_sift_ordered [OF that, of "[]" xs]
    by (simp add: insertionSort_def sorted_wrt_rev)
qed

section \<open>States that grow\<close>

text \<open>A map that has everything another has, unchanged, and new entries only at some keys.\<close>

definition addsOnly :: "('k \<rightharpoonup> 'v) \<Rightarrow> ('k \<rightharpoonup> 'v) \<Rightarrow> 'k set \<Rightarrow> bool" where
  "addsOnly m m' K \<longleftrightarrow> m \<subseteq>\<^sub>m m' \<and> dom m' \<subseteq> dom m \<union> K"

lemma addsOnly_refl [simp]: "addsOnly m m K"
  by (simp add: addsOnly_def)

lemma addsOnly_trans: "addsOnly m m' K \<Longrightarrow> addsOnly m' m'' K \<Longrightarrow> addsOnly m m'' K"
  unfolding addsOnly_def using map_le_trans [of m m' m''] by blast

lemma addsOnly_mono: "addsOnly m m' K \<Longrightarrow> K \<subseteq> L \<Longrightarrow> addsOnly m m' L"
  unfolding addsOnly_def by blast

lemma addsOnly_insert: "m k = None \<Longrightarrow> k \<in> K \<Longrightarrow> addsOnly m (m(k \<mapsto> v)) K"
  by (auto simp: addsOnly_def map_le_def)

lemma addsOnly_keeps: "addsOnly m m' K \<Longrightarrow> k \<in> dom m \<Longrightarrow> m' k = m k"
  by (auto simp: addsOnly_def map_le_def)

lemma addsOnly_other: "addsOnly m m' K \<Longrightarrow> k \<notin> K \<Longrightarrow> m' k = m k"
  by (cases "k \<in> dom m") (auto simp: addsOnly_def map_le_def)

lemma addsOnly_dom: "addsOnly m m' K \<Longrightarrow> dom m \<subseteq> dom m'"
  by (auto simp: addsOnly_def dest: map_le_implies_dom_le)

text \<open>A map in which entries may have appeared or changed at some keys, and none is gone.\<close>

definition changesOnly :: "('k \<rightharpoonup> 'v) \<Rightarrow> ('k \<rightharpoonup> 'v) \<Rightarrow> 'k set \<Rightarrow> bool" where
  "changesOnly m m' K \<longleftrightarrow> (\<forall>k. k \<notin> K \<longrightarrow> m' k = m k) \<and> dom m \<subseteq> dom m'"

lemma changesOnly_refl [simp]: "changesOnly m m K"
  by (simp add: changesOnly_def)

lemma changesOnly_trans: "changesOnly m m' K \<Longrightarrow> changesOnly m' m'' L \<Longrightarrow> changesOnly m m'' (K \<union> L)"
  unfolding changesOnly_def by auto blast

lemma changesOnly_mono: "changesOnly m m' K \<Longrightarrow> K \<subseteq> L \<Longrightarrow> changesOnly m m' L"
  unfolding changesOnly_def by blast

lemma addsOnly_changesOnly: "addsOnly m m' K \<Longrightarrow> changesOnly m m' K"
  by (simp add: changesOnly_def addsOnly_other addsOnly_dom)

section \<open>Generic lemmas\<close>

lemma sorted_wrt_prefixD:
  "sorted_wrt P (xs @ ys) \<Longrightarrow> x \<in> set xs \<Longrightarrow> y \<in> set ys \<Longrightarrow> P x y"
  by (auto simp: sorted_wrt_append)

lemma fold_update_dom:
  "fst ` set (fold (\<lambda>k. AList.update k v) ks m) = set ks \<union> fst ` set m"
  by (induction ks arbitrary: m) auto

lemma filter_ConsD: "filter P xs = y # ys \<Longrightarrow> y \<in> set xs \<and> P y"
  by (metis filter_is_subset filter_eq_Cons_iff in_set_conv_decomp)

lemma filter_map_concat:
  "filter P (concat xss) = concat (map (filter P) xss)"
  by (induction xss) auto

text \<open>A loop that stores one entry per element.\<close>

lemma map_of_fold_update:
  "inj_on f (set xs) \<Longrightarrow> x \<in> set xs \<Longrightarrow>
   map_of (fold (\<lambda>x. AList.update (f x) (g x)) xs m) (f x) = Some (g x)"
proof (induction xs rule: rev_induct)
  case (snoc y ys)
  then show ?case by (cases "f x = f y") (auto simp: inj_on_def)
qed simp

lemma dom_fold_update:
  "dom (map_of (fold (\<lambda>x. AList.update (f x) (g x)) xs m)) = f ` set xs \<union> dom (map_of m)"
  by (induction xs arbitrary: m) (auto simp: dom_map_of_conv_image_fst)

lemma distinct_concat_map:
  assumes "distinct xs" "\<And>x. x \<in> set xs \<Longrightarrow> distinct (f x)"
    and "\<And>x y. x \<in> set xs \<Longrightarrow> y \<in> set xs \<Longrightarrow> x \<noteq> y \<Longrightarrow> set (f x) \<inter> set (f y) = {}"
  shows "distinct (concat (map f xs))"
  using assms
proof (induction xs)
  case (Cons x xs)
  have "set (f x) \<inter> set (concat (map f xs)) = {}"
    using Cons.prems(1) Cons.prems(3) [of x] by fastforce
  with Cons show ?case by simp
qed simp

lemma distinct_map_filter:
  "distinct xs \<Longrightarrow> (\<And>x y z. f x = Some z \<Longrightarrow> f y = Some z \<Longrightarrow> x = y) \<Longrightarrow> distinct (List.map_filter f xs)"
proof (induction xs)
  case (Cons x xs)
  have "z \<notin> set (List.map_filter f xs)" if "f x = Some z" for z
  proof
    assume "z \<in> set (List.map_filter f xs)"
    then obtain y where "y \<in> set xs" "f y = Some z" by (auto simp: map_filter_def)
    with that Cons.prems(1) Cons.prems(2) [of x z y] show False by auto
  qed
  with Cons show ?case by (auto simp: map_filter_simps split: option.split)
qed (simp add: map_filter_simps)

end
