(* ===== verification/Api_Types.thy ===== *)
theory Api_Types
  imports Prelude
begin

text \<open>
  The custom resources of \<^verbatim>\<open>src/api/v1\<close> as records, one record per Go struct with one field
  per struct field, and the constants of \<^verbatim>\<open>src/pkg/names\<close>. A Go pointer is an option, a slice
  a list and a map an association list. A field is written \<open><struct>_<Field>\<close>, because record
  fields share one name space.

  Of \<^verbatim>\<open>metav1.ObjectMeta\<close> the fields that the operator reads or writes are kept.
\<close>

section \<open>Names\<close>

definition Namespace :: string where "Namespace = ''openshift-ptp''"

definition DefaultPTPConfigMapName :: string where
  "DefaultPTPConfigMapName = ''ptp-configmap''"

definition DefaultLeapConfigMapName :: string where
  "DefaultLeapConfigMapName = ''leap-configmap''"

definition DefaultOperatorConfigName :: string where
  "DefaultOperatorConfigName = ''default''"

definition ManifestDir :: string where "ManifestDir = ''./bindata''"

lemmas name_defs = Namespace_def DefaultPTPConfigMapName_def DefaultLeapConfigMapName_def
  DefaultOperatorConfigName_def ManifestDir_def

section \<open>Object metadata\<close>

record OwnerReference =
  ref_APIVersion :: string
  ref_Kind :: string
  ref_Name :: string
  ref_UID :: string
  ref_Controller :: "bool option"
  ref_BlockOwnerDeletion :: "bool option"

record ObjectMeta =
  meta_Name :: string
  meta_Namespace :: string
  meta_UID :: string
  meta_Labels :: strmap
  meta_OwnerReferences :: "OwnerReference list"

definition emptyMeta :: ObjectMeta where
  "emptyMeta = \<lparr>meta_Name = '''', meta_Namespace = '''', meta_UID = '''', meta_Labels = [],
     meta_OwnerReferences = []\<rparr>"

section \<open>PtpConfig\<close>

record PtpClockThreshold =
  threshold_HoldOverTimeout :: int64
  threshold_MaxOffsetThreshold :: int64
  threshold_MinOffsetThreshold :: int64

record PtpProfile =
  profile_Name :: "string option"
  profile_Interface :: "string option"
  profile_Ptp4lOpts :: "string option"
  profile_Phc2sysOpts :: "string option"
  profile_Ts2PhcOpts :: "string option"
  profile_Synce4lOpts :: "string option"
  profile_Ptp4lConf :: "string option"
  profile_Phc2sysConf :: "string option"
  profile_Ts2PhcConf :: "string option"
  profile_Synce4lConf :: "string option"
  profile_PtpSchedulingPolicy :: "string option"
  profile_PtpSchedulingPriority :: "int64 option"
  profile_PtpClockThreshold :: "PtpClockThreshold option"
  profile_PtpSettings :: strmap
  profile_Plugins :: "(string, string option) gomap"

record MatchRule =
  match_NodeLabel :: "string option"
  match_NodeName :: "string option"

record PtpRecommend =
  recommend_Profile :: "string option"
  recommend_Priority :: "int64 option"
  recommend_Match :: "MatchRule list"

record NodeMatchList =
  matchlist_NodeName :: "string option"
  matchlist_Profile :: "string option"

record PtpConfigSpec =
  cspec_Profile :: "PtpProfile list"
  cspec_Recommend :: "PtpRecommend list"

record PtpConfigStatus =
  cstatus_MatchList :: "NodeMatchList list"

record PtpConfig =
  config_ObjectMeta :: ObjectMeta
  config_Spec :: PtpConfigSpec
  config_Status :: PtpConfigStatus

record PtpConfigList =
  configlist_Items :: "PtpConfig list"

text \<open>The zero value of a profile: every pointer nil, every map empty.\<close>

definition emptyProfile :: PtpProfile where
  "emptyProfile = \<lparr>profile_Name = None, profile_Interface = None, profile_Ptp4lOpts = None,
     profile_Phc2sysOpts = None, profile_Ts2PhcOpts = None, profile_Synce4lOpts = None,
     profile_Ptp4lConf = None, profile_Phc2sysConf = None, profile_Ts2PhcConf = None,
     profile_Synce4lConf = None, profile_PtpSchedulingPolicy = None,
     profile_PtpSchedulingPriority = None, profile_PtpClockThreshold = None,
     profile_PtpSettings = [], profile_Plugins = []\<rparr>"

section \<open>PtpOperatorConfig\<close>

record PtpEventConfig =
  event_EnableEventPublisher :: bool
  event_TransportHost :: string
  event_StorageType :: string
  event_ApiVersion :: string

record PtpOperatorConfigSpec =
  ospec_DaemonNodeSelector :: strmap
  ospec_EventConfig :: "PtpEventConfig option"
  ospec_EnabledPlugins :: "(string, string option) gomap option"

record PtpOperatorConfig =
  oconfig_ObjectMeta :: ObjectMeta
  oconfig_Spec :: PtpOperatorConfigSpec

section \<open>NodePtpDevice\<close>

record PtpDevice =
  device_Name :: string
  device_Profile :: string

record HwConfig =
  hw_DeviceID :: string
  hw_VendorID :: string
  hw_Failed :: bool
  hw_Status :: string
  hw_Config :: "string option"

record NodePtpDeviceStatus =
  dstatus_Devices :: "PtpDevice list"
  dstatus_Hwconfig :: "HwConfig list"

record NodePtpDevice =
  ndevice_ObjectMeta :: ObjectMeta
  ndevice_Status :: NodePtpDeviceStatus

section \<open>Core resources the operator uses\<close>

text \<open>\<^verbatim>\<open>corev1.Node\<close> and \<^verbatim>\<open>corev1.ConfigMap\<close>, with the fields the operator uses.\<close>

record Node =
  node_ObjectMeta :: ObjectMeta

record ConfigMap =
  cm_ObjectMeta :: ObjectMeta
  cm_Data :: strmap

abbreviation node_Name :: "Node \<Rightarrow> string" where
  "node_Name n \<equiv> meta_Name (node_ObjectMeta n)"

abbreviation node_Labels :: "Node \<Rightarrow> strmap" where
  "node_Labels n \<equiv> meta_Labels (node_ObjectMeta n)"

end
