(* ===== verification/Go_Strings.thy ===== *)
theory Go_Strings
  imports Prelude "HOL-Library.Sublist"
begin

text \<open>
  The functions of Go's \<^verbatim>\<open>strings\<close> package that the operator uses, on byte strings. A separator
  or a replaced substring is one byte in every call the operator makes, so those arguments are
  characters. \<open>strings_TrimSpace\<close> strips the UTF-8 encodings of all Unicode white space;
  \<open>strings_ToLower\<close> folds ASCII letters and leaves every other byte as it is, which is Go's
  function on ASCII strings.
\<close>

section \<open>Definitions\<close>

definition strings_HasPrefix :: "string \<Rightarrow> string \<Rightarrow> bool" where
  "strings_HasPrefix s p \<longleftrightarrow> take (length p) s = p"

definition strings_HasSuffix :: "string \<Rightarrow> string \<Rightarrow> bool" where
  "strings_HasSuffix s p \<longleftrightarrow> length p \<le> length s \<and> drop (length s - length p) s = p"

fun strings_Split :: "string \<Rightarrow> char \<Rightarrow> string list" where
  "strings_Split [] sep = [[]]"
| "strings_Split (c # s) sep =
     (if c = sep then [] # strings_Split s sep
      else case strings_Split s sep of [] \<Rightarrow> [[c]] | w # ws \<Rightarrow> (c # w) # ws)"

fun strings_Join :: "string list \<Rightarrow> string \<Rightarrow> string" where
  "strings_Join [] sep = []"
| "strings_Join [w] sep = w"
| "strings_Join (w # ws) sep = w @ sep @ strings_Join ws sep"

fun strings_IndexByte :: "string \<Rightarrow> char \<Rightarrow> int" where
  "strings_IndexByte [] c = -1"
| "strings_IndexByte (x # s) c =
     (if x = c then 0
      else let i = strings_IndexByte s c in if i = -1 then -1 else i + 1)"

definition strings_Count :: "string \<Rightarrow> char \<Rightarrow> nat" where
  "strings_Count s c = count_list s c"

definition strings_ReplaceAll :: "string \<Rightarrow> char \<Rightarrow> string \<Rightarrow> string" where
  "strings_ReplaceAll s old new = concat (map (\<lambda>c. if c = old then new else [c]) s)"

definition byte_toLower :: "char \<Rightarrow> char" where
  "byte_toLower c =
     (if CHR ''A'' \<le> c \<and> c \<le> CHR ''Z'' then char_of (of_char c + (32 :: nat)) else c)"

definition strings_ToLower :: "string \<Rightarrow> string" where
  "strings_ToLower s = map byte_toLower s"

text \<open>The encodings of the code points for which \<^verbatim>\<open>unicode.IsSpace\<close> holds.\<close>

definition utf8_2 :: "nat \<Rightarrow> nat \<Rightarrow> string" where
  "utf8_2 a b = [char_of a, char_of b]"

definition utf8_3 :: "nat \<Rightarrow> nat \<Rightarrow> nat \<Rightarrow> string" where
  "utf8_3 a b c = [char_of a, char_of b, char_of c]"

definition asciiSpaces :: string where
  "asciiSpaces = [CHR '' '', CHR 0x09, CHR 0x0A, CHR 0x0B, CHR 0x0C, CHR 0x0D]"

definition wideSpaces :: "string list" where
  "wideSpaces = [utf8_2 194 133, utf8_2 194 160, utf8_3 225 154 128]
     @ map (utf8_3 226 128) [128, 129, 130, 131, 132, 133, 134, 135, 136, 137, 138, 168, 169, 175]
     @ [utf8_3 226 129 159, utf8_3 227 128 128]"

definition spaceAtStart :: "string \<Rightarrow> nat" where
  "spaceAtStart s =
     (case s of
        [] \<Rightarrow> 0
      | c # _ \<Rightarrow>
          if c \<in> set asciiSpaces then 1
          else case find (strings_HasPrefix s) wideSpaces of None \<Rightarrow> 0 | Some w \<Rightarrow> length w)"

definition spaceAtEnd :: "string \<Rightarrow> nat" where
  "spaceAtEnd s =
     (case rev s of
        [] \<Rightarrow> 0
      | c # _ \<Rightarrow>
          if c \<in> set asciiSpaces then 1
          else case find (strings_HasSuffix s) wideSpaces of None \<Rightarrow> 0 | Some w \<Rightarrow> length w)"

function trimLeft :: "string \<Rightarrow> string" where
  "trimLeft s = (if spaceAtStart s = 0 \<or> s = [] then s else trimLeft (drop (spaceAtStart s) s))"
  by pat_completeness auto
termination
  by (relation "measure length") auto

function trimRight :: "string \<Rightarrow> string" where
  "trimRight s =
     (if spaceAtEnd s = 0 \<or> s = [] then s else trimRight (take (length s - spaceAtEnd s) s))"
  by pat_completeness auto
termination
  by (relation "measure length") auto

declare trimLeft.simps [simp del] trimRight.simps [simp del]

definition strings_TrimSpace :: "string \<Rightarrow> string" where
  "strings_TrimSpace s = trimRight (trimLeft s)"

text \<open>A string that starts and ends with a byte of printable ASCII other than a space.\<close>

definition graphic :: "char \<Rightarrow> bool" where
  "graphic c \<longleftrightarrow> CHR ''!'' \<le> c \<and> c \<le> CHR ''~''"

section \<open>Split and Join\<close>

lemma strings_Split_nonempty [simp]: "strings_Split s c \<noteq> []"
  by (cases s) (auto split: list.split)

lemma strings_Join_Cons: "ws \<noteq> [] \<Longrightarrow> strings_Join (w # ws) sep = w @ sep @ strings_Join ws sep"
  by (cases ws) auto

lemma strings_Join_Split: "strings_Join (strings_Split s c) [c] = s"
proof (induction s)
  case (Cons x s)
  obtain w ws where w: "strings_Split s c = w # ws"
    by (meson strings_Split_nonempty neq_Nil_conv)
  show ?case
  proof (cases "x = c")
    case True
    with Cons w show ?thesis by (simp add: strings_Join_Cons)
  next
    case False
    with Cons w show ?thesis by (cases ws) auto
  qed
qed simp

lemma strings_Split_no_sep: "c \<notin> set s \<Longrightarrow> strings_Split s c = [s]"
  by (induction s) auto

lemma strings_Split_append:
  "c \<notin> set w \<Longrightarrow> strings_Split (w @ c # s) c = w # strings_Split s c"
  by (induction w) auto

lemma strings_Split_Join:
  "ws \<noteq> [] \<Longrightarrow> (\<And>w. w \<in> set ws \<Longrightarrow> c \<notin> set w) \<Longrightarrow> strings_Split (strings_Join ws [c]) c = ws"
proof (induction ws)
  case (Cons w ws)
  then show ?case
    by (cases "ws = []") (auto simp: strings_Split_no_sep strings_Split_append strings_Join_Cons)
qed simp

lemma strings_Split_parts: "w \<in> set (strings_Split s c) \<Longrightarrow> c \<notin> set w"
proof (induction s arbitrary: w)
  case (Cons x s)
  then show ?case by (cases "strings_Split s c") (auto split: if_splits)
qed simp

lemma strings_Split_length: "length (strings_Split s c) = Suc (count_list s c)"
proof (induction s)
  case (Cons x s)
  then show ?case by (cases "strings_Split s c") auto
qed simp

lemma strings_Split_hd: "hd (strings_Split s c) = takeWhile (\<lambda>x. x \<noteq> c) s"
proof (induction s)
  case (Cons x s)
  then show ?case by (cases "strings_Split s c") auto
qed simp

text \<open>The parts of a string between separators, both ways.\<close>

lemma strings_Split_parts_eq:
  "c \<notin> set n \<Longrightarrow> (\<And>p. p \<in> set parts \<Longrightarrow> c \<notin> set p) \<Longrightarrow>
   strings_Split (n @ concat (map ((#) c) parts)) c = n # parts"
  by (induction parts arbitrary: n) (simp_all add: strings_Split_no_sep strings_Split_append)

lemma strings_Join_parts: "strings_Join (n # parts) [c] = n @ concat (map ((#) c) parts)"
  by (induction parts arbitrary: n) simp_all

lemma strings_Split_eqD:
  "strings_Split v c = n # parts \<Longrightarrow> v = n @ concat (map ((#) c) parts)"
  using strings_Join_Split [of v c] by (metis strings_Join_parts)

section \<open>IndexByte\<close>

lemma strings_IndexByte_ge: "-1 \<le> strings_IndexByte s c"
  by (induction s) (auto simp: Let_def)

lemma strings_IndexByte_none: "strings_IndexByte s c = -1 \<longleftrightarrow> c \<notin> set s"
proof (induction s)
  case (Cons x s)
  then show ?case using strings_IndexByte_ge [of s c] by (auto simp: Let_def)
qed simp

lemma strings_IndexByte_append:
  "c \<notin> set w \<Longrightarrow> strings_IndexByte (w @ c # s) c = int (length w)"
  by (induction w) auto

lemma strings_IndexByte_split:
  assumes "0 \<le> strings_IndexByte s c"
  shows "s = take (nat (strings_IndexByte s c)) s @ c # drop (nat (strings_IndexByte s c) + 1) s
     \<and> c \<notin> set (take (nat (strings_IndexByte s c)) s)"
  using assms
proof (induction s)
  case (Cons x s)
  show ?case
  proof (cases "x = c")
    case False
    with Cons.prems have i: "0 \<le> strings_IndexByte s c"
      using strings_IndexByte_ge [of s c] by (auto simp: Let_def split: if_splits)
    then have "nat (strings_IndexByte s c + 1) = Suc (nat (strings_IndexByte s c))" by simp
    with Cons.IH [OF i] False i show ?thesis by (auto simp: Let_def)
  qed simp
qed simp

section \<open>HasPrefix\<close>

lemma strings_HasPrefix_iff: "strings_HasPrefix s p \<longleftrightarrow> (\<exists>r. s = p @ r)"
  unfolding strings_HasPrefix_def by (metis append_eq_conv_conj append_take_drop_id)

lemma strings_HasPrefix_char [simp]:
  "strings_HasPrefix (x # s) [c] \<longleftrightarrow> x = c" "\<not> strings_HasPrefix [] (c # p)"
  by (auto simp: strings_HasPrefix_iff)

lemma strings_HasPrefix_hd: "strings_HasPrefix (c # s) w \<Longrightarrow> w \<noteq> [] \<Longrightarrow> hd w = c"
  by (metis hd_append2 list.sel(1) strings_HasPrefix_iff)

lemma strings_HasSuffix_iff: "strings_HasSuffix s p \<longleftrightarrow> (\<exists>r. s = r @ p)"
  unfolding strings_HasSuffix_def
  by (metis append_eq_conv_conj append_take_drop_id diff_add_inverse2 length_append le_add2)

lemma strings_HasSuffix_last: "strings_HasSuffix (s @ [c]) w \<Longrightarrow> w \<noteq> [] \<Longrightarrow> last w = c"
  by (metis last_appendR last_snoc strings_HasSuffix_iff)

section \<open>TrimSpace\<close>

lemma graphic_not_space:
  assumes "graphic c"
  shows "c \<notin> set asciiSpaces" and "w \<in> set wideSpaces \<Longrightarrow> hd w \<noteq> c"
    and "w \<in> set wideSpaces \<Longrightarrow> last w \<noteq> c"
  using assms
  by (auto simp: graphic_def asciiSpaces_def wideSpaces_def utf8_2_def utf8_3_def less_eq_char_def)

lemma wideSpaces_nonempty: "w \<in> set wideSpaces \<Longrightarrow> w \<noteq> []"
  by (auto simp: wideSpaces_def utf8_2_def utf8_3_def)

lemma spaceAtStart_graphic: "graphic c \<Longrightarrow> spaceAtStart (c # s) = 0"
proof -
  assume g: "graphic c"
  have "find (strings_HasPrefix (c # s)) wideSpaces = None"
    using graphic_not_space(2) [OF g] wideSpaces_nonempty strings_HasPrefix_hd
    by (metis find_None_iff)
  with graphic_not_space(1) [OF g] show ?thesis by (simp add: spaceAtStart_def)
qed

lemma spaceAtEnd_graphic: "graphic c \<Longrightarrow> spaceAtEnd (s @ [c]) = 0"
proof -
  assume g: "graphic c"
  have "find (strings_HasSuffix (s @ [c])) wideSpaces = None"
    using graphic_not_space(3) [OF g] wideSpaces_nonempty strings_HasSuffix_last
    by (metis find_None_iff)
  with graphic_not_space(1) [OF g] show ?thesis by (simp add: spaceAtEnd_def)
qed

lemma trimLeft_Nil [simp]: "trimLeft [] = []"
  by (simp add: trimLeft.simps)

lemma trimRight_Nil [simp]: "trimRight [] = []"
  by (simp add: trimRight.simps)

lemma trimLeft_space: "c \<in> set asciiSpaces \<Longrightarrow> trimLeft (c # s) = trimLeft s"
  by (subst trimLeft.simps) (simp add: spaceAtStart_def)

lemma strings_TrimSpace_graphic:
  assumes "s \<noteq> []" and "graphic (hd s)" and "graphic (last s)"
  shows "strings_TrimSpace s = s"
proof -
  have "trimLeft s = s"
    using assms spaceAtStart_graphic by (cases s) (simp_all add: trimLeft.simps)
  moreover have "spaceAtEnd s = 0"
    using assms spaceAtEnd_graphic [of "last s" "butlast s"] by simp
  ultimately show ?thesis by (simp add: strings_TrimSpace_def trimRight.simps)
qed

lemma strings_TrimSpace_Nil [simp]: "strings_TrimSpace [] = []"
  by (simp add: strings_TrimSpace_def)

lemma strings_ReplaceAll_delete: "strings_ReplaceAll s c [] = filter (\<lambda>x. x \<noteq> c) s"
  by (induction s) (auto simp: strings_ReplaceAll_def)

end
