(* ===== verification/Ptp4l_Conf.thy ===== *)
theory Ptp4l_Conf
  imports Api_Types Go_Strings
begin

text \<open>
  The ptp4l configuration parser of \<^verbatim>\<open>src/api/v1/ptpconfig_webhook.go\<close>:
  \<^verbatim>\<open>populatePtp4lConf\<close> and, on its result, \<^verbatim>\<open>getInterfaces\<close> and \<^verbatim>\<open>GetInterfaces\<close>.

  The parser writes into its receiver, so the model returns the error together with the map of
  sections as it stands when the function returns; the caller in \<^verbatim>\<open>validate\<close> looks at the sections
  even after an error. Writing to the options of a section that is not in the map would be a
  write to a nil map, a \<open>Panic\<close>; it is shown not to happen.
\<close>

section \<open>Definitions\<close>

record ptp4lConfSection =
  section_options :: strmap

record ptp4lConf =
  conf_sections :: "(string, ptp4lConfSection) gomap"

definition nilMapPanic :: string where
  "nilMapPanic = ''assignment to entry in nil map''"

definition errSectionClosing :: error where
  "errSectionClosing = Errorf (''Section missing closing '' @ [CHR 0x27, CHR '']'', CHR 0x27])"

definition errOptionNotInSection :: error where
  "errOptionNotInSection = Errorf ''Config option not in section''"

text \<open>\<^verbatim>\<open>section.options[k] = v\<close> on the section that \<^verbatim>\<open>output.sections[currentSection]\<close> reads.\<close>

definition setOption ::
  "string \<Rightarrow> string \<Rightarrow> string \<Rightarrow> (string, ptp4lConfSection) gomap \<Rightarrow>
   (string, ptp4lConfSection) gomap go"
where
  "setOption currentSection k v sections =
     (case map_of sections currentSection of
        None \<Rightarrow> Panic nilMapPanic
      | Some section \<Rightarrow>
          Ret (AList.update currentSection
            (section\<lparr>section_options := AList.update k v (section_options section)\<rparr>) sections))"

fun confLoop ::
  "string list \<Rightarrow> string \<Rightarrow> (string, ptp4lConfSection) gomap \<Rightarrow>
   (error option \<times> (string, ptp4lConfSection) gomap) go"
where
  "confLoop [] currentSection sections = Ret (None, sections)"
| "confLoop (line # lines) currentSection sections =
     (if strings_HasPrefix line ''['' then
        (let currentLine = strings_Split line (CHR '']'') in
         if length currentLine < 2 then Ret (Some errSectionClosing, sections)
         else let currentSection = hd currentLine @ '']'' in
           confLoop lines currentSection
             (AList.update currentSection \<lparr>section_options = []\<rparr> sections))
      else if currentSection \<noteq> [] then
        (let split = strings_IndexByte line (CHR '' '') in
         if 0 < split then
           bind_go (setOption currentSection (take (nat split) line)
                      (strings_TrimSpace (drop (nat split + 1) line)) sections)
             (confLoop lines currentSection)
         else confLoop lines currentSection sections)
      else Ret (Some errOptionNotInSection, sections))"

definition populatePtp4lConf ::
  "string option \<Rightarrow> string option \<Rightarrow> (error option \<times> ptp4lConf) go"
where
  "populatePtp4lConf config ptp4lopts =
     (let string_config = (case config of None \<Rightarrow> [] | Some s \<Rightarrow> s);
          lines = strings_Split string_config (CHR 0x0A)
      in bind_go (confLoop lines [] []) (\<lambda>(err, sections).
           case err of
             Some e \<Rightarrow> Ret (Some e, \<lparr>conf_sections = sections\<rparr>)
           | None \<Rightarrow>
               Ret (None, \<lparr>conf_sections =
                 (if map_of sections ''[global]'' = None
                  then AList.update ''[global]'' \<lparr>section_options = []\<rparr> sections
                  else sections)\<rparr>)))"

type_synonym PtpRole = int

definition Master :: PtpRole where "Master = 1"

definition Slave :: PtpRole where "Slave = 0"

fun natDigits :: "nat \<Rightarrow> string" where
  "natDigits n =
     (if n < 10 then [char_of (48 + n)] else natDigits (n div 10) @ [char_of (48 + n mod 10)])"

declare natDigits.simps [simp del]

definition strconv_Itoa :: "int \<Rightarrow> string" where
  "strconv_Itoa i = (if i < 0 then CHR ''-'' # natDigits (nat (- i)) else natDigits (nat i))"

definition stripBrackets :: "string \<Rightarrow> string" where
  "stripBrackets s =
     strings_TrimSpace (strings_ReplaceAll (strings_ReplaceAll s (CHR ''['') []) (CHR '']'') [])"

definition optionOr :: "strmap \<Rightarrow> string \<Rightarrow> string" where
  "optionOr m k = (case map_of m k of None \<Rightarrow> [] | Some v \<Rightarrow> v)"

fun getInterfacesLoop :: "(string, ptp4lConfSection) gomap \<Rightarrow> PtpRole \<Rightarrow> string list" where
  "getInterfacesLoop [] mode = []"
| "getInterfacesLoop ((index, section) # rest) mode =
     (let sectionName = stripBrackets index in
      if strings_TrimSpace (optionOr (section_options section) ''masterOnly'') = strconv_Itoa mode
      then stripBrackets sectionName # getInterfacesLoop rest mode
      else getInterfacesLoop rest mode)"

definition getInterfaces :: "ptp4lConf \<Rightarrow> PtpRole \<Rightarrow> string list" where
  "getInterfaces input mode = getInterfacesLoop (conf_sections input) mode"

fun finalInterfaces :: "string option \<Rightarrow> string list \<Rightarrow> string list" where
  "finalInterfaces iface [] = []"
| "finalInterfaces iface (aIf # rest) =
     (if aIf = ''global'' then
        (case iface of Some i \<Rightarrow> i # finalInterfaces iface rest | None \<Rightarrow> finalInterfaces iface rest)
      else aIf # finalInterfaces iface rest)"

definition GetInterfaces :: "PtpConfig \<Rightarrow> PtpRole \<Rightarrow> string list go" where
  "GetInterfaces config mode =
     (case cspec_Profile (config_Spec config) of
        [] \<Rightarrow> Ret []
      | profile # _ \<Rightarrow>
          bind_go (populatePtp4lConf (profile_Ptp4lConf profile) None) (\<lambda>(err, conf).
            let interfaces = getInterfaces conf mode;
                final = finalInterfaces (profile_Interface profile) interfaces
            in Ret (if length interfaces = 0 \<and> mode = Slave \<and> profile_Interface profile \<noteq> None
                    then final @ [the (profile_Interface profile)] else final)))"

section \<open>The parser never panics\<close>

definition sectionKey :: "string \<Rightarrow> bool" where
  "sectionKey k \<longleftrightarrow> (\<exists>n. k = CHR ''['' # n @ '']'' \<and> CHR '']'' \<notin> set n)"

definition sectionsInv :: "string \<Rightarrow> (string, ptp4lConfSection) gomap \<Rightarrow> bool" where
  "sectionsInv cur sections \<longleftrightarrow> gomap_wf sections \<and> (cur = [] \<or> cur \<in> fst ` set sections) \<and>
     (\<forall>e \<in> set sections. sectionKey (fst e) \<and> gomap_wf (section_options (snd e)))"

lemma set_update_subset: "set (AList.update k v m) \<subseteq> insert (k, v) (set m)"
  by (induction m) auto

lemma sectionsInv_update:
  assumes "sectionsInv cur sections" and "gomap_wf (section_options sec)" and "sectionKey k"
  shows "sectionsInv k (AList.update k sec sections)"
proof -
  have "sectionKey (fst e) \<and> gomap_wf (section_options (snd e))"
    if "e \<in> set (AList.update k sec sections)" for e
    using that assms set_update_subset [of k sec sections] by (auto simp: sectionsInv_def)
  then show ?thesis using assms(1) by (simp add: sectionsInv_def)
qed

lemma sectionHeader:
  assumes "strings_HasPrefix line ''[''"
  shows "sectionKey (hd (strings_Split line (CHR '']'')) @ '']'')"
proof -
  from assms obtain r where r: "line = CHR ''['' # r" by (auto simp: strings_HasPrefix_iff)
  have "hd (strings_Split line (CHR '']'')) = CHR ''['' # takeWhile (\<lambda>x. x \<noteq> CHR '']'') r"
    unfolding strings_Split_hd r by simp
  moreover have "CHR '']'' \<notin> set (takeWhile (\<lambda>x. x \<noteq> CHR '']'') r)"
    by (auto dest: set_takeWhileD)
  ultimately show ?thesis unfolding sectionKey_def by (metis append_Cons)
qed

lemma setOption_Ret:
  assumes "sectionsInv cur sections" and "cur \<noteq> []"
  shows "\<exists>sections'. setOption cur k v sections = Ret sections' \<and> sectionsInv cur sections'"
proof -
  obtain sec where s: "map_of sections cur = Some sec"
    using assms by (metis map_of_eq_None_iff not_None_eq sectionsInv_def)
  then have "(cur, sec) \<in> set sections" by (rule map_of_SomeD)
  then have "gomap_wf (section_options sec)" "sectionKey cur"
    using assms(1) by (auto simp: sectionsInv_def)
  with s sectionsInv_update [OF assms(1)] show ?thesis by (simp add: setOption_def)
qed

lemma confLoop_Ret:
  "sectionsInv cur sections \<Longrightarrow>
   \<exists>err sections' cur'. confLoop lines cur sections = Ret (err, sections') \<and> sectionsInv cur' sections'"
proof (induction lines arbitrary: cur sections)
  case (Cons line lines)
  show ?case
  proof (cases "strings_HasPrefix line ''[''")
    case True
    note header = sectionsInv_update [OF Cons.prems _ sectionHeader [OF True],
        of "\<lparr>section_options = []\<rparr>"]
    from Cons.IH [OF header] Cons.prems True show ?thesis by (auto simp: Let_def)
  next
    case no_header: False
    show ?thesis
    proof (cases "cur = []")
      case False
      obtain sections' where "setOption cur (take (nat (strings_IndexByte line (CHR '' ''))) line)
          (strings_TrimSpace (drop (nat (strings_IndexByte line (CHR '' '')) + 1) line)) sections =
          Ret sections'" "sectionsInv cur sections'"
        using setOption_Ret [OF Cons.prems False] by blast
      with Cons.IH Cons.prems no_header False show ?thesis by (simp add: Let_def)
    qed (use Cons.prems no_header in auto)
  qed
qed auto

lemma sectionsInv_Nil: "sectionsInv [] []"
  by (simp add: sectionsInv_def)

text \<open>
  \<^verbatim>\<open>populatePtp4lConf\<close> never panics, and the sections it leaves behind, also after an error, are a
  map whose keys all have the form \<^verbatim>\<open>[name]\<close>; without an error \<^verbatim>\<open>[global]\<close> is one of them.
\<close>
theorem populate_total_wellformed:
  "\<exists>err conf. populatePtp4lConf config opts = Ret (err, conf) \<and> gomap_wf (conf_sections conf) \<and>
     (\<forall>e \<in> set (conf_sections conf). sectionKey (fst e) \<and> gomap_wf (section_options (snd e))) \<and>
     (err = None \<longrightarrow> ''[global]'' \<in> fst ` set (conf_sections conf))"
proof -
  have glob: "sectionKey ''[global]''"
    unfolding sectionKey_def by (rule exI [of _ "''global''"]) simp
  let ?lines = "strings_Split (case config of None \<Rightarrow> [] | Some s \<Rightarrow> s) (CHR 0x0A)"
  obtain err secs cur where r: "confLoop ?lines [] [] = Ret (err, secs)" "sectionsInv cur secs"
    using confLoop_Ret [OF sectionsInv_Nil] by blast
  have upd: "sectionsInv ''[global]'' (AList.update ''[global]'' \<lparr>section_options = []\<rparr> secs)"
    by (rule sectionsInv_update [OF r(2) _ glob]) simp
  show ?thesis
  proof (cases err)
    case None
    with r upd show ?thesis
      by (cases "map_of secs ''[global]''")
        (auto simp: populatePtp4lConf_def sectionsInv_def dest: map_of_SomeD intro: rev_image_eqI)
  qed (use r in \<open>auto simp: populatePtp4lConf_def sectionsInv_def\<close>)
qed

section \<open>Which configurations parse\<close>

lemma closing_iff: "length (strings_Split line (CHR '']'')) < 2 \<longleftrightarrow> CHR '']'' \<notin> set line"
  by (simp add: strings_Split_length count_list_0_iff)

lemma confLoop_ok_iff:
  assumes "sectionsInv cur sections" and "confLoop lines cur sections = Ret (err, sections')"
  shows "err = None \<longleftrightarrow>
     (\<forall>line \<in> set lines. strings_HasPrefix line ''['' \<longrightarrow> CHR '']'' \<in> set line) \<and>
     (lines = [] \<or> cur \<noteq> [] \<or> strings_HasPrefix (hd lines) ''['')"
  using assms
proof (induction lines arbitrary: cur sections)
  case (Cons line lines)
  show ?case
  proof (cases "strings_HasPrefix line ''[''")
    case True
    note header = sectionsInv_update [OF Cons.prems(1) _ sectionHeader [OF True],
        of "\<lparr>section_options = []\<rparr>"]
    from Cons.IH [OF header] Cons.prems True show ?thesis
      by (auto simp: Let_def closing_iff split: if_splits)
  next
    case no_header: False
    show ?thesis
    proof (cases "cur = []")
      case False
      obtain secs where "setOption cur (take (nat (strings_IndexByte line (CHR '' ''))) line)
          (strings_TrimSpace (drop (nat (strings_IndexByte line (CHR '' '')) + 1) line)) sections =
          Ret secs" "sectionsInv cur secs"
        using setOption_Ret [OF Cons.prems(1) False] by blast
      with Cons.IH Cons.prems no_header False show ?thesis
        by (auto simp: Let_def split: if_splits)
    qed (use Cons.prems no_header in auto)
  qed
qed auto

text \<open>
  (C39) \<^verbatim>\<open>populatePtp4lConf\<close> succeeds exactly when the first line opens a section and every line that
  opens a section also closes its bracket.
\<close>
theorem populate_ok_iff:
  "(\<exists>conf. populatePtp4lConf config opts = Ret (None, conf)) \<longleftrightarrow>
     (let lines = strings_Split (case config of None \<Rightarrow> [] | Some s \<Rightarrow> s) (CHR 0x0A) in
      strings_HasPrefix (hd lines) ''['' \<and>
      (\<forall>line \<in> set lines. strings_HasPrefix line ''['' \<longrightarrow> CHR '']'' \<in> set line))"
proof -
  let ?lines = "strings_Split (case config of None \<Rightarrow> [] | Some s \<Rightarrow> s) (CHR 0x0A)"
  obtain err secs cur where r: "confLoop ?lines [] [] = Ret (err, secs)" "sectionsInv cur secs"
    using confLoop_Ret [OF sectionsInv_Nil] by blast
  have "(\<exists>conf. populatePtp4lConf config opts = Ret (None, conf)) \<longleftrightarrow> err = None"
    using r(1) by (cases err) (simp_all add: populatePtp4lConf_def)
  then show ?thesis
    unfolding confLoop_ok_iff [OF sectionsInv_Nil r(1)] Let_def by auto
qed

text \<open>
  A profile without a ptp4l configuration does not parse: the empty text is one line outside of
  any section, so the result is an error and not even the \<^verbatim>\<open>[global]\<close> section is there.
\<close>
theorem populate_nil_fails:
  "populatePtp4lConf None opts = Ret (Some errOptionNotInSection, \<lparr>conf_sections = []\<rparr>)"
  by (simp add: populatePtp4lConf_def)

section \<open>Printing and parsing\<close>

text \<open>
  A configuration as a list of sections with their options, written one option per line, and the
  condition under which the parser reads it back.
\<close>

definition optionLine :: "string \<times> string \<Rightarrow> string" where
  "optionLine kv = fst kv @ CHR '' '' # snd kv"

definition sectionLines :: "string \<times> strmap \<Rightarrow> string list" where
  "sectionLines s = (CHR ''['' # fst s @ '']'') # map optionLine (snd s)"

definition renderConf :: "(string \<times> strmap) list \<Rightarrow> string" where
  "renderConf ss = strings_Join (concat (map sectionLines ss)) [CHR 0x0A]"

definition printable :: "string \<times> string \<Rightarrow> bool" where
  "printable kv \<longleftrightarrow> fst kv \<noteq> [] \<and> hd (fst kv) \<noteq> CHR ''['' \<and> CHR '' '' \<notin> set (fst kv) \<and>
     CHR 0x0A \<notin> set (fst kv) \<union> set (snd kv) \<and> strings_TrimSpace (snd kv) = snd kv"

definition printableSection :: "string \<times> strmap \<Rightarrow> bool" where
  "printableSection s \<longleftrightarrow> CHR '']'' \<notin> set (fst s) \<and> CHR 0x0A \<notin> set (fst s) \<and>
     gomap_wf (snd s) \<and> (\<forall>kv \<in> set (snd s). printable kv)"

definition sectionEntry :: "string \<times> strmap \<Rightarrow> string \<times> ptp4lConfSection" where
  "sectionEntry s = (CHR ''['' # fst s @ '']'', \<lparr>section_options = snd s\<rparr>)"

lemma update_append_new: "k \<notin> fst ` set m \<Longrightarrow> AList.update k v m = m @ [(k, v)]"
  by (induction m) auto

lemma update_append_last: "k \<notin> fst ` set m \<Longrightarrow> AList.update k v (m @ [(k, w)]) = m @ [(k, v)]"
  by (induction m) auto

lemma confLoop_option:
  assumes "printable kv" and "cur \<noteq> []"
  shows "confLoop (optionLine kv # lines) cur sections =
     bind_go (setOption cur (fst kv) (snd kv) sections) (confLoop lines cur)"
proof -
  have i: "strings_IndexByte (optionLine kv) (CHR '' '') = int (length (fst kv))"
    using assms(1) unfolding optionLine_def printable_def by (intro strings_IndexByte_append) simp
  have "\<not> strings_HasPrefix (optionLine kv) ''[''"
    using assms(1) by (cases "fst kv") (auto simp: optionLine_def printable_def)
  with assms i show ?thesis
    by (simp add: Let_def printable_def optionLine_def)
qed

lemma confLoop_options:
  assumes "cur \<noteq> []" and "cur \<notin> fst ` set m"
  shows "(\<forall>kv \<in> set opts. printable kv) \<Longrightarrow> gomap_wf (before @ opts) \<Longrightarrow>
   confLoop (map optionLine opts @ lines) cur (m @ [(cur, \<lparr>section_options = before\<rparr>)]) =
   confLoop lines cur (m @ [(cur, \<lparr>section_options = before @ opts\<rparr>)])"
proof (induction opts arbitrary: before)
  case (Cons kv opts)
  have "map_of m cur = None" using assms(2) by (simp add: map_of_eq_None_iff)
  moreover have "fst kv \<notin> fst ` set before" using Cons.prems(2) by (auto simp: gomap_wf_def)
  ultimately have "setOption cur (fst kv) (snd kv) (m @ [(cur, \<lparr>section_options = before\<rparr>)]) =
      Ret (m @ [(cur, \<lparr>section_options = before @ [kv]\<rparr>)])"
    using assms(2) by (simp add: setOption_def map_add_def update_append_new update_append_last)
  then show ?case
    using Cons assms(1) confLoop_option [of kv cur] by simp
qed simp

lemma confLoop_sections:
  "(\<forall>s \<in> set ss. printableSection s) \<Longrightarrow> distinct (map fst (m @ map sectionEntry ss)) \<Longrightarrow>
   confLoop (concat (map sectionLines ss)) cur m = Ret (None, m @ map sectionEntry ss)"
proof (induction ss arbitrary: cur m)
  case (Cons s ss)
  let ?k = "CHR ''['' # fst s @ '']''"
  have k: "?k \<notin> fst ` set m"
    using Cons.prems(2) by (auto simp: sectionEntry_def)
  have p: "CHR '']'' \<notin> set (fst s)" "gomap_wf (snd s)" "\<forall>kv \<in> set (snd s). printable kv"
    using Cons.prems(1) by (auto simp: printableSection_def)
  have split: "strings_Split ?k (CHR '']'') = [CHR ''['' # fst s, []]"
    using strings_Split_append [of "CHR '']''" "CHR ''['' # fst s" "[]"] p(1) by simp
  have "confLoop (concat (map sectionLines (s # ss))) cur m =
      confLoop (map optionLine (snd s) @ concat (map sectionLines ss)) ?k
        (m @ [(?k, \<lparr>section_options = []\<rparr>)])"
    using k split by (simp add: sectionLines_def update_append_new Let_def del: strings_Split.simps)
  also have "\<dots> = confLoop (concat (map sectionLines ss)) ?k (m @ [sectionEntry s])"
    using confLoop_options [OF _ k, of "snd s" "[]"] p(2,3) by (simp add: sectionEntry_def)
  also have "\<dots> = Ret (None, (m @ [sectionEntry s]) @ map sectionEntry ss)"
    using Cons.prems by (intro Cons.IH) auto
  finally show ?case by simp
qed simp

lemma sectionLines_no_newline:
  "printableSection s \<Longrightarrow> line \<in> set (sectionLines s) \<Longrightarrow> CHR 0x0A \<notin> set line"
  by (auto simp: sectionLines_def printableSection_def printable_def optionLine_def)

lemma populate_render:
  assumes "ss \<noteq> []" and "\<forall>s \<in> set ss. printableSection s" and "distinct (map fst ss)"
  shows "populatePtp4lConf (Some (renderConf ss)) opts =
     Ret (None, \<lparr>conf_sections = map sectionEntry ss @
       (if ''global'' \<in> fst ` set ss then [] else [(''[global]'', \<lparr>section_options = []\<rparr>)])\<rparr>)"
proof -
  have lines: "strings_Split (renderConf ss) (CHR 0x0A) = concat (map sectionLines ss)"
    unfolding renderConf_def
  proof (rule strings_Split_Join)
    show "concat (map sectionLines ss) \<noteq> []"
      using assms(1) by (cases ss) (simp_all add: sectionLines_def)
  qed (use assms(2) sectionLines_no_newline in auto)
  have "map fst (map sectionEntry ss) = map (\<lambda>n. CHR ''['' # n @ '']'') (map fst ss)"
    by (simp add: sectionEntry_def)
  then have "distinct (map fst (map sectionEntry ss))"
    using assms(3) by (simp only: distinct_map) (auto intro!: inj_onI)
  then have loop: "confLoop (concat (map sectionLines ss)) [] [] = Ret (None, map sectionEntry ss)"
    using confLoop_sections [OF assms(2), of "[]" "[]"] by simp
  have glob: "map_of (map sectionEntry ss) ''[global]'' = None \<longleftrightarrow> ''global'' \<notin> fst ` set ss"
    by (auto simp: map_of_eq_None_iff sectionEntry_def image_iff)
  show ?thesis
    using glob by (auto simp: populatePtp4lConf_def lines loop map_of_eq_None_iff update_append_new)
qed

text \<open>
  (C23) Parsing undoes printing: a configuration with distinct, well-formed sections and options,
  written one section header or option per line, parses without an error to exactly those sections
  and options, plus an empty \<^verbatim>\<open>[global]\<close> section where there was none.
\<close>
theorem populate_render_roundtrip:
  assumes "ss \<noteq> []" and "\<forall>s \<in> set ss. printableSection s" and "distinct (map fst ss)"
  shows "populatePtp4lConf (Some (renderConf ss)) opts =
     Ret (None, \<lparr>conf_sections = map sectionEntry ss @
       (if ''global'' \<in> fst ` set ss then [] else [(''[global]'', \<lparr>section_options = []\<rparr>)])\<rparr>)"
  using assms by (rule populate_render)

section \<open>Interfaces by role\<close>

definition hasRole :: "PtpRole \<Rightarrow> ptp4lConfSection \<Rightarrow> bool" where
  "hasRole mode sec \<longleftrightarrow>
     strings_TrimSpace (optionOr (section_options sec) ''masterOnly'') = strconv_Itoa mode"

lemma natDigits_nonempty: "natDigits n \<noteq> []"
  by (subst natDigits.simps) simp

lemma strconv_Itoa_nonempty: "strconv_Itoa i \<noteq> []"
  by (simp add: strconv_Itoa_def natDigits_nonempty)

lemma hasRole_no_options [simp]: "\<not> hasRole mode \<lparr>section_options = []\<rparr>"
  using strconv_Itoa_nonempty [of mode] by (simp add: hasRole_def optionOr_def)

lemma getInterfacesLoop_eq:
  "getInterfacesLoop secs mode =
     map (\<lambda>e. stripBrackets (stripBrackets (fst e))) (filter (\<lambda>e. hasRole mode (snd e)) secs)"
  by (induction secs mode rule: getInterfacesLoop.induct) (auto simp: hasRole_def Let_def)

lemma set_finalInterfaces:
  "set (finalInterfaces iface ifs) =
     (set ifs - {''global''}) \<union> (if ''global'' \<in> set ifs then set_option iface else {})"
proof (induction ifs)
  case (Cons a ifs)
  show ?case
  proof (cases "a = ''global''")
    case True
    then show ?thesis using Cons by (cases iface) (simp_all add: Un_insert_right)
  next
    case False
    then have "insert a (set ifs) - {''global''} = insert a (set ifs - {''global''})" by blast
    with False Cons show ?thesis by simp
  qed
qed simp

text \<open>The interfaces that a set of section names with the role stands for.\<close>

definition interfacesSpec :: "PtpRole \<Rightarrow> string option \<Rightarrow> string set \<Rightarrow> string set" where
  "interfacesSpec mode iface R =
     (R - {''global''}) \<union>
     (if ''global'' \<in> R \<or> R = {} \<and> mode = Slave then set_option iface else {})"

lemma GetInterfaces_set:
  assumes "cspec_Profile (config_Spec config) = profile # rest"
    and "populatePtp4lConf (profile_Ptp4lConf profile) None = Ret (err, conf)"
    and R: "(\<lambda>e. stripBrackets (stripBrackets (fst e))) `
      {e \<in> set (conf_sections conf). hasRole mode (snd e)} = R"
  shows "\<exists>ifs. GetInterfaces config mode = Ret ifs \<and>
     set ifs = interfacesSpec mode (profile_Interface profile) R"
proof -
  have R: "set (getInterfaces conf mode) = R"
    unfolding getInterfaces_def getInterfacesLoop_eq by (simp add: R)
  then have "length (getInterfaces conf mode) = 0 \<longleftrightarrow> R = {}" by auto
  with R show ?thesis
    by (auto simp: GetInterfaces_def assms(1,2) Let_def set_finalInterfaces interfacesSpec_def)
qed

text \<open>A section name without brackets that begins and ends with a graphic character.\<close>

definition plainName :: "string \<Rightarrow> bool" where
  "plainName n \<longleftrightarrow> n \<noteq> [] \<and> (\<forall>c \<in> set n. graphic c \<and> c \<noteq> CHR ''['' \<and> c \<noteq> CHR '']'')"

lemma stripBrackets_plain: "plainName n \<Longrightarrow> stripBrackets n = n"
proof -
  assume p: "plainName n"
  then have f: "filter (\<lambda>x. x \<noteq> CHR '']'') (filter (\<lambda>x. x \<noteq> CHR ''['') n) = n"
    by (simp add: plainName_def)
  have "n \<noteq> []" "graphic (hd n)" "graphic (last n)"
    using p by (simp_all add: plainName_def)
  then have "strings_TrimSpace n = n" by (rule strings_TrimSpace_graphic)
  then show ?thesis by (simp only: stripBrackets_def strings_ReplaceAll_delete f)
qed

lemma stripBrackets_section: "plainName n \<Longrightarrow> stripBrackets (CHR ''['' # n @ '']'') = n"
  using stripBrackets_plain [of n]
  by (simp add: stripBrackets_def strings_ReplaceAll_delete)

text \<open>
  (C34) \<^verbatim>\<open>GetInterfaces\<close> on a profile whose ptp4l configuration was written section by section returns,
  in some order, the names of the sections whose \<^verbatim>\<open>masterOnly\<close> option is the role asked for. The
  interface field of the profile stands for \<^verbatim>\<open>[global]\<close>, and, for slaves, is returned when no section
  has the role.
\<close>
theorem get_interfaces_by_role:
  assumes "ss \<noteq> []" and "\<forall>s \<in> set ss. printableSection s \<and> plainName (fst s)"
    and "distinct (map fst ss)"
    and "cspec_Profile (config_Spec config) = profile # rest"
    and "profile_Ptp4lConf profile = Some (renderConf ss)"
  shows "\<exists>ifs. GetInterfaces config mode = Ret ifs \<and>
     set ifs = interfacesSpec mode (profile_Interface profile)
       {n. \<exists>opts. (n, opts) \<in> set ss \<and> hasRole mode \<lparr>section_options = opts\<rparr>}"
proof -
  let ?conf = "\<lparr>conf_sections = map sectionEntry ss @
       (if ''global'' \<in> fst ` set ss then [] else [(''[global]'', \<lparr>section_options = []\<rparr>)])\<rparr>"
  have pop: "populatePtp4lConf (profile_Ptp4lConf profile) None = Ret (None, ?conf)"
    unfolding assms(5) using assms(1,2,3) by (intro populate_render) auto
  have "stripBrackets (stripBrackets (fst (sectionEntry e))) = fst e" if "e \<in> set ss" for e
    using assms(2) that by (simp add: sectionEntry_def stripBrackets_section stripBrackets_plain)
  then have "(\<lambda>e. stripBrackets (stripBrackets (fst e))) ` sectionEntry ` E = fst ` E"
    if "E \<subseteq> set ss" for E
    using that by (simp add: image_image subset_eq cong: image_cong)
  moreover have "{e \<in> set (conf_sections ?conf). hasRole mode (snd e)} =
      sectionEntry ` {e \<in> set ss. hasRole mode \<lparr>section_options = snd e\<rparr>}"
    by (auto simp: sectionEntry_def)
  ultimately have "(\<lambda>e. stripBrackets (stripBrackets (fst e))) `
      {e \<in> set (conf_sections ?conf). hasRole mode (snd e)} =
      fst ` {e \<in> set ss. hasRole mode \<lparr>section_options = snd e\<rparr>}"
    by simp
  also have "\<dots> = {n. \<exists>opts. (n, opts) \<in> set ss \<and> hasRole mode \<lparr>section_options = opts\<rparr>}"
    by force
  finally show ?thesis by (rule GetInterfaces_set [OF assms(4) pop])
qed

section \<open>Concrete configurations\<close>

definition exSections :: "(string \<times> strmap) list" where
  "exSections = [(''ens1'', [(''masterOnly'', ''1'')]), (''global'', [(''domain'', ''24'')])]"

definition exConfText :: string where
  "exConfText = ''[ens1]'' @ [CHR 0x0A] @ ''masterOnly 1''"

lemma trim_ex: "strings_TrimSpace ''1'' = ''1''" "strings_TrimSpace ''24'' = ''24''"
  by (simp_all add: strings_TrimSpace_graphic graphic_def less_eq_char_def)

lemma itoa_Master: "strconv_Itoa Master = ''1''"
  by code_simp

theorem populate_total_wellformed_witness:
  "\<exists>conf. populatePtp4lConf (Some exConfText) None = Ret (None, conf) \<and>
     ''[global]'' \<in> fst ` set (conf_sections conf)"
proof -
  have "populatePtp4lConf (Some exConfText) None =
      Ret (None, \<lparr>conf_sections = [(''[ens1]'', \<lparr>section_options = [(''masterOnly'', ''1'')]\<rparr>),
        (''[global]'', \<lparr>section_options = []\<rparr>)]\<rparr>)"
    by (simp add: populatePtp4lConf_def exConfText_def setOption_def Let_def trim_ex)
  then show ?thesis using populate_total_wellformed [of "Some exConfText" None] by simp
qed

theorem populate_ok_iff_witness:
  "\<exists>conf. populatePtp4lConf (Some exConfText) None = Ret (None, conf)"
proof -
  have "let lines = strings_Split exConfText (CHR 0x0A) in
      strings_HasPrefix (hd lines) ''['' \<and>
      (\<forall>line \<in> set lines. strings_HasPrefix line ''['' \<longrightarrow> CHR '']'' \<in> set line)"
    by code_simp
  then show ?thesis using populate_ok_iff [of "Some exConfText" None] by simp
qed

lemma exSections_printable: "\<forall>s \<in> set exSections. printableSection s \<and> plainName (fst s)"
proof -
  show ?thesis
    by (simp add: exSections_def printableSection_def printable_def plainName_def graphic_def
        less_eq_char_def gomap_wf_def trim_ex)
qed

theorem populate_render_roundtrip_witness:
  "populatePtp4lConf (Some (renderConf exSections)) None =
     Ret (None, \<lparr>conf_sections = map sectionEntry exSections\<rparr>)"
  using populate_render_roundtrip [of exSections None] exSections_printable
  by (simp add: exSections_def)

definition exRoleConfig :: PtpConfig where
  "exRoleConfig = \<lparr>config_ObjectMeta = emptyMeta, config_Spec =
     \<lparr>cspec_Profile = [emptyProfile\<lparr>profile_Ptp4lConf := Some (renderConf exSections)\<rparr>],
      cspec_Recommend = []\<rparr>, config_Status = \<lparr>cstatus_MatchList = []\<rparr>\<rparr>"

theorem get_interfaces_by_role_witness:
  "\<exists>ifs. GetInterfaces exRoleConfig Master = Ret ifs \<and> set ifs = {''ens1''}"
proof -
  have "hasRole Master \<lparr>section_options = [(''masterOnly'', ''1'')]\<rparr>"
    "\<not> hasRole Master \<lparr>section_options = [(''domain'', ''24'')]\<rparr>"
    by (simp_all add: hasRole_def optionOr_def trim_ex itoa_Master)
  then have "{n. \<exists>opts. (n, opts) \<in> set exSections \<and> hasRole Master \<lparr>section_options = opts\<rparr>} = {''ens1''}"
    by (auto simp: exSections_def)
  moreover have "distinct (map fst exSections)" "exSections \<noteq> []"
    by (simp_all add: exSections_def)
  ultimately show ?thesis
    using get_interfaces_by_role [OF _ exSections_printable, of exRoleConfig
        "emptyProfile\<lparr>profile_Ptp4lConf := Some (renderConf exSections)\<rparr>" "[]" Master]
    by (simp add: exRoleConfig_def interfacesSpec_def)
qed

end
