(* ===== verification/Go_Regexp.thy ===== *)
theory Go_Regexp
  imports Go_Strings
begin

text \<open>
  Regular expressions as the operator uses them: \<^verbatim>\<open>MatchString\<close> of an expression anchored at both
  ends, on byte strings. \<open>matches\<close> is the language of an expression, \<open>rxMatch\<close> an executable
  matcher by derivatives, and \<open>rxMatch_iff\<close> their agreement.
\<close>

section \<open>Expressions and their language\<close>

datatype rx =
    RxNone
  | RxEps
  | RxClass string
  | RxSeq rx rx
  | RxAlt rx rx
  | RxStar rx

inductive matches :: "rx \<Rightarrow> string \<Rightarrow> bool" where
  m_eps: "matches RxEps []"
| m_class: "c \<in> set cs \<Longrightarrow> matches (RxClass cs) [c]"
| m_seq: "matches r u \<Longrightarrow> matches s v \<Longrightarrow> matches (RxSeq r s) (u @ v)"
| m_alt1: "matches r u \<Longrightarrow> matches (RxAlt r s) u"
| m_alt2: "matches s u \<Longrightarrow> matches (RxAlt r s) u"
| m_star_nil: "matches (RxStar r) []"
| m_star_step: "matches r u \<Longrightarrow> matches (RxStar r) v \<Longrightarrow> matches (RxStar r) (u @ v)"

inductive_simps matches_RxNone [simp]: "matches RxNone u"
inductive_simps matches_RxEps [simp]: "matches RxEps u"
inductive_simps matches_RxClass: "matches (RxClass cs) u"
inductive_simps matches_RxSeq: "matches (RxSeq r s) u"
inductive_simps matches_RxAlt: "matches (RxAlt r s) u"

definition rxPlus :: "rx \<Rightarrow> rx" where "rxPlus r = RxSeq r (RxStar r)"

definition rxOpt :: "rx \<Rightarrow> rx" where "rxOpt r = RxAlt r RxEps"

section \<open>The matcher\<close>

fun rxNullable :: "rx \<Rightarrow> bool" where
  "rxNullable RxNone = False"
| "rxNullable RxEps = True"
| "rxNullable (RxClass cs) = False"
| "rxNullable (RxSeq r s) = (rxNullable r \<and> rxNullable s)"
| "rxNullable (RxAlt r s) = (rxNullable r \<or> rxNullable s)"
| "rxNullable (RxStar r) = True"

fun rxDeriv :: "char \<Rightarrow> rx \<Rightarrow> rx" where
  "rxDeriv c RxNone = RxNone"
| "rxDeriv c RxEps = RxNone"
| "rxDeriv c (RxClass cs) = (if c \<in> set cs then RxEps else RxNone)"
| "rxDeriv c (RxSeq r s) =
     (if rxNullable r then RxAlt (RxSeq (rxDeriv c r) s) (rxDeriv c s) else RxSeq (rxDeriv c r) s)"
| "rxDeriv c (RxAlt r s) = RxAlt (rxDeriv c r) (rxDeriv c s)"
| "rxDeriv c (RxStar r) = RxSeq (rxDeriv c r) (RxStar r)"

fun rxMatch :: "rx \<Rightarrow> string \<Rightarrow> bool" where
  "rxMatch r [] = rxNullable r"
| "rxMatch r (c # s) = rxMatch (rxDeriv c r) s"

lemma rxNullable_iff: "rxNullable r \<longleftrightarrow> matches r []"
  by (induction r) (auto simp: matches_RxClass matches_RxSeq matches_RxAlt intro: m_star_nil)

lemma matches_star_Cons:
  "matches (RxStar r) (c # s) \<longleftrightarrow> (\<exists>u v. s = u @ v \<and> matches r (c # u) \<and> matches (RxStar r) v)"
proof
  have "matches q w \<Longrightarrow> q = RxStar r \<Longrightarrow> w = c # s \<Longrightarrow>
      \<exists>u v. s = u @ v \<and> matches r (c # u) \<and> matches (RxStar r) v" for q w
    by (induction arbitrary: s rule: matches.induct) (auto simp: append_eq_Cons_conv)
  then show "matches (RxStar r) (c # s) \<Longrightarrow>
      \<exists>u v. s = u @ v \<and> matches r (c # u) \<and> matches (RxStar r) v" by blast
  show "\<exists>u v. s = u @ v \<and> matches r (c # u) \<and> matches (RxStar r) v \<Longrightarrow> matches (RxStar r) (c # s)"
    using m_star_step by fastforce
qed

lemma matches_seq_Cons:
  "matches (RxSeq r s) (c # w) \<longleftrightarrow>
     (\<exists>u v. w = u @ v \<and> matches r (c # u) \<and> matches s v) \<or> matches r [] \<and> matches s (c # w)"
  by (auto simp: matches_RxSeq Cons_eq_append_conv)

lemma rxDeriv_iff: "matches (rxDeriv c r) s \<longleftrightarrow> matches r (c # s)"
proof (induction r arbitrary: s)
  case (RxSeq r1 r2)
  then show ?case
    by (simp add: rxNullable_iff matches_RxAlt matches_RxSeq [of "rxDeriv c r1"] matches_seq_Cons)
next
  case (RxStar r)
  then show ?case by (simp add: matches_RxSeq [of "rxDeriv c r"] matches_star_Cons)
qed (auto simp: matches_RxClass matches_RxAlt)

lemma rxMatch_iff: "rxMatch r s \<longleftrightarrow> matches r s"
  by (induction s arbitrary: r) (auto simp: rxNullable_iff rxDeriv_iff)

section \<open>Repetition\<close>

lemma matches_star_iff:
  "matches (RxStar r) s \<longleftrightarrow> (\<exists>ws. s = concat ws \<and> (\<forall>w \<in> set ws. matches r w))"
proof
  have "matches q s \<Longrightarrow> q = RxStar r \<Longrightarrow> \<exists>ws. s = concat ws \<and> (\<forall>w \<in> set ws. matches r w)" for q
  proof (induction rule: matches.induct)
    case (m_star_step p u v)
    then obtain ws where "v = concat ws" "\<forall>w \<in> set ws. matches r w" by auto
    with m_star_step show ?case by (intro exI [of _ "u # ws"]) auto
  qed (auto intro: exI [of _ "[]"])
  then show "matches (RxStar r) s \<Longrightarrow> \<exists>ws. s = concat ws \<and> (\<forall>w \<in> set ws. matches r w)" by blast
  have "(\<forall>w \<in> set ws. matches r w) \<Longrightarrow> matches (RxStar r) (concat ws)" for ws
    by (induction ws) (auto intro: m_star_nil m_star_step)
  then show "\<exists>ws. s = concat ws \<and> (\<forall>w \<in> set ws. matches r w) \<Longrightarrow> matches (RxStar r) s" by blast
qed

lemma matches_star_class: "matches (RxStar (RxClass cs)) s \<longleftrightarrow> set s \<subseteq> set cs"
  by (induction s) (auto simp: matches_star_Cons matches_RxClass intro: m_star_nil)

lemma matches_plus_class: "matches (rxPlus (RxClass cs)) s \<longleftrightarrow> s \<noteq> [] \<and> set s \<subseteq> set cs"
proof (cases s)
  case Nil
  then show ?thesis by (simp add: rxPlus_def matches_RxSeq matches_RxClass)
next
  case (Cons c w)
  then show ?thesis
    by (simp add: rxPlus_def matches_seq_Cons matches_RxClass matches_star_class)
qed

lemma matches_opt: "matches (rxOpt r) s \<longleftrightarrow> s = [] \<or> matches r s"
  by (auto simp: rxOpt_def matches_RxAlt)

text \<open>Lists with a separator: the parts between the separators match one by one.\<close>

lemma matches_sep_star:
  "matches (RxStar (RxSeq (RxClass [c]) r)) s \<longleftrightarrow>
     (\<exists>parts. s = concat (map ((#) c) parts) \<and> (\<forall>p \<in> set parts. matches r p))"
proof -
  have sep: "matches (RxSeq (RxClass [c]) r) w \<longleftrightarrow> (\<exists>p. w = c # p \<and> matches r p)" for w
    by (auto simp: matches_RxSeq [of "RxClass [c]"] matches_RxClass)
  show ?thesis
  proof
    assume "matches (RxStar (RxSeq (RxClass [c]) r)) s"
    then obtain ws where ws: "s = concat ws" "\<forall>w \<in> set ws. \<exists>p. w = c # p \<and> matches r p"
      by (auto simp: matches_star_iff sep)
    then have "map ((#) c) (map tl ws) = ws" unfolding map_map by (intro map_idI) auto
    with ws show "\<exists>parts. s = concat (map ((#) c) parts) \<and> (\<forall>p \<in> set parts. matches r p)"
      by (intro exI [of _ "map tl ws"]) auto
  next
    assume "\<exists>parts. s = concat (map ((#) c) parts) \<and> (\<forall>p \<in> set parts. matches r p)"
    then obtain parts where "s = concat (map ((#) c) parts)" "\<forall>p \<in> set parts. matches r p" by blast
    then show "matches (RxStar (RxSeq (RxClass [c]) r)) s"
      unfolding matches_star_iff sep by (intro exI [of _ "map ((#) c) parts"]) simp
  qed
qed

lemma matches_sep_list:
  assumes "\<And>u. matches q u \<or> matches r u \<Longrightarrow> c \<notin> set u"
  shows "matches (RxSeq q (RxStar (RxSeq (RxClass [c]) r))) v \<longleftrightarrow>
     matches q (hd (strings_Split v c)) \<and> (\<forall>p \<in> set (tl (strings_Split v c)). matches r p)"
proof -
  obtain n parts where v: "strings_Split v c = n # parts"
    by (meson neq_Nil_conv strings_Split_nonempty)
  have "matches (RxSeq q (RxStar (RxSeq (RxClass [c]) r))) v \<longleftrightarrow>
      (\<exists>n parts. v = n @ concat (map ((#) c) parts) \<and> matches q n \<and> (\<forall>p \<in> set parts. matches r p))"
    unfolding matches_RxSeq [of q] matches_sep_star by blast
  also have "\<dots> \<longleftrightarrow> matches q n \<and> (\<forall>p \<in> set parts. matches r p)"
    using v strings_Split_eqD [OF v] strings_Split_parts_eq assms by (metis list.inject)
  finally show ?thesis by (simp add: v)
qed

section \<open>Character classes\<close>

definition rxDigits :: string where "rxDigits = ''0123456789''"

definition rxLetters :: string where
  "rxLetters = ''abcdefghijklmnopqrstuvwxyzABCDEFGHIJKLMNOPQRSTUVWXYZ''"

text \<open>\<^verbatim>\<open>\w\<close> and \<^verbatim>\<open>\s\<close> of RE2.\<close>

definition rxWord :: string where "rxWord = rxDigits @ rxLetters @ ''_''"

definition rxSpace :: string where
  "rxSpace = [CHR 0x09, CHR 0x0A, CHR 0x0C, CHR 0x0D, CHR '' '']"

end
