(* ===== verification/Ptp_Config_Webhook.thy ===== *)
theory Ptp_Config_Webhook
  imports Ptp4l_Conf Go_Regexp
begin

text \<open>
  The validating webhook of PtpConfig in \<^verbatim>\<open>src/api/v1/ptpconfig_webhook.go\<close>.

  \<^verbatim>\<open>regexp.Compile\<close> is the parameter \<open>regexp_Compile\<close>: \<open>None\<close> when the pattern compiles and
  the error otherwise. The expression \<^verbatim>\<open>profileRegEx\<close> is written out and matched by \<open>rxMatch\<close>. The
  loops over the section map and over the settings map visit the entries in the order of the
  association list, which stands for any order Go may choose; the theorems show that the verdict
  does not depend on it.
\<close>

section \<open>Definitions\<close>

definition nameClass :: string where "nameClass = rxWord @ ''-_''"

text \<open>\<^verbatim>\<open>^([\w\-_]+)(,\s*([\w\-_]+))*$\<close>\<close>

definition profileRegEx :: rx where
  "profileRegEx =
     RxSeq (rxPlus (RxClass nameClass))
       (RxStar (RxSeq (RxClass '','')
          (RxSeq (RxStar (RxClass rxSpace)) (rxPlus (RxClass nameClass)))))"

definition quoted :: "string \<Rightarrow> string" where
  "quoted v = [CHR 0x27] @ v @ [CHR 0x27]"

fun checkSections :: "string \<Rightarrow> string list \<Rightarrow> error option" where
  "checkSections iface [] = None"
| "checkSections iface (section # rest) =
     (if section \<noteq> ''[global]'' then
        if section \<noteq> ''['' @ iface @ '']'' then
          Some (Errorf (''interface section '' @ section @
            '' not allowed when specifying interface section''))
        else checkSections iface rest
      else checkSections iface rest)"

fun checkSettings :: "(string \<Rightarrow> error option) \<Rightarrow> strmap \<Rightarrow> error option" where
  "checkSettings regexp_Compile [] = None"
| "checkSettings regexp_Compile ((k, v) # rest) =
     (if k = ''stdoutFilter'' then
        (case regexp_Compile v of
           Some err \<Rightarrow>
             Some (Errorf (''stdoutFilter='' @ quoted v @ '' is invalid; '' @ Error err))
         | None \<Rightarrow> checkSettings regexp_Compile rest)
      else if k = ''logReduce'' then
        (let v = strings_ToLower v in
         if v \<noteq> ''true'' \<and> v \<noteq> ''false'' then
           Some (Errorf (''logReduce='' @ quoted v @ '' is invalid; must be in '' @ quoted ''true'' @
             '' or '' @ quoted ''false''))
         else checkSettings regexp_Compile rest)
      else if k = ''haProfiles'' then
        (if \<not> rxMatch profileRegEx v then
           Some (Errorf (''haProfiles='' @ quoted v @
             '' is invalid; must be comma seperated profile names''))
         else checkSettings regexp_Compile rest)
      else Some (Errorf (''profile.PtpSettings '' @ quoted k @ '' is not a configurable setting'')))"

definition validateProfile ::
  "(string \<Rightarrow> error option) \<Rightarrow> PtpProfile \<Rightarrow> error option go"
where
  "validateProfile regexp_Compile profile =
     bind_go (populatePtp4lConf (profile_Ptp4lConf profile) (profile_Ptp4lOpts profile))
       (\<lambda>(err, conf).
         case (if profile_Interface profile \<noteq> None \<and> the (profile_Interface profile) \<noteq> []
               then checkSections (the (profile_Interface profile)) (gomap_keys (conf_sections conf))
               else None) of
           Some e \<Rightarrow> Ret (Some e)
         | None \<Rightarrow>
             if profile_PtpSchedulingPolicy profile \<noteq> None \<and>
                the (profile_PtpSchedulingPolicy profile) = ''SCHED_FIFO'' \<and>
                profile_PtpSchedulingPriority profile = None
             then Ret (Some (Errorf
               ''PtpSchedulingPriority must be set for SCHED_FIFO PtpSchedulingPolicy''))
             else Ret (checkSettings regexp_Compile (profile_PtpSettings profile)))"

fun validateProfiles ::
  "(string \<Rightarrow> error option) \<Rightarrow> PtpProfile list \<Rightarrow> error option go"
where
  "validateProfiles regexp_Compile [] = Ret None"
| "validateProfiles regexp_Compile (profile # rest) =
     bind_go (validateProfile regexp_Compile profile) (\<lambda>err.
       case err of Some e \<Rightarrow> Ret (Some e) | None \<Rightarrow> validateProfiles regexp_Compile rest)"

definition PtpConfig_validate ::
  "(string \<Rightarrow> error option) \<Rightarrow> PtpConfig \<Rightarrow> error option go"
where
  "PtpConfig_validate regexp_Compile r =
     validateProfiles regexp_Compile (cspec_Profile (config_Spec r))"

text \<open>The handlers return the warnings, always empty, and the error.\<close>

definition PtpConfig_ValidateCreate ::
  "(string \<Rightarrow> error option) \<Rightarrow> PtpConfig \<Rightarrow> (string list \<times> error option) go"
where
  "PtpConfig_ValidateCreate regexp_Compile r =
     bind_go (PtpConfig_validate regexp_Compile r) (\<lambda>err.
       case err of Some e \<Rightarrow> Ret ([], Some e) | None \<Rightarrow> Ret ([], None))"

definition PtpConfig_ValidateUpdate ::
  "(string \<Rightarrow> error option) \<Rightarrow> PtpConfig \<Rightarrow> PtpConfig \<Rightarrow> (string list \<times> error option) go"
where
  "PtpConfig_ValidateUpdate regexp_Compile r old =
     bind_go (PtpConfig_validate regexp_Compile r) (\<lambda>err.
       case err of Some e \<Rightarrow> Ret ([], Some e) | None \<Rightarrow> Ret ([], None))"

definition PtpConfig_ValidateDelete :: "PtpConfig \<Rightarrow> (string list \<times> error option) go" where
  "PtpConfig_ValidateDelete r = Ret ([], None)"

section \<open>Names in haProfiles\<close>

definition isName :: "string \<Rightarrow> bool" where
  "isName n \<longleftrightarrow> n \<noteq> [] \<and> set n \<subseteq> set nameClass"

text \<open>
  What the setting should hold: the parts between the commas are names, each but the first with
  any white space before it.
\<close>

definition isNameList :: "string \<Rightarrow> bool" where
  "isNameList v =
     (case strings_Split v (CHR '','') of
        [] \<Rightarrow> False
      | n # parts \<Rightarrow> isName n \<and> (\<forall>p \<in> set parts. isName (dropWhile (\<lambda>c. c \<in> set rxSpace) p)))"

lemma nameClass_no_space: "c \<in> set nameClass \<Longrightarrow> c \<notin> set rxSpace"
  by (auto simp: nameClass_def rxWord_def rxDigits_def rxLetters_def rxSpace_def)

lemma comma_not_name: "CHR '','' \<notin> set nameClass" "CHR '','' \<notin> set rxSpace"
  by (simp_all add: nameClass_def rxWord_def rxDigits_def rxLetters_def rxSpace_def)

definition isPart :: "string \<Rightarrow> bool" where
  "isPart p \<longleftrightarrow> isName (dropWhile (\<lambda>c. c \<in> set rxSpace) p)"

lemma isPart_iff: "isPart p \<longleftrightarrow> (\<exists>w n. p = w @ n \<and> set w \<subseteq> set rxSpace \<and> isName n)"
proof
  assume "isPart p"
  then show "\<exists>w n. p = w @ n \<and> set w \<subseteq> set rxSpace \<and> isName n"
    unfolding isPart_def
    by (metis subsetI set_takeWhileD takeWhile_dropWhile_id)
next
  assume "\<exists>w n. p = w @ n \<and> set w \<subseteq> set rxSpace \<and> isName n"
  then obtain w n where p: "p = w @ n" "set w \<subseteq> set rxSpace" "isName n" by blast
  then have "dropWhile (\<lambda>c. c \<in> set rxSpace) p = dropWhile (\<lambda>c. c \<in> set rxSpace) n"
    by (simp add: subset_eq dropWhile_append2)
  moreover have "dropWhile (\<lambda>c. c \<in> set rxSpace) n = n"
    using p(3) nameClass_no_space by (cases n) (auto simp: isName_def)
  ultimately show "isPart p" using p(3) by (simp add: isPart_def)
qed

lemma isName_no_comma: "isName n \<Longrightarrow> CHR '','' \<notin> set n"
  using comma_not_name by (auto simp: isName_def)

lemma isPart_no_comma: "isPart p \<Longrightarrow> CHR '','' \<notin> set p"
  using comma_not_name isName_no_comma by (auto simp: isPart_iff)

lemma matches_part:
  "matches (RxSeq (RxStar (RxClass rxSpace)) (rxPlus (RxClass nameClass))) p \<longleftrightarrow> isPart p"
  by (auto simp: matches_RxSeq matches_star_class matches_plus_class isPart_iff isName_def)

lemma profileRegEx_iff: "rxMatch profileRegEx v \<longleftrightarrow> isNameList v"
proof -
  have "matches (rxPlus (RxClass nameClass)) n \<longleftrightarrow> isName n" for n
    by (simp add: matches_plus_class isName_def)
  moreover obtain n parts where "strings_Split v (CHR '','') = n # parts"
    by (meson neq_Nil_conv strings_Split_nonempty)
  ultimately show ?thesis
    unfolding rxMatch_iff profileRegEx_def
    by (subst matches_sep_list)
      (auto simp: matches_part isNameList_def isPart_def [symmetric]
        dest: isName_no_comma isPart_no_comma)
qed

section \<open>What the webhook admits\<close>

definition settingOk :: "(string \<Rightarrow> error option) \<Rightarrow> string \<times> string \<Rightarrow> bool" where
  "settingOk regexp_Compile kv \<longleftrightarrow>
     fst kv = ''stdoutFilter'' \<and> regexp_Compile (snd kv) = None \<or>
     fst kv = ''logReduce'' \<and> strings_ToLower (snd kv) \<in> {''true'', ''false''} \<or>
     fst kv = ''haProfiles'' \<and> isNameList (snd kv)"

definition sectionsOf :: "PtpProfile \<Rightarrow> string set" where
  "sectionsOf profile =
     (case populatePtp4lConf (profile_Ptp4lConf profile) (profile_Ptp4lOpts profile) of
        Ret (err, conf) \<Rightarrow> fst ` set (conf_sections conf) | Panic m \<Rightarrow> {})"

definition profileOk :: "(string \<Rightarrow> error option) \<Rightarrow> PtpProfile \<Rightarrow> bool" where
  "profileOk regexp_Compile profile \<longleftrightarrow>
     (case profile_Interface profile of
        None \<Rightarrow> True
      | Some i \<Rightarrow> i = [] \<or> sectionsOf profile \<subseteq> {''[global]'', ''['' @ i @ '']''}) \<and>
     (profile_PtpSchedulingPolicy profile \<noteq> Some ''SCHED_FIFO'' \<or>
      profile_PtpSchedulingPriority profile \<noteq> None) \<and>
     (\<forall>kv \<in> set (profile_PtpSettings profile). settingOk regexp_Compile kv)"

lemma checkSections_iff:
  "checkSections i ks = None \<longleftrightarrow> set ks \<subseteq> {''[global]'', ''['' @ i @ '']''}"
  by (induction ks) auto

lemma checkSettings_iff:
  "checkSettings regexp_Compile kvs = None \<longleftrightarrow> (\<forall>kv \<in> set kvs. settingOk regexp_Compile kv)"
  by (induction regexp_Compile kvs rule: checkSettings.induct)
    (auto simp: settingOk_def profileRegEx_iff Let_def split: option.splits)

lemma populate_Ret: "\<exists>err conf. populatePtp4lConf config opts = Ret (err, conf)"
proof -
  obtain err secs where
    "confLoop (strings_Split (case config of None \<Rightarrow> [] | Some s \<Rightarrow> s) (CHR 0x0A)) [] [] = Ret (err, secs)"
    using confLoop_Ret [OF sectionsInv_Nil] by blast
  then show ?thesis by (cases err) (simp_all add: populatePtp4lConf_def)
qed

lemma validateProfile_Ret:
  "\<exists>err. validateProfile regexp_Compile profile = Ret err \<and>
     (err = None \<longleftrightarrow> profileOk regexp_Compile profile)"
proof -
  obtain err conf where pop:
    "populatePtp4lConf (profile_Ptp4lConf profile) (profile_Ptp4lOpts profile) = Ret (err, conf)"
    using populate_Ret by blast
  let ?ifc = "if profile_Interface profile \<noteq> None \<and> the (profile_Interface profile) \<noteq> []
    then checkSections (the (profile_Interface profile)) (gomap_keys (conf_sections conf)) else None"
  have "?ifc = None \<longleftrightarrow> (case profile_Interface profile of None \<Rightarrow> True
      | Some i \<Rightarrow> i = [] \<or> sectionsOf profile \<subseteq> {''[global]'', ''['' @ i @ '']''})"
    by (cases "profile_Interface profile") (simp_all add: checkSections_iff sectionsOf_def pop)
  moreover have "(profile_PtpSchedulingPolicy profile \<noteq> Some ''SCHED_FIFO'' \<or>
      profile_PtpSchedulingPriority profile \<noteq> None) \<longleftrightarrow>
      \<not> (profile_PtpSchedulingPolicy profile \<noteq> None \<and>
         the (profile_PtpSchedulingPolicy profile) = ''SCHED_FIFO'' \<and>
         profile_PtpSchedulingPriority profile = None)"
    by (cases "profile_PtpSchedulingPolicy profile") auto
  ultimately have "profileOk regexp_Compile profile \<longleftrightarrow> ?ifc = None \<and>
      \<not> (profile_PtpSchedulingPolicy profile \<noteq> None \<and>
         the (profile_PtpSchedulingPolicy profile) = ''SCHED_FIFO'' \<and>
         profile_PtpSchedulingPriority profile = None) \<and>
      checkSettings regexp_Compile (profile_PtpSettings profile) = None"
    unfolding profileOk_def checkSettings_iff by (simp only:)
  then show ?thesis
    by (cases ?ifc) (simp_all add: validateProfile_def pop del: if_split)
qed

lemma validateProfiles_Ret:
  "\<exists>err. validateProfiles regexp_Compile ps = Ret err \<and>
     (err = None \<longleftrightarrow> (\<forall>p \<in> set ps. profileOk regexp_Compile p))"
proof (induction ps)
  case (Cons p ps)
  obtain err where "validateProfile regexp_Compile p = Ret err"
    "err = None \<longleftrightarrow> profileOk regexp_Compile p"
    using validateProfile_Ret by blast
  with Cons show ?case by (cases err) auto
qed simp

text \<open>
  (C22) The webhook never panics on a PtpConfig, and it admits one exactly when in every profile: with
  an interface set, the configuration has no section but \<^verbatim>\<open>[global]\<close> and the one of that interface;
  the policy SCHED_FIFO comes with a priority; and every setting is a compiling \<^verbatim>\<open>stdoutFilter\<close>, a
  boolean \<^verbatim>\<open>logReduce\<close> or a well-formed \<^verbatim>\<open>haProfiles\<close>. The right-hand side speaks of sets only, so
  the verdict does not depend on the order in which Go visits the maps.
\<close>
theorem ptpconfig_validate_iff:
  "\<exists>err. PtpConfig_validate regexp_Compile r = Ret err \<and>
     (err = None \<longleftrightarrow> (\<forall>p \<in> set (cspec_Profile (config_Spec r)). profileOk regexp_Compile p))"
  unfolding PtpConfig_validate_def by (rule validateProfiles_Ret)

text \<open>
  (C38) The expression for \<^verbatim>\<open>haProfiles\<close> accepts exactly the comma separated lists of non-empty names
  over letters, digits, dash and underscore, with white space allowed after a comma only.
\<close>
theorem haProfiles_regex_iff_name_list: "rxMatch profileRegEx v \<longleftrightarrow> isNameList v"
  by (rule profileRegEx_iff)

text \<open>
  Create and update requests get the verdict of \<^verbatim>\<open>validate\<close> on the new object, a delete request
  is always admitted, and there are no warnings.
\<close>
theorem ptpconfig_webhook_handlers:
  "\<exists>err. PtpConfig_validate regexp_Compile r = Ret err \<and>
     PtpConfig_ValidateCreate regexp_Compile r = Ret ([], err) \<and>
     PtpConfig_ValidateUpdate regexp_Compile r old = Ret ([], err) \<and>
     PtpConfig_ValidateDelete r = Ret ([], None)"
proof -
  obtain err where "PtpConfig_validate regexp_Compile r = Ret err"
    using validateProfiles_Ret unfolding PtpConfig_validate_def by blast
  then show ?thesis
    by (cases err) (simp_all add: PtpConfig_ValidateCreate_def PtpConfig_ValidateUpdate_def
        PtpConfig_ValidateDelete_def)
qed

text \<open>
  The webhook drops the error of the parser: any configuration text that does not begin with a
  section header is a parse error and is admitted, whatever the interface of the profile is.
\<close>
theorem validate_drops_parse_error:
  assumes "\<not> strings_HasPrefix conf ''[''"
    and "profile = emptyProfile\<lparr>profile_Ptp4lConf := Some conf, profile_Interface := iface\<rparr>"
    and "cspec_Profile (config_Spec r) = [profile]"
  shows "PtpConfig_validate regexp_Compile r = Ret None \<and>
     (\<exists>e c. populatePtp4lConf (profile_Ptp4lConf profile) (profile_Ptp4lOpts profile) = Ret (Some e, c))"
proof -
  obtain line lines where l: "strings_Split conf (CHR 0x0A) = line # lines"
    by (meson neq_Nil_conv strings_Split_nonempty)
  have "line = takeWhile (\<lambda>x. x \<noteq> CHR 0x0A) conf"
    using strings_Split_hd [of conf "CHR 0x0A"] l by simp
  then have "\<not> strings_HasPrefix line ''[''"
    using assms(1) by (cases conf) (auto split: if_splits)
  then have pop: "populatePtp4lConf (profile_Ptp4lConf profile) (profile_Ptp4lOpts profile) =
      Ret (Some errOptionNotInSection, \<lparr>conf_sections = []\<rparr>)"
    by (simp add: populatePtp4lConf_def assms(2) l)
  then have "profileOk regexp_Compile profile"
    by (simp add: profileOk_def sectionsOf_def assms(2) emptyProfile_def split: option.split)
  then have "PtpConfig_validate regexp_Compile r = Ret None"
    using validateProfiles_Ret [of regexp_Compile "[profile]"] by (auto simp: PtpConfig_validate_def assms(3))
  with pop show ?thesis by blast
qed

section \<open>Concrete requests\<close>

definition exFifo :: PtpConfig where
  "exFifo = \<lparr>config_ObjectMeta = emptyMeta, config_Spec =
     \<lparr>cspec_Profile = [emptyProfile\<lparr>profile_PtpSchedulingPolicy := Some ''SCHED_FIFO''\<rparr>],
      cspec_Recommend = []\<rparr>, config_Status = \<lparr>cstatus_MatchList = []\<rparr>\<rparr>"

theorem ptpconfig_validate_iff_witness:
  "\<exists>err. PtpConfig_validate (\<lambda>_. None) exFifo = Ret err \<and> err \<noteq> None"
  using ptpconfig_validate_iff [of "\<lambda>_. None" exFifo]
  by (auto simp: exFifo_def profileOk_def emptyProfile_def)

definition exUnsectioned :: PtpConfig where
  "exUnsectioned = \<lparr>config_ObjectMeta = emptyMeta, config_Spec =
     \<lparr>cspec_Profile = [emptyProfile\<lparr>profile_Ptp4lConf := Some ''masterOnly 1'',
        profile_Interface := Some ''ens1''\<rparr>],
      cspec_Recommend = []\<rparr>, config_Status = \<lparr>cstatus_MatchList = []\<rparr>\<rparr>"

theorem validate_drops_parse_error_witness:
  "PtpConfig_validate (\<lambda>_. None) exUnsectioned = Ret None"
  using validate_drops_parse_error [of "''masterOnly 1''" _ "Some ''ens1''" exUnsectioned "\<lambda>_. None"]
  by (simp add: exUnsectioned_def)

end
