(* ===== verification/Semver.thy ===== *)
theory Semver
  imports Go_Regexp
begin

text \<open>
  \<^verbatim>\<open>semver.NewVersion\<close> of the vendored package \<^verbatim>\<open>github.com/Masterminds/semver/v3\<close>, which the
  webhook of PtpOperatorConfig calls. A version is first matched against \<^verbatim>\<open>semVerRegex\<close>; then its
  number segments are read as 64-bit unsigned integers and its pre-release and metadata parts are
  checked. The capture groups are read off the string: in a string that matches, each group ends
  where the next separator stands.
\<close>

section \<open>Definitions\<close>

definition rxDotDigits :: rx where
  "rxDotDigits = RxSeq (RxClass ''.'') (rxPlus (RxClass rxDigits))"

definition identClass :: string where "identClass = rxDigits @ rxLetters @ ''-''"

definition rxIdents :: rx where
  "rxIdents = RxSeq (rxPlus (RxClass identClass))
     (RxStar (RxSeq (RxClass ''.'') (rxPlus (RxClass identClass))))"

text \<open>\<^verbatim>\<open>^v?([0-9]+)(\.[0-9]+)?(\.[0-9]+)?(-(idents))?(\+(idents))?$\<close>\<close>

definition semVerRegex :: rx where
  "semVerRegex =
     RxSeq (rxOpt (RxClass ''v'')) (RxSeq (rxPlus (RxClass rxDigits))
       (RxSeq (rxOpt rxDotDigits) (RxSeq (rxOpt rxDotDigits)
         (RxSeq (rxOpt (RxSeq (RxClass ''-'') rxIdents))
           (rxOpt (RxSeq (RxClass ''+'') rxIdents))))))"

record Version =
  version_major :: nat
  version_minor :: nat
  version_patch :: nat
  version_pre :: string
  version_metadata :: string
  version_original :: string

abbreviation isDigit :: "char \<Rightarrow> bool" where "isDigit c \<equiv> c \<in> set rxDigits"

definition digitsGroup :: "string \<Rightarrow> string \<times> string" where
  "digitsGroup s = (takeWhile isDigit s, dropWhile isDigit s)"

fun dotGroup :: "string \<Rightarrow> string \<times> string" where
  "dotGroup [] = ([], [])"
| "dotGroup (c # s) =
     (if c = CHR ''.'' then (c # takeWhile isDigit s, dropWhile isDigit s) else ([], c # s))"

fun preGroup :: "string \<Rightarrow> string \<times> string" where
  "preGroup [] = ([], [])"
| "preGroup (c # s) =
     (if c = CHR ''-'' then (takeWhile (\<lambda>x. x \<noteq> CHR ''+'') s, dropWhile (\<lambda>x. x \<noteq> CHR ''+'') s)
      else ([], c # s))"

definition FindStringSubmatch :: "string \<Rightarrow> (string \<times> string \<times> string \<times> string \<times> string) option" where
  "FindStringSubmatch v =
     (if \<not> rxMatch semVerRegex v then None
      else let s0 = (if strings_HasPrefix v ''v'' then tl v else v);
               (m1, s1) = digitsGroup s0;
               (m2, s2) = dotGroup s1;
               (m3, s3) = dotGroup s2;
               (m5, s4) = preGroup s3;
               m8 = tl s4
           in Some (m1, m2, m3, m5, m8))"

definition digitValue :: "char \<Rightarrow> nat" where "digitValue c = of_char c - 48"

definition decimal :: "string \<Rightarrow> nat" where
  "decimal s = foldl (\<lambda>n c. 10 * n + digitValue c) 0 s"

text \<open>\<^verbatim>\<open>strconv.ParseUint(s, 10, 64)\<close> on a non-empty string of digits.\<close>

definition strconv_ParseUint :: "string \<Rightarrow> error + nat" where
  "strconv_ParseUint s =
     (if decimal s < 2 ^ 64 then Inr (decimal s)
      else Inl (Errorf (''strconv.ParseUint: parsing '' @ [CHR 0x22] @ s @ [CHR 0x22] @
        '': value out of range'')))"

definition containsOnly :: "string \<Rightarrow> string \<Rightarrow> bool" where
  "containsOnly s cs \<longleftrightarrow> list_all (\<lambda>c. c \<in> set cs) s"

fun validatePrereleaseParts :: "string list \<Rightarrow> error option" where
  "validatePrereleaseParts [] = None"
| "validatePrereleaseParts (p # ps) =
     (if containsOnly p rxDigits then
        if length p > 1 \<and> hd p = CHR ''0'' then Some (Errorf ''Version segment starts with 0'')
        else validatePrereleaseParts ps
      else if \<not> containsOnly p identClass then Some (Errorf ''Invalid Prerelease string'')
      else validatePrereleaseParts ps)"

definition validatePrerelease :: "string \<Rightarrow> error option" where
  "validatePrerelease p = validatePrereleaseParts (strings_Split p (CHR ''.''))"

fun validateMetadataParts :: "string list \<Rightarrow> error option" where
  "validateMetadataParts [] = None"
| "validateMetadataParts (p # ps) =
     (if \<not> containsOnly p identClass then Some (Errorf ''Invalid Metadata string'')
      else validateMetadataParts ps)"

definition validateMetadata :: "string \<Rightarrow> error option" where
  "validateMetadata m = validateMetadataParts (strings_Split m (CHR ''.''))"

definition segmentError :: "error \<Rightarrow> error" where
  "segmentError e = Errorf (''Error parsing version segment: '' @ Error e)"

definition trimDot :: "string \<Rightarrow> string" where
  "trimDot m = (if strings_HasPrefix m ''.'' then tl m else m)"

text \<open>\<^verbatim>\<open>if m[i] != "" { ParseUint(TrimPrefix(m[i], ".")) } else { 0 }\<close>\<close>

definition optionalSegment :: "string \<Rightarrow> error + nat" where
  "optionalSegment m = (if m \<noteq> [] then strconv_ParseUint (trimDot m) else Inr 0)"

definition NewVersion :: "string \<Rightarrow> error + Version" where
  "NewVersion v =
     (case FindStringSubmatch v of
        None \<Rightarrow> Inl (Errorf ''Invalid Semantic Version'')
      | Some (m1, m2, m3, m5, m8) \<Rightarrow>
          (case strconv_ParseUint m1 of
             Inl e \<Rightarrow> Inl (segmentError e)
           | Inr major \<Rightarrow>
          (case optionalSegment m2 of
             Inl e \<Rightarrow> Inl (segmentError e)
           | Inr minor \<Rightarrow>
          (case optionalSegment m3 of
             Inl e \<Rightarrow> Inl (segmentError e)
           | Inr patch \<Rightarrow>
          (case (if m5 \<noteq> [] then validatePrerelease m5 else None) of
             Some e \<Rightarrow> Inl e
           | None \<Rightarrow>
          (case (if m8 \<noteq> [] then validateMetadata m8 else None) of
             Some e \<Rightarrow> Inl e
           | None \<Rightarrow>
               Inr \<lparr>version_major = major, version_minor = minor, version_patch = patch,
                 version_pre = m5, version_metadata = m8, version_original = v\<rparr>))))))"

section \<open>What a version string is\<close>

text \<open>
  A version is written from an optional \<^verbatim>\<open>v\<close>, one to three number segments, and optional
  pre-release and metadata parts, each a list of identifiers separated by dots.
\<close>

definition isNumber :: "string \<Rightarrow> bool" where
  "isNumber s \<longleftrightarrow> s \<noteq> [] \<and> set s \<subseteq> set rxDigits"

definition isIdent :: "string \<Rightarrow> bool" where
  "isIdent s \<longleftrightarrow> s \<noteq> [] \<and> set s \<subseteq> set identClass"

definition isIdents :: "string \<Rightarrow> bool" where
  "isIdents s \<longleftrightarrow> (\<forall>p \<in> set (strings_Split s (CHR ''.'')). isIdent p)"

definition writtenVersion ::
  "bool \<Rightarrow> string \<Rightarrow> string option \<Rightarrow> string option \<Rightarrow> string option \<Rightarrow> string option \<Rightarrow> string"
where
  "writtenVersion v m1 m2 m3 pre meta =
     (if v then ''v'' else []) @ m1 @
     (case m2 of None \<Rightarrow> [] | Some d \<Rightarrow> CHR ''.'' # d) @
     (case m3 of None \<Rightarrow> [] | Some d \<Rightarrow> CHR ''.'' # d) @
     (case pre of None \<Rightarrow> [] | Some p \<Rightarrow> CHR ''-'' # p) @
     (case meta of None \<Rightarrow> [] | Some p \<Rightarrow> CHR ''+'' # p)"

definition versionParts ::
  "string \<Rightarrow> string option \<Rightarrow> string option \<Rightarrow> string option \<Rightarrow> string option \<Rightarrow> bool"
where
  "versionParts m1 m2 m3 pre meta \<longleftrightarrow>
     isNumber m1 \<and> pred_option isNumber m2 \<and> pred_option isNumber m3 \<and> (m3 \<noteq> None \<longrightarrow> m2 \<noteq> None) \<and>
     pred_option isIdents pre \<and> pred_option isIdents meta"

section \<open>The expression and the groups\<close>

lemma matches_rxDotDigits: "matches rxDotDigits s \<longleftrightarrow> (\<exists>d. s = CHR ''.'' # d \<and> isNumber d)"
  by (auto simp: rxDotDigits_def matches_RxSeq matches_RxClass matches_plus_class isNumber_def)

lemma dot_not_ident: "CHR ''.'' \<notin> set identClass"
  by (simp add: identClass_def rxDigits_def rxLetters_def)

lemma matches_rxIdents: "matches rxIdents s \<longleftrightarrow> isIdents s"
proof -
  have i: "matches (rxPlus (RxClass identClass)) n \<longleftrightarrow> isIdent n" for n
    by (simp add: matches_plus_class isIdent_def)
  obtain n parts where "strings_Split s (CHR ''.'') = n # parts"
    by (meson neq_Nil_conv strings_Split_nonempty)
  then show ?thesis
    unfolding rxIdents_def
    by (subst matches_sep_list) (use dot_not_ident in \<open>auto simp: i isIdents_def isIdent_def\<close>)
qed

lemma isIdents_nonempty: "isIdents s \<Longrightarrow> s \<noteq> []"
  by (auto simp: isIdents_def isIdent_def)

lemma isIdents_no_plus: "isIdents s \<Longrightarrow> CHR ''+'' \<notin> set s"
proof
  assume s: "isIdents s" and mem: "CHR ''+'' \<in> set s"
  have "CHR ''+'' \<notin> set identClass" by (simp add: identClass_def rxDigits_def rxLetters_def)
  then have no: "\<forall>p \<in> set (strings_Split s (CHR ''.'')). CHR ''+'' \<notin> set p"
    using s by (auto simp: isIdents_def isIdent_def)
  obtain n parts where "strings_Split s (CHR ''.'') = n # parts"
    by (meson neq_Nil_conv strings_Split_nonempty)
  with no strings_Split_eqD [OF this] mem show False by (cases "parts = []") auto
qed

lemma matches_semVerRegex:
  "matches semVerRegex v \<longleftrightarrow>
     (\<exists>p m1 m2 m3 pre meta. v = writtenVersion p m1 m2 m3 pre meta \<and> versionParts m1 m2 m3 pre meta)"
  (is "_ \<longleftrightarrow> ?R")
proof
  assume "matches semVerRegex v"
  then obtain a m1 b c d e where v: "v = a @ m1 @ b @ c @ d @ e"
    and groups: "matches (rxOpt (RxClass ''v'')) a" "matches (rxPlus (RxClass rxDigits)) m1"
      "matches (rxOpt rxDotDigits) b" "matches (rxOpt rxDotDigits) c"
      "matches (rxOpt (RxSeq (RxClass ''-'') rxIdents)) d"
      "matches (rxOpt (RxSeq (RxClass ''+'') rxIdents)) e"
    unfolding semVerRegex_def matches_RxSeq by blast
  from groups have a: "a = [] \<or> a = ''v''" and m1: "isNumber m1"
    and b: "b = [] \<or> matches rxDotDigits b" and c: "c = [] \<or> matches rxDotDigits c"
    and d: "d = [] \<or> (\<exists>p. d = CHR ''-'' # p \<and> isIdents p)"
    and e: "e = [] \<or> (\<exists>p. e = CHR ''+'' # p \<and> isIdents p)"
    by (auto simp: matches_opt matches_RxClass matches_plus_class isNumber_def matches_rxIdents
        matches_RxSeq [of "RxClass _"])
  obtain m2 m3 where "b @ c = (case m2 of None \<Rightarrow> [] | Some d \<Rightarrow> CHR ''.'' # d) @
      (case m3 of None \<Rightarrow> [] | Some d \<Rightarrow> CHR ''.'' # d)"
    "pred_option isNumber m2" "pred_option isNumber m3" "m3 \<noteq> None \<longrightarrow> m2 \<noteq> None"
  proof -
    have dd: "\<exists>m. x = (case m of None \<Rightarrow> [] | Some d \<Rightarrow> CHR ''.'' # d) \<and> pred_option isNumber m \<and>
        (x = [] \<longleftrightarrow> m = None)" if "x = [] \<or> matches rxDotDigits x" for x
      using that by (auto simp: matches_rxDotDigits intro: exI [of _ "None"] exI [of _ "Some _"])
    from dd [OF b] dd [OF c] obtain mb mc where
      "b = (case mb of None \<Rightarrow> [] | Some d \<Rightarrow> CHR ''.'' # d)" "pred_option isNumber mb"
      "c = (case mc of None \<Rightarrow> [] | Some d \<Rightarrow> CHR ''.'' # d)" "pred_option isNumber mc" by blast
    then show ?thesis
      using that [of mb mc] that [of mc None] by (cases mb) auto
  qed
  moreover obtain pre where "d = (case pre of None \<Rightarrow> [] | Some p \<Rightarrow> CHR ''-'' # p)"
    "pred_option isIdents pre"
    using d by (auto intro: that [of None] that [of "Some _"])
  moreover obtain meta where "e = (case meta of None \<Rightarrow> [] | Some p \<Rightarrow> CHR ''+'' # p)"
    "pred_option isIdents meta"
    using e by (auto intro: that [of None] that [of "Some _"])
  ultimately have "v = writtenVersion (a \<noteq> []) m1 m2 m3 pre meta"
    "versionParts m1 m2 m3 pre meta"
    using v a m1 by (auto simp: writtenVersion_def versionParts_def)
  then show ?R by blast
next
  have opt: "matches (rxOpt r) (case x of None \<Rightarrow> [] | Some d \<Rightarrow> k # d)"
    if "pred_option (\<lambda>d. matches r (k # d)) x" for r k x
    using that by (cases x) (simp_all add: matches_opt)
  assume ?R
  then obtain p m1 m2 m3 pre meta where v: "v = writtenVersion p m1 m2 m3 pre meta"
    and parts: "versionParts m1 m2 m3 pre meta" by blast
  have sep: "matches (RxSeq (RxClass [k]) rxIdents) (k # q)" if "isIdents q" for k q
    using m_seq [OF m_class [of k "[k]"], of rxIdents q] that by (simp add: matches_rxIdents)
  show "matches semVerRegex v"
    unfolding v writtenVersion_def semVerRegex_def
    by (intro m_seq opt)
      (use parts sep in \<open>auto simp: versionParts_def matches_opt matches_RxClass matches_plus_class
         isNumber_def matches_rxDotDigits elim!: option.pred_mono_strong\<close>)
qed

lemma separators_not_digit [simp]:
  "CHR ''.'' \<notin> set rxDigits" "CHR ''-'' \<notin> set rxDigits" "CHR ''+'' \<notin> set rxDigits"
  by (simp_all add: rxDigits_def)

lemma takeWhile_until:
  assumes "\<forall>x \<in> set m. P x" "r = [] \<or> \<not> P (hd r)"
  shows "takeWhile P (m @ r) = m" "dropWhile P (m @ r) = r"
  using assms by (cases r; simp add: takeWhile_append2 dropWhile_append2)+

lemma digitsGroup_until:
  "set m \<subseteq> set rxDigits \<Longrightarrow> r = [] \<or> \<not> isDigit (hd r) \<Longrightarrow> digitsGroup (m @ r) = (m, r)"
  by (cases r) (simp_all add: digitsGroup_def takeWhile_until subset_iff)

lemma dotGroup_option:
  assumes "pred_option isNumber x" "r = [] \<or> \<not> isDigit (hd r)" "x = None \<longrightarrow> r = [] \<or> hd r \<noteq> CHR ''.''"
  shows "dotGroup ((case x of None \<Rightarrow> [] | Some d \<Rightarrow> CHR ''.'' # d) @ r) =
    ((case x of None \<Rightarrow> [] | Some d \<Rightarrow> CHR ''.'' # d), r)"
proof (cases x)
  case None
  with assms show ?thesis by (cases r) auto
next
  case (Some d)
  with assms show ?thesis by (cases r) (simp_all add: takeWhile_until isNumber_def subset_iff)
qed

lemma preGroup_option:
  assumes "pred_option isIdents x" "r = [] \<or> hd r = CHR ''+''"
  shows "preGroup ((case x of None \<Rightarrow> [] | Some d \<Rightarrow> CHR ''-'' # d) @ r) =
    ((case x of None \<Rightarrow> [] | Some d \<Rightarrow> d), r)"
proof (cases x)
  case None
  with assms show ?thesis by (cases r) auto
next
  case (Some d)
  then have "\<forall>c \<in> set d. c \<noteq> CHR ''+''" using assms isIdents_no_plus by auto
  with assms Some show ?thesis by (cases r) (simp_all add: takeWhile_until)
qed

text \<open>The groups of a version that is written from its parts are those parts.\<close>

lemma FindStringSubmatch_written:
  assumes parts: "versionParts m1 m2 m3 pre meta"
  shows "FindStringSubmatch (writtenVersion p m1 m2 m3 pre meta) =
    Some (m1, case m2 of None \<Rightarrow> [] | Some d \<Rightarrow> CHR ''.'' # d, case m3 of None \<Rightarrow> [] | Some d \<Rightarrow> CHR ''.'' # d,
      case pre of None \<Rightarrow> [] | Some x \<Rightarrow> x, case meta of None \<Rightarrow> [] | Some x \<Rightarrow> x)"
proof -
  define r4 where "r4 = (case meta of None \<Rightarrow> [] | Some x \<Rightarrow> CHR ''+'' # x)"
  define r3 where "r3 = (case pre of None \<Rightarrow> [] | Some x \<Rightarrow> CHR ''-'' # x) @ r4"
  define r2 where "r2 = (case m3 of None \<Rightarrow> [] | Some d \<Rightarrow> CHR ''.'' # d) @ r3"
  define r1 where "r1 = (case m2 of None \<Rightarrow> [] | Some d \<Rightarrow> CHR ''.'' # d) @ r2"
  have heads: "r4 = [] \<or> hd r4 = CHR ''+''" "r3 = [] \<or> hd r3 = CHR ''-'' \<or> hd r3 = CHR ''+''"
    "r2 = [] \<or> hd r2 = CHR ''.'' \<or> hd r2 = CHR ''-'' \<or> hd r2 = CHR ''+''"
    "r1 = [] \<or> hd r1 = CHR ''.'' \<or> hd r1 = CHR ''-'' \<or> hd r1 = CHR ''+''"
    by (auto simp: r1_def r2_def r3_def r4_def split: option.splits)
  have "matches semVerRegex (writtenVersion p m1 m2 m3 pre meta)"
    using parts matches_semVerRegex by blast
  moreover have "(if strings_HasPrefix (writtenVersion p m1 m2 m3 pre meta) ''v''
      then tl (writtenVersion p m1 m2 m3 pre meta) else writtenVersion p m1 m2 m3 pre meta) = m1 @ r1"
  proof -
    obtain c m where "m1 = c # m" "c \<in> set rxDigits"
      using parts by (cases m1) (auto simp: versionParts_def isNumber_def)
    moreover have "CHR ''v'' \<notin> set rxDigits" by (simp add: rxDigits_def)
    ultimately show ?thesis
      by (auto simp: writtenVersion_def r1_def r2_def r3_def r4_def strings_HasPrefix_iff)
  qed
  moreover have "digitsGroup (m1 @ r1) = (m1, r1)"
    using parts heads(4) by (intro digitsGroup_until) (auto simp: versionParts_def isNumber_def)
  moreover have "dotGroup r1 = (case m2 of None \<Rightarrow> [] | Some d \<Rightarrow> CHR ''.'' # d, r2)"
    unfolding r1_def using parts heads(2,3)
    by (intro dotGroup_option) (auto simp: versionParts_def r2_def)
  moreover have "dotGroup r2 = (case m3 of None \<Rightarrow> [] | Some d \<Rightarrow> CHR ''.'' # d, r3)"
    unfolding r2_def using parts heads(2)
    by (intro dotGroup_option) (auto simp: versionParts_def)
  moreover have "preGroup r3 = (case pre of None \<Rightarrow> [] | Some x \<Rightarrow> x, r4)"
    unfolding r3_def using parts heads(1) by (intro preGroup_option) (auto simp: versionParts_def)
  moreover have "tl r4 = (case meta of None \<Rightarrow> [] | Some x \<Rightarrow> x)"
    by (auto simp: r4_def split: option.splits)
  ultimately show ?thesis by (simp add: FindStringSubmatch_def rxMatch_iff Let_def)
qed

lemma FindStringSubmatch_None:
  "FindStringSubmatch v = None \<longleftrightarrow>
     (\<nexists>p m1 m2 m3 pre meta. v = writtenVersion p m1 m2 m3 pre meta \<and> versionParts m1 m2 m3 pre meta)"
  unfolding FindStringSubmatch_def rxMatch_iff matches_semVerRegex [symmetric]
  by (auto split: prod.splits)

section \<open>Which strings are versions\<close>

text \<open>A number segment of a pre-release part has no leading zero.\<close>

definition noLeadingZero :: "string \<Rightarrow> bool" where
  "noLeadingZero s \<longleftrightarrow>
     (\<forall>p \<in> set (strings_Split s (CHR ''.'')). set p \<subseteq> set rxDigits \<and> length p > 1 \<longrightarrow> hd p \<noteq> CHR ''0'')"

lemma validatePrerelease_None:
  assumes "isIdents s"
  shows "validatePrerelease s = None \<longleftrightarrow> noLeadingZero s"
proof -
  have "\<forall>p \<in> set ps. isIdent p \<Longrightarrow> validatePrereleaseParts ps = None \<longleftrightarrow>
      (\<forall>p \<in> set ps. set p \<subseteq> set rxDigits \<and> length p > 1 \<longrightarrow> hd p \<noteq> CHR ''0'')" for ps
    by (induction ps) (auto simp: isIdent_def containsOnly_def list_all_iff subset_iff)
  with assms show ?thesis by (simp add: isIdents_def validatePrerelease_def noLeadingZero_def)
qed

lemma validateMetadata_None: "isIdents s \<Longrightarrow> validateMetadata s = None"
proof -
  have "\<forall>p \<in> set ps. isIdent p \<Longrightarrow> validateMetadataParts ps = None" for ps
    by (induction ps) (auto simp: isIdent_def containsOnly_def list_all_iff subset_iff)
  then show "isIdents s \<Longrightarrow> validateMetadata s = None"
    by (simp add: isIdents_def validateMetadata_def)
qed

lemma optionalSegment_option:
  assumes "pred_option isNumber x"
  shows "optionalSegment (case x of None \<Rightarrow> [] | Some d \<Rightarrow> CHR ''.'' # d) =
    (case x of None \<Rightarrow> Inr 0 | Some d \<Rightarrow> strconv_ParseUint d)"
  by (cases x) (auto simp: optionalSegment_def trimDot_def strings_HasPrefix_iff)

lemma strconv_ParseUint_cases:
  "(\<exists>e. strconv_ParseUint d = Inl e \<and> 2 ^ 64 \<le> decimal d) \<or>
   strconv_ParseUint d = Inr (decimal d) \<and> decimal d < 2 ^ 64"
  by (auto simp: strconv_ParseUint_def)

lemma NewVersion_written:
  assumes parts: "versionParts m1 m2 m3 pre meta"
  shows "(\<exists>ver. NewVersion (writtenVersion p m1 m2 m3 pre meta) = Inr ver) \<longleftrightarrow>
    decimal m1 < 2 ^ 64 \<and> pred_option (\<lambda>d. decimal d < 2 ^ 64) m2 \<and>
    pred_option (\<lambda>d. decimal d < 2 ^ 64) m3 \<and> pred_option noLeadingZero pre"
proof -
  have seg: "pred_option isNumber m2" "pred_option isNumber m3" using parts by (simp_all add: versionParts_def)
  have pre: "(if x \<noteq> [] then validatePrerelease x else None) = None \<longleftrightarrow> pred_option noLeadingZero pre"
    if "x = (case pre of None \<Rightarrow> [] | Some x \<Rightarrow> x)" for x
    using that parts isIdents_nonempty
    by (cases pre) (auto simp: validatePrerelease_None versionParts_def)
  have meta: "(if x \<noteq> [] then validateMetadata x else None) = None"
    if "x = (case meta of None \<Rightarrow> [] | Some x \<Rightarrow> x)" for x
    using that parts by (cases meta) (auto simp: validateMetadata_None versionParts_def)
  let ?seg = "\<lambda>m. case m of None \<Rightarrow> Inr 0 | Some d \<Rightarrow> strconv_ParseUint d"
  have ok: "(\<exists>n. ?seg m = Inr n) \<longleftrightarrow> pred_option (\<lambda>d. decimal d < 2 ^ 64) m" for m
    by (cases m) (auto simp: strconv_ParseUint_def)
  have ok1: "(\<exists>n. strconv_ParseUint m1 = Inr n) \<longleftrightarrow> decimal m1 < 2 ^ 64"
    by (auto simp: strconv_ParseUint_def)
  show ?thesis
    unfolding ok1 [symmetric] ok [symmetric] NewVersion_def FindStringSubmatch_written [OF parts]
      pre [OF refl, symmetric] option.case prod.case
      optionalSegment_option [OF seg(1)] optionalSegment_option [OF seg(2)] meta [OF refl]
    by (auto split: sum.splits option.splits)
qed

end
