(* ===== verification/Operator_Config_Webhook.thy ===== *)
theory Operator_Config_Webhook
  imports Api_Types Semver
begin

text \<open>
  The validating webhook of PtpOperatorConfig (\<^verbatim>\<open>api/v1/ptpoperatorconfig_webhook.go\<close>). The object is
  admitted when it has the one name that is allowed and, with the event publisher switched on, an
  \<^verbatim>\<open>apiVersion\<close> that is empty or a semantic version.
\<close>

section \<open>Definitions\<close>

definition isValidVersion :: "string \<Rightarrow> bool" where
  "isValidVersion version = (case NewVersion version of Inl err \<Rightarrow> False | Inr v \<Rightarrow> True)"

definition nameError :: error where
  "nameError = Errorf (''PtpOperatorConfig name must be '' @ [CHR 0x27] @ ''default'' @ [CHR 0x27] @
     ''. Only one '' @ [CHR 0x27] @ ''default'' @ [CHR 0x27] @
     '' PtpOperatorConfig configuration is allowed'')"

definition versionError :: "string \<Rightarrow> error" where
  "versionError v = Errorf (''ptpEventConfig.apiVersion='' @ v @
     '' is not a valid version. Example of valid versions: '' @
     [CHR 0x22] @ ''1.0'' @ [CHR 0x22] @ '', '' @ [CHR 0x22] @ ''2.0'' @ [CHR 0x22])"

definition PtpOperatorConfig_validate :: "PtpOperatorConfig \<Rightarrow> error option" where
  "PtpOperatorConfig_validate r =
     (if meta_Name (oconfig_ObjectMeta r) \<noteq> ''default'' then Some nameError
      else case ospec_EventConfig (oconfig_Spec r) of
             None \<Rightarrow> None
           | Some ec \<Rightarrow>
               if event_EnableEventPublisher ec \<and> event_ApiVersion ec \<noteq> [] \<and>
                 \<not> isValidVersion (event_ApiVersion ec)
               then Some (versionError (event_ApiVersion ec)) else None)"

definition PtpOperatorConfig_ValidateCreate :: "PtpOperatorConfig \<Rightarrow> string list \<times> error option" where
  "PtpOperatorConfig_ValidateCreate r =
     (case PtpOperatorConfig_validate r of Some err \<Rightarrow> ([], Some err) | None \<Rightarrow> ([], None))"

definition PtpOperatorConfig_ValidateUpdate ::
  "PtpOperatorConfig \<Rightarrow> 'obj \<Rightarrow> string list \<times> error option"
where
  "PtpOperatorConfig_ValidateUpdate r old =
     (case PtpOperatorConfig_validate r of Some err \<Rightarrow> ([], Some err) | None \<Rightarrow> ([], None))"

definition PtpOperatorConfig_ValidateDelete :: "PtpOperatorConfig \<Rightarrow> string list \<times> error option" where
  "PtpOperatorConfig_ValidateDelete r = ([], None)"

section \<open>What the webhook admits\<close>

text \<open>The grammar of the versions the webhook takes, with the bounds of the number segments.\<close>

definition versionGrammar :: "string \<Rightarrow> bool" where
  "versionGrammar v \<longleftrightarrow>
     (\<exists>p m1 m2 m3 pre meta. v = writtenVersion p m1 m2 m3 pre meta \<and> versionParts m1 m2 m3 pre meta \<and>
        decimal m1 < 2 ^ 64 \<and> pred_option (\<lambda>d. decimal d < 2 ^ 64) m2 \<and>
        pred_option (\<lambda>d. decimal d < 2 ^ 64) m3 \<and> pred_option noLeadingZero pre)"

lemma isValidVersion_iff: "isValidVersion v \<longleftrightarrow> versionGrammar v"
proof (cases "FindStringSubmatch v")
  case None
  then have "\<not> versionGrammar v" unfolding FindStringSubmatch_None versionGrammar_def by blast
  with None show ?thesis by (simp add: isValidVersion_def NewVersion_def)
next
  case (Some ms)
  then obtain p m1 m2 m3 pre meta
    where v: "v = writtenVersion p m1 m2 m3 pre meta" "versionParts m1 m2 m3 pre meta"
    using FindStringSubmatch_None [of v] by auto
  have "isValidVersion v \<longleftrightarrow> (\<exists>ver. NewVersion v = Inr ver)"
    by (auto simp: isValidVersion_def split: sum.splits)
  also have "\<dots> \<longleftrightarrow> versionGrammar v"
    unfolding versionGrammar_def using NewVersion_written v by blast
  finally show ?thesis .
qed


end
