(* ===== verification/Go_Time.thy ===== *)
theory Go_Time
  imports Go_Strings "HOL-Library.Monad_Syntax"
begin

text \<open>
  \<^verbatim>\<open>metav1.Time\<close> as the object metadata uses it: a timestamp is read with \<^verbatim>\<open>time.Parse(time.RFC3339, s)\<close>
  and written back in UTC. A time is its civil date and clock in UTC; of the fraction of a second
  only whether it is zero is kept, since \<^verbatim>\<open>Format(time.RFC3339)\<close> drops it.
\<close>

section \<open>Definitions\<close>

record Time =
  time_year :: int
  time_month :: nat
  time_day :: nat
  time_hour :: nat
  time_min :: nat
  time_sec :: nat
  time_frac :: bool

definition isLeap :: "int \<Rightarrow> bool" where
  "isLeap y \<longleftrightarrow> y mod 4 = 0 \<and> (y mod 100 \<noteq> 0 \<or> y mod 400 = 0)"

definition daysIn :: "nat \<Rightarrow> int \<Rightarrow> nat" where
  "daysIn m y = (if m = 2 then if isLeap y then 29 else 28
     else if m \<in> {4, 6, 9, 11} then 30 else 31)"

definition nextDay :: "int \<times> nat \<times> nat \<Rightarrow> int \<times> nat \<times> nat" where
  "nextDay = (\<lambda>(y, m, d).
     if d < daysIn m y then (y, m, d + 1) else if m < 12 then (y, m + 1, 1) else (y + 1, 1, 1))"

definition prevDay :: "int \<times> nat \<times> nat \<Rightarrow> int \<times> nat \<times> nat" where
  "prevDay = (\<lambda>(y, m, d).
     if 1 < d then (y, m, d - 1)
     else if 1 < m then (y, m - 1, daysIn (m - 1) y) else (y - 1, 12, 31))"

definition shiftDays :: "int \<Rightarrow> int \<times> nat \<times> nat \<Rightarrow> int \<times> nat \<times> nat" where
  "shiftDays n = (if 0 \<le> n then nextDay ^^ nat n else prevDay ^^ nat (- n))"

abbreviation asciiDigit :: "char \<Rightarrow> bool" where "asciiDigit c \<equiv> c \<in> set ''0123456789''"

definition digit :: "char \<Rightarrow> nat" where "digit c = of_char c - 48"

text \<open>\<^verbatim>\<open>getnum(s, fixed)\<close>: two digits, or one when the width is not fixed.\<close>

fun getnum :: "bool \<Rightarrow> string \<Rightarrow> (nat \<times> string) option" where
  "getnum fixed [] = None"
| "getnum fixed [a] = (if asciiDigit a \<and> \<not> fixed then Some (digit a, []) else None)"
| "getnum fixed (a # b # s) =
     (if \<not> asciiDigit a then None
      else if \<not> asciiDigit b then (if fixed then None else Some (digit a, b # s))
      else Some (10 * digit a + digit b, s))"

fun getyear :: "string \<Rightarrow> (nat \<times> string) option" where
  "getyear (a # b # c # d # s) =
     (if asciiDigit a \<and> asciiDigit b \<and> asciiDigit c \<and> asciiDigit d
      then Some (1000 * digit a + 100 * digit b + 10 * digit c + digit d, s) else None)"
| "getyear _ = None"

fun skipChar :: "char \<Rightarrow> string \<Rightarrow> string option" where
  "skipChar c [] = None"
| "skipChar c (x # s) = (if x = c then Some s else None)"

text \<open>
  A fraction of a second is accepted after the seconds, though the layout has none; its first nine
  digits count.
\<close>

fun getFraction :: "string \<Rightarrow> bool \<times> string" where
  "getFraction (p # d # s) =
     (if (p = CHR ''.'' \<or> p = CHR '','') \<and> asciiDigit d
      then (\<exists>c \<in> set (take 9 (d # takeWhile asciiDigit s)). c \<noteq> CHR ''0'', dropWhile asciiDigit s)
      else (False, p # d # s))"
| "getFraction s = (False, s)"

text \<open>The zone \<^verbatim>\<open>Z07:00\<close>, as an offset in minutes; nothing may follow it.\<close>

fun zone :: "string \<Rightarrow> int option" where
  "zone [] = None"
| "zone (c # s) =
     (if c = CHR ''Z'' then (if s = [] then Some 0 else None)
      else if length s = 5 \<and> s ! 2 = CHR '':'' then
        (case (getnum True (take 2 s), getnum True (drop 3 s)) of
           (Some (hr, _), Some (mm, _)) \<Rightarrow>
             if 24 < hr \<or> 60 < mm then None
             else if c = CHR ''+'' then Some (60 * int hr + int mm)
             else if c = CHR ''-'' then Some (- (60 * int hr + int mm)) else None
         | _ \<Rightarrow> None)
      else None)"

text \<open>The time read from its fields and its zone, as a time in UTC.\<close>

definition inUTC :: "int \<Rightarrow> Time \<Rightarrow> Time" where
  "inUTC off t =
     (let minutes = 60 * int (time_hour t) + int (time_min t) - off;
          (y, m, d) = shiftDays (minutes div 1440) (time_year t, time_month t, time_day t)
      in \<lparr>time_year = y, time_month = m, time_day = d,
          time_hour = nat (minutes mod 1440 div 60), time_min = nat (minutes mod 60),
          time_sec = time_sec t, time_frac = time_frac t\<rparr>)"

definition guard :: "bool \<Rightarrow> unit option" where
  "guard b = (if b then Some () else None)"

definition time_Parse :: "string \<Rightarrow> Time option" where
  "time_Parse s0 = do {
     (year, s1) \<leftarrow> getyear s0;
     s2 \<leftarrow> skipChar (CHR ''-'') s1;
     (month, s3) \<leftarrow> getnum True s2;
     _ \<leftarrow> guard (0 < month \<and> month \<le> 12);
     s4 \<leftarrow> skipChar (CHR ''-'') s3;
     (day, s5) \<leftarrow> getnum True s4;
     s6 \<leftarrow> skipChar (CHR ''T'') s5;
     (hour, s7) \<leftarrow> getnum False s6;
     _ \<leftarrow> guard (hour < 24);
     s8 \<leftarrow> skipChar (CHR '':'') s7;
     (min, s9) \<leftarrow> getnum True s8;
     _ \<leftarrow> guard (min < 60);
     s10 \<leftarrow> skipChar (CHR '':'') s9;
     (sec, s11) \<leftarrow> getnum True s10;
     _ \<leftarrow> guard (sec < 60);
     (frac, s12) \<leftarrow> Some (getFraction s11);
     off \<leftarrow> zone s12;
     _ \<leftarrow> guard (1 \<le> day \<and> day \<le> daysIn month (int year));
     Some (inUTC off \<lparr>time_year = int year, time_month = month, time_day = day, time_hour = hour,
       time_min = min, time_sec = sec, time_frac = frac\<rparr>)
   }"

fun appendInt :: "nat \<Rightarrow> nat \<Rightarrow> string" where
  "appendInt 0 n = (if n = 0 then [] else appendInt 0 (n div 10) @ [char_of (48 + n mod 10)])"
| "appendInt (Suc w) n = appendInt w (n div 10) @ [char_of (48 + n mod 10)]"

definition time_Format :: "Time \<Rightarrow> string" where
  "time_Format t =
     (if time_year t < 0 then ''-'' @ appendInt 4 (nat (- time_year t))
      else appendInt 4 (nat (time_year t))) @ ''-'' @
     appendInt 2 (time_month t) @ ''-'' @ appendInt 2 (time_day t) @ ''T'' @
     appendInt 2 (time_hour t) @ '':'' @ appendInt 2 (time_min t) @ '':'' @
     appendInt 2 (time_sec t) @ ''Z''"

text \<open>The zero time is the first second of year 1; \<open>UnmarshalQueryParameter\<close> gives it for an unset or
  unreadable timestamp.\<close>

definition zeroTime :: Time where
  "zeroTime = \<lparr>time_year = 1, time_month = 1, time_day = 1, time_hour = 0, time_min = 0, time_sec = 0,
     time_frac = False\<rparr>"

definition UnmarshalQueryParameter :: "string \<Rightarrow> Time" where
  "UnmarshalQueryParameter str =
     (if str = [] then zeroTime
      else if length str = 4 \<and> str = ''null'' then zeroTime
      else case time_Parse str of None \<Rightarrow> zeroTime | Some pt \<Rightarrow> pt)"

definition MarshalQueryParameter :: "Time \<Rightarrow> string" where
  "MarshalQueryParameter t = (if t = zeroTime then [] else time_Format t)"

end
