(* ===== verification/Unstructured.thy ===== *)
theory Unstructured
  imports Api_Types Go_Time "HOL-Library.Word"
begin

text \<open>
  Objects of the API as JSON trees: \<^verbatim>\<open>unstructured.Unstructured\<close> of the vendored
  \<^verbatim>\<open>k8s.io/apimachinery\<close>, with the accessors the operator calls and the semantic equality of
  \<^verbatim>\<open>k8s.io/apimachinery/pkg/api/equality\<close>.

  An object is the Go map \<^verbatim>\<open>u.Object\<close>. A setter returns the changed object; where the Go method drops
  the error of \<^verbatim>\<open>SetNestedField\<close> the setter returns the object unchanged. The text of an accessor
  error leaves out the printed value.
\<close>

section \<open>JSON values\<close>

datatype json =
    JNull
  | JBool bool
  | JInt "64 word"
  | JFloat "64 word"
  | JString string
  | JArr "json list"
  | JObj "(string \<times> json) list"

type_synonym Unstructured = "(string, json) gomap"

text \<open>Equality of two \<^verbatim>\<open>float64\<close> given by their bits: the two zeros are equal, a NaN equals nothing.\<close>

definition float64_isNaN :: "64 word \<Rightarrow> bool" where
  "float64_isNaN f \<longleftrightarrow> 0x7FF0000000000000 < take_bit 63 f"

definition float64_eq :: "64 word \<Rightarrow> 64 word \<Rightarrow> bool" where
  "float64_eq a b \<longleftrightarrow>
     \<not> float64_isNaN a \<and> \<not> float64_isNaN b \<and> (a = b \<or> take_bit 63 a = 0 \<and> take_bit 63 b = 0)"

text \<open>A value that a JSON text denotes: every map has distinct keys and no number is a NaN.\<close>

fun json_wf :: "json \<Rightarrow> bool" where
  "json_wf (JArr vs) = (\<forall>v \<in> set vs. json_wf v)"
| "json_wf (JObj m) = (distinct (map fst m) \<and> (\<forall>kv \<in> set m. json_wf (snd kv)))"
| "json_wf (JFloat f) = (\<not> float64_isNaN f)"
| "json_wf _ = True"

text \<open>The Go type of a value, as \<^verbatim>\<open>%T\<close> prints it.\<close>

fun goType :: "json \<Rightarrow> string" where
  "goType JNull = ''<nil>''"
| "goType (JBool b) = ''bool''"
| "goType (JInt i) = ''int64''"
| "goType (JFloat f) = ''float64''"
| "goType (JString s) = ''string''"
| "goType (JArr vs) = ''[]interface {}''"
| "goType (JObj m) = ''map[string]interface {}''"

section \<open>Nested fields\<close>

definition jsonPath :: "string list \<Rightarrow> string" where
  "jsonPath keys = ''.'' @ strings_Join keys ''.''"

definition accessorError :: "string list \<Rightarrow> json \<Rightarrow> string \<Rightarrow> error" where
  "accessorError keys v expected =
     Errorf (jsonPath keys @ '' accessor error: is of the type '' @ goType v @ '', expected '' @ expected)"

text \<open>A result \<^verbatim>\<open>(value, found, error)\<close> is \<open>Inr (Some value)\<close>, \<open>Inr None\<close> or \<open>Inl error\<close>.\<close>

fun walkFields :: "string list \<Rightarrow> json \<Rightarrow> string list \<Rightarrow> error + json option" where
  "walkFields path v [] = Inr (Some v)"
| "walkFields path v (f # fs) =
     (case v of
        JNull \<Rightarrow> Inr None
      | JObj m \<Rightarrow>
          (case map_of m f of None \<Rightarrow> Inr None | Some w \<Rightarrow> walkFields (path @ [f]) w fs)
      | _ \<Rightarrow> Inl (accessorError (path @ [f]) v ''map[string]interface{}''))"

definition NestedFieldNoCopy :: "Unstructured \<Rightarrow> string list \<Rightarrow> error + json option" where
  "NestedFieldNoCopy obj keys = walkFields [] (JObj obj) keys"

definition nestedAs ::
  "(json \<Rightarrow> 'a option) \<Rightarrow> string \<Rightarrow> Unstructured \<Rightarrow> string list \<Rightarrow> error + 'a option"
where
  "nestedAs conv expected obj keys =
     (case NestedFieldNoCopy obj keys of
        Inl err \<Rightarrow> Inl err
      | Inr None \<Rightarrow> Inr None
      | Inr (Some v) \<Rightarrow>
          (case conv v of None \<Rightarrow> Inl (accessorError keys v expected) | Some x \<Rightarrow> Inr (Some x)))"

fun asString :: "json \<Rightarrow> string option" where
  "asString (JString s) = Some s" | "asString _ = None"

fun asBool :: "json \<Rightarrow> bool option" where
  "asBool (JBool b) = Some b" | "asBool _ = None"

fun asInt :: "json \<Rightarrow> 64 word option" where
  "asInt (JInt i) = Some i" | "asInt _ = None"

fun asSlice :: "json \<Rightarrow> json list option" where
  "asSlice (JArr vs) = Some vs" | "asSlice _ = None"

fun asMap :: "json \<Rightarrow> (string, json) gomap option" where
  "asMap (JObj m) = Some m" | "asMap _ = None"

definition NestedString :: "Unstructured \<Rightarrow> string list \<Rightarrow> error + string option" where
  "NestedString = nestedAs asString ''string''"

definition NestedBool :: "Unstructured \<Rightarrow> string list \<Rightarrow> error + bool option" where
  "NestedBool = nestedAs asBool ''bool''"

definition NestedInt64 :: "Unstructured \<Rightarrow> string list \<Rightarrow> error + 64 word option" where
  "NestedInt64 = nestedAs asInt ''int64''"

definition NestedSlice :: "Unstructured \<Rightarrow> string list \<Rightarrow> error + json list option" where
  "NestedSlice = nestedAs asSlice ''[]interface{}''"

definition nestedMapNoCopy :: "Unstructured \<Rightarrow> string list \<Rightarrow> error + (string, json) gomap option" where
  "nestedMapNoCopy = nestedAs asMap ''map[string]interface{}''"

fun stringEntries :: "string list \<Rightarrow> (string, json) gomap \<Rightarrow> error + strmap" where
  "stringEntries keys [] = Inr []"
| "stringEntries keys ((k, v) # m) =
     (case asString v of
        None \<Rightarrow> Inl (accessorError keys v ''string'')
      | Some s \<Rightarrow>
          (case stringEntries keys m of Inl err \<Rightarrow> Inl err | Inr sm \<Rightarrow> Inr ((k, s) # sm)))"

definition NestedStringMap :: "Unstructured \<Rightarrow> string list \<Rightarrow> error + strmap option" where
  "NestedStringMap obj keys =
     (case nestedMapNoCopy obj keys of
        Inl err \<Rightarrow> Inl err
      | Inr None \<Rightarrow> Inr None
      | Inr (Some m) \<Rightarrow>
          (case stringEntries keys m of Inl err \<Rightarrow> Inl err | Inr sm \<Rightarrow> Inr (Some sm)))"

text \<open>
  The variadic fields of a setter are its first field and the others: with no field the Go code
  panics, and no caller passes none.
\<close>

fun setNestedFieldNoCopy ::
  "string list \<Rightarrow> (string, json) gomap \<Rightarrow> json \<Rightarrow> string \<Rightarrow> string list \<Rightarrow> error + (string, json) gomap"
where
  "setNestedFieldNoCopy path m v f [] = Inr (AList.update f v m)"
| "setNestedFieldNoCopy path m v f (g # gs) =
     (case map_of m f of
        None \<Rightarrow>
          (case setNestedFieldNoCopy (path @ [f]) [] v g gs of
             Inl err \<Rightarrow> Inl err | Inr n \<Rightarrow> Inr (AList.update f (JObj n) m))
      | Some (JObj n) \<Rightarrow>
          (case setNestedFieldNoCopy (path @ [f]) n v g gs of
             Inl err \<Rightarrow> Inl err | Inr n' \<Rightarrow> Inr (AList.update f (JObj n') m))
      | Some _ \<Rightarrow>
          Inl (Errorf (''value cannot be set because '' @ jsonPath (path @ [f]) @
            '' is not a map[string]interface{}'')))"

definition SetNestedField :: "Unstructured \<Rightarrow> json \<Rightarrow> string \<Rightarrow> string list \<Rightarrow> error + Unstructured" where
  "SetNestedField obj v f fs = setNestedFieldNoCopy [] obj v f fs"

fun RemoveNestedField :: "(string, json) gomap \<Rightarrow> string \<Rightarrow> string list \<Rightarrow> (string, json) gomap" where
  "RemoveNestedField m f [] = AList.delete f m"
| "RemoveNestedField m f (g # gs) =
     (case map_of m f of
        Some (JObj n) \<Rightarrow> AList.update f (JObj (RemoveNestedField n g gs)) m
      | _ \<Rightarrow> m)"

definition getNestedString :: "Unstructured \<Rightarrow> string list \<Rightarrow> string" where
  "getNestedString obj keys =
     (case NestedString obj keys of Inr (Some s) \<Rightarrow> s | _ \<Rightarrow> [])"

section \<open>Accessors\<close>

text \<open>\<^verbatim>\<open>u.setNestedField\<close>: the error is dropped.\<close>

definition setField :: "Unstructured \<Rightarrow> json \<Rightarrow> string \<Rightarrow> string list \<Rightarrow> Unstructured" where
  "setField u v f fs = (case SetNestedField u v f fs of Inl err \<Rightarrow> u | Inr u' \<Rightarrow> u')"

abbreviation setMeta :: "Unstructured \<Rightarrow> string \<Rightarrow> json \<Rightarrow> Unstructured" where
  "setMeta u k v \<equiv> setField u v ''metadata'' [k]"

abbreviation removeMeta :: "Unstructured \<Rightarrow> string \<Rightarrow> Unstructured" where
  "removeMeta u k \<equiv> RemoveNestedField u ''metadata'' [k]"

definition setMetaString :: "string \<Rightarrow> Unstructured \<Rightarrow> string \<Rightarrow> Unstructured" where
  "setMetaString k u s = (if s = [] then removeMeta u k else setMeta u k (JString s))"

definition GetAPIVersion :: "Unstructured \<Rightarrow> string" where
  "GetAPIVersion u = getNestedString u [''apiVersion'']"

definition SetAPIVersion :: "Unstructured \<Rightarrow> string \<Rightarrow> Unstructured" where
  "SetAPIVersion u version = setField u (JString version) ''apiVersion'' []"

definition GetKind :: "Unstructured \<Rightarrow> string" where
  "GetKind u = getNestedString u [''kind'']"

definition SetKind :: "Unstructured \<Rightarrow> string \<Rightarrow> Unstructured" where
  "SetKind u kind = setField u (JString kind) ''kind'' []"

definition GetName :: "Unstructured \<Rightarrow> string" where
  "GetName u = getNestedString u [''metadata'', ''name'']"

definition GetNamespace :: "Unstructured \<Rightarrow> string" where
  "GetNamespace u = getNestedString u [''metadata'', ''namespace'']"

definition GetUID :: "Unstructured \<Rightarrow> string" where
  "GetUID u = getNestedString u [''metadata'', ''uid'']"

definition SetUID :: "Unstructured \<Rightarrow> string \<Rightarrow> Unstructured" where
  "SetUID = setMetaString ''uid''"

definition GetResourceVersion :: "Unstructured \<Rightarrow> string" where
  "GetResourceVersion u = getNestedString u [''metadata'', ''resourceVersion'']"

definition SetResourceVersion :: "Unstructured \<Rightarrow> string \<Rightarrow> Unstructured" where
  "SetResourceVersion = setMetaString ''resourceVersion''"

definition GetSelfLink :: "Unstructured \<Rightarrow> string" where
  "GetSelfLink u = getNestedString u [''metadata'', ''selfLink'']"

definition SetSelfLink :: "Unstructured \<Rightarrow> string \<Rightarrow> Unstructured" where
  "SetSelfLink = setMetaString ''selfLink''"

definition GetGeneration :: "Unstructured \<Rightarrow> 64 word" where
  "GetGeneration u =
     (case NestedInt64 u [''metadata'', ''generation''] of Inr (Some i) \<Rightarrow> i | _ \<Rightarrow> 0)"

definition SetGeneration :: "Unstructured \<Rightarrow> 64 word \<Rightarrow> Unstructured" where
  "SetGeneration u g =
     (if g = 0 then removeMeta u ''generation'' else setMeta u ''generation'' (JInt g))"

definition GetCreationTimestamp :: "Unstructured \<Rightarrow> Time" where
  "GetCreationTimestamp u =
     UnmarshalQueryParameter (getNestedString u [''metadata'', ''creationTimestamp''])"

definition SetCreationTimestamp :: "Unstructured \<Rightarrow> Time \<Rightarrow> Unstructured" where
  "SetCreationTimestamp u timestamp =
     (let ts = MarshalQueryParameter timestamp in
      if ts = [] \<or> timestamp = zeroTime then removeMeta u ''creationTimestamp''
      else setMeta u ''creationTimestamp'' (JString ts))"

text \<open>The nil map is \<open>None\<close>: the field is missing, or is not a map of strings.\<close>

definition getStringMap :: "string \<Rightarrow> Unstructured \<Rightarrow> strmap option" where
  "getStringMap k u =
     (case NestedStringMap u [''metadata'', k] of Inr (Some m) \<Rightarrow> Some m | _ \<Rightarrow> None)"

definition jsonMap :: "strmap \<Rightarrow> json" where
  "jsonMap m = JObj (map (\<lambda>(k, s). (k, JString s)) m)"

definition setStringMap :: "string \<Rightarrow> Unstructured \<Rightarrow> strmap option \<Rightarrow> Unstructured" where
  "setStringMap k u m =
     (case m of None \<Rightarrow> removeMeta u k | Some sm \<Rightarrow> setMeta u k (jsonMap sm))"

definition GetLabels :: "Unstructured \<Rightarrow> strmap option" where
  "GetLabels = getStringMap ''labels''"

definition SetLabels :: "Unstructured \<Rightarrow> strmap option \<Rightarrow> Unstructured" where
  "SetLabels = setStringMap ''labels''"

definition GetAnnotations :: "Unstructured \<Rightarrow> strmap option" where
  "GetAnnotations = getStringMap ''annotations''"

definition SetAnnotations :: "Unstructured \<Rightarrow> strmap option \<Rightarrow> Unstructured" where
  "SetAnnotations = setStringMap ''annotations''"

section \<open>Group, version and kind\<close>

record GroupVersionKind =
  gvk_Group :: string
  gvk_Version :: string
  gvk_Kind :: string

definition ParseGroupVersion :: "string \<Rightarrow> error + string \<times> string" where
  "ParseGroupVersion gv =
     (if gv = [] \<or> gv = ''/'' then Inr ([], [])
      else if strings_Count gv (CHR ''/'') = 0 then Inr ([], gv)
      else if strings_Count gv (CHR ''/'') = 1 then
        (let i = nat (strings_IndexByte gv (CHR ''/'')) in Inr (take i gv, drop (i + 1) gv))
      else Inl (Errorf (''unexpected GroupVersion string: '' @ gv)))"

definition GroupVersion_String :: "string \<Rightarrow> string \<Rightarrow> string" where
  "GroupVersion_String grp version =
     (if 0 < length grp then grp @ ''/'' @ version else version)"

definition GroupVersionKind_String :: "GroupVersionKind \<Rightarrow> string" where
  "GroupVersionKind_String gvk =
     gvk_Group gvk @ ''/'' @ gvk_Version gvk @ '', Kind='' @ gvk_Kind gvk"

definition GetGroupVersionKind :: "Unstructured \<Rightarrow> GroupVersionKind" where
  "GetGroupVersionKind u =
     (case ParseGroupVersion (GetAPIVersion u) of
        Inl err \<Rightarrow> \<lparr>gvk_Group = [], gvk_Version = [], gvk_Kind = []\<rparr>
      | Inr (g, v) \<Rightarrow> \<lparr>gvk_Group = g, gvk_Version = v, gvk_Kind = GetKind u\<rparr>)"

definition SetGroupVersionKind :: "Unstructured \<Rightarrow> GroupVersionKind \<Rightarrow> Unstructured" where
  "SetGroupVersionKind u gvk =
     SetKind (SetAPIVersion u (GroupVersion_String (gvk_Group gvk) (gvk_Version gvk))) (gvk_Kind gvk)"

section \<open>Semantic equality\<close>

fun DeepEqual :: "json \<Rightarrow> json \<Rightarrow> bool" where
  "DeepEqual JNull w = (w = JNull)"
| "DeepEqual (JBool a) w = (w = JBool a)"
| "DeepEqual (JInt a) w = (w = JInt a)"
| "DeepEqual (JFloat a) w = (case w of JFloat b \<Rightarrow> float64_eq a b | _ \<Rightarrow> False)"
| "DeepEqual (JString a) w = (w = JString a)"
| "DeepEqual (JArr vs) w =
     (case w of JArr ws \<Rightarrow> list_all2 (\<lambda>v w. DeepEqual v w) vs ws | _ \<Rightarrow> False)"
| "DeepEqual (JObj m) w =
     (case w of
        JObj n \<Rightarrow> length m = length n \<and>
          list_all (\<lambda>kv. case map_of n (fst kv) of None \<Rightarrow> False | Some w \<Rightarrow> DeepEqual (snd kv) w) m
      | _ \<Rightarrow> False)"

section \<open>Lemmas\<close>

text \<open>An entry of the metadata, and objects whose metadata is a map.\<close>

definition metaGet :: "Unstructured \<Rightarrow> string \<Rightarrow> json option" where
  "metaGet u k = (case map_of u ''metadata'' of Some (JObj m) \<Rightarrow> map_of m k | _ \<Rightarrow> None)"

definition hasMeta :: "Unstructured \<Rightarrow> bool" where
  "hasMeta u = (case map_of u ''metadata'' of Some (JObj m) \<Rightarrow> True | _ \<Rightarrow> False)"

lemma hasMetaE:
  assumes "hasMeta u"
  obtains m where "map_of u ''metadata'' = Some (JObj m)"
  using assms by (auto simp: hasMeta_def split: option.splits json.splits)

lemma metaGet_setMeta [simp]:
  "hasMeta u \<Longrightarrow> metaGet (setMeta u k v) j = (if j = k then Some v else metaGet u j)"
  by (erule hasMetaE) (simp add: metaGet_def setField_def SetNestedField_def)

lemma metaGet_removeMeta [simp]:
  "hasMeta u \<Longrightarrow> metaGet (removeMeta u k) j = (if j = k then None else metaGet u j)"
  by (erule hasMetaE) (simp add: metaGet_def)

lemma hasMeta_setMeta [simp]: "hasMeta u \<Longrightarrow> hasMeta (setMeta u k v)"
  by (erule hasMetaE) (simp add: hasMeta_def setField_def SetNestedField_def)

lemma hasMeta_removeMeta [simp]: "hasMeta u \<Longrightarrow> hasMeta (removeMeta u k)"
  by (erule hasMetaE) (simp add: hasMeta_def)

lemma map_of_setMeta [simp]: "f \<noteq> ''metadata'' \<Longrightarrow> map_of (setMeta u k v) f = map_of u f"
  by (simp add: setField_def SetNestedField_def split: option.splits json.splits)

lemma map_of_removeMeta [simp]: "f \<noteq> ''metadata'' \<Longrightarrow> map_of (removeMeta u k) f = map_of u f"
  by (simp split: option.splits json.splits)

declare RemoveNestedField.simps [simp del]

text \<open>A setter that writes one entry: what every \<^verbatim>\<open>SetX\<close> of the metadata does.\<close>

definition putMeta :: "string \<Rightarrow> json option \<Rightarrow> Unstructured \<Rightarrow> Unstructured" where
  "putMeta k v u = (case v of None \<Rightarrow> removeMeta u k | Some w \<Rightarrow> setMeta u k w)"

lemma metaGet_putMeta [simp]:
  "hasMeta u \<Longrightarrow> metaGet (putMeta k v u) j = (if j = k then v else metaGet u j)"
  by (simp add: putMeta_def split: option.split)

lemma hasMeta_putMeta [simp]: "hasMeta u \<Longrightarrow> hasMeta (putMeta k v u)"
  by (simp add: putMeta_def split: option.split)

lemma map_of_putMeta [simp]: "f \<noteq> ''metadata'' \<Longrightarrow> map_of (putMeta k v u) f = map_of u f"
  by (simp add: putMeta_def split: option.split)

definition optString :: "string \<Rightarrow> json option" where
  "optString s = (if s = [] then None else Some (JString s))"

lemma setters_put:
  "SetUID u s = putMeta ''uid'' (optString s) u"
  "SetResourceVersion u s = putMeta ''resourceVersion'' (optString s) u"
  "SetSelfLink u s = putMeta ''selfLink'' (optString s) u"
  "SetGeneration u g = putMeta ''generation'' (if g = 0 then None else Some (JInt g)) u"
  "SetCreationTimestamp u t = putMeta ''creationTimestamp'' (optString (MarshalQueryParameter t)) u"
  "SetLabels u ls = putMeta ''labels'' (map_option jsonMap ls) u"
  "SetAnnotations u ls = putMeta ''annotations'' (map_option jsonMap ls) u"
  by (auto simp: SetUID_def SetResourceVersion_def SetSelfLink_def SetGeneration_def
      SetCreationTimestamp_def SetLabels_def SetAnnotations_def setMetaString_def setStringMap_def
      putMeta_def optString_def MarshalQueryParameter_def Let_def split: option.split)

text \<open>The getters read one entry.\<close>

lemma getNestedString_meta:
  "getNestedString u [''metadata'', k] = (case metaGet u k of Some (JString s) \<Rightarrow> s | _ \<Rightarrow> [])"
  by (auto simp: getNestedString_def NestedString_def nestedAs_def NestedFieldNoCopy_def metaGet_def
      split: option.splits json.splits)

lemma getNestedString_top:
  "getNestedString u [k] = (case map_of u k of Some (JString s) \<Rightarrow> s | _ \<Rightarrow> [])"
  by (auto simp: getNestedString_def NestedString_def nestedAs_def NestedFieldNoCopy_def
      split: option.splits json.splits)

fun entriesOf :: "json option \<Rightarrow> strmap option" where
  "entriesOf (Some (JObj m)) = (case stringEntries [] m of Inr sm \<Rightarrow> Some sm | Inl err \<Rightarrow> None)"
| "entriesOf _ = None"

lemma stringEntries_keys:
  "(case stringEntries ks m of Inr sm \<Rightarrow> Some sm | Inl err \<Rightarrow> None) =
   (case stringEntries js m of Inr sm \<Rightarrow> Some sm | Inl err \<Rightarrow> None)"
  by (induction ks m rule: stringEntries.induct) (auto split: option.splits sum.splits)

lemma getStringMap_meta: "getStringMap k u = entriesOf (metaGet u k)"
proof -
  have "(case (case stringEntries ks m of Inl e \<Rightarrow> Inl e | Inr sm \<Rightarrow> Inr (Some sm)) of
      Inl e \<Rightarrow> None | Inr None \<Rightarrow> None | Inr (Some m) \<Rightarrow> Some m) =
    (case stringEntries [] m of Inr sm \<Rightarrow> Some sm | Inl err \<Rightarrow> None)" for ks m
    using stringEntries_keys [of ks m "[]"] by (auto split: sum.splits)
  moreover have "asMap x = None \<Longrightarrow> entriesOf (Some x) = None"
    "asMap x = Some m \<Longrightarrow> entriesOf (Some x) = (case stringEntries [] m of Inr sm \<Rightarrow> Some sm | Inl err \<Rightarrow> None)"
    for x m by (cases x; simp)+
  ultimately show ?thesis
    by (simp add: getStringMap_def NestedStringMap_def nestedMapNoCopy_def nestedAs_def
        NestedFieldNoCopy_def metaGet_def split: option.split json.split)
qed

lemma stringEntries_jsonMap [simp]: "stringEntries ks (map (\<lambda>(k, s). (k, JString s)) m) = Inr m"
  by (induction m) auto

lemma entriesOf_jsonMap [simp]: "entriesOf (Some (jsonMap m)) = Some m"
  by (simp add: jsonMap_def)

lemma stringEntries_keys_eq: "stringEntries ks m = Inr sm \<Longrightarrow> map fst sm = map fst m"
  by (induction ks m arbitrary: sm rule: stringEntries.induct) (auto split: option.splits sum.splits)

definition genOf :: "json option \<Rightarrow> 64 word" where
  "genOf v = (case v of Some (JInt i) \<Rightarrow> i | _ \<Rightarrow> 0)"

definition stringOf :: "json option \<Rightarrow> string" where
  "stringOf v = (case v of Some (JString s) \<Rightarrow> s | _ \<Rightarrow> [])"

lemma getters_meta:
  "GetUID u = stringOf (metaGet u ''uid'')"
  "GetResourceVersion u = stringOf (metaGet u ''resourceVersion'')"
  "GetSelfLink u = stringOf (metaGet u ''selfLink'')"
  "GetName u = stringOf (metaGet u ''name'')"
  "GetNamespace u = stringOf (metaGet u ''namespace'')"
  "GetCreationTimestamp u = UnmarshalQueryParameter (stringOf (metaGet u ''creationTimestamp''))"
  "GetGeneration u = genOf (metaGet u ''generation'')"
  "GetLabels u = entriesOf (metaGet u ''labels'')"
  "GetAnnotations u = entriesOf (metaGet u ''annotations'')"
  by (auto simp: GetUID_def GetResourceVersion_def GetSelfLink_def GetName_def GetNamespace_def
      GetCreationTimestamp_def GetLabels_def GetAnnotations_def getNestedString_meta getStringMap_meta
      stringOf_def genOf_def GetGeneration_def NestedInt64_def nestedAs_def NestedFieldNoCopy_def
      metaGet_def split: option.splits json.splits)

lemma stringOf_optString [simp]: "stringOf (optString s) = s"
  by (simp add: stringOf_def optString_def)

lemma GetName_hasMeta: "GetName u \<noteq> [] \<Longrightarrow> hasMeta u"
  by (auto simp: getters_meta stringOf_def metaGet_def hasMeta_def split: option.splits json.splits)

text \<open>The kind of an object depends on its top-level fields only.\<close>

lemma GetGroupVersionKind_cong:
  assumes "map_of u ''apiVersion'' = map_of w ''apiVersion''" "map_of u ''kind'' = map_of w ''kind''"
  shows "GetGroupVersionKind u = GetGroupVersionKind w"
proof -
  have "GetAPIVersion u = GetAPIVersion w" "GetKind u = GetKind w"
    using assms by (simp_all add: GetAPIVersion_def GetKind_def getNestedString_top)
  then show ?thesis by (simp add: GetGroupVersionKind_def split: sum.split)
qed

lemma GetGroupVersionKind_putMeta [simp]:
  "GetGroupVersionKind (putMeta k v u) = GetGroupVersionKind u"
  by (rule GetGroupVersionKind_cong) simp_all

lemma metadata_cong:
  assumes "map_of u ''metadata'' = map_of w ''metadata''"
  shows "metaGet u k = metaGet w k" "hasMeta u = hasMeta w"
  using assms by (simp_all add: metaGet_def hasMeta_def)

lemma entriesOf_wf:
  assumes "json_wf (JObj u)" "entriesOf (metaGet u k) = Some sm"
  shows "gomap_wf sm"
proof -
  from assms(2) obtain m where m: "metaGet u k = Some (JObj m)" "stringEntries [] m = Inr sm"
    by (cases "metaGet u k"; cases "the (metaGet u k)") (auto split: sum.splits)
  then obtain n where n: "map_of u ''metadata'' = Some (JObj n)" "map_of n k = Some (JObj m)"
    by (auto simp: metaGet_def split: option.splits json.splits)
  from n(1) assms(1) have "json_wf (JObj n)" by (force dest: map_of_SomeD)
  with n(2) have "json_wf (JObj m)" by (force dest: map_of_SomeD)
  with stringEntries_keys_eq [OF m(2)] show ?thesis by (simp add: gomap_wf_def)
qed

section \<open>Semantic equality is equality of maps\<close>

lemma DeepEqual_refl: "json_wf j \<Longrightarrow> DeepEqual j j"
proof (induction j)
  case (JArr vs)
  then show ?case by (simp add: list_all2_same)
next
  case (JObj m)
  have "case map_of m (fst kv) of None \<Rightarrow> False | Some w \<Rightarrow> DeepEqual (snd kv) w" if "kv \<in> set m" for kv
  proof -
    have "map_of m (fst kv) = Some (snd kv)" using JObj.prems that by simp
    moreover have "DeepEqual (snd kv) (snd kv)"
      using JObj.IH [OF that, of "snd kv"] JObj.prems that by (cases kv) auto
    ultimately show ?thesis by simp
  qed
  then show ?case by (simp add: list_all_iff)
qed (auto simp: float64_eq_def)

lemma DeepEqual_lookup:
  assumes eq: "DeepEqual (JObj m) (JObj n)" and wf: "json_wf (JObj m)" "json_wf (JObj n)"
  shows "rel_option DeepEqual (map_of m k) (map_of n k)"
proof (cases "map_of m k")
  case None
  have sub: "fst ` set m \<subseteq> fst ` set n"
  proof
    fix x assume "x \<in> fst ` set m"
    then obtain v where "(x, v) \<in> set m" by auto
    with eq have "map_of n x \<noteq> None" by (fastforce simp: list_all_iff split: option.splits)
    then show "x \<in> fst ` set n" by (simp add: map_of_eq_None_iff)
  qed
  have "card (fst ` set m) = card (fst ` set n)"
    using wf eq by (simp add: distinct_card [of "map fst _", simplified])
  with sub have "fst ` set m = fst ` set n" by (simp add: card_subset_eq)
  with None have "map_of n k = None" by (simp add: map_of_eq_None_iff)
  with None show ?thesis by simp
next
  case (Some v)
  then have "(k, v) \<in> set m" by (simp add: map_of_SomeD)
  with eq have "case map_of n (fst (k, v)) of None \<Rightarrow> False | Some w \<Rightarrow> DeepEqual (snd (k, v)) w"
    unfolding DeepEqual.simps json.case list_all_iff by blast
  with Some show ?thesis by (simp split: option.splits)
qed

declare DeepEqual.simps [simp del]

section \<open>Well-formedness\<close>

lemma json_wf_update:
  assumes "json_wf (JObj m)" "json_wf v"
  shows "json_wf (JObj (AList.update k v m))"
proof -
  have "set (AList.update k v m) \<subseteq> insert (k, v) (set m)" by (induction m) auto
  with assms show ?thesis by (auto simp: distinct_update)
qed

lemma json_wf_delete: "json_wf (JObj m) \<Longrightarrow> json_wf (JObj (AList.delete k m))"
  using distinct_delete [of m k] by (auto simp: AList.delete_eq)

lemma json_wf_lookup: "json_wf (JObj m) \<Longrightarrow> map_of m k = Some v \<Longrightarrow> json_wf v"
  by (force dest: map_of_SomeD)

lemma json_wf_jsonMap: "gomap_wf m \<Longrightarrow> json_wf (jsonMap m)"
  by (auto simp: jsonMap_def gomap_wf_def comp_def split_def)

lemma json_wf_SetNestedField:
  assumes "SetNestedField u v f [g] = Inr w" "json_wf (JObj u)" "json_wf v"
  shows "json_wf (JObj w)"
proof -
  have "json_wf (JObj [(g, v)])" using assms(3) by simp
  then show ?thesis
    using assms json_wf_update [of _ v g] json_wf_lookup [of u f] json_wf_update [of u _ f]
    by (auto simp: SetNestedField_def simp del: json_wf.simps split: option.splits json.splits)
qed

lemma json_wf_putMeta:
  assumes "json_wf (JObj u)" "pred_option json_wf v"
  shows "json_wf (JObj (putMeta k v u))"
proof (cases v)
  case None
  then show ?thesis
    using assms json_wf_lookup [of u "''metadata''"] json_wf_update [of u _ "''metadata''"] json_wf_delete
    by (auto simp: putMeta_def RemoveNestedField.simps simp del: json_wf.simps
        split: option.splits json.splits)
next
  case (Some w)
  then show ?thesis
    using assms json_wf_SetNestedField [of u w "''metadata''" k]
    by (auto simp: putMeta_def setField_def simp del: json_wf.simps split: sum.splits)
qed

end
