(* ===== verification/Apply_Merge.thy ===== *)
theory Apply_Merge
  imports Unstructured
begin

text \<open>
  \<^verbatim>\<open>pkg/apply/merge.go\<close>: how the operator prepares a desired object for an update of the object that
  exists. The Go functions change \<^verbatim>\<open>updated\<close> in place and return an error; here they return the error
  and the changed object.
\<close>

section \<open>Definitions\<close>

definition nilToEmpty :: "strmap option \<Rightarrow> strmap" where
  "nilToEmpty m = (case m of None \<Rightarrow> [] | Some sm \<Rightarrow> sm)"

text \<open>\<^verbatim>\<open>for k, v := range updated { cur[k] = v }\<close>\<close>

definition overwrite :: "strmap \<Rightarrow> strmap \<Rightarrow> strmap" where
  "overwrite cur upd = fold (\<lambda>(k, v). AList.update k v) upd cur"

definition mergeAnnotations :: "Unstructured \<Rightarrow> Unstructured \<Rightarrow> Unstructured" where
  "mergeAnnotations current updated =
     (let updatedAnnotations = nilToEmpty (GetAnnotations updated);
          curAnnotations = nilToEmpty (GetAnnotations current)
      in SetAnnotations updated (Some (overwrite curAnnotations updatedAnnotations)))"

definition mergeLabels :: "Unstructured \<Rightarrow> Unstructured \<Rightarrow> Unstructured" where
  "mergeLabels current updated =
     (let updatedLabels = nilToEmpty (GetLabels updated);
          curLabels = nilToEmpty (GetLabels current)
      in SetLabels updated (Some (overwrite curLabels updatedLabels)))"

definition MergeMetadataForUpdate :: "Unstructured \<Rightarrow> Unstructured \<Rightarrow> error option \<times> Unstructured" where
  "MergeMetadataForUpdate current updated =
     (let updated = SetCreationTimestamp updated (GetCreationTimestamp current);
          updated = SetSelfLink updated (GetSelfLink current);
          updated = SetGeneration updated (GetGeneration current);
          updated = SetUID updated (GetUID current);
          updated = SetResourceVersion updated (GetResourceVersion current);
          updated = mergeAnnotations current updated;
          updated = mergeLabels current updated
      in (None, updated))"

definition deploymentRevisionAnnotation :: string where
  "deploymentRevisionAnnotation = ''deployment.kubernetes.io/revision''"

definition MergeDeploymentForUpdate :: "Unstructured \<Rightarrow> Unstructured \<Rightarrow> error option \<times> Unstructured" where
  "MergeDeploymentForUpdate current updated =
     (let gvk = GetGroupVersionKind updated in
      if gvk_Group gvk = ''apps'' \<and> gvk_Kind gvk = ''Deployment'' then
        (let curAnnotations = nilToEmpty (GetAnnotations current);
             updatedAnnotations = nilToEmpty (GetAnnotations updated);
             updatedAnnotations =
               (case map_of curAnnotations deploymentRevisionAnnotation of
                  Some anno \<Rightarrow> AList.update deploymentRevisionAnnotation anno updatedAnnotations
                | None \<Rightarrow> updatedAnnotations)
         in (None, SetAnnotations updated (Some updatedAnnotations)))
      else (None, updated))"

definition MergeServiceForUpdate :: "Unstructured \<Rightarrow> Unstructured \<Rightarrow> error option \<times> Unstructured" where
  "MergeServiceForUpdate current updated =
     (let gvk = GetGroupVersionKind updated in
      if gvk_Group gvk = [] \<and> gvk_Kind gvk = ''Service'' then
        (case NestedString current [''spec'', ''clusterIP''] of
           Inl err \<Rightarrow> (Some err, updated)
         | Inr None \<Rightarrow> (None, updated)
         | Inr (Some clusterIP) \<Rightarrow>
             (case SetNestedField updated (JString clusterIP) ''spec'' [''clusterIP''] of
                Inl err \<Rightarrow> (Some err, updated)
              | Inr updated' \<Rightarrow> (None, updated')))
      else (None, updated))"

definition MergeServiceAccountForUpdate ::
  "Unstructured \<Rightarrow> Unstructured \<Rightarrow> error option \<times> Unstructured"
where
  "MergeServiceAccountForUpdate current updated =
     (let gvk = GetGroupVersionKind updated in
      if gvk_Group gvk = [] \<and> gvk_Kind gvk = ''ServiceAccount'' then
        (case NestedSlice current [''secrets''] of
           Inl err \<Rightarrow> (Some err, updated)
         | Inr curSecrets \<Rightarrow>
             (let updated = (case curSecrets of None \<Rightarrow> updated
                  | Some s \<Rightarrow> setField updated (JArr s) ''secrets'' []) in
              case NestedSlice current [''imagePullSecrets''] of
                Inl err \<Rightarrow> (Some err, updated)
              | Inr curImagePullSecrets \<Rightarrow>
                  (None, case curImagePullSecrets of None \<Rightarrow> updated
                     | Some s \<Rightarrow> setField updated (JArr s) ''imagePullSecrets'' [])))
      else (None, updated))"

definition MergeObjectForUpdate :: "Unstructured \<Rightarrow> Unstructured \<Rightarrow> error option \<times> Unstructured" where
  "MergeObjectForUpdate current updated =
     (case MergeDeploymentForUpdate current updated of
        (Some err, updated) \<Rightarrow> (Some err, updated)
      | (None, updated) \<Rightarrow>
     (case MergeServiceForUpdate current updated of
        (Some err, updated) \<Rightarrow> (Some err, updated)
      | (None, updated) \<Rightarrow>
     (case MergeServiceAccountForUpdate current updated of
        (Some err, updated) \<Rightarrow> (Some err, updated)
      | (None, updated) \<Rightarrow> (None, snd (MergeMetadataForUpdate current updated)))))"

definition IsObjectSupported :: "Unstructured \<Rightarrow> error option" where
  "IsObjectSupported obj =
     (let gvk = GetGroupVersionKind obj in
      if gvk_Group gvk = [] \<and> gvk_Kind gvk = ''ServiceAccount'' then
        (case NestedSlice obj [''secrets''] of
           Inl err \<Rightarrow> Some err
         | Inr (Some secrets) \<Rightarrow>
             if 0 < length secrets then Some (Errorf ''cannot create ServiceAccount with secrets'')
             else None
         | Inr None \<Rightarrow> None)
      else None)"

section \<open>The metadata after a merge\<close>

lemma map_of_overwrite:
  "gomap_wf upd \<Longrightarrow> map_of (overwrite cur upd) = map_of cur ++ map_of upd"
proof (induction upd arbitrary: cur)
  case (Cons kv upd)
  obtain k v where kv: "kv = (k, v)" by force
  with Cons.prems have "map_of upd k = None" by (simp add: gomap_wf_def map_of_eq_None_iff)
  moreover have "overwrite cur (kv # upd) = overwrite (AList.update k v cur) upd"
    by (simp add: overwrite_def kv)
  ultimately show ?case
    using Cons kv by (auto simp: gomap_wf_def map_add_def fun_eq_iff split: option.split)
qed (simp add: overwrite_def)

lemma overwrite_absorb:
  assumes "gomap_wf upd" "\<forall>(k, v) \<in> set upd. map_of cur k = Some v"
  shows "overwrite cur upd = cur"
  using assms
proof (induction upd)
  case (Cons kv upd)
  obtain k v where kv: "kv = (k, v)" by force
  with Cons show ?case by (auto simp: overwrite_def gomap_wf_def update_absorb)
qed (simp add: overwrite_def)

lemma overwrite_twice: "gomap_wf upd \<Longrightarrow> overwrite (overwrite cur upd) upd = overwrite cur upd"
  by (rule overwrite_absorb) (auto simp: map_of_overwrite gomap_wf_def)

text \<open>The entries the merge writes, in the order of the calls.\<close>

definition mergedMeta :: "Unstructured \<Rightarrow> Unstructured \<Rightarrow> (string \<times> json option) list" where
  "mergedMeta current updated =
     [(''creationTimestamp'', optString (MarshalQueryParameter (GetCreationTimestamp current))),
      (''selfLink'', optString (GetSelfLink current)),
      (''generation'', if GetGeneration current = 0 then None else Some (JInt (GetGeneration current))),
      (''uid'', optString (GetUID current)),
      (''resourceVersion'', optString (GetResourceVersion current)),
      (''annotations'', Some (jsonMap (overwrite (nilToEmpty (GetAnnotations current))
         (nilToEmpty (GetAnnotations updated))))),
      (''labels'', Some (jsonMap (overwrite (nilToEmpty (GetLabels current))
         (nilToEmpty (GetLabels updated)))))]"

abbreviation putAll :: "(string \<times> json option) list \<Rightarrow> Unstructured \<Rightarrow> Unstructured" where
  "putAll es u \<equiv> fold (\<lambda>(k, v). putMeta k v) es u"

lemma MergeMetadata_puts:
  assumes "hasMeta updated"
  shows "MergeMetadataForUpdate current updated = (None, putAll (mergedMeta current updated) updated)"
  using assms
  by (simp add: MergeMetadataForUpdate_def mergedMeta_def mergeAnnotations_def mergeLabels_def
      setters_put getters_meta Let_def)

lemma hasMeta_putAll [simp]: "hasMeta u \<Longrightarrow> hasMeta (putAll es u)"
  by (induction es arbitrary: u) auto

lemma GetGroupVersionKind_putAll [simp]: "GetGroupVersionKind (putAll es u) = GetGroupVersionKind u"
  by (induction es arbitrary: u) auto

lemma map_of_putAll [simp]: "f \<noteq> ''metadata'' \<Longrightarrow> map_of (putAll es u) f = map_of u f"
  by (induction es arbitrary: u) auto

lemma metaGet_putAll:
  "hasMeta u \<Longrightarrow> distinct (map fst es) \<Longrightarrow>
   metaGet (putAll es u) k = (case map_of es k of None \<Rightarrow> metaGet u k | Some v \<Rightarrow> v)"
proof (induction es arbitrary: u)
  case (Cons e es)
  obtain j v where e: "e = (j, v)" by force
  with Cons.prems have "map_of es j = None" by (simp add: map_of_eq_None_iff)
  with Cons e show ?case by (cases "k = j") (simp_all split: option.split)
qed simp

lemma distinct_mergedMeta [simp]: "distinct (map fst (mergedMeta c u))"
  by (simp add: mergedMeta_def)

section \<open>The kinds with merge logic of their own\<close>

definition isDeployment :: "Unstructured \<Rightarrow> bool" where
  "isDeployment u \<longleftrightarrow> gvk_Group (GetGroupVersionKind u) = ''apps'' \<and>
     gvk_Kind (GetGroupVersionKind u) = ''Deployment''"

definition isService :: "Unstructured \<Rightarrow> bool" where
  "isService u \<longleftrightarrow> gvk_Group (GetGroupVersionKind u) = [] \<and>
     gvk_Kind (GetGroupVersionKind u) = ''Service''"

definition isServiceAccount :: "Unstructured \<Rightarrow> bool" where
  "isServiceAccount u \<longleftrightarrow> gvk_Group (GetGroupVersionKind u) = [] \<and>
     gvk_Kind (GetGroupVersionKind u) = ''ServiceAccount''"

definition annotationsOf :: "Unstructured \<Rightarrow> strmap" where
  "annotationsOf u = nilToEmpty (GetAnnotations u)"

definition labelsOf :: "Unstructured \<Rightarrow> strmap" where
  "labelsOf u = nilToEmpty (GetLabels u)"

text \<open>The annotations of a Deployment with the revision of the current object.\<close>

definition withRevision :: "strmap \<Rightarrow> strmap \<Rightarrow> strmap" where
  "withRevision cur upd =
     (case map_of cur deploymentRevisionAnnotation of
        Some anno \<Rightarrow> AList.update deploymentRevisionAnnotation anno upd | None \<Rightarrow> upd)"

lemma MergeDeployment_put:
  "MergeDeploymentForUpdate c u = (None, if isDeployment u
     then putMeta ''annotations'' (Some (jsonMap (withRevision (annotationsOf c) (annotationsOf u)))) u
     else u)"
  by (simp add: MergeDeploymentForUpdate_def isDeployment_def withRevision_def annotationsOf_def
      setters_put Let_def)

text \<open>What the desired object brings to the metadata merge.\<close>

definition desiredAnnotations :: "Unstructured \<Rightarrow> Unstructured \<Rightarrow> strmap" where
  "desiredAnnotations c u =
     (if isDeployment u then withRevision (annotationsOf c) (annotationsOf u) else annotationsOf u)"

lemma MergeService_frame:
  assumes "MergeServiceForUpdate c u = (e, u')"
  shows "f \<noteq> ''spec'' \<Longrightarrow> map_of u' f = map_of u f"
  using assms
  by (auto simp: MergeServiceForUpdate_def SetNestedField_def Let_def
      split: if_splits option.splits sum.splits json.splits)

lemma MergeServiceAccount_frame:
  assumes "MergeServiceAccountForUpdate c u = (e, u')"
  shows "f \<noteq> ''secrets'' \<Longrightarrow> f \<noteq> ''imagePullSecrets'' \<Longrightarrow> map_of u' f = map_of u f"
  using assms
  by (auto simp: MergeServiceAccountForUpdate_def setField_def SetNestedField_def Let_def
      split: if_splits option.splits sum.splits)

lemma kinds_cong:
  assumes "GetGroupVersionKind u = GetGroupVersionKind w"
  shows "isDeployment u = isDeployment w" "isService u = isService w"
    "isServiceAccount u = isServiceAccount w"
  using assms by (simp_all add: isDeployment_def isService_def isServiceAccount_def)

lemma MergeService_other: "\<not> isService u \<Longrightarrow> MergeServiceForUpdate c u = (None, u)"
  by (auto simp: MergeServiceForUpdate_def isService_def Let_def)

lemma MergeServiceAccount_other:
  "\<not> isServiceAccount u \<Longrightarrow> MergeServiceAccountForUpdate c u = (None, u)"
  by (auto simp: MergeServiceAccountForUpdate_def isServiceAccount_def Let_def)

text \<open>The stages of a merge that succeeds.\<close>

lemma MergeObject_stages:
  assumes "MergeObjectForUpdate c u = (None, m)" and meta: "hasMeta u"
  obtains d s a where
    "d = snd (MergeDeploymentForUpdate c u)"
    "MergeServiceForUpdate c d = (None, s)" "MergeServiceAccountForUpdate c s = (None, a)"
    "m = putAll (mergedMeta c a) a"
    "\<And>k. metaGet a k = metaGet d k" "hasMeta a" "hasMeta d"
    "GetGroupVersionKind s = GetGroupVersionKind u" "GetGroupVersionKind d = GetGroupVersionKind u"
proof -
  define d where "d = snd (MergeDeploymentForUpdate c u)"
  have D: "MergeDeploymentForUpdate c u = (None, d)" by (simp add: d_def MergeDeployment_put)
  from assms(1) D obtain s a where S: "MergeServiceForUpdate c d = (None, s)"
    and A: "MergeServiceAccountForUpdate c s = (None, a)"
    and m: "m = snd (MergeMetadataForUpdate c a)"
    by (auto simp: MergeObjectForUpdate_def split: prod.splits option.splits)
  have d: "hasMeta d" "GetGroupVersionKind d = GetGroupVersionKind u"
    using meta by (simp_all add: d_def MergeDeployment_put)
  have "map_of a ''metadata'' = map_of d ''metadata''"
    using MergeService_frame [OF S] MergeServiceAccount_frame [OF A] by simp
  note a = metadata_cong [OF this]
  have "GetGroupVersionKind s = GetGroupVersionKind u"
    using MergeService_frame [OF S] d(2) GetGroupVersionKind_cong [of s d] by simp
  with D S A m d a that show ?thesis by (simp add: MergeMetadata_puts d_def)
qed

lemma annotations_stage:
  assumes "hasMeta u"
  shows "annotationsOf (snd (MergeDeploymentForUpdate c u)) = desiredAnnotations c u"
    "k \<noteq> ''annotations'' \<Longrightarrow> metaGet (snd (MergeDeploymentForUpdate c u)) k = metaGet u k"
  using assms
  by (simp_all add: MergeDeployment_put desiredAnnotations_def annotationsOf_def getters_meta
      nilToEmpty_def)

text \<open>The accessors of the merged object.\<close>

lemma merged_accessors:
  assumes "MergeObjectForUpdate c u = (None, m)" and "hasMeta u"
  shows "GetUID m = GetUID c" "GetResourceVersion m = GetResourceVersion c"
    "GetSelfLink m = GetSelfLink c" "GetGeneration m = GetGeneration c"
    "GetCreationTimestamp m =
       UnmarshalQueryParameter (MarshalQueryParameter (GetCreationTimestamp c))"
    "GetName m = GetName u" "GetNamespace m = GetNamespace u"
    "GetLabels m = Some (overwrite (labelsOf c) (labelsOf u))"
    "GetAnnotations m = Some (overwrite (annotationsOf c) (desiredAnnotations c u))"
proof -
  from MergeObject_stages [OF assms] obtain d s a where st:
    "d = snd (MergeDeploymentForUpdate c u)"
    "m = putAll (mergedMeta c a) a"
    "\<And>k. metaGet a k = metaGet d k" "hasMeta a" "hasMeta d" by metis
  have get: "metaGet m k = (case map_of (mergedMeta c a) k of None \<Rightarrow> metaGet a k | Some v \<Rightarrow> v)" for k
    unfolding st(2) by (rule metaGet_putAll [OF st(4) distinct_mergedMeta])
  show "GetUID m = GetUID c" "GetResourceVersion m = GetResourceVersion c"
    "GetSelfLink m = GetSelfLink c" "GetGeneration m = GetGeneration c"
    "GetCreationTimestamp m =
       UnmarshalQueryParameter (MarshalQueryParameter (GetCreationTimestamp c))"
    by (simp_all add: getters_meta get mergedMeta_def genOf_def)
  have other: "metaGet a k = metaGet u k" if "k \<noteq> ''annotations''" for k
    using annotations_stage(2) [OF assms(2) that] by (simp add: st(1,3))
  then show "GetName m = GetName u" "GetNamespace m = GetNamespace u"
    "GetLabels m = Some (overwrite (labelsOf c) (labelsOf u))"
    by (simp_all add: getters_meta get mergedMeta_def labelsOf_def)
  have "annotationsOf a = desiredAnnotations c u"
    using annotations_stage(1) [OF assms(2)] by (simp add: annotationsOf_def getters_meta st(1,3))
  then show "GetAnnotations m = Some (overwrite (annotationsOf c) (desiredAnnotations c u))"
    by (simp add: getters_meta(9) [of m] get mergedMeta_def annotationsOf_def)
qed

section \<open>The other fields after a merge\<close>

lemma MergeService_ok:
  assumes "isService u"
  shows "MergeServiceForUpdate c u = (None, s) \<longleftrightarrow>
    (case NestedString c [''spec'', ''clusterIP''] of
       Inl err \<Rightarrow> False
     | Inr None \<Rightarrow> s = u
     | Inr (Some ip) \<Rightarrow> SetNestedField u (JString ip) ''spec'' [''clusterIP''] = Inr s)"
  using assms
  by (auto simp: MergeServiceForUpdate_def isService_def Let_def split: sum.splits option.splits)

definition putSlice :: "string \<Rightarrow> json list option \<Rightarrow> Unstructured \<Rightarrow> Unstructured" where
  "putSlice f v u = (case v of None \<Rightarrow> u | Some s \<Rightarrow> AList.update f (JArr s) u)"

lemma MergeServiceAccount_ok:
  assumes "isServiceAccount u"
  shows "MergeServiceAccountForUpdate c u = (None, s) \<longleftrightarrow>
    (\<exists>sec ips. NestedSlice c [''secrets''] = Inr sec \<and> NestedSlice c [''imagePullSecrets''] = Inr ips \<and>
       s = putSlice ''imagePullSecrets'' ips (putSlice ''secrets'' sec u))"
  using assms
  by (auto simp: MergeServiceAccountForUpdate_def isServiceAccount_def Let_def putSlice_def
      setField_def SetNestedField_def split: sum.splits option.splits)

lemma merged_top:
  assumes "MergeObjectForUpdate c u = (None, m)" and "hasMeta u"
  shows "GetGroupVersionKind m = GetGroupVersionKind u"
    "f \<notin> {''metadata'', ''spec'', ''secrets'', ''imagePullSecrets''} \<Longrightarrow> map_of m f = map_of u f"
    "\<not> isService u \<Longrightarrow> map_of m ''spec'' = map_of u ''spec''"
    "\<not> isServiceAccount u \<Longrightarrow> f \<in> {''secrets'', ''imagePullSecrets''} \<Longrightarrow> map_of m f = map_of u f"
    "k \<notin> {''creationTimestamp'', ''selfLink'', ''generation'', ''uid'', ''resourceVersion'',
       ''annotations'', ''labels''} \<Longrightarrow> metaGet m k = metaGet u k"
    "isService u \<Longrightarrow> \<exists>w s. MergeServiceForUpdate c w = (None, s) \<and> isService w \<and>
       map_of w ''spec'' = map_of u ''spec'' \<and> map_of m ''spec'' = map_of s ''spec''"
    "isServiceAccount u \<Longrightarrow> \<exists>w s. MergeServiceAccountForUpdate c w = (None, s) \<and> isServiceAccount w \<and>
       (\<forall>f \<in> {''secrets'', ''imagePullSecrets''}. map_of w f = map_of u f \<and> map_of m f = map_of s f)"
proof -
  from MergeObject_stages [OF assms] obtain d s a where st:
    "d = snd (MergeDeploymentForUpdate c u)"
    "MergeServiceForUpdate c d = (None, s)" "MergeServiceAccountForUpdate c s = (None, a)"
    "m = putAll (mergedMeta c a) a" "\<And>k. metaGet a k = metaGet d k" "hasMeta a" "hasMeta d"
    "GetGroupVersionKind s = GetGroupVersionKind u" "GetGroupVersionKind d = GetGroupVersionKind u"
    by blast
  have m: "map_of m f = map_of a f" if "f \<noteq> ''metadata''" for f using that by (simp add: st(4))
  have d: "map_of d f = map_of u f" if "f \<noteq> ''metadata''" for f
    using that by (simp add: st(1) MergeDeployment_put)
  note S = MergeService_frame [OF st(2)] and A = MergeServiceAccount_frame [OF st(3)]
  show rest: "map_of m f = map_of u f"
    if "f \<notin> {''metadata'', ''spec'', ''secrets'', ''imagePullSecrets''}" for f
    using that m [of f] d [of f] S [of f] A [of f] by simp
  show "GetGroupVersionKind m = GetGroupVersionKind u"
    by (intro GetGroupVersionKind_cong rest) simp_all
  show "map_of m ''spec'' = map_of u ''spec''" if "\<not> isService u"
    using m [of "''spec''"] d [of "''spec''"] A [of "''spec''"] st(2) that kinds_cong(2) [OF st(9)]
    by (simp add: MergeService_other)
  show "map_of m f = map_of u f" if "\<not> isServiceAccount u" "f \<in> {''secrets'', ''imagePullSecrets''}"
    using m [of f] d [of f] S [of f] st(3) that kinds_cong(3) [OF st(8)]
    by (auto simp: MergeServiceAccount_other)
  show "metaGet m k = metaGet u k" if "k \<notin> {''creationTimestamp'', ''selfLink'', ''generation'', ''uid'',
       ''resourceVersion'', ''annotations'', ''labels''}"
    using that annotations_stage(2) [OF assms(2), of k c] metaGet_putAll [OF st(6) distinct_mergedMeta]
    by (simp add: st(4,5) mergedMeta_def flip: st(1))
  show "\<exists>w s. MergeServiceForUpdate c w = (None, s) \<and> isService w \<and>
       map_of w ''spec'' = map_of u ''spec'' \<and> map_of m ''spec'' = map_of s ''spec''" if "isService u"
    using st(2) m [of "''spec''"] d [of "''spec''"] A [of "''spec''"] that kinds_cong(2) [OF st(9)]
    by (intro exI [of _ d] exI [of _ s]) simp
  show "\<exists>w s. MergeServiceAccountForUpdate c w = (None, s) \<and> isServiceAccount w \<and>
       (\<forall>f \<in> {''secrets'', ''imagePullSecrets''}. map_of w f = map_of u f \<and> map_of m f = map_of s f)"
    if "isServiceAccount u"
    using st(3) m d S that kinds_cong(3) [OF st(8)] by (intro exI [of _ s] exI [of _ a]) simp
qed

text \<open>Reading a nested field looks only at the first field of the object.\<close>

lemma NestedFieldNoCopy_cong:
  "map_of u f = map_of w f \<Longrightarrow> NestedFieldNoCopy u (f # fs) = NestedFieldNoCopy w (f # fs)"
  by (simp add: NestedFieldNoCopy_def)

lemma nestedAs_cong:
  "map_of u f = map_of w f \<Longrightarrow> nestedAs conv e u (f # fs) = nestedAs conv e w (f # fs)"
  by (simp add: nestedAs_def NestedFieldNoCopy_cong [of u f w])

lemma NestedString_set:
  assumes "SetNestedField u (JString s) f [g] = Inr w"
  shows "NestedString w [f, g] = Inr (Some s)"
  using assms
  by (auto simp: SetNestedField_def NestedString_def nestedAs_def NestedFieldNoCopy_def
      split: option.splits json.splits)

lemma SetNestedField_absorb:
  assumes "NestedString u [f, g] = Inr (Some s)"
  shows "SetNestedField u (JString s) f [g] = Inr u"
proof -
  obtain n where "map_of u f = Some (JObj n)" "map_of n g = Some (JString s)"
    using assms
    by (auto simp: NestedString_def nestedAs_def NestedFieldNoCopy_def
        split: option.splits json.splits elim!: asString.elims)
  then show ?thesis by (simp add: SetNestedField_def update_absorb)
qed

lemma NestedSlice_top:
  "NestedSlice u [f] = (case map_of u f of None \<Rightarrow> Inr None | Some (JArr s) \<Rightarrow> Inr (Some s)
     | Some v \<Rightarrow> Inl (accessorError [f] v ''[]interface{}''))"
  by (simp add: NestedSlice_def nestedAs_def NestedFieldNoCopy_def split: option.split json.split)

section \<open>Properties of the merge\<close>

lemma annotationsOf_wf: "json_wf (JObj u) \<Longrightarrow> gomap_wf (annotationsOf u)"
  by (auto simp: annotationsOf_def nilToEmpty_def getters_meta intro: entriesOf_wf split: option.split)

lemma labelsOf_wf: "json_wf (JObj u) \<Longrightarrow> gomap_wf (labelsOf u)"
  by (auto simp: labelsOf_def nilToEmpty_def getters_meta intro: entriesOf_wf split: option.split)

lemma withRevision_wf: "gomap_wf upd \<Longrightarrow> gomap_wf (withRevision cur upd)"
  by (auto simp: withRevision_def split: option.split)

lemma desiredAnnotations_wf: "json_wf (JObj u) \<Longrightarrow> gomap_wf (desiredAnnotations c u)"
  by (simp add: desiredAnnotations_def annotationsOf_wf withRevision_wf)

lemma map_of_merged_annotations:
  assumes "json_wf (JObj u)"
  shows "map_of (overwrite (annotationsOf c) (desiredAnnotations c u)) k =
    (if isDeployment u \<and> k = deploymentRevisionAnnotation \<and> map_of (annotationsOf c) k \<noteq> None
     then map_of (annotationsOf c) k else (map_of (annotationsOf c) ++ map_of (annotationsOf u)) k)"
  unfolding map_of_overwrite [OF desiredAnnotations_wf [OF assms]]
  by (auto simp: desiredAnnotations_def withRevision_def map_add_def split: option.splits)

text \<open>
  (C16) A merge that succeeds gives the desired object the identity the API server gave the existing
  one (uid, resource version, self link, generation) and joins labels and annotations, the desired
  value winning, except that a Deployment keeps the revision annotation of the existing object.
\<close>
theorem merge_metadata:
  assumes "MergeObjectForUpdate current updated = (None, m)"
    and "GetName updated \<noteq> []" and "json_wf (JObj updated)"
  shows "GetUID m = GetUID current \<and> GetResourceVersion m = GetResourceVersion current \<and>
    GetSelfLink m = GetSelfLink current \<and> GetGeneration m = GetGeneration current \<and>
    map_of (labelsOf m) = map_of (labelsOf current) ++ map_of (labelsOf updated) \<and>
    map_of (annotationsOf m) k =
      (if isDeployment updated \<and> k = deploymentRevisionAnnotation \<and>
          map_of (annotationsOf current) k \<noteq> None
       then map_of (annotationsOf current) k
       else (map_of (annotationsOf current) ++ map_of (annotationsOf updated)) k)"
proof -
  note acc = merged_accessors [OF assms(1) GetName_hasMeta [OF assms(2)]]
  have "labelsOf m = overwrite (labelsOf current) (labelsOf updated)"
    "annotationsOf m = overwrite (annotationsOf current) (desiredAnnotations current updated)"
    using acc(8,9) by (simp_all add: labelsOf_def [of m] annotationsOf_def [of m] nilToEmpty_def)
  then show ?thesis
    using acc(1-4) map_of_overwrite [OF labelsOf_wf [OF assms(3)]] map_of_merged_annotations [OF assms(3)]
    by simp
qed


text \<open>
  A merged Service has the cluster IP of the existing Service when that has one, and its own
  otherwise; a merged ServiceAccount has the secrets and image pull secrets of the existing account
  when that has them.
\<close>
theorem merge_keeps_assigned_fields:
  assumes "MergeObjectForUpdate current updated = (None, m)" and "GetName updated \<noteq> []"
  shows "(isService updated \<longrightarrow>
      NestedString m [''spec'', ''clusterIP''] =
        (case NestedString current [''spec'', ''clusterIP''] of
           Inr (Some ip) \<Rightarrow> Inr (Some ip) | _ \<Rightarrow> NestedString updated [''spec'', ''clusterIP''])) \<and>
    (isServiceAccount updated \<longrightarrow> (\<forall>f \<in> {''secrets'', ''imagePullSecrets''}.
      NestedSlice m [f] =
        (case NestedSlice current [f] of Inr (Some s) \<Rightarrow> Inr (Some s) | _ \<Rightarrow> NestedSlice updated [f])))"
proof (intro conjI impI)
  note top = merged_top [OF assms(1) GetName_hasMeta [OF assms(2)]]
  assume "isService updated"
  then obtain w s where ws: "MergeServiceForUpdate current w = (None, s)" "isService w"
    "map_of w ''spec'' = map_of updated ''spec''" "map_of m ''spec'' = map_of s ''spec''"
    using top(6) by blast
  have eq: "NestedString m [''spec'', ''clusterIP''] = NestedString s [''spec'', ''clusterIP'']"
    "NestedString w [''spec'', ''clusterIP''] = NestedString updated [''spec'', ''clusterIP'']"
    using ws(3,4) nestedAs_cong unfolding NestedString_def by blast+
  show "NestedString m [''spec'', ''clusterIP''] =
        (case NestedString current [''spec'', ''clusterIP''] of
           Inr (Some ip) \<Rightarrow> Inr (Some ip) | _ \<Rightarrow> NestedString updated [''spec'', ''clusterIP''])"
    using ws(1) eq unfolding MergeService_ok [OF ws(2)]
    by (auto simp: NestedString_set split: sum.splits option.splits)
next
  note top = merged_top [OF assms(1) GetName_hasMeta [OF assms(2)]]
  assume "isServiceAccount updated"
  then obtain w s where ws: "MergeServiceAccountForUpdate current w = (None, s)" "isServiceAccount w"
    and eq: "\<forall>f \<in> {''secrets'', ''imagePullSecrets''}. map_of w f = map_of updated f \<and> map_of m f = map_of s f"
    using top(7) by blast
  then obtain sec ips where "NestedSlice current [''secrets''] = Inr sec"
    "NestedSlice current [''imagePullSecrets''] = Inr ips"
    "s = putSlice ''imagePullSecrets'' ips (putSlice ''secrets'' sec w)"
    using MergeServiceAccount_ok by blast
  then show "\<forall>f \<in> {''secrets'', ''imagePullSecrets''}. NestedSlice m [f] =
        (case NestedSlice current [f] of Inr (Some s) \<Rightarrow> Inr (Some s) | _ \<Rightarrow> NestedSlice updated [f])"
    using eq by (cases sec; cases ips) (simp_all add: putSlice_def NestedSlice_top [of m]
      NestedSlice_top [of updated])
qed

section \<open>Merging again changes nothing\<close>

text \<open>
  The fields a merge copies from the existing object have the type the merge expects, so that the
  merged object can be merged with in turn.
\<close>

definition typedFields :: "Unstructured \<Rightarrow> bool" where
  "typedFields u \<longleftrightarrow>
     (isService u \<longrightarrow> \<not> isl (NestedString u [''spec'', ''clusterIP''])) \<and>
     (isServiceAccount u \<longrightarrow> \<not> isl (NestedSlice u [''secrets'']) \<and>
        \<not> isl (NestedSlice u [''imagePullSecrets'']))"

text \<open>A creation timestamp that reading and writing back does not change.\<close>

definition canonicalTime :: "Time \<Rightarrow> bool" where
  "canonicalTime t \<longleftrightarrow> UnmarshalQueryParameter (MarshalQueryParameter t) = t"

lemma withRevision_again:
  assumes "gomap_wf upd"
  shows "withRevision (overwrite cur (withRevision cur upd)) upd = withRevision cur upd"
proof -
  note over = map_of_overwrite [OF withRevision_wf [OF assms, of cur], of cur]
  show ?thesis
  proof (cases "map_of cur deploymentRevisionAnnotation")
    case None
    then have "map_of (overwrite cur (withRevision cur upd)) deploymentRevisionAnnotation =
        map_of upd deploymentRevisionAnnotation"
      by (simp add: over) (simp add: withRevision_def map_add_def split: option.split)
    with None show ?thesis by (simp add: withRevision_def update_absorb split: option.split)
  next
    case (Some v)
    then have "map_of (overwrite cur (withRevision cur upd)) deploymentRevisionAnnotation = Some v"
      by (simp add: over) (simp add: withRevision_def)
    with Some show ?thesis by (simp add: withRevision_def)
  qed
qed

lemma MergeService_again:
  assumes "MergeServiceForUpdate c w = (None, s)" and spec: "map_of m ''spec'' = map_of s ''spec''"
    and typed: "isService w \<longrightarrow> \<not> isl (NestedString w [''spec'', ''clusterIP''])"
  shows "MergeServiceForUpdate m w = (None, s)"
proof (cases "isService w")
  case False
  with assms(1) show ?thesis by (simp add: MergeService_other)
next
  case True
  have m: "NestedString m [''spec'', ''clusterIP''] = NestedString s [''spec'', ''clusterIP'']"
    unfolding NestedString_def using nestedAs_cong spec by blast
  from assms(1) typed True consider "s = w" "\<not> isl (NestedString s [''spec'', ''clusterIP''])"
    | ip where "SetNestedField w (JString ip) ''spec'' [''clusterIP''] = Inr s"
    unfolding MergeService_ok [OF True] by (auto split: sum.splits option.splits)
  then show ?thesis
  proof cases
    case 1
    then obtain x where "NestedString w [''spec'', ''clusterIP''] = Inr x" by (metis isl_def sum.exhaust)
    with 1 m show ?thesis
      unfolding MergeService_ok [OF True] by (cases x) (simp_all add: SetNestedField_absorb)
  next
    case 2
    with m NestedString_set [OF 2] show ?thesis unfolding MergeService_ok [OF True] by simp
  qed
qed

lemma MergeServiceAccount_again:
  assumes "MergeServiceAccountForUpdate c w = (None, s)"
    and eq: "map_of m ''secrets'' = map_of s ''secrets''"
      "map_of m ''imagePullSecrets'' = map_of s ''imagePullSecrets''"
    and typed: "isServiceAccount w \<longrightarrow> \<not> isl (NestedSlice w [''secrets'']) \<and>
      \<not> isl (NestedSlice w [''imagePullSecrets''])"
  shows "MergeServiceAccountForUpdate m w = (None, s)"
proof (cases "isServiceAccount w")
  case False
  with assms(1) show ?thesis by (simp add: MergeServiceAccount_other)
next
  case True
  then obtain sec ips where s: "s = putSlice ''imagePullSecrets'' ips (putSlice ''secrets'' sec w)"
    using assms(1) MergeServiceAccount_ok by blast
  obtain sw iw where w: "NestedSlice w [''secrets''] = Inr sw" "NestedSlice w [''imagePullSecrets''] = Inr iw"
    using typed True by (auto simp: isl_def) (metis sum.collapse(2) isl_def)
  have "NestedSlice m [''secrets''] = Inr (if sec = None then sw else sec)"
    "NestedSlice m [''imagePullSecrets''] = Inr (if ips = None then iw else ips)"
    using w eq s by (cases sec; cases ips; simp add: putSlice_def NestedSlice_top)+
  moreover have "putSlice ''imagePullSecrets'' (if ips = None then iw else ips)
      (putSlice ''secrets'' (if sec = None then sw else sec) w) = s"
    using w unfolding s
    by (cases sec; cases ips; auto simp: putSlice_def NestedSlice_top update_absorb
        split: option.splits json.splits)
  ultimately show ?thesis unfolding MergeServiceAccount_ok [OF True] by metis
qed

lemma merge_again:
  assumes merge: "MergeObjectForUpdate c u = (None, m)" and meta: "hasMeta u"
    and wf: "json_wf (JObj u)" and typed: "typedFields u" and time: "canonicalTime (GetCreationTimestamp c)"
  shows "MergeObjectForUpdate m u = (None, m)"
proof -
  from MergeObject_stages [OF merge meta] obtain d s a where st:
    "d = snd (MergeDeploymentForUpdate c u)"
    "MergeServiceForUpdate c d = (None, s)" "MergeServiceAccountForUpdate c s = (None, a)"
    "m = putAll (mergedMeta c a) a" "\<And>k. metaGet a k = metaGet d k" "hasMeta a" "hasMeta d"
    "GetGroupVersionKind s = GetGroupVersionKind u" "GetGroupVersionKind d = GetGroupVersionKind u"
    by blast
  note acc = merged_accessors [OF merge meta]
  have annos: "annotationsOf m = overwrite (annotationsOf c) (desiredAnnotations c u)"
    using acc(9) by (simp add: annotationsOf_def [of m] nilToEmpty_def)
  have D: "MergeDeploymentForUpdate m u = (None, d)"
    using withRevision_again [OF annotationsOf_wf [OF wf]]
    by (simp add: st(1) MergeDeployment_put annos desiredAnnotations_def)
  have top: "map_of m f = map_of a f" if "f \<noteq> ''metadata''" for f using that by (simp add: st(4))
  have d: "map_of d f = map_of u f" if "f \<noteq> ''metadata''" for f
    using that by (simp add: st(1) MergeDeployment_put)
  have s: "map_of s f = map_of d f" if "f \<noteq> ''spec''" for f
    using MergeService_frame [OF st(2) that] .
  have "NestedString d [''spec'', ''clusterIP''] = NestedString u [''spec'', ''clusterIP'']"
    unfolding NestedString_def by (intro nestedAs_cong d) simp
  then have S: "MergeServiceForUpdate m d = (None, s)"
    using typed kinds_cong(2) [OF st(9)] MergeServiceAccount_frame [OF st(3)] top
    by (intro MergeService_again [OF st(2)]) (simp_all add: typedFields_def)
  have A: "MergeServiceAccountForUpdate m s = (None, a)"
    using typed kinds_cong(3) [OF st(8)] top
    by (intro MergeServiceAccount_again [OF st(3)]) (simp_all add: typedFields_def NestedSlice_top s d)
  have a: "annotationsOf a = desiredAnnotations c u" "labelsOf a = labelsOf u"
    using annotations_stage(2) [OF meta, of "''labels''" c] annotations_stage(1) [OF meta, of c]
    by (simp_all add: annotationsOf_def labelsOf_def getters_meta st(1,5))
  have "mergedMeta m a = mergedMeta c a"
    using acc a annos time overwrite_twice [OF labelsOf_wf [OF wf]]
      overwrite_twice [OF desiredAnnotations_wf [OF wf]]
    unfolding mergedMeta_def annotationsOf_def [symmetric] labelsOf_def [symmetric]
    by (simp add: canonicalTime_def labelsOf_def [of m] nilToEmpty_def)
  with D S A st(4,6) show ?thesis by (simp add: MergeObjectForUpdate_def MergeMetadata_puts)
qed

section \<open>Well-formedness and errors\<close>

lemma json_wf_optString: "pred_option json_wf (optString s)"
  by (simp add: optString_def)

lemma overwrite_wf: "gomap_wf cur \<Longrightarrow> gomap_wf (overwrite cur upd)"
  unfolding overwrite_def by (induction upd arbitrary: cur) (auto split: prod.splits)

lemma json_wf_putAll:
  "json_wf (JObj u) \<Longrightarrow> \<forall>(k, v) \<in> set es. pred_option json_wf v \<Longrightarrow> json_wf (JObj (putAll es u))"
proof (induction es arbitrary: u)
  case (Cons e es)
  obtain k v where "e = (k, v)" by force
  with Cons.prems have "json_wf (JObj (putMeta k v u))" by (intro json_wf_putMeta) auto
  with Cons \<open>e = (k, v)\<close> show ?case by simp
qed simp

lemma json_wf_mergedMeta:
  assumes "json_wf (JObj c)" "json_wf (JObj a)"
  shows "\<forall>(k, v) \<in> set (mergedMeta c a). pred_option json_wf v"
  using assms annotationsOf_wf [of c] labelsOf_wf [of c]
  by (simp add: mergedMeta_def json_wf_optString json_wf_jsonMap overwrite_wf annotationsOf_def labelsOf_def)

lemma json_wf_putSlice:
  assumes "json_wf (JObj u)" "json_wf (JObj c)" "NestedSlice c [f] = Inr v"
  shows "json_wf (JObj (putSlice f v u))"
proof (cases v)
  case (Some s)
  with assms(3) have "map_of c f = Some (JArr s)"
    by (auto simp: NestedSlice_top split: option.splits json.splits)
  then have "json_wf (JArr s)" using assms(2) json_wf_lookup by blast
  with assms(1) Some json_wf_update show ?thesis by (simp add: putSlice_def del: json_wf.simps)
qed (use assms in \<open>simp add: putSlice_def\<close>)

lemma merge_wf:
  assumes merge: "MergeObjectForUpdate c u = (None, m)" and meta: "hasMeta u"
    and wf: "json_wf (JObj c)" "json_wf (JObj u)"
  shows "json_wf (JObj m)"
proof -
  from MergeObject_stages [OF merge meta] obtain d s a where st:
    "d = snd (MergeDeploymentForUpdate c u)"
    "MergeServiceForUpdate c d = (None, s)" "MergeServiceAccountForUpdate c s = (None, a)"
    "m = putAll (mergedMeta c a) a" by metis
  have "json_wf (JObj d)"
    using wf annotationsOf_wf withRevision_wf
    by (simp add: st(1) MergeDeployment_put json_wf_putMeta json_wf_jsonMap del: json_wf.simps)
  then have "json_wf (JObj s)"
    using st(2) json_wf_SetNestedField [of d _ "''spec''" "''clusterIP''" s]
    by (cases "isService d")
      (auto simp: MergeService_ok MergeService_other simp del: json_wf.simps(2)
        split: sum.splits option.splits)
  then have "json_wf (JObj a)"
    using st(3) wf(1) json_wf_putSlice
    by (cases "isServiceAccount s")
      (auto simp: MergeServiceAccount_ok MergeServiceAccount_other simp del: json_wf.simps(2))
  then show ?thesis
    unfolding st(4) using json_wf_mergedMeta wf(1) by (intro json_wf_putAll) blast+
qed

lemma merge_ok:
  assumes "fst (MergeObjectForUpdate c u) = None"
  obtains m where "MergeObjectForUpdate c u = (None, m)"
  using assms by (metis prod.collapse)

text \<open>
  Merging is idempotent: a merged object that has become the existing object merges with the
  same desired object to itself, so a second pass finds nothing to change.
\<close>
theorem merge_idempotent:
  assumes "MergeObjectForUpdate current updated = (None, m)" and "GetName updated \<noteq> []"
    and "json_wf (JObj current)" and "json_wf (JObj updated)" and "typedFields updated"
    and "canonicalTime (GetCreationTimestamp current)"
  shows "MergeObjectForUpdate m updated = (None, m) \<and> DeepEqual (JObj m) (JObj m)"
  using merge_again [OF assms(1) GetName_hasMeta [OF assms(2)] assms(4-6)]
    DeepEqual_refl [OF merge_wf [OF assms(1) GetName_hasMeta [OF assms(2)] assms(3,4)]] by simp

text \<open>
  A merge fails only for a Service whose existing cluster IP cannot be read or cannot be written
  into the desired \<^verbatim>\<open>spec\<close>, or for a ServiceAccount whose existing secrets are not lists.
\<close>
lemma merge_error_iff:
  "fst (MergeObjectForUpdate current updated) \<noteq> None \<longleftrightarrow>
     isService updated \<and>
       (isl (NestedString current [''spec'', ''clusterIP'']) \<or>
        (\<exists>ip v. NestedString current [''spec'', ''clusterIP''] = Inr (Some ip) \<and>
           map_of updated ''spec'' = Some v \<and> asMap v = None)) \<or>
     isServiceAccount updated \<and>
       (isl (NestedSlice current [''secrets'']) \<or> isl (NestedSlice current [''imagePullSecrets'']))"
proof -
  define d where "d = snd (MergeDeploymentForUpdate current updated)"
  have D: "MergeDeploymentForUpdate current updated = (None, d)" by (simp add: d_def MergeDeployment_put)
  have d: "GetGroupVersionKind d = GetGroupVersionKind updated" "map_of d ''spec'' = map_of updated ''spec''"
    by (simp_all add: d_def MergeDeployment_put)
  obtain e s where S: "MergeServiceForUpdate current d = (e, s)" by force
  have s: "GetGroupVersionKind s = GetGroupVersionKind updated"
    using MergeService_frame [OF S] d(1) GetGroupVersionKind_cong [of s d] by simp
  have "e \<noteq> None \<longleftrightarrow> isService updated \<and> (isl (NestedString current [''spec'', ''clusterIP'']) \<or>
        (\<exists>ip v. NestedString current [''spec'', ''clusterIP''] = Inr (Some ip) \<and>
           map_of updated ''spec'' = Some v \<and> asMap v = None))"
    using S d(2) kinds_cong(2) [OF d(1)]
    by (auto simp: MergeServiceForUpdate_def Let_def isService_def d(1) SetNestedField_def
        split: if_splits sum.splits option.splits json.splits)
  moreover have "fst (MergeServiceAccountForUpdate current s) \<noteq> None \<longleftrightarrow> isServiceAccount updated \<and>
       (isl (NestedSlice current [''secrets'']) \<or> isl (NestedSlice current [''imagePullSecrets'']))"
    by (auto simp: MergeServiceAccountForUpdate_def Let_def isServiceAccount_def s
        split: if_splits sum.splits)
  moreover have "fst (MergeObjectForUpdate current updated) \<noteq> None \<longleftrightarrow>
      e \<noteq> None \<or> fst (MergeServiceAccountForUpdate current s) \<noteq> None"
    by (cases e; cases "MergeServiceAccountForUpdate current s";
        cases "fst (MergeServiceAccountForUpdate current s)")
      (simp_all add: MergeObjectForUpdate_def D S)
  ultimately show ?thesis by simp
qed

section \<open>Examples\<close>

text \<open>A Deployment of the operator as the API server holds it and as it is rendered again.\<close>

definition storedDeployment :: Unstructured where
  "storedDeployment =
     [(''apiVersion'', JString ''apps/v1''), (''kind'', JString ''Deployment''),
      (''metadata'', JObj
        [(''name'', JString ''d''), (''namespace'', JString ''n''), (''uid'', JString ''u1''),
         (''resourceVersion'', JString ''41''), (''generation'', JInt 3),
         (''creationTimestamp'', JString ''2024-05-01T10:20:30Z''),
         (''annotations'', JObj [(deploymentRevisionAnnotation, JString ''7'')]),
         (''labels'', JObj [(''a'', JString ''1''), (''b'', JString ''2'')])]),
      (''status'', JObj [])]"

definition desiredDeployment :: Unstructured where
  "desiredDeployment =
     [(''apiVersion'', JString ''apps/v1''), (''kind'', JString ''Deployment''),
      (''metadata'', JObj
        [(''name'', JString ''d''), (''namespace'', JString ''n''),
         (''annotations'', JObj [(deploymentRevisionAnnotation, JString ''1'')]),
         (''labels'', JObj [(''b'', JString ''3'')])]),
      (''spec'', JObj [(''replicas'', JInt 2)])]"

definition storedService :: Unstructured where
  "storedService =
     [(''apiVersion'', JString ''v1''), (''kind'', JString ''Service''),
      (''metadata'', JObj [(''name'', JString ''s''), (''uid'', JString ''u2'')]),
      (''spec'', JObj [(''clusterIP'', JString ''10.0.0.1'')])]"

definition desiredService :: Unstructured where
  "desiredService =
     [(''apiVersion'', JString ''v1''), (''kind'', JString ''Service''),
      (''metadata'', JObj [(''name'', JString ''s'')])]"

lemma example_deployment:
  "GetName desiredDeployment \<noteq> []" "json_wf (JObj desiredDeployment)" "json_wf (JObj storedDeployment)"
  "typedFields desiredDeployment" "isDeployment desiredDeployment"
  "\<not> isService desiredDeployment" "\<not> isServiceAccount desiredDeployment"
  by code_simp+

lemma example_merge: "fst (MergeObjectForUpdate storedDeployment desiredDeployment) = None"
  using merge_error_iff [of storedDeployment desiredDeployment] example_deployment(6,7) by simp

lemma example_time: "canonicalTime (GetCreationTimestamp storedDeployment)"
  by code_simp

theorem merge_metadata_witness:
  "map_of (annotationsOf (snd (MergeObjectForUpdate storedDeployment desiredDeployment)))
     deploymentRevisionAnnotation = Some ''7''"
proof -
  obtain m where m: "MergeObjectForUpdate storedDeployment desiredDeployment = (None, m)"
    by (rule merge_ok [OF example_merge])
  have "map_of (annotationsOf storedDeployment) deploymentRevisionAnnotation = Some ''7''" by code_simp
  then show ?thesis
    using merge_metadata [OF m example_deployment(1,2), of deploymentRevisionAnnotation]
    by (simp add: m example_deployment(5))
qed


theorem merge_keeps_assigned_fields_witness:
  "isService desiredService \<and>
   NestedString (snd (MergeObjectForUpdate storedService desiredService)) [''spec'', ''clusterIP''] =
     Inr (Some ''10.0.0.1'')"
proof -
  have "\<not> isServiceAccount desiredService" "map_of desiredService ''spec'' = None"
    "\<not> isl (NestedString storedService [''spec'', ''clusterIP''])" by code_simp+
  then have ok: "fst (MergeObjectForUpdate storedService desiredService) = None"
    using merge_error_iff [of storedService desiredService] by simp
  obtain m where m: "MergeObjectForUpdate storedService desiredService = (None, m)"
    by (rule merge_ok [OF ok])
  have facts: "GetName desiredService \<noteq> []" "isService desiredService"
    "NestedString storedService [''spec'', ''clusterIP''] = Inr (Some ''10.0.0.1'')" by code_simp+
  show ?thesis using merge_keeps_assigned_fields [OF m facts(1)] facts(2,3) by (simp add: m)
qed

theorem merge_idempotent_witness:
  "MergeObjectForUpdate (snd (MergeObjectForUpdate storedDeployment desiredDeployment)) desiredDeployment =
     (None, snd (MergeObjectForUpdate storedDeployment desiredDeployment))"
proof -
  obtain m where m: "MergeObjectForUpdate storedDeployment desiredDeployment = (None, m)"
    by (rule merge_ok [OF example_merge])
  show ?thesis
    using merge_idempotent [OF m example_deployment(1,3,2,4) example_time] by (simp add: m)
qed

end
