(* ===== verification/Cluster.thy ===== *)
theory Cluster
  imports Unstructured
begin

text \<open>
  The API server as the operator sees it: the calls of \<^verbatim>\<open>client.Client\<close> that the operator makes, as a
  record of functions on a state of the server, and what the operator relies on as the locales
  \<open>api_client\<close> (any call may fail, but a call that answers tells the truth), \<open>reliable_client\<close> (no
  call fails without a reason) and \<open>verbatim_client\<close> (an object is stored as it was written).
  The object tracker of the vendored \<^verbatim>\<open>k8s.io/client-go/testing\<close> is the instance on which the
  locales are interpreted.
\<close>

section \<open>Objects and calls\<close>

datatype Object =
    ConfigMapObj ConfigMap
  | NodeObj Node
  | PtpConfigObj PtpConfig
  | PtpOperatorConfigObj PtpOperatorConfig
  | NodePtpDeviceObj NodePtpDevice
  | UnstructuredObj Unstructured

type_synonym Key = "GroupVersionKind \<times> string \<times> string"

definition coreKind :: "string \<Rightarrow> GroupVersionKind" where
  "coreKind kind = \<lparr>gvk_Group = [], gvk_Version = ''v1'', gvk_Kind = kind\<rparr>"

definition ptpKind :: "string \<Rightarrow> GroupVersionKind" where
  "ptpKind kind = \<lparr>gvk_Group = ''ptp.openshift.io'', gvk_Version = ''v1'', gvk_Kind = kind\<rparr>"

abbreviation metaKey :: "GroupVersionKind \<Rightarrow> ObjectMeta \<Rightarrow> Key" where
  "metaKey gvk m \<equiv> (gvk, meta_Namespace m, meta_Name m)"

fun keyOf :: "Object \<Rightarrow> Key" where
  "keyOf (ConfigMapObj x) = metaKey (coreKind ''ConfigMap'') (cm_ObjectMeta x)"
| "keyOf (NodeObj x) = metaKey (coreKind ''Node'') (node_ObjectMeta x)"
| "keyOf (PtpConfigObj x) = metaKey (ptpKind ''PtpConfig'') (config_ObjectMeta x)"
| "keyOf (PtpOperatorConfigObj x) = metaKey (ptpKind ''PtpOperatorConfig'') (oconfig_ObjectMeta x)"
| "keyOf (NodePtpDeviceObj x) = metaKey (ptpKind ''NodePtpDevice'') (ndevice_ObjectMeta x)"
| "keyOf (UnstructuredObj u) = (GetGroupVersionKind u, GetNamespace u, GetName u)"

text \<open>The keys of the objects that the operator reads and creates itself.\<close>

abbreviation cfgKey :: Key where
  "cfgKey \<equiv> (ptpKind ''PtpOperatorConfig'', Namespace, DefaultOperatorConfigName)"

definition deviceKey :: "Node \<Rightarrow> Key" where
  "deviceKey node = (ptpKind ''NodePtpDevice'', Namespace, node_Name node)"

definition cmKey :: "string \<Rightarrow> Key" where
  "cmKey name = (coreKind ''ConfigMap'', Namespace, name)"

record 's Client =
  client_Get :: "Key \<Rightarrow> 's \<Rightarrow> (error + Object) \<times> 's"
  client_Create :: "Object \<Rightarrow> 's \<Rightarrow> error option \<times> 's"
  client_Update :: "Object \<Rightarrow> 's \<Rightarrow> error option \<times> 's"
  client_List :: "GroupVersionKind \<Rightarrow> 's \<Rightarrow> (error + Object list) \<times> 's"

text \<open>A call into a typed object fails when the answer is not an object of that type.\<close>

definition decodeError :: error where
  "decodeError = Errorf ''unable to decode object into the type of the call''"

definition typedResult :: "(Object \<Rightarrow> 'a option) \<Rightarrow> (error + Object) \<times> 's \<Rightarrow> (error + 'a) \<times> 's" where
  "typedResult conv r =
     (case r of
        (Inl err, s) \<Rightarrow> (Inl err, s)
      | (Inr obj, s) \<Rightarrow> (case conv obj of None \<Rightarrow> (Inl decodeError, s) | Some x \<Rightarrow> (Inr x, s)))"

fun asConfigMap :: "Object \<Rightarrow> ConfigMap option" where
  "asConfigMap (ConfigMapObj x) = Some x" | "asConfigMap _ = None"

fun asNode :: "Object \<Rightarrow> Node option" where
  "asNode (NodeObj x) = Some x" | "asNode _ = None"

fun asPtpConfig :: "Object \<Rightarrow> PtpConfig option" where
  "asPtpConfig (PtpConfigObj x) = Some x" | "asPtpConfig _ = None"

fun asPtpOperatorConfig :: "Object \<Rightarrow> PtpOperatorConfig option" where
  "asPtpOperatorConfig (PtpOperatorConfigObj x) = Some x" | "asPtpOperatorConfig _ = None"

fun asNodePtpDevice :: "Object \<Rightarrow> NodePtpDevice option" where
  "asNodePtpDevice (NodePtpDeviceObj x) = Some x" | "asNodePtpDevice _ = None"

fun asUnstructured :: "Object \<Rightarrow> Unstructured option" where
  "asUnstructured (UnstructuredObj x) = Some x" | "asUnstructured _ = None"

definition GetConfigMap :: "'s Client \<Rightarrow> string \<Rightarrow> string \<Rightarrow> 's \<Rightarrow> (error + ConfigMap) \<times> 's" where
  "GetConfigMap c ns name s = typedResult asConfigMap (client_Get c (coreKind ''ConfigMap'', ns, name) s)"

definition GetPtpOperatorConfig ::
  "'s Client \<Rightarrow> string \<Rightarrow> string \<Rightarrow> 's \<Rightarrow> (error + PtpOperatorConfig) \<times> 's"
where
  "GetPtpOperatorConfig c ns name s =
     typedResult asPtpOperatorConfig (client_Get c (ptpKind ''PtpOperatorConfig'', ns, name) s)"

definition GetNodePtpDevice ::
  "'s Client \<Rightarrow> string \<Rightarrow> string \<Rightarrow> 's \<Rightarrow> (error + NodePtpDevice) \<times> 's"
where
  "GetNodePtpDevice c ns name s =
     typedResult asNodePtpDevice (client_Get c (ptpKind ''NodePtpDevice'', ns, name) s)"

definition GetUnstructured ::
  "'s Client \<Rightarrow> GroupVersionKind \<Rightarrow> string \<Rightarrow> string \<Rightarrow> 's \<Rightarrow> (error + Unstructured) \<times> 's"
where
  "GetUnstructured c gvk ns name s = typedResult asUnstructured (client_Get c (gvk, ns, name) s)"

definition typedList :: "(Object \<Rightarrow> 'a option) \<Rightarrow> (error + Object list) \<times> 's \<Rightarrow> (error + 'a list) \<times> 's" where
  "typedList conv r =
     (case r of (Inl err, s) \<Rightarrow> (Inl err, s) | (Inr objs, s) \<Rightarrow> (Inr (List.map_filter conv objs), s))"

definition ListNodes :: "'s Client \<Rightarrow> 's \<Rightarrow> (error + Node list) \<times> 's" where
  "ListNodes c s = typedList asNode (client_List c (coreKind ''Node'') s)"

definition ListPtpConfigs :: "'s Client \<Rightarrow> 's \<Rightarrow> (error + PtpConfig list) \<times> 's" where
  "ListPtpConfigs c s = typedList asPtpConfig (client_List c (ptpKind ''PtpConfig'') s)"

text \<open>\<^verbatim>\<open>reconcile.Result\<close>: when to run again, in nanoseconds; zero is not at all.\<close>

record Result =
  result_RequeueAfter :: int

definition emptyResult :: Result where "emptyResult = \<lparr>result_RequeueAfter = 0\<rparr>"

section \<open>What the operator relies on\<close>

text \<open>
  What the server keeps of an object it is given: it may complete the metadata, and an object that
  is not typed in the operator may be completed anywhere.
\<close>

fun keeps :: "Object \<Rightarrow> Object \<Rightarrow> bool" where
  "keeps (ConfigMapObj x) y = (\<exists>z. y = ConfigMapObj z \<and> cm_Data z = cm_Data x \<and>
     meta_OwnerReferences (cm_ObjectMeta z) = meta_OwnerReferences (cm_ObjectMeta x))"
| "keeps (NodeObj x) y = (\<exists>z. y = NodeObj z \<and> meta_Labels (node_ObjectMeta z) = meta_Labels (node_ObjectMeta x))"
| "keeps (PtpConfigObj x) y = (\<exists>z. y = PtpConfigObj z \<and> config_Spec z = config_Spec x)"
| "keeps (PtpOperatorConfigObj x) y = (\<exists>z. y = PtpOperatorConfigObj z \<and> oconfig_Spec z = oconfig_Spec x)"
| "keeps (NodePtpDeviceObj x) y = (\<exists>z. y = NodePtpDeviceObj z)"
| "keeps (UnstructuredObj x) y = (\<exists>z. y = UnstructuredObj z)"

lemma keeps_refl [simp, intro]: "keeps x x"
  by (cases x) auto

text \<open>A state is well typed when every object is stored under the key its own fields give.\<close>

definition wellTyped :: "(Key \<rightharpoonup> Object) \<Rightarrow> bool" where
  "wellTyped m \<longleftrightarrow> (\<forall>k obj. m k = Some obj \<longrightarrow> keyOf obj = k)"

lemma wellTypedD: "wellTyped m \<Longrightarrow> m k = Some obj \<Longrightarrow> keyOf obj = k"
  unfolding wellTyped_def by blast

lemma wellTyped_upd [intro]: "wellTyped m \<Longrightarrow> keyOf obj = k \<Longrightarrow> wellTyped (m(k \<mapsto> obj))"
  by (simp add: wellTyped_def)

text \<open>A list call returns every object of the kind once, in some order.\<close>

definition listing :: "GroupVersionKind \<Rightarrow> (Key \<rightharpoonup> Object) \<Rightarrow> Object list \<Rightarrow> bool" where
  "listing gvk m objs \<longleftrightarrow>
     (\<exists>ks. distinct ks \<and> set ks = {k \<in> dom m. fst k = gvk} \<and> objs = map (\<lambda>k. the (m k)) ks)"

lemma listing_set:
  assumes "listing gvk m objs"
  shows "set objs = {obj. \<exists>ns name. m (gvk, ns, name) = Some obj}"
proof -
  obtain ks where ks: "set ks = {k \<in> dom m. fst k = gvk}" "objs = map (\<lambda>k. the (m k)) ks"
    using assms by (auto simp: listing_def)
  show ?thesis
  proof (rule set_eqI)
    fix obj
    have "obj \<in> set objs \<longleftrightarrow> (\<exists>k \<in> set ks. m k = Some obj)"
      using ks(1) by (force simp: ks(2))
    also have "\<dots> \<longleftrightarrow> (\<exists>k. fst k = gvk \<and> m k = Some obj)" unfolding ks(1) by blast
    also have "\<dots> \<longleftrightarrow> (\<exists>ns name. m (gvk, ns, name) = Some obj)" by (metis prod.collapse fst_conv)
    finally show "obj \<in> set objs \<longleftrightarrow> obj \<in> {obj. \<exists>ns name. m (gvk, ns, name) = Some obj}" by simp
  qed
qed

locale api_client =
  fixes c :: "'s Client" and lookup :: "'s \<Rightarrow> Key \<rightharpoonup> Object"
  assumes get_frame: "lookup (snd (client_Get c k s)) = lookup s"
    and get_found: "fst (client_Get c k s) = Inr obj \<Longrightarrow> lookup s k = Some obj"
    and get_missing: "fst (client_Get c k s) = Inl err \<Longrightarrow> IsNotFound err \<Longrightarrow> lookup s k = None"
    and list_frame: "lookup (snd (client_List c gvk s)) = lookup s"
    and list_found: "fst (client_List c gvk s) = Inr objs \<Longrightarrow> listing gvk (lookup s) objs"
    and create_ok: "client_Create c obj s = (None, s') \<Longrightarrow>
      lookup s (keyOf obj) = None \<and>
      (\<exists>stored. keeps obj stored \<and> keyOf stored = keyOf obj \<and> lookup s' = (lookup s)(keyOf obj \<mapsto> stored))"
    and create_failed: "client_Create c obj s = (Some err, s') \<Longrightarrow> lookup s' = lookup s"
    and update_ok: "client_Update c obj s = (None, s') \<Longrightarrow>
      lookup s (keyOf obj) \<noteq> None \<and>
      (\<exists>stored. keeps obj stored \<and> keyOf stored = keyOf obj \<and> lookup s' = (lookup s)(keyOf obj \<mapsto> stored))"
    and update_failed: "client_Update c obj s = (Some err, s') \<Longrightarrow> lookup s' = lookup s"

text \<open>
  A server that is up: a read fails only when the object is missing, a create only when the object is
  there already, an update only when it is missing.
\<close>

locale reliable_client = api_client +
  assumes get_answers: "lookup s k = Some obj \<Longrightarrow> fst (client_Get c k s) = Inr obj"
    and get_reports: "lookup s k = None \<Longrightarrow> \<exists>err. fst (client_Get c k s) = Inl err \<and> IsNotFound err"
    and list_answers: "\<exists>objs. fst (client_List c gvk s) = Inr objs"
    and create_answers: "lookup s (keyOf obj) = None \<Longrightarrow> fst (client_Create c obj s) = None"
    and update_answers: "lookup s (keyOf obj) \<noteq> None \<Longrightarrow> fst (client_Update c obj s) = None"

text \<open>A server that stores an object as it was written.\<close>

locale verbatim_client = reliable_client +
  assumes create_verbatim: "client_Create c obj s = (None, s') \<Longrightarrow> lookup s' = (lookup s)(keyOf obj \<mapsto> obj)"
    and update_verbatim: "client_Update c obj s = (None, s') \<Longrightarrow> lookup s' = (lookup s)(keyOf obj \<mapsto> obj)"

section \<open>Typed calls under the contract\<close>

context api_client
begin

lemma typed_get_frame: "typedResult conv (client_Get c k s) = (r, s') \<Longrightarrow> lookup s' = lookup s"
  using get_frame [of k s]
  by (auto simp: typedResult_def split: prod.splits sum.splits option.splits)

lemma typed_get_found:
  "typedResult conv (client_Get c k s) = (Inr x, s') \<Longrightarrow> \<exists>obj. lookup s k = Some obj \<and> conv obj = Some x"
  using get_found [of k s]
  by (auto simp: typedResult_def split: prod.splits sum.splits option.splits)

lemma typed_get_missing:
  "typedResult conv (client_Get c k s) = (Inl err, s') \<Longrightarrow> IsNotFound err \<Longrightarrow> lookup s k = None"
  using get_missing [of k s]
  by (auto simp: typedResult_def decodeError_def split: prod.splits sum.splits option.splits)

lemma typed_list_frame: "typedList conv (client_List c gvk s) = (r, s') \<Longrightarrow> lookup s' = lookup s"
  using list_frame [of gvk s] by (auto simp: typedList_def split: prod.splits sum.splits)

lemma typed_list_found:
  assumes "typedList conv (client_List c gvk s) = (Inr xs, s')"
  shows "set xs = {x. \<exists>ns name obj. lookup s (gvk, ns, name) = Some obj \<and> conv obj = Some x}"
proof -
  obtain objs where objs: "fst (client_List c gvk s) = Inr objs" "xs = List.map_filter conv objs"
    using assms by (auto simp: typedList_def split: prod.splits sum.splits)
  show ?thesis
    using listing_set [OF list_found [OF objs(1)]] by (auto simp: objs(2) map_filter_def) (force simp: image_iff)+
qed

lemma create_lookup:
  assumes "client_Create c obj s = (None, s')"
  obtains stored where "lookup s (keyOf obj) = None" "keeps obj stored" "keyOf stored = keyOf obj"
    "lookup s' = (lookup s)(keyOf obj \<mapsto> stored)"
  using create_ok [OF assms] by blast

lemma update_lookup:
  assumes "client_Update c obj s = (None, s')"
  obtains stored where "lookup s (keyOf obj) \<noteq> None" "keeps obj stored" "keyOf stored = keyOf obj"
    "lookup s' = (lookup s)(keyOf obj \<mapsto> stored)"
  using update_ok [OF assms] by blast

end

context reliable_client
begin

lemma typed_get_answers:
  "lookup s k = Some obj \<Longrightarrow> conv obj = Some x \<Longrightarrow>
   \<exists>s'. typedResult conv (client_Get c k s) = (Inr x, s') \<and> lookup s' = lookup s"
  using get_answers [of s k obj] get_frame [of k s]
  by (auto simp: typedResult_def split: prod.splits sum.splits option.splits)

lemma typed_get_reports:
  "lookup s k = None \<Longrightarrow>
   \<exists>err s'. typedResult conv (client_Get c k s) = (Inl err, s') \<and> IsNotFound err \<and> lookup s' = lookup s"
  using get_reports [of s k] get_frame [of k s]
  by (auto simp: typedResult_def split: prod.splits sum.splits option.splits)

lemma typed_list_answers:
  "\<exists>xs s'. typedList conv (client_List c gvk s) = (Inr xs, s') \<and> lookup s' = lookup s"
  using list_answers [of gvk s] list_frame [of gvk s]
  by (auto simp: typedList_def split: prod.splits sum.splits)

end

section \<open>The object tracker\<close>

type_synonym Tracker = "(Key, Object) gomap"

definition tracker_add :: "Object \<Rightarrow> bool \<Rightarrow> Tracker \<Rightarrow> error option \<times> Tracker" where
  "tracker_add obj replaceExisting t =
     (let k = keyOf obj; gr = gvk_Kind (fst k); name = snd (snd k) in
      case map_of t k of
        Some _ \<Rightarrow>
          if replaceExisting then (None, AList.update k obj t)
          else (Some (NewAlreadyExists gr name), t)
      | None \<Rightarrow>
          if replaceExisting then (Some (NewNotFound gr name), t)
          else (None, AList.update k obj t))"

definition tracker_Get :: "Key \<Rightarrow> Tracker \<Rightarrow> (error + Object) \<times> Tracker" where
  "tracker_Get k t =
     (case map_of t k of
        None \<Rightarrow> (Inl (NewNotFound (gvk_Kind (fst k)) (snd (snd k))), t)
      | Some obj \<Rightarrow> (Inr obj, t))"

definition tracker_List :: "GroupVersionKind \<Rightarrow> Tracker \<Rightarrow> (error + Object list) \<times> Tracker" where
  "tracker_List gvk t =
     (Inr (map (\<lambda>k. the (map_of t k)) (filter (\<lambda>k. fst k = gvk) (remdups (map fst t)))), t)"

definition trackerClient :: "Tracker Client" where
  "trackerClient = \<lparr>client_Get = tracker_Get, client_Create = (\<lambda>obj. tracker_add obj False),
     client_Update = (\<lambda>obj. tracker_add obj True), client_List = tracker_List\<rparr>"

interpretation tr: verbatim_client trackerClient map_of
proof unfold_locales
  show "listing gvk (map_of s) objs" if "fst (client_List trackerClient gvk s) = Inr objs" for gvk s objs
    using that unfolding listing_def
    by (intro exI [of _ "filter (\<lambda>k. fst k = gvk) (remdups (map fst s))"])
      (auto simp: trackerClient_def tracker_List_def dom_map_of_conv_image_fst)
qed (auto simp: trackerClient_def tracker_Get_def tracker_List_def tracker_add_def Let_def
    split: option.splits if_splits)

lemma tracker_contract:
  "api_client trackerClient map_of" "reliable_client trackerClient map_of"
  "verbatim_client trackerClient map_of"
  by unfold_locales

end
