(* ===== verification/Apply_Object.thy ===== *)
theory Apply_Object
  imports Apply_Merge Cluster
begin

text \<open>
  \<^verbatim>\<open>pkg/apply/apply.go\<close>: \<^verbatim>\<open>ApplyObject\<close> creates the desired object when it does not exist, and
  otherwise merges it with the existing object and updates that when the merge differs from it.
\<close>

section \<open>Definitions\<close>

definition ApplyObject :: "'s Client \<Rightarrow> Unstructured \<Rightarrow> 's \<Rightarrow> error option \<times> 's" where
  "ApplyObject client obj s =
     (let name = GetName obj; namespace = GetNamespace obj in
      if name = [] then
        (Some (Errorf (''Object '' @ GroupVersionKind_String (GetGroupVersionKind obj) @
           '' has no name'')), s)
      else
        let gvk = GetGroupVersionKind obj;
            desc = ''('' @ GroupVersionKind_String gvk @ '') '' @ namespace @ ''/'' @ name in
        case IsObjectSupported obj of
          Some err \<Rightarrow> (Some (Wrapf (''object '' @ desc @ '' unsupported'') err), s)
        | None \<Rightarrow>
            (let existing = SetGroupVersionKind [] gvk in
             case GetUnstructured client (GetGroupVersionKind existing) namespace name s of
               (Inl err, s) \<Rightarrow>
                 if IsNotFound err then
                   (case client_Create client (UnstructuredObj obj) s of
                      (Some err, s) \<Rightarrow> (Some (Wrapf (''could not create '' @ desc) err), s)
                    | (None, s) \<Rightarrow> (None, s))
                 else (Some (Wrapf (''could not retrieve existing '' @ desc) err), s)
             | (Inr existing, s) \<Rightarrow>
                 (case MergeObjectForUpdate existing obj of
                    (Some err, obj) \<Rightarrow>
                      (Some (Wrapf (''could not merge object '' @ desc @ '' with existing'') err), s)
                  | (None, obj) \<Rightarrow>
                      if \<not> DeepEqual (JObj existing) (JObj obj) then
                        (case client_Update client (UnstructuredObj obj) s of
                           (Some err, s) \<Rightarrow> (Some (Wrapf (''could not update object '' @ desc) err), s)
                         | (None, s) \<Rightarrow> (None, s))
                      else (None, s))))"

section \<open>The kind of the object that is looked up\<close>

text \<open>
  The kind of an object with a group and a version survives being written and read again; the
  version of an object may be left out only with its group.
\<close>

definition regularKind :: "GroupVersionKind \<Rightarrow> bool" where
  "regularKind gvk \<longleftrightarrow> CHR ''/'' \<notin> set (gvk_Group gvk) \<and> CHR ''/'' \<notin> set (gvk_Version gvk) \<and>
     (gvk_Group gvk = [] \<or> gvk_Version gvk \<noteq> [])"

lemma ParseGroupVersion_String:
  assumes "CHR ''/'' \<notin> set g" "CHR ''/'' \<notin> set v" "g = [] \<or> v \<noteq> []"
  shows "ParseGroupVersion (GroupVersion_String g v) = Inr (g, v)"
proof (cases "g = []")
  case True
  with assms show ?thesis
    by (auto simp: ParseGroupVersion_def GroupVersion_String_def strings_Count_def count_list_0_iff)
next
  case False
  have "count_list (g @ CHR ''/'' # v) (CHR ''/'') = 1"
    using assms by (simp add: count_list_append count_list_0_iff)
  moreover have "strings_IndexByte (g @ CHR ''/'' # v) (CHR ''/'') = int (length g)"
    using assms(1) by (rule strings_IndexByte_append)
  moreover have "g @ CHR ''/'' # v \<noteq> ''/''" using False by (cases g) auto
  ultimately show ?thesis
    using False by (auto simp: ParseGroupVersion_def GroupVersion_String_def strings_Count_def Let_def)
qed

lemma GetGroupVersionKind_Set:
  assumes "regularKind gvk"
  shows "GetGroupVersionKind (SetGroupVersionKind [] gvk) = gvk"
proof -
  have "GetAPIVersion (SetGroupVersionKind [] gvk) = GroupVersion_String (gvk_Group gvk) (gvk_Version gvk)"
    "GetKind (SetGroupVersionKind [] gvk) = gvk_Kind gvk"
    by (simp_all add: GetAPIVersion_def GetKind_def getNestedString_top SetGroupVersionKind_def
        SetAPIVersion_def SetKind_def setField_def SetNestedField_def)
  with assms show ?thesis
    by (simp add: GetGroupVersionKind_def ParseGroupVersion_String regularKind_def)
qed

section \<open>What one call does\<close>

abbreviation objKey :: "Unstructured \<Rightarrow> Key" where
  "objKey u \<equiv> keyOf (UnstructuredObj u)"

text \<open>The checks before the server is asked.\<close>

definition applicable :: "Unstructured \<Rightarrow> bool" where
  "applicable obj \<longleftrightarrow>
     GetName obj \<noteq> [] \<and> IsObjectSupported obj = None \<and> regularKind (GetGroupVersionKind obj)"

lemma ApplyObject_read:
  assumes "applicable obj"
  shows "ApplyObject client obj s =
    (let desc = ''('' @ GroupVersionKind_String (GetGroupVersionKind obj) @ '') '' @ GetNamespace obj @ ''/'' @
         GetName obj in
     case GetUnstructured client (GetGroupVersionKind obj) (GetNamespace obj) (GetName obj) s of
       (Inl err, s) \<Rightarrow>
         if IsNotFound err then
           (case client_Create client (UnstructuredObj obj) s of
              (Some err, s) \<Rightarrow> (Some (Wrapf (''could not create '' @ desc) err), s)
            | (None, s) \<Rightarrow> (None, s))
         else (Some (Wrapf (''could not retrieve existing '' @ desc) err), s)
     | (Inr existing, s) \<Rightarrow>
         (case MergeObjectForUpdate existing obj of
            (Some err, obj) \<Rightarrow>
              (Some (Wrapf (''could not merge object '' @ desc @ '' with existing'') err), s)
          | (None, obj) \<Rightarrow>
              if \<not> DeepEqual (JObj existing) (JObj obj) then
                (case client_Update client (UnstructuredObj obj) s of
                   (Some err, s) \<Rightarrow> (Some (Wrapf (''could not update object '' @ desc) err), s)
                 | (None, s) \<Rightarrow> (None, s))
              else (None, s)))"
  using assms
  by (simp add: ApplyObject_def applicable_def Let_def GetGroupVersionKind_Set)

lemma merged_key:
  assumes "MergeObjectForUpdate c u = (None, m)" "hasMeta u"
  shows "objKey m = objKey u"
  using merged_top(1) [OF assms] merged_accessors(6,7) [OF assms] by simp

text \<open>Which calls were made, and what the last one said.\<close>

lemma ApplyObject_calls:
  assumes "ApplyObject client obj s = (res, s')"
  obtains (none) "s' = s" "res \<noteq> None"
  | (read) r k where "typedResult asUnstructured (client_Get client k s) = (r, s')"
  | (create) err k s1 e where "typedResult asUnstructured (client_Get client k s) = (Inl err, s1)"
      "client_Create client (UnstructuredObj obj) s1 = (e, s')" "res = None \<longleftrightarrow> e = None" "hasMeta obj"
  | (update) existing k s1 m e where "typedResult asUnstructured (client_Get client k s) = (Inr existing, s1)"
      "MergeObjectForUpdate existing obj = (None, m)" "hasMeta obj"
      "client_Update client (UnstructuredObj m) s1 = (e, s')" "res = None \<longleftrightarrow> e = None"
proof (cases "GetName obj = [] \<or> IsObjectSupported obj \<noteq> None")
  case True
  with assms have "s' = s \<and> res \<noteq> None"
    by (auto simp: ApplyObject_def Let_def split: if_splits option.splits)
  then show ?thesis using none by simp
next
  case False
  let ?k = "(GetGroupVersionKind (SetGroupVersionKind [] (GetGroupVersionKind obj)), GetNamespace obj, GetName obj)"
  obtain r s1 where get: "typedResult asUnstructured (client_Get client ?k s) = (r, s1)" by force
  have meta: "hasMeta obj" using False GetName_hasMeta by blast
  show ?thesis
  proof (cases r)
    case (Inl err)
    with assms False get show ?thesis
      by (auto simp: ApplyObject_def GetUnstructured_def Let_def intro: read create [OF _ _ _ meta]
          split: if_splits option.splits prod.splits)
  next
    case (Inr existing)
    obtain me m where merge: "MergeObjectForUpdate existing obj = (me, m)" by force
    with assms False get Inr show ?thesis
      by (auto simp: ApplyObject_def GetUnstructured_def Let_def intro: read update [OF _ _ meta]
          split: if_splits option.splits prod.splits)
  qed
qed

context api_client
begin

text \<open>The ways in which the call changes the server.\<close>

lemma ApplyObject_effect:
  assumes "ApplyObject c obj s = (res, s')"
  obtains (same) "lookup s' = lookup s"
  | (created) stored where "res = None" "lookup s (objKey obj) = None"
      "keeps (UnstructuredObj obj) stored" "keyOf stored = objKey obj"
      "lookup s' = (lookup s)(objKey obj \<mapsto> stored)"
  | (updated) existing m stored where "res = None" "MergeObjectForUpdate existing obj = (None, m)"
      "lookup s (objKey obj) \<noteq> None"
      "keeps (UnstructuredObj m) stored" "keyOf stored = objKey obj"
      "lookup s' = (lookup s)(objKey obj \<mapsto> stored)"
  using assms
proof (cases rule: ApplyObject_calls)
  case none
  then show ?thesis using same by simp
next
  case read
  then show ?thesis using same typed_get_frame by blast
next
  case (create err k s1 e)
  note s1 = typed_get_frame [OF create(1)]
  show ?thesis
  proof (cases e)
    case None
    with create obtain stored where "lookup s1 (objKey obj) = None" "keeps (UnstructuredObj obj) stored"
      "keyOf stored = objKey obj" "lookup s' = (lookup s1)(objKey obj \<mapsto> stored)"
      using create_lookup by blast
    with s1 create None created show ?thesis by simp
  next
    case (Some err)
    with create create_failed s1 same show ?thesis by metis
  qed
next
  case (update existing k s1 m e)
  note s1 = typed_get_frame [OF update(1)] and key = merged_key [OF update(2,3)]
  show ?thesis
  proof (cases e)
    case None
    with update obtain stored where "lookup s1 (objKey m) \<noteq> None" "keeps (UnstructuredObj m) stored"
      "keyOf stored = objKey m" "lookup s' = (lookup s1)(objKey m \<mapsto> stored)"
      using update_lookup by blast
    with s1 update None key updated show ?thesis by metis
  next
    case (Some err)
    with update update_failed s1 same show ?thesis by metis
  qed
qed

end

section \<open>Success under the contracts\<close>

context api_client
begin

lemma ApplyObject_frame:
  "ApplyObject c obj s = (res, s') \<Longrightarrow> k \<noteq> objKey obj \<Longrightarrow> lookup s' k = lookup s k"
  by (erule ApplyObject_effect) auto

lemma ApplyObject_failed: "ApplyObject c obj s = (Some err, s') \<Longrightarrow> lookup s' = lookup s"
  by (erule ApplyObject_effect) auto

text \<open>After a call that succeeds the object is there.\<close>

lemma ApplyObject_succeeded:
  assumes "applicable obj" and run: "ApplyObject c obj s = (None, s')"
  shows "\<exists>stored. lookup s' (objKey obj) = Some stored \<and>
    (lookup s (objKey obj) = None \<longrightarrow> keeps (UnstructuredObj obj) stored) \<and>
    (\<forall>cur. lookup s (objKey obj) = Some (UnstructuredObj cur) \<longrightarrow>
       (\<exists>m. MergeObjectForUpdate cur obj = (None, m) \<and>
          (DeepEqual (JObj cur) (JObj m) \<and> lookup s' = lookup s \<or> keeps (UnstructuredObj m) stored)))"
proof -
  obtain r s1 where get: "typedResult asUnstructured (client_Get c (objKey obj) s) = (r, s1)" by force
  note s1 = typed_get_frame [OF get]
  have meta: "hasMeta obj" using assms(1) GetName_hasMeta by (simp add: applicable_def)
  show ?thesis
  proof (cases r)
    case (Inl err)
    with get run assms(1) have nf: "IsNotFound err" "client_Create c (UnstructuredObj obj) s1 = (None, s')"
      by (auto simp: ApplyObject_read Let_def GetUnstructured_def split: if_splits prod.splits option.splits)
    have "lookup s (objKey obj) = None"
      using typed_get_missing [OF get [unfolded Inl] nf(1)] .
    moreover obtain stored where "keeps (UnstructuredObj obj) stored"
      "lookup s' = (lookup s1)(objKey obj \<mapsto> stored)"
      using nf(2) by (rule create_lookup)
    ultimately show ?thesis by (intro exI [of _ stored]) simp
  next
    case (Inr cur)
    with get have "typedResult asUnstructured (client_Get c (objKey obj) s) = (Inr cur, s1)" by simp
    from typed_get_found [OF this] obtain o' where
      "lookup s (objKey obj) = Some o'" "asUnstructured o' = Some cur" by blast
    then have cur: "lookup s (objKey obj) = Some (UnstructuredObj cur)" by (cases o') auto
    from get Inr run assms(1) obtain m where m: "MergeObjectForUpdate cur obj = (None, m)"
      "DeepEqual (JObj cur) (JObj m) \<and> s' = s1 \<or> client_Update c (UnstructuredObj m) s1 = (None, s')"
      by (auto simp: ApplyObject_read Let_def GetUnstructured_def split: if_splits prod.splits option.splits)
    note key = merged_key [OF m(1) meta]
    from m(2) show ?thesis
    proof
      assume "client_Update c (UnstructuredObj m) s1 = (None, s')"
      then obtain stored where "keeps (UnstructuredObj m) stored" "lookup s' = (lookup s1)(objKey m \<mapsto> stored)"
        by (rule update_lookup)
      with cur m(1) key show ?thesis by (intro exI [of _ stored]) (simp del: keyOf.simps)
    qed (use cur m(1) s1 in auto)
  qed
qed

end

context reliable_client
begin

lemma read_missing:
  assumes "lookup s k = None"
  shows "\<exists>err. typedResult conv (client_Get c k s) = (Inl err, snd (client_Get c k s)) \<and> IsNotFound err"
  using get_reports [OF assms]
  by (auto simp: typedResult_def split: prod.splits sum.splits)

lemma read_found:
  assumes "lookup s k = Some obj" "conv obj = Some x"
  shows "typedResult conv (client_Get c k s) = (Inr x, snd (client_Get c k s))"
  using get_answers [OF assms(1)] assms(2)
  by (auto simp: typedResult_def split: prod.splits sum.splits)

text \<open>The calls made for a missing and for an existing object.\<close>

lemma ApplyObject_missing:
  assumes "applicable obj" "lookup s (objKey obj) = None"
  shows "ApplyObject c obj s = (None, snd (client_Create c (UnstructuredObj obj) (snd (client_Get c (objKey obj) s))))"
proof -
  have "fst (client_Create c (UnstructuredObj obj) (snd (client_Get c (objKey obj) s))) = None"
    using assms(2) create_answers get_frame by metis
  with read_missing [OF assms(2), of asUnstructured] assms(1) show ?thesis
    by (auto simp: ApplyObject_read Let_def GetUnstructured_def split: prod.splits option.splits)
qed

lemma ApplyObject_existing:
  assumes "applicable obj" and cur: "lookup s (objKey obj) = Some (UnstructuredObj cur)"
    and m: "MergeObjectForUpdate cur obj = (None, m)"
  shows "ApplyObject c obj s = (None,
    if DeepEqual (JObj cur) (JObj m) then snd (client_Get c (objKey obj) s)
    else snd (client_Update c (UnstructuredObj m) (snd (client_Get c (objKey obj) s))))"
proof -
  have "objKey m = objKey obj"
    using assms(1) merged_key [OF m] GetName_hasMeta by (simp add: applicable_def)
  then have "fst (client_Update c (UnstructuredObj m) (snd (client_Get c (objKey obj) s))) = None"
    using cur update_answers get_frame by (metis option.distinct(1))
  with read_found [OF cur, of asUnstructured cur] assms(1) m show ?thesis
    by (auto simp: ApplyObject_read Let_def GetUnstructured_def split: prod.splits option.splits)
qed

end

context verbatim_client
begin

lemma ApplyObject_again:
  assumes app: "applicable obj" and wf: "json_wf (JObj obj)" "json_wf (JObj cur)"
    and typed: "typedFields obj" and time: "canonicalTime (GetCreationTimestamp cur)"
    and cur: "lookup s (objKey obj) = Some (UnstructuredObj cur)"
    and run: "ApplyObject c obj s = (None, s')"
  shows "ApplyObject c obj s' = (None, snd (client_Get c (objKey obj) s'))"
proof -
  have meta: "hasMeta obj" using app GetName_hasMeta by (simp add: applicable_def)
  obtain m where m: "MergeObjectForUpdate cur obj = (None, m)"
    using ApplyObject_succeeded [OF app run] cur by blast
  note run' = ApplyObject_existing [OF app cur m]
  have key: "objKey m = objKey obj" using merged_key [OF m meta] .
  show ?thesis
  proof (cases "DeepEqual (JObj cur) (JObj m)")
    case True
    with run run' have "s' = snd (client_Get c (objKey obj) s)" by simp
    then have "lookup s' = lookup s" using get_frame by simp
    with cur ApplyObject_existing [OF app _ m, of s'] True show ?thesis by simp
  next
    case False
    with run run' have "s' = snd (client_Update c (UnstructuredObj m) (snd (client_Get c (objKey obj) s)))"
      by simp
    moreover have "fst (client_Update c (UnstructuredObj m) (snd (client_Get c (objKey obj) s))) = None"
      using cur key update_answers get_frame by (metis option.distinct(1))
    ultimately have "client_Update c (UnstructuredObj m) (snd (client_Get c (objKey obj) s)) = (None, s')"
      by (metis prod.collapse)
    then have "lookup s' (objKey obj) = Some (UnstructuredObj m)"
      using update_verbatim key by fastforce
    with ApplyObject_existing [OF app this merge_again [OF m meta wf(1) typed time]]
      DeepEqual_refl [OF merge_wf [OF m meta wf(2,1)]] show ?thesis by simp
  qed
qed

end

section \<open>Properties\<close>


text \<open>
  Against a server that is up, applying an object succeeds whenever it is missing, and when it
  exists exactly if it can be merged.
\<close>
theorem apply_object_succeeds:
  assumes "reliable_client c lookup" and "applicable obj"
    and "lookup s (objKey obj) = None \<or> lookup s (objKey obj) = Some (UnstructuredObj cur)"
  shows "fst (ApplyObject c obj s) = None \<longleftrightarrow>
    lookup s (objKey obj) = None \<or> fst (MergeObjectForUpdate cur obj) = None"
  using assms(3)
proof
  assume "lookup s (objKey obj) = None"
  then show ?thesis using reliable_client.ApplyObject_missing [OF assms(1,2)] by simp
next
  assume cur: "lookup s (objKey obj) = Some (UnstructuredObj cur)"
  have api: "api_client c lookup" using assms(1) by (simp add: reliable_client_def)
  show ?thesis
  proof
    assume "fst (ApplyObject c obj s) = None"
    then obtain s' where "ApplyObject c obj s = (None, s')" by (metis prod.collapse)
    from api_client.ApplyObject_succeeded [OF api assms(2) this] cur
    show "lookup s (objKey obj) = None \<or> fst (MergeObjectForUpdate cur obj) = None" by auto
  next
    assume "lookup s (objKey obj) = None \<or> fst (MergeObjectForUpdate cur obj) = None"
    with cur have "fst (MergeObjectForUpdate cur obj) = None" by auto
    then obtain m where "MergeObjectForUpdate cur obj = (None, m)" by (rule merge_ok)
    then show "fst (ApplyObject c obj s) = None"
      using reliable_client.ApplyObject_existing [OF assms(1,2) cur] by simp
  qed
qed

text \<open>
  Applying an existing object again only reads: where the server stores what it is given, the
  second of two calls ends in the state its one read leaves, with no create and no update.
\<close>
theorem apply_object_idempotent:
  assumes "verbatim_client c lookup" and "applicable obj"
    and "json_wf (JObj obj)" and "json_wf (JObj cur)" and "typedFields obj"
    and "canonicalTime (GetCreationTimestamp cur)"
    and "lookup s (objKey obj) = Some (UnstructuredObj cur)"
    and "ApplyObject c obj s = (None, s')"
  shows "ApplyObject c obj s' = (None, snd (client_Get c (objKey obj) s'))"
  by (rule verbatim_client.ApplyObject_again [OF assms(1-8)])

lemma merge_self:
  assumes "typedFields obj" "hasMeta obj"
  obtains m where "MergeObjectForUpdate obj obj = (None, m)"
proof -
  have "\<not> isl (NestedString obj [''spec'', ''clusterIP'']) \<Longrightarrow> map_of obj ''spec'' = Some v \<Longrightarrow>
      NestedString obj [''spec'', ''clusterIP''] = Inr (Some ip) \<Longrightarrow> asMap v \<noteq> None" for v ip
    by (cases v) (auto simp: NestedString_def nestedAs_def NestedFieldNoCopy_def)
  then have "fst (MergeObjectForUpdate obj obj) = None"
    using merge_error_iff [of obj obj] assms(1) unfolding typedFields_def by blast
  then show ?thesis using that by (rule merge_ok)
qed

lemma merge_adds_maps:
  assumes "MergeObjectForUpdate obj obj = (None, m)" "hasMeta obj" "json_wf (JObj obj)"
    and "metaGet obj ''labels'' = None \<or> metaGet obj ''annotations'' = None"
  shows "\<not> DeepEqual (JObj obj) (JObj m)"
proof
  assume "DeepEqual (JObj obj) (JObj m)"
  note top = DeepEqual_lookup [OF this assms(3) merge_wf [OF assms(1,2,3,3)], of "''metadata''"]
  obtain n where n0: "map_of obj ''metadata'' = Some (JObj n)" using assms(2) by (rule hasMetaE)
  with top obtain v where v: "map_of m ''metadata'' = Some v" "DeepEqual (JObj n) v"
    by (auto simp: option_rel_Some1)
  then obtain n' where n': "v = JObj n'" by (cases v) (simp_all add: DeepEqual.simps)
  note n = n0 v(1) [unfolded n'] and eq = v(2) [unfolded n']
  have wf: "json_wf (JObj n)" "json_wf (JObj n')"
    using json_wf_lookup n assms(3) merge_wf [OF assms(1,2,3,3)] by blast+
  have rel: "rel_option DeepEqual (metaGet obj k) (metaGet m k)" for k
    using DeepEqual_lookup [OF eq wf, of k] n by (simp add: metaGet_def)
  have "metaGet m ''labels'' \<noteq> None" "metaGet m ''annotations'' \<noteq> None"
    using merged_accessors(8,9) [OF assms(1,2)]
    by (cases "metaGet m ''labels''"; cases "metaGet m ''annotations''"; simp add: getters_meta)+
  with assms(4) rel [of "''labels''"] rel [of "''annotations''"] show False by auto
qed

text \<open>
  An object that is rendered without labels or without annotations is written twice: after the
  call that creates it, the next call with the same object updates it, because the merge sets empty
  maps that the stored object does not have.
\<close>
theorem apply_object_redundant_update:
  assumes "verbatim_client c lookup" and "applicable obj"
    and "json_wf (JObj obj)" and "typedFields obj"
    and "metaGet obj ''labels'' = None \<or> metaGet obj ''annotations'' = None"
    and "lookup s (objKey obj) = None" and "ApplyObject c obj s = (None, s')"
  shows "\<exists>m. MergeObjectForUpdate obj obj = (None, m) \<and>
    ApplyObject c obj s' = (None, snd (client_Update c (UnstructuredObj m) (snd (client_Get c (objKey obj) s'))))"
proof -
  have rel: "reliable_client c lookup" "api_client c lookup"
    using assms(1) by (simp_all add: verbatim_client_def reliable_client_def)
  have meta: "hasMeta obj" using assms(2) GetName_hasMeta by (simp add: applicable_def)
  let ?s = "snd (client_Get c (objKey obj) s)"
  have "fst (client_Create c (UnstructuredObj obj) ?s) = None"
    using reliable_client.create_answers [OF rel(1)] api_client.get_frame [OF rel(2)] assms(6) by metis
  moreover have "s' = snd (client_Create c (UnstructuredObj obj) ?s)"
    using reliable_client.ApplyObject_missing [OF rel(1) assms(2,6)] assms(7) by simp
  ultimately have "client_Create c (UnstructuredObj obj) ?s = (None, s')" by (metis prod.collapse)
  from verbatim_client.create_verbatim [OF assms(1) this]
  have cur: "lookup s' (objKey obj) = Some (UnstructuredObj obj)" by simp
  obtain m where m: "MergeObjectForUpdate obj obj = (None, m)" by (rule merge_self [OF assms(4) meta])
  show ?thesis
    using reliable_client.ApplyObject_existing [OF rel(1) assms(2) cur m] m
      merge_adds_maps [OF m meta assms(3,5)] by auto
qed

section \<open>Examples\<close>

definition exampleCluster :: Tracker where
  "exampleCluster = [(objKey storedDeployment, UnstructuredObj storedDeployment)]"

lemma example_applicable: "applicable desiredDeployment" "applicable desiredService"
  "objKey desiredDeployment = objKey storedDeployment"
  by code_simp+

lemma example_lookup:
  "map_of exampleCluster (objKey desiredDeployment) = Some (UnstructuredObj storedDeployment)"
  by (simp add: exampleCluster_def example_applicable(3) del: keyOf.simps)

lemma example_apply: "fst (ApplyObject trackerClient desiredDeployment exampleCluster) = None"
proof -
  obtain m where "MergeObjectForUpdate storedDeployment desiredDeployment = (None, m)"
    by (rule merge_ok [OF example_merge])
  from tr.ApplyObject_existing [OF example_applicable(1) example_lookup this] show ?thesis by simp
qed


theorem apply_object_succeeds_witness:
  "fst (ApplyObject trackerClient desiredDeployment exampleCluster) = None \<and>
   fst (MergeObjectForUpdate storedDeployment desiredDeployment) = None"
  using apply_object_succeeds [OF tracker_contract(2) example_applicable(1),
      of exampleCluster storedDeployment] example_lookup example_merge
  by (simp del: keyOf.simps)

theorem apply_object_idempotent_witness:
  "\<exists>s'. ApplyObject trackerClient desiredDeployment exampleCluster = (None, s') \<and>
     ApplyObject trackerClient desiredDeployment s' =
       (None, snd (client_Get trackerClient (objKey desiredDeployment) s'))"
proof -
  obtain s' where run: "ApplyObject trackerClient desiredDeployment exampleCluster = (None, s')"
    using example_apply by (metis prod.collapse)
  from apply_object_idempotent [OF tracker_contract(3) example_applicable(1) example_deployment(2,3,4)
      example_time example_lookup run] run
  show ?thesis by blast
qed

theorem apply_object_redundant_update_witness:
  "\<exists>s' m. ApplyObject trackerClient desiredService [] = (None, s') \<and>
     ApplyObject trackerClient desiredService s' = (None, snd (client_Update trackerClient (UnstructuredObj m)
       (snd (client_Get trackerClient (objKey desiredService) s'))))"
proof -
  have facts: "json_wf (JObj desiredService)" "typedFields desiredService"
    "metaGet desiredService ''labels'' = None \<or> metaGet desiredService ''annotations'' = None"
    by code_simp+
  have missing: "map_of [] (objKey desiredService) = None" by simp
  obtain s' where run: "ApplyObject trackerClient desiredService [] = (None, s')"
    using tr.ApplyObject_missing [OF example_applicable(2) missing] by blast
  from apply_object_redundant_update [OF tracker_contract(3) example_applicable(2) facts missing run] run
  show ?thesis by blast
qed

end
