(* ===== verification/Owner_Reference.thy ===== *)
theory Owner_Reference
  imports Cluster
begin

text \<open>
  \<^verbatim>\<open>controllerutil.SetControllerReference\<close> of the vendored controller-runtime, which the operator
  calls on every ConfigMap it creates and every manifest of the daemon: the PtpOperatorConfig becomes
  the one controller of the object. The owner references of a typed object are a field; those of an
  unstructured object are read and written as JSON.
\<close>

section \<open>Definitions\<close>

definition referSameObject :: "OwnerReference \<Rightarrow> OwnerReference \<Rightarrow> bool" where
  "referSameObject a b =
     (case ParseGroupVersion (ref_APIVersion a) of
        Inl err \<Rightarrow> False
      | Inr (aGroup, _) \<Rightarrow>
          (case ParseGroupVersion (ref_APIVersion b) of
             Inl err \<Rightarrow> False
           | Inr (bGroup, _) \<Rightarrow> aGroup = bGroup \<and> ref_Kind a = ref_Kind b \<and> ref_Name a = ref_Name b))"

text \<open>\<^verbatim>\<open>GetControllerOf\<close>: the first reference that says it is the controller.\<close>

definition GetControllerOf :: "OwnerReference list \<Rightarrow> OwnerReference option" where
  "GetControllerOf refs = find (\<lambda>r. ref_Controller r = Some True) refs"

text \<open>\<^verbatim>\<open>upsertOwnerRef\<close>: the first reference to the same object is replaced, or the new one appended.\<close>

fun upsertOwnerRef :: "OwnerReference \<Rightarrow> OwnerReference list \<Rightarrow> OwnerReference list" where
  "upsertOwnerRef ref [] = [ref]"
| "upsertOwnerRef ref (r # owners) =
     (if referSameObject r ref then ref # owners else r # upsertOwnerRef ref owners)"

definition validateOwner :: "string \<Rightarrow> string \<Rightarrow> error option" where
  "validateOwner ownerNs objNs =
     (if ownerNs \<noteq> [] then
        if objNs = [] then
          Some (Errorf (''cluster-scoped resource must not have a namespace-scoped owner, owner'' @
            [CHR 0x27] @ ''s namespace '' @ ownerNs))
        else if ownerNs \<noteq> objNs then
          Some (Errorf (''cross-namespace owner references are disallowed, owner'' @ [CHR 0x27] @
            ''s namespace '' @ ownerNs @ '', obj'' @ [CHR 0x27] @ ''s namespace '' @ objNs))
        else None
      else None)"

definition alreadyOwnedError :: "string \<Rightarrow> string \<Rightarrow> OwnerReference \<Rightarrow> error" where
  "alreadyOwnedError ns name owner =
     Errorf (''Object '' @ ns @ ''/'' @ name @ '' is already owned by another '' @ ref_Kind owner @
       '' controller '' @ ref_Name owner)"

text \<open>The scheme knows PtpOperatorConfig as \<^verbatim>\<open>ptp.openshift.io/v1\<close>.\<close>

definition controllerRef :: "PtpOperatorConfig \<Rightarrow> OwnerReference" where
  "controllerRef owner =
     (let gvk = ptpKind ''PtpOperatorConfig'' in
      \<lparr>ref_APIVersion = GroupVersion_String (gvk_Group gvk) (gvk_Version gvk), ref_Kind = gvk_Kind gvk,
       ref_Name = meta_Name (oconfig_ObjectMeta owner), ref_UID = meta_UID (oconfig_ObjectMeta owner),
       ref_Controller = Some True, ref_BlockOwnerDeletion = Some True\<rparr>)"

text \<open>The new owner references of an object with the given namespace, name and references.\<close>

definition newOwnerRefs ::
  "PtpOperatorConfig \<Rightarrow> string \<Rightarrow> string \<Rightarrow> OwnerReference list \<Rightarrow> error + OwnerReference list"
where
  "newOwnerRefs owner ns name refs =
     (case validateOwner (meta_Namespace (oconfig_ObjectMeta owner)) ns of
        Some err \<Rightarrow> Inl err
      | None \<Rightarrow>
          (let ref = controllerRef owner in
           case GetControllerOf refs of
             Some existing \<Rightarrow>
               if \<not> referSameObject existing ref then Inl (alreadyOwnedError ns name existing)
               else Inr (upsertOwnerRef ref refs)
           | None \<Rightarrow> Inr (upsertOwnerRef ref refs)))"

definition SetControllerReference_cm :: "PtpOperatorConfig \<Rightarrow> ConfigMap \<Rightarrow> error + ConfigMap" where
  "SetControllerReference_cm owner cm =
     (let m = cm_ObjectMeta cm in
      case newOwnerRefs owner (meta_Namespace m) (meta_Name m) (meta_OwnerReferences m) of
        Inl err \<Rightarrow> Inl err
      | Inr refs \<Rightarrow> Inr (cm\<lparr>cm_ObjectMeta := m\<lparr>meta_OwnerReferences := refs\<rparr>\<rparr>))"

text \<open>Owner references as JSON.\<close>

definition boolOf :: "Unstructured \<Rightarrow> string \<Rightarrow> bool option" where
  "boolOf v k = (case NestedBool v [k] of Inr (Some b) \<Rightarrow> Some b | _ \<Rightarrow> None)"

definition extractOwnerReference :: "Unstructured \<Rightarrow> OwnerReference" where
  "extractOwnerReference v =
     \<lparr>ref_APIVersion = getNestedString v [''apiVersion''], ref_Kind = getNestedString v [''kind''],
      ref_Name = getNestedString v [''name''], ref_UID = getNestedString v [''uid''],
      ref_Controller = boolOf v ''controller'', ref_BlockOwnerDeletion = boolOf v ''blockOwnerDeletion''\<rparr>"

fun ownerReferences :: "json list \<Rightarrow> OwnerReference list option" where
  "ownerReferences [] = Some []"
| "ownerReferences (v # vs) =
     (case v of
        JObj m \<Rightarrow> (case ownerReferences vs of None \<Rightarrow> None | Some rs \<Rightarrow> Some (extractOwnerReference m # rs))
      | _ \<Rightarrow> None)"

definition GetOwnerReferences :: "Unstructured \<Rightarrow> OwnerReference list" where
  "GetOwnerReferences u =
     (case NestedFieldNoCopy u [''metadata'', ''ownerReferences''] of
        Inr (Some (JArr vs)) \<Rightarrow> (case ownerReferences vs of None \<Rightarrow> [] | Some rs \<Rightarrow> rs)
      | _ \<Rightarrow> [])"

definition optEntry :: "string \<Rightarrow> bool option \<Rightarrow> (string \<times> json) list" where
  "optEntry k b = (case b of None \<Rightarrow> [] | Some x \<Rightarrow> [(k, JBool x)])"

text \<open>\<^verbatim>\<open>ToUnstructured\<close> of a reference: the pointer fields are left out when nil.\<close>

definition ownerReferenceJson :: "OwnerReference \<Rightarrow> json" where
  "ownerReferenceJson r =
     JObj ([(''apiVersion'', JString (ref_APIVersion r)), (''kind'', JString (ref_Kind r)),
       (''name'', JString (ref_Name r)), (''uid'', JString (ref_UID r))] @
       optEntry ''controller'' (ref_Controller r) @
       optEntry ''blockOwnerDeletion'' (ref_BlockOwnerDeletion r))"

definition SetOwnerReferences :: "Unstructured \<Rightarrow> OwnerReference list \<Rightarrow> Unstructured" where
  "SetOwnerReferences u refs = setMeta u ''ownerReferences'' (JArr (map ownerReferenceJson refs))"

definition SetControllerReference :: "PtpOperatorConfig \<Rightarrow> Unstructured \<Rightarrow> error + Unstructured" where
  "SetControllerReference owner obj =
     (case newOwnerRefs owner (GetNamespace obj) (GetName obj) (GetOwnerReferences obj) of
        Inl err \<Rightarrow> Inl err
      | Inr refs \<Rightarrow> Inr (SetOwnerReferences obj refs))"

section \<open>One controller\<close>

abbreviation isController :: "OwnerReference \<Rightarrow> bool" where
  "isController r \<equiv> ref_Controller r = Some True"

lemma controllerRef_group [simp]: "ParseGroupVersion (ref_APIVersion (controllerRef owner)) = Inr (''ptp.openshift.io'', ''v1'')"
  by code_simp

lemma referSameObject_self [simp]: "referSameObject (controllerRef owner) (controllerRef owner)"
  by (simp add: referSameObject_def)

lemma controllerRef_fields [simp]:
  "ref_Controller (controllerRef owner) = Some True"
  "ref_Name (controllerRef owner) = meta_Name (oconfig_ObjectMeta owner)"
  "ref_UID (controllerRef owner) = meta_UID (oconfig_ObjectMeta owner)"
  "ref_Kind (controllerRef owner) = ''PtpOperatorConfig''"
  by (simp_all add: controllerRef_def Let_def ptpKind_def)

text \<open>References that are not to the owner stay, in their order.\<close>

lemma upsertOwnerRef_others:
  assumes "\<And>r. P r \<Longrightarrow> \<not> referSameObject r ref" "\<not> P ref"
  shows "filter P (upsertOwnerRef ref refs) = filter P refs"
  using assms by (induction refs) auto

lemma upsertOwnerRef_mem: "ref \<in> set (upsertOwnerRef ref refs)"
  by (induction refs) auto

lemma upsertOwnerRef_again:
  "referSameObject ref ref \<Longrightarrow> upsertOwnerRef ref (upsertOwnerRef ref refs) = upsertOwnerRef ref refs"
  by (induction refs) auto

lemma GetControllerOf_None: "GetControllerOf refs = None \<longleftrightarrow> filter isController refs = []"
  by (auto simp: GetControllerOf_def find_None_iff filter_empty_conv)

lemma GetControllerOf_filter: "GetControllerOf refs = Some r \<Longrightarrow> \<exists>rs. filter isController refs = r # rs"
  unfolding GetControllerOf_def by (induction refs) (auto split: if_splits)

text \<open>
  The controllers after an upsert: when the owner is referred to at most once before, and no other
  object is the controller, the owner is the only controller after.
\<close>

lemma upsert_controllers:
  assumes "isController ref" "\<forall>r \<in> set refs. isController r \<longrightarrow> referSameObject r ref"
    and "length (filter (\<lambda>r. referSameObject r ref) refs) \<le> 1"
  shows "filter isController (upsertOwnerRef ref refs) = [ref]"
  using assms
proof (induction refs)
  case (Cons r refs)
  show ?case
  proof (cases "referSameObject r ref")
    case True
    with Cons.prems(3) have "\<forall>x \<in> set refs. \<not> referSameObject x ref" by (simp add: filter_empty_conv)
    then have "filter isController refs = []" using Cons.prems(2) by (auto simp: filter_empty_conv)
    with True Cons.prems(1) show ?thesis by simp
  next
    case False
    with Cons show ?thesis by auto
  qed
qed simp

lemma newOwnerRefs_ok:
  "newOwnerRefs owner ns name refs = Inr refs' \<longleftrightarrow>
     (meta_Namespace (oconfig_ObjectMeta owner) = [] \<or> meta_Namespace (oconfig_ObjectMeta owner) = ns) \<and>
     pred_option (\<lambda>r. referSameObject r (controllerRef owner)) (GetControllerOf refs) \<and>
     refs' = upsertOwnerRef (controllerRef owner) refs"
  by (auto simp: newOwnerRefs_def validateOwner_def Let_def split: option.splits)

section \<open>Unstructured objects\<close>

lemma extract_ownerReferenceJson:
  assumes "ownerReferenceJson r = JObj m"
  shows "extractOwnerReference m = r"
  using assms
  by (cases "ref_Controller r"; cases "ref_BlockOwnerDeletion r")
    (auto simp: ownerReferenceJson_def extractOwnerReference_def getNestedString_top boolOf_def
      NestedBool_def nestedAs_def NestedFieldNoCopy_def optEntry_def)

lemma ownerReferences_json: "ownerReferences (map ownerReferenceJson refs) = Some refs"
proof (induction refs)
  case (Cons r refs)
  obtain m where "ownerReferenceJson r = JObj m" by (simp add: ownerReferenceJson_def)
  with Cons show ?case by (simp add: extract_ownerReferenceJson)
qed simp

lemma GetOwnerReferences_meta:
  "GetOwnerReferences u = (case metaGet u ''ownerReferences'' of
     Some (JArr vs) \<Rightarrow> (case ownerReferences vs of None \<Rightarrow> [] | Some rs \<Rightarrow> rs) | _ \<Rightarrow> [])"
  by (auto simp: GetOwnerReferences_def NestedFieldNoCopy_def metaGet_def split: option.splits json.splits)

lemma GetOwnerReferences_Set: "hasMeta u \<Longrightarrow> GetOwnerReferences (SetOwnerReferences u refs) = refs"
  by (simp add: GetOwnerReferences_meta SetOwnerReferences_def ownerReferences_json)

lemma SetOwnerReferences_key: "hasMeta u \<Longrightarrow> keyOf (UnstructuredObj (SetOwnerReferences u refs)) = keyOf (UnstructuredObj u)"
  by (simp add: SetOwnerReferences_def getters_meta GetGroupVersionKind_cong [of "setMeta u _ _" u])

text \<open>
  (C35) When the operator's configuration can be made the controller of an object, it is its only
  controller afterwards, every reference to another owner is still there, and the key and every other
  field of the object are unchanged; making it the controller again changes nothing.
\<close>
theorem set_controller_reference:
  assumes "SetControllerReference owner obj = Inr obj'" and "GetName obj \<noteq> []"
    and "length (filter (\<lambda>r. referSameObject r (controllerRef owner)) (GetOwnerReferences obj)) \<le> 1"
    and "length (filter isController (GetOwnerReferences obj)) \<le> 1"
  shows "filter isController (GetOwnerReferences obj') = [controllerRef owner] \<and>
    filter (\<lambda>r. \<not> referSameObject r (controllerRef owner)) (GetOwnerReferences obj') =
      filter (\<lambda>r. \<not> referSameObject r (controllerRef owner)) (GetOwnerReferences obj) \<and>
    keyOf (UnstructuredObj obj') = keyOf (UnstructuredObj obj) \<and>
    (f \<noteq> ''metadata'' \<longrightarrow> map_of obj' f = map_of obj f) \<and>
    SetControllerReference owner obj' = Inr obj'"
proof -
  let ?ref = "controllerRef owner" and ?refs = "GetOwnerReferences obj"
  have meta: "hasMeta obj" using assms(2) by (rule GetName_hasMeta)
  from assms(1) have ok: "newOwnerRefs owner (GetNamespace obj) (GetName obj) ?refs = Inr (upsertOwnerRef ?ref ?refs)"
    and obj': "obj' = SetOwnerReferences obj (upsertOwnerRef ?ref ?refs)"
    by (auto simp: SetControllerReference_def newOwnerRefs_ok split: sum.splits)
  have refs': "GetOwnerReferences obj' = upsertOwnerRef ?ref ?refs"
    using meta by (simp add: obj' GetOwnerReferences_Set)
  have "\<forall>r \<in> set ?refs. isController r \<longrightarrow> referSameObject r ?ref"
  proof (cases "GetControllerOf ?refs")
    case None
    then show ?thesis by (auto simp: GetControllerOf_None filter_empty_conv)
  next
    case (Some r)
    with assms(4) have "filter isController ?refs = [r]" using GetControllerOf_filter by fastforce
    then have "\<forall>x \<in> set ?refs. isController x \<longrightarrow> x = r"
      using set_filter [of isController ?refs] by auto
    with ok Some show ?thesis by (auto simp: newOwnerRefs_ok)
  qed
  then have one: "filter isController (GetOwnerReferences obj') = [?ref]"
    unfolding refs' using assms(3) by (intro upsert_controllers) simp_all
  then have "GetControllerOf (GetOwnerReferences obj') = Some ?ref"
    using GetControllerOf_filter [of "GetOwnerReferences obj'"]
    by (cases "GetControllerOf (GetOwnerReferences obj')") (auto simp: GetControllerOf_None)
  moreover have key: "keyOf (UnstructuredObj obj') = keyOf (UnstructuredObj obj)"
    using meta by (simp add: obj' SetOwnerReferences_key del: keyOf.simps)
  ultimately have "newOwnerRefs owner (GetNamespace obj') (GetName obj') (GetOwnerReferences obj') =
      Inr (GetOwnerReferences obj')"
    using ok by (simp add: newOwnerRefs_ok refs' upsertOwnerRef_again)
  moreover have "SetOwnerReferences obj' (GetOwnerReferences obj') = obj'"
    unfolding refs' using meta by (auto simp: obj' SetOwnerReferences_def setField_def SetNestedField_def
        elim!: hasMetaE)
  ultimately have "SetControllerReference owner obj' = Inr obj'" by (simp add: SetControllerReference_def)
  moreover have "filter (\<lambda>r. \<not> referSameObject r ?ref) (GetOwnerReferences obj') =
      filter (\<lambda>r. \<not> referSameObject r ?ref) ?refs"
    unfolding refs' by (rule upsertOwnerRef_others) simp_all
  ultimately show ?thesis using one key by (simp add: obj' SetOwnerReferences_def del: keyOf.simps)
qed

section \<open>Example\<close>

definition exampleConfig :: PtpOperatorConfig where
  "exampleConfig =
     \<lparr>oconfig_ObjectMeta = emptyMeta\<lparr>meta_Name := DefaultOperatorConfigName, meta_Namespace := Namespace,
        meta_UID := ''u0''\<rparr>,
      oconfig_Spec = \<lparr>ospec_DaemonNodeSelector = [], ospec_EventConfig = None, ospec_EnabledPlugins = None\<rparr>\<rparr>"

definition exampleDaemonSet :: Unstructured where
  "exampleDaemonSet =
     [(''apiVersion'', JString ''apps/v1''), (''kind'', JString ''DaemonSet''),
      (''metadata'', JObj [(''name'', JString ''linuxptp-daemon''), (''namespace'', JString Namespace),
         (''ownerReferences'', JArr [JObj [(''apiVersion'', JString ''v1''), (''kind'', JString ''Node''),
            (''name'', JString ''n''), (''uid'', JString ''u9'')]])])]"

theorem set_controller_reference_witness:
  "\<exists>obj'. SetControllerReference exampleConfig exampleDaemonSet = Inr obj' \<and>
     length (GetOwnerReferences obj') = 2 \<and>
     filter isController (GetOwnerReferences obj') = [controllerRef exampleConfig]"
proof -
  have facts: "GetName exampleDaemonSet \<noteq> []"
    "length (filter (\<lambda>r. referSameObject r (controllerRef exampleConfig)) (GetOwnerReferences exampleDaemonSet)) \<le> 1"
    "length (filter isController (GetOwnerReferences exampleDaemonSet)) \<le> 1" by code_simp+
  have "\<not> isl (SetControllerReference exampleConfig exampleDaemonSet)" by code_simp
  then obtain obj' where obj': "SetControllerReference exampleConfig exampleDaemonSet = Inr obj'"
    by (metis sum.collapse(2))
  have "(case SetControllerReference exampleConfig exampleDaemonSet of Inl e \<Rightarrow> 0
      | Inr obj' \<Rightarrow> length (GetOwnerReferences obj')) = 2" by code_simp
  then have "length (GetOwnerReferences obj') = 2" by (simp add: obj')
  with set_controller_reference [OF obj' facts] obj' show ?thesis by blast
qed

end
