(* ===== verification/Render.thy ===== *)
theory Render
  imports Unstructured
begin

text \<open>
  \<^verbatim>\<open>pkg/render\<close>: manifests are read from files, executed as templates over the render data and decoded
  into objects. The file system, the template engine with its sprig functions and the YAML decoder
  are parameters: \<open>ReadFile\<close>, \<open>Parse\<close>, \<open>Execute\<close>, and \<open>Decoder\<close>, the answers that the calls of
  \<^verbatim>\<open>Decode\<close> on a text give, in order, before \<^verbatim>\<open>io.EOF\<close>. A value of the render data is a JSON value.
\<close>

section \<open>Definitions\<close>

type_synonym renderValues = "(string, json) gomap"

record RenderData =
  render_Funcs :: "string list"
  render_Data :: renderValues

definition MakeRenderData :: RenderData where
  "MakeRenderData = \<lparr>render_Funcs = [], render_Data = []\<rparr>"

definition getOr :: "renderValues \<Rightarrow> string \<Rightarrow> string \<Rightarrow> json" where
  "getOr m key fallback =
     (case map_of m key of
        None \<Rightarrow> JString fallback
      | Some val \<Rightarrow> (case val of JString s \<Rightarrow> if s = [] then JString fallback else val | _ \<Rightarrow> val))"

definition isSet :: "renderValues \<Rightarrow> string \<Rightarrow> json" where
  "isSet m key = (case map_of m key of None \<Rightarrow> JBool False | Some val \<Rightarrow> val)"

text \<open>\<open>'t\<close> is a parsed template; the functions it may call are passed to the parser by name.\<close>

record 't RenderEnv =
  ReadFile :: "string \<Rightarrow> error + string"
  Parse :: "string list \<Rightarrow> string \<Rightarrow> error + 't"
  Execute :: "'t \<Rightarrow> renderValues \<Rightarrow> error + string"
  Decoder :: "string \<Rightarrow> (error + Unstructured) list"
  SprigFuncs :: "string list"

fun decodeLoop :: "string \<Rightarrow> (error + Unstructured) list \<Rightarrow> Unstructured list \<Rightarrow> error + Unstructured list" where
  "decodeLoop path [] out = Inr out"
| "decodeLoop path (r # rs) out =
     (case r of
        Inl err \<Rightarrow> Inl (Wrapf (''failed to unmarshal manifest '' @ path) err)
      | Inr u \<Rightarrow> decodeLoop path rs (out @ [u]))"

definition RenderTemplate :: "'t RenderEnv \<Rightarrow> string \<Rightarrow> RenderData \<Rightarrow> error + Unstructured list" where
  "RenderTemplate env path d =
     (let funcs = render_Funcs d @ [''getOr'', ''isSet''] @ SprigFuncs env in
      case ReadFile env path of
        Inl err \<Rightarrow> Inl (Wrapf (''failed to read manifest '' @ path) err)
      | Inr source \<Rightarrow>
          (case Parse env funcs source of
             Inl err \<Rightarrow> Inl (Wrapf (''failed to parse manifest '' @ path @ '' as template'') err)
           | Inr tmpl \<Rightarrow>
               (case Execute env tmpl (render_Data d) of
                  Inl err \<Rightarrow> Inl (Wrapf (''failed to render manifest '' @ path) err)
                | Inr rendered \<Rightarrow>
                    if length (strings_TrimSpace rendered) = 0 then Inr []
                    else decodeLoop path (Decoder env rendered) [])))"

text \<open>
  \<^verbatim>\<open>RenderDir\<close> on the entries that \<^verbatim>\<open>filepath.Walk\<close> visits, in order: a path, whether it is a directory,
  and the error the walk met there.
\<close>

fun walkLoop ::
  "'t RenderEnv \<Rightarrow> RenderData \<Rightarrow> (string \<times> bool \<times> error option) list \<Rightarrow> Unstructured list \<Rightarrow>
   error + Unstructured list"
where
  "walkLoop env d [] out = Inr out"
| "walkLoop env d ((path, isDir, err) # es) out =
     (case err of
        Some e \<Rightarrow> Inl e
      | None \<Rightarrow>
          if isDir then walkLoop env d es out
          else if \<not> (strings_HasSuffix path ''.yml'' \<or> strings_HasSuffix path ''.yaml'' \<or>
            strings_HasSuffix path ''.json'') then walkLoop env d es out
          else case RenderTemplate env path d of
                 Inl e \<Rightarrow> Inl e
               | Inr objs \<Rightarrow> walkLoop env d es (out @ objs))"

definition RenderDir ::
  "'t RenderEnv \<Rightarrow> (string \<times> bool \<times> error option) list \<Rightarrow> RenderData \<Rightarrow> error + Unstructured list"
where
  "RenderDir env entries d =
     (case walkLoop env d entries [] of
        Inl err \<Rightarrow> Inl (Wrapf ''error rendering manifests'' err)
      | Inr out \<Rightarrow> Inr out)"

section \<open>Results\<close>

lemma decodeLoop_iff:
  "decodeLoop path rs out = Inr objs \<longleftrightarrow> (\<exists>us. rs = map Inr us \<and> objs = out @ us)"
proof (induction rs arbitrary: out)
  case (Cons r rs)
  then show ?case by (cases r) (auto simp: Cons_eq_map_conv)
qed auto

text \<open>What a file gives when it is rendered.\<close>

definition manifestOf :: "'t RenderEnv \<Rightarrow> RenderData \<Rightarrow> string \<Rightarrow> Unstructured list \<Rightarrow> bool" where
  "manifestOf env d path objs \<longleftrightarrow>
     (\<exists>source tmpl text. ReadFile env path = Inr source \<and>
        Parse env (render_Funcs d @ [''getOr'', ''isSet''] @ SprigFuncs env) source = Inr tmpl \<and>
        Execute env tmpl (render_Data d) = Inr text \<and>
        (if strings_TrimSpace text = [] then objs = [] else Decoder env text = map Inr objs))"

lemma RenderTemplate_iff: "RenderTemplate env path d = Inr objs \<longleftrightarrow> manifestOf env d path objs"
  by (auto simp: RenderTemplate_def manifestOf_def decodeLoop_iff Let_def split: sum.splits)

definition isManifest :: "string \<times> bool \<times> error option \<Rightarrow> bool" where
  "isManifest e \<longleftrightarrow> \<not> fst (snd e) \<and> (strings_HasSuffix (fst e) ''.yml'' \<or>
     strings_HasSuffix (fst e) ''.yaml'' \<or> strings_HasSuffix (fst e) ''.json'')"

lemma walkLoop_iff:
  "walkLoop env d es out = Inr objs \<longleftrightarrow>
     (\<forall>e \<in> set es. snd (snd e) = None) \<and>
     (\<exists>os. list_all2 (\<lambda>e us. manifestOf env d (fst e) us) (filter isManifest es) os \<and> objs = out @ concat os)"
proof (induction es arbitrary: out)
  case (Cons e es)
  obtain path isDir err where e: "e = (path, isDir, err)" by (cases e)
  show ?case
  proof (cases "err = None \<and> isManifest e")
    case False
    with Cons e show ?thesis by (auto simp: isManifest_def split: option.splits)
  next
    case True
    then have step: "walkLoop env d (e # es) out =
        (case RenderTemplate env path d of Inl x \<Rightarrow> Inl x | Inr os \<Rightarrow> walkLoop env d es (out @ os))"
      by (auto simp: e isManifest_def)
    show ?thesis
    proof (cases "RenderTemplate env path d")
      case (Inl x)
      then have "\<not> manifestOf env d path os" for os using RenderTemplate_iff by (metis sum.distinct(1))
      with Inl step True e show ?thesis by (auto simp: list_all2_Cons1)
    next
      case (Inr os)
      then have "manifestOf env d path os' \<longleftrightarrow> os' = os" for os'
        unfolding RenderTemplate_iff [symmetric] by auto
      with Inr step True e show ?thesis by (auto simp: Cons list_all2_Cons1)
    qed
  qed
qed auto

text \<open>
  (C36) Rendering a directory succeeds exactly when the walk meets no error and every file with the
  suffix of a manifest renders, and its result is the objects of those files in the order of the walk:
  a file that is not a manifest, and a directory, contribute nothing, and a file that renders to white
  space contributes no object.
\<close>
theorem render_dir_iff:
  "RenderDir env entries d = Inr objs \<longleftrightarrow>
     \<not> list_ex (\<lambda>e. snd (snd e) \<noteq> None) entries \<and>
     (\<exists>os. list_all2 (\<lambda>e us. manifestOf env d (fst e) us) (filter isManifest entries) os \<and> objs = concat os)"
  using walkLoop_iff [of env d entries "[]" objs]
  by (auto simp: RenderDir_def list_ex_iff split: sum.splits)

text \<open>Both template functions give the value of a key that is set and not the empty string.\<close>

lemma getOr_isSet:
  "map_of m key = Some val \<Longrightarrow> val \<noteq> JString [] \<Longrightarrow> getOr m key fallback = val \<and> isSet m key = val"
  by (auto simp: getOr_def isSet_def split: json.splits)

end
