(* ===== verification/Operator_Config_Controller.thy ===== *)
theory Operator_Config_Controller
  imports Apply_Object Owner_Reference Render
begin

text \<open>
  \<^verbatim>\<open>controllers/ptpoperatorconfig_controller.go\<close>: the reconciler of the operator's own configuration.
  It creates the default configuration when there is none; otherwise it makes sure that every node
  has a NodePtpDevice, that the two ConfigMaps exist, and that the manifests of the daemon and, with
  an event configuration, the event service of every node are applied.

  The environment of the process, the URL parser, the conversion of a DaemonSet between its JSON and
  its typed form, and the template engine are parameters (\<open>Env\<close>). Of a typed DaemonSet the model
  shows the node selector of its pods; \<open>ds_Rest\<close> stands for everything else. Where an error message
  prints a whole object the model leaves the printed object out.
\<close>

section \<open>Definitions\<close>

record DaemonSet =
  ds_NodeSelector :: strmap
  ds_Rest :: json

record 't Env =
  Getenv :: "string \<Rightarrow> string"
  url_Parse :: "string \<Rightarrow> error option"
  toDaemonSet :: "Unstructured \<Rightarrow> error + DaemonSet"
  fromDaemonSet :: "DaemonSet \<Rightarrow> error + Unstructured"
  env_Render :: "'t RenderEnv"

text \<open>\<^verbatim>\<open>2 * time.Minute\<close>, in nanoseconds.\<close>

definition ResyncPeriod :: int where "ResyncPeriod = 2 * 60 * 1000000000"

definition DefaultTransportHost :: string where
  "DefaultTransportHost =
     ''http://ptp-event-publisher-service-NODE_NAME.openshift-ptp.svc.cluster.local:9043''"

definition DefaultStorageType :: string where "DefaultStorageType = ''emptyDir''"

definition DefaultApiVersion :: string where "DefaultApiVersion = ''1.0''"

definition EventTransportHostAvailabilityCheck :: "'t Env \<Rightarrow> string \<Rightarrow> error + string" where
  "EventTransportHostAvailabilityCheck env transportHost =
     (if transportHost = [] then Inr DefaultTransportHost
      else case url_Parse env transportHost of
             Some err \<Rightarrow> Inr DefaultTransportHost
           | None \<Rightarrow> Inr transportHost)"

fun syncNodePtpDevice :: "'s Client \<Rightarrow> Node list \<Rightarrow> 's \<Rightarrow> error option \<times> 's" where
  "syncNodePtpDevice c [] s = (None, s)"
| "syncNodePtpDevice c (node # nodes) s =
     (case GetNodePtpDevice c Namespace (node_Name node) s of
        (Inl err, s) \<Rightarrow>
          if IsNotFound err then
            (let ptpDev = \<lparr>ndevice_ObjectMeta =
                   emptyMeta\<lparr>meta_Name := node_Name node, meta_Namespace := Namespace\<rparr>,
                 ndevice_Status = \<lparr>dstatus_Devices = [], dstatus_Hwconfig = []\<rparr>\<rparr> in
             case client_Create c (NodePtpDeviceObj ptpDev) s of
               (Some err, s) \<Rightarrow>
                 (Some (Errorf (''failed to create NodePtpDevice for node '' @ node_Name node @ '': '' @
                    Error err)), s)
             | (None, s) \<Rightarrow> syncNodePtpDevice c nodes s)
          else
            (Some (Errorf (''failed to get NodePtpDevice for node '' @ node_Name node @ '': '' @
               Error err)), s)
      | (Inr found, s) \<Rightarrow> syncNodePtpDevice c nodes s)"

text \<open>
  \<^verbatim>\<open>createPTPConfigMap\<close> and \<^verbatim>\<open>createLeapConfigMap\<close> differ in the name of the map and in the texts of
  their errors.
\<close>

definition createConfigMap ::
  "string \<Rightarrow> string \<Rightarrow> string \<Rightarrow> 's Client \<Rightarrow> PtpOperatorConfig \<Rightarrow> 's \<Rightarrow> error option \<times> 's"
where
  "createConfigMap name createText getText c defaultCfg s =
     (case GetConfigMap c Namespace name s of
        (Inl err, s) \<Rightarrow>
          if IsNotFound err then
            (let cm = \<lparr>cm_ObjectMeta = emptyMeta\<lparr>meta_Name := name, meta_Namespace := Namespace\<rparr>,
                 cm_Data = []\<rparr> in
             case SetControllerReference_cm defaultCfg cm of
               Inl err \<Rightarrow> (Some (Errorf (''failed to set owner reference: '' @ Error err)), s)
             | Inr cm \<Rightarrow>
                 (case client_Create c (ConfigMapObj cm) s of
                    (Some err, s) \<Rightarrow> (Some (Errorf (createText @ Error err)), s)
                  | (None, s) \<Rightarrow> (None, s)))
          else (Some (Errorf (getText @ Error err)), s)
      | (Inr cm, s) \<Rightarrow> (None, s))"

definition createPTPConfigMap :: "'s Client \<Rightarrow> PtpOperatorConfig \<Rightarrow> 's \<Rightarrow> error option \<times> 's" where
  "createPTPConfigMap =
     createConfigMap DefaultPTPConfigMapName ''failed to create ptp config map: ''
       ''failed to node ptp config map: ''"

definition createLeapConfigMap :: "'s Client \<Rightarrow> PtpOperatorConfig \<Rightarrow> 's \<Rightarrow> error option \<times> 's" where
  "createLeapConfigMap =
     createConfigMap DefaultLeapConfigMapName ''failed to create leap config map: ''
       ''failed to create leap config map: ''"

definition setDaemonNodeSelector ::
  "'t Env \<Rightarrow> PtpOperatorConfig \<Rightarrow> Unstructured \<Rightarrow> error + Unstructured"
where
  "setDaemonNodeSelector env defaultCfg obj =
     (if GetKind obj = ''DaemonSet'' \<and> 0 < length (ospec_DaemonNodeSelector (oconfig_Spec defaultCfg)) then
        (case toDaemonSet env obj of
           Inl err \<Rightarrow>
             Inl (Errorf (''failed to convert linuxptp obj to appsv1.DaemonSet: '' @ Error err))
         | Inr ds \<Rightarrow>
             (case fromDaemonSet env
                (ds\<lparr>ds_NodeSelector := ospec_DaemonNodeSelector (oconfig_Spec defaultCfg)\<rparr>) of
                Inl err \<Rightarrow>
                  Inl (Errorf (''failed to convert appsv1.DaemonSet to linuxptp obj: '' @ Error err))
              | Inr obj \<Rightarrow> Inr obj))
      else Inr obj)"

text \<open>The data of the templates before the event configuration is read.\<close>

definition baseData :: "'t Env \<Rightarrow> renderValues" where
  "baseData env =
     (let d = render_Data MakeRenderData;
          d = AList.update ''Image'' (JString (Getenv env ''LINUXPTP_DAEMON_IMAGE'')) d;
          d = AList.update ''Namespace'' (JString Namespace) d;
          d = AList.update ''ReleaseVersion'' (JString (Getenv env ''RELEASEVERSION'')) d;
          d = AList.update ''KubeRbacProxy'' (JString (Getenv env ''KUBE_RBAC_PROXY_IMAGE'')) d;
          d = AList.update ''SideCar'' (JString (Getenv env ''SIDECAR_EVENT_IMAGE'')) d;
          d = AList.update ''NodeName'' (JString (Getenv env ''NODE_NAME'')) d;
          d = AList.update ''StorageType'' (JString DefaultStorageType) d
      in AList.update ''EventApiVersion'' (JString DefaultApiVersion) d)"

definition eventData :: "'t Env \<Rightarrow> PtpEventConfig option \<Rightarrow> renderValues \<Rightarrow> error + renderValues" where
  "eventData env eventConfig d =
     (case eventConfig of
        None \<Rightarrow> Inr (AList.update ''EnableEventPublisher'' (JBool False) d)
      | Some ec \<Rightarrow>
          (let d = AList.update ''EnableEventPublisher'' (JBool (event_EnableEventPublisher ec)) d;
               d = AList.update ''EventTransportHost'' (JString (event_TransportHost ec)) d in
           if event_EnableEventPublisher ec then
             (case EventTransportHostAvailabilityCheck env (event_TransportHost ec) of
                Inl e \<Rightarrow> Inl e
              | Inr transportHost \<Rightarrow>
                  (let d = AList.update ''EventTransportHost'' (JString transportHost) d;
                       d = (if event_StorageType ec \<noteq> []
                            then AList.update ''StorageType'' (JString (event_StorageType ec)) d else d);
                       d = (if event_ApiVersion ec \<noteq> []
                            then AList.update ''EventApiVersion'' (JString (event_ApiVersion ec)) d else d)
                   in Inr d))
           else Inr d))"

definition pluginList :: "(string, string option) gomap option \<Rightarrow> string list" where
  "pluginList plugins = (case plugins of Some m \<Rightarrow> map fst m | None \<Rightarrow> [''e810''])"

definition daemonData :: "'t Env \<Rightarrow> PtpOperatorConfig \<Rightarrow> error + renderValues" where
  "daemonData env defaultCfg =
     (case eventData env (ospec_EventConfig (oconfig_Spec defaultCfg)) (baseData env) of
        Inl e \<Rightarrow> Inl e
      | Inr d \<Rightarrow>
          Inr (AList.update ''EnabledPlugins''
            (JString (strings_Join (pluginList (ospec_EnabledPlugins (oconfig_Spec defaultCfg))) '','')) d))"

text \<open>The two loops over rendered objects, and the loop over the nodes.\<close>

fun applyDaemonObjects ::
  "'s Client \<Rightarrow> 't Env \<Rightarrow> PtpOperatorConfig \<Rightarrow> Unstructured list \<Rightarrow> 's \<Rightarrow> error option \<times> 's"
where
  "applyDaemonObjects c env cfg [] s = (None, s)"
| "applyDaemonObjects c env cfg (obj # objs) s =
     (case setDaemonNodeSelector env cfg obj of
        Inl err \<Rightarrow> (Some err, s)
      | Inr obj \<Rightarrow>
          (case SetControllerReference cfg obj of
             Inl err \<Rightarrow> (Some (Errorf (''failed to set owner reference for daemon: '' @ Error err)), s)
           | Inr obj \<Rightarrow>
               (case ApplyObject c obj s of
                  (Some err, s) \<Rightarrow> (Some (Errorf (''failed to apply object with err: '' @ Error err)), s)
                | (None, s) \<Rightarrow> applyDaemonObjects c env cfg objs s)))"

fun applyServiceObjects :: "'s Client \<Rightarrow> Unstructured list \<Rightarrow> 's \<Rightarrow> error option \<times> 's" where
  "applyServiceObjects c [] s = (None, s)"
| "applyServiceObjects c (obj # objs) s =
     (case ApplyObject c obj s of
        (Some err, s) \<Rightarrow> (Some (Errorf (''failed to apply service object with err: '' @ Error err)), s)
      | (None, s) \<Rightarrow> applyServiceObjects c objs s)"

definition shortName :: "Node \<Rightarrow> string" where
  "shortName node = hd (strings_Split (node_Name node) (CHR ''.''))"

definition daemonManifest :: string where "daemonManifest = ''bindata/linuxptp/ptp-daemon.yaml''"

definition serviceManifest :: string where "serviceManifest = ''bindata/linuxptp/event-service.yaml''"

fun syncEventServices ::
  "'s Client \<Rightarrow> 't Env \<Rightarrow> renderValues \<Rightarrow> Node list \<Rightarrow> 's \<Rightarrow> error option \<times> 's"
where
  "syncEventServices c env d [] s = (None, s)"
| "syncEventServices c env d (node # nodes) s =
     (let d = AList.update ''NodeName'' (JString (shortName node)) d in
      case RenderTemplate (env_Render env) serviceManifest \<lparr>render_Funcs = [], render_Data = d\<rparr> of
        Inl err \<Rightarrow> (Some (Errorf (''failed to render event service manifest: '' @ Error err)), s)
      | Inr objs \<Rightarrow>
          (case applyServiceObjects c objs s of
             (Some err, s) \<Rightarrow> (Some err, s)
           | (None, s) \<Rightarrow> syncEventServices c env d nodes s))"

definition syncLinuxptpDaemon ::
  "'s Client \<Rightarrow> 't Env \<Rightarrow> PtpOperatorConfig \<Rightarrow> Node list \<Rightarrow> 's \<Rightarrow> error option \<times> 's"
where
  "syncLinuxptpDaemon c env defaultCfg nodes s =
     (case daemonData env defaultCfg of
        Inl e \<Rightarrow> (Some e, s)
      | Inr d \<Rightarrow>
          (case RenderTemplate (env_Render env) daemonManifest \<lparr>render_Funcs = [], render_Data = d\<rparr> of
             Inl err \<Rightarrow> (Some (Errorf (''failed to render linuxptp daemon manifest: '' @ Error err)), s)
           | Inr objs \<Rightarrow>
               (case applyDaemonObjects c env defaultCfg objs s of
                  (Some err, s) \<Rightarrow> (Some err, s)
                | (None, s) \<Rightarrow>
                    (case ospec_EventConfig (oconfig_Spec defaultCfg) of
                       None \<Rightarrow> (None, s)
                     | Some _ \<Rightarrow> syncEventServices c env d nodes s))))"

definition defaultConfig :: PtpOperatorConfig where
  "defaultConfig =
     \<lparr>oconfig_ObjectMeta =
        emptyMeta\<lparr>meta_Namespace := Namespace, meta_Name := DefaultOperatorConfigName\<rparr>,
      oconfig_Spec = \<lparr>ospec_DaemonNodeSelector = [], ospec_EventConfig = None,
        ospec_EnabledPlugins = None\<rparr>\<rparr>"

definition PtpOperatorConfig_Reconcile ::
  "'s Client \<Rightarrow> 't Env \<Rightarrow> 's \<Rightarrow> (Result \<times> error option) \<times> 's"
where
  "PtpOperatorConfig_Reconcile c env s =
     (case GetPtpOperatorConfig c Namespace DefaultOperatorConfigName s of
        (Inl err, s) \<Rightarrow>
          if IsNotFound err then
            (case client_Create c (PtpOperatorConfigObj defaultConfig) s of
               (Some err, s) \<Rightarrow> ((emptyResult, Some err), s)
             | (None, s) \<Rightarrow> ((emptyResult, None), s))
          else ((emptyResult, Some err), s)
      | (Inr defaultCfg, s) \<Rightarrow>
     (case ListNodes c s of
        (Inl err, s) \<Rightarrow> ((emptyResult, Some err), s)
      | (Inr nodes, s) \<Rightarrow>
     (case syncNodePtpDevice c nodes s of
        (Some err, s) \<Rightarrow> ((emptyResult, Some err), s)
      | (None, s) \<Rightarrow>
     (case createPTPConfigMap c defaultCfg s of
        (Some err, s) \<Rightarrow> ((emptyResult, Some err), s)
      | (None, s) \<Rightarrow>
     (case createLeapConfigMap c defaultCfg s of
        (Some err, s) \<Rightarrow> ((emptyResult, Some err), s)
      | (None, s) \<Rightarrow>
     (case syncLinuxptpDaemon c env defaultCfg nodes s of
        (Some err, s) \<Rightarrow> ((emptyResult, Some err), s)
      | (None, s) \<Rightarrow> ((\<lparr>result_RequeueAfter = ResyncPeriod\<rparr>, None), s)))))))"

section \<open>What the steps change\<close>

context api_client
begin

text \<open>A read followed by a create of what is missing.\<close>

lemma create_missing:
  assumes "typedResult conv (client_Get c k s) = (Inl err, s1)" "IsNotFound err"
    and "client_Create c obj s1 = (e, s')" "keyOf obj = k"
  shows "addsOnly (lookup s) (lookup s') {k}"
    "e = None \<Longrightarrow> \<exists>stored. lookup s' k = Some stored \<and> keeps obj stored"
proof -
  note s1 = typed_get_frame [OF assms(1)] and none = typed_get_missing [OF assms(1,2)]
  show "addsOnly (lookup s) (lookup s') {k}"
  proof (cases e)
    case None
    then obtain stored where "lookup s' = (lookup s1)(k \<mapsto> stored)"
      using create_lookup assms(3,4) by metis
    with s1 none show ?thesis by (simp add: addsOnly_insert)
  next
    case (Some x)
    then have "lookup s' = lookup s1" using create_failed assms(3) by blast
    with s1 show ?thesis by simp
  qed
  show "\<exists>stored. lookup s' k = Some stored \<and> keeps obj stored" if "e = None"
  proof -
    have "client_Create c obj s1 = (None, s')" using assms(3) that by simp
    then obtain stored where "keeps obj stored" "lookup s' = (lookup s1)(keyOf obj \<mapsto> stored)"
      by (rule create_lookup)
    with assms(4) show ?thesis by auto
  qed
qed

lemma syncNodePtpDevice_effect:
  assumes "syncNodePtpDevice c nodes s = (e, s')"
  shows "addsOnly (lookup s) (lookup s') (deviceKey ` set nodes) \<and>
    (e = None \<longrightarrow> deviceKey ` set nodes \<subseteq> dom (lookup s'))"
  using assms
proof (induction nodes arbitrary: s)
  case (Cons node nodes)
  obtain r s1 where get: "typedResult asNodePtpDevice (client_Get c (deviceKey node) s) = (r, s1)" by force
  have get': "GetNodePtpDevice c Namespace (node_Name node) s = (r, s1)"
    using get by (simp add: GetNodePtpDevice_def deviceKey_def)
  note s1 = typed_get_frame [OF get]
  let ?dev = "NodePtpDeviceObj \<lparr>ndevice_ObjectMeta =
    emptyMeta\<lparr>meta_Name := node_Name node, meta_Namespace := Namespace\<rparr>,
    ndevice_Status = \<lparr>dstatus_Devices = [], dstatus_Hwconfig = []\<rparr>\<rparr>"
  have step: "\<exists>s2. addsOnly (lookup s) (lookup s2) {deviceKey node} \<and>
      (s' = s2 \<and> e \<noteq> None \<or> syncNodePtpDevice c nodes s2 = (e, s') \<and> deviceKey node \<in> dom (lookup s2))"
  proof (cases r)
    case (Inr x)
    from typed_get_found [OF get [unfolded this]]
    obtain obj where "lookup s (deviceKey node) = Some obj" by blast
    with Inr Cons.prems get' s1 show ?thesis by (intro exI [of _ s1]) auto
  next
    case (Inl err)
    show ?thesis
    proof (cases "IsNotFound err")
      case True
      obtain e2 s2 where cr: "client_Create c ?dev s1 = (e2, s2)" by force
      have "keyOf ?dev = deviceKey node" by (simp add: deviceKey_def emptyMeta_def)
      note eff = create_missing [OF get [unfolded Inl] True cr this]
      show ?thesis
        using eff Cons.prems get' Inl True cr by (intro exI [of _ s2]) (auto split: option.splits)
    next
      case False
      with Inl Cons.prems get' s1 show ?thesis by (intro exI [of _ s1]) auto
    qed
  qed
  then obtain s2 where s2: "addsOnly (lookup s) (lookup s2) {deviceKey node}"
    "s' = s2 \<and> e \<noteq> None \<or> syncNodePtpDevice c nodes s2 = (e, s') \<and> deviceKey node \<in> dom (lookup s2)" by blast
  from s2(2) show ?case
  proof
    assume "s' = s2 \<and> e \<noteq> None"
    with s2(1) show ?thesis by (auto intro: addsOnly_mono)
  next
    assume rest: "syncNodePtpDevice c nodes s2 = (e, s') \<and> deviceKey node \<in> dom (lookup s2)"
    note ih = Cons.IH [OF conjunct1 [OF rest]]
    have "addsOnly (lookup s) (lookup s') (deviceKey ` set (node # nodes))"
      by (rule addsOnly_trans [OF addsOnly_mono [OF s2(1)] addsOnly_mono [OF conjunct1 [OF ih]]]) auto
    moreover have "deviceKey node \<in> dom (lookup s')"
      using rest ih by (auto simp: addsOnly_def dest: map_le_implies_dom_le)
    ultimately show ?thesis using ih by auto
  qed
qed simp

end

text \<open>The object that is applied for a rendered object of the daemon.\<close>

definition daemonObject :: "'t Env \<Rightarrow> PtpOperatorConfig \<Rightarrow> Unstructured \<Rightarrow> Unstructured option" where
  "daemonObject env cfg obj =
     (case setDaemonNodeSelector env cfg obj of
        Inl err \<Rightarrow> None
      | Inr obj \<Rightarrow> (case SetControllerReference cfg obj of Inl err \<Rightarrow> None | Inr obj \<Rightarrow> Some obj))"

definition newConfigMap :: "string \<Rightarrow> PtpOperatorConfig \<Rightarrow> ConfigMap" where
  "newConfigMap name cfg =
     \<lparr>cm_ObjectMeta = emptyMeta\<lparr>meta_Name := name, meta_Namespace := Namespace,
        meta_OwnerReferences := [controllerRef cfg]\<rparr>, cm_Data = []\<rparr>"

lemma SetControllerReference_new:
  assumes "SetControllerReference_cm cfg
    \<lparr>cm_ObjectMeta = emptyMeta\<lparr>meta_Name := name, meta_Namespace := Namespace\<rparr>, cm_Data = []\<rparr> = Inr cm"
  shows "cm = newConfigMap name cfg"
  using assms
  by (auto simp: SetControllerReference_cm_def newConfigMap_def Let_def newOwnerRefs_ok emptyMeta_def
      split: sum.splits)

context api_client
begin

lemma createConfigMap_effect:
  assumes "createConfigMap name t1 t2 c cfg s = (e, s')"
  shows "addsOnly (lookup s) (lookup s') {cmKey name} \<and>
    (e = None \<longrightarrow> (\<exists>stored. lookup s' (cmKey name) = Some stored \<and>
       (lookup s (cmKey name) = None \<longrightarrow> keeps (ConfigMapObj (newConfigMap name cfg)) stored)))"
proof -
  obtain r s1 where get: "typedResult asConfigMap (client_Get c (cmKey name) s) = (r, s1)" by force
  have get': "GetConfigMap c Namespace name s = (r, s1)"
    using get by (simp add: GetConfigMap_def cmKey_def)
  note s1 = typed_get_frame [OF get]
  show ?thesis
  proof (cases r)
    case (Inr x)
    from typed_get_found [OF get [unfolded this]] obtain obj where "lookup s (cmKey name) = Some obj" by blast
    with Inr assms get' s1 show ?thesis by (auto simp: createConfigMap_def)
  next
    case (Inl err)
    show ?thesis
    proof (cases "IsNotFound err \<and> \<not> isl (SetControllerReference_cm cfg
        \<lparr>cm_ObjectMeta = emptyMeta\<lparr>meta_Name := name, meta_Namespace := Namespace\<rparr>, cm_Data = []\<rparr>)")
      case True
      then obtain cm where cm: "SetControllerReference_cm cfg \<lparr>cm_ObjectMeta =
          emptyMeta\<lparr>meta_Name := name, meta_Namespace := Namespace\<rparr>, cm_Data = []\<rparr> = Inr cm"
        by (metis sum.collapse(2))
      obtain e2 s2 where cr: "client_Create c (ConfigMapObj cm) s1 = (e2, s2)" by force
      have key: "keyOf (ConfigMapObj cm) = cmKey name"
        by (simp add: SetControllerReference_new [OF cm] newConfigMap_def cmKey_def emptyMeta_def)
      have "s' = s2 \<and> (e = None \<longleftrightarrow> e2 = None)"
        using assms get' Inl True cm cr by (auto simp: createConfigMap_def split: option.splits)
      with create_missing [OF get [unfolded Inl] _ cr key] True SetControllerReference_new [OF cm]
      show ?thesis by auto
    next
      case False
      with assms get' Inl have "s' = s1 \<and> e \<noteq> None"
        by (auto simp: createConfigMap_def split: sum.splits if_splits)
      with s1 show ?thesis by auto
    qed
  qed
qed

lemma ApplyObject_changes:
  assumes "ApplyObject c obj s = (e, s')"
  shows "changesOnly (lookup s) (lookup s') {objKey obj}"
proof -
  have "dom (lookup s) \<subseteq> dom (lookup s')"
    using assms by (cases rule: ApplyObject_effect) auto
  with ApplyObject_frame [OF assms] show ?thesis by (simp add: changesOnly_def)
qed

lemma ApplyObject_present:
  "applicable obj \<Longrightarrow> ApplyObject c obj s = (None, s') \<Longrightarrow> objKey obj \<in> dom (lookup s')"
  using ApplyObject_succeeded [of obj s s'] by (metis domI)

lemma applyServiceObjects_effect:
  assumes "applyServiceObjects c objs s = (e, s')"
  shows "changesOnly (lookup s) (lookup s') (objKey ` set objs) \<and>
    (e = None \<longrightarrow> (\<forall>obj \<in> set objs. applicable obj \<longrightarrow> objKey obj \<in> dom (lookup s')))"
  using assms
proof (induction objs arbitrary: s)
  case (Cons obj objs)
  obtain e1 s1 where ap: "ApplyObject c obj s = (e1, s1)" by force
  note ch = ApplyObject_changes [OF ap]
  show ?case
  proof (cases e1)
    case (Some x)
    with Cons.prems ap ch show ?thesis by (auto intro: changesOnly_mono)
  next
    case None
    with Cons.prems ap have rest: "applyServiceObjects c objs s1 = (e, s')" by simp
    note ih = Cons.IH [OF rest]
    have "changesOnly (lookup s) (lookup s') ({objKey obj} \<union> objKey ` set objs)"
      by (rule changesOnly_trans [OF ch conjunct1 [OF ih]])
    moreover have "applicable obj \<longrightarrow> objKey obj \<in> dom (lookup s')"
      using ApplyObject_present [of obj s s1] ap None ih unfolding changesOnly_def by blast
    ultimately show ?thesis using ih by (simp del: keyOf.simps)
  qed
qed simp

lemma applyDaemonObjects_effect:
  assumes "applyDaemonObjects c env cfg objs s = (e, s')"
  shows "changesOnly (lookup s) (lookup s') (objKey ` set (List.map_filter (daemonObject env cfg) objs)) \<and>
    (e = None \<longrightarrow> (\<forall>obj \<in> set objs. \<exists>obj'. daemonObject env cfg obj = Some obj' \<and>
       (applicable obj' \<longrightarrow> objKey obj' \<in> dom (lookup s'))))"
  using assms
proof (induction objs arbitrary: s)
  case (Cons obj objs)
  show ?case
  proof (cases "daemonObject env cfg obj")
    case None
    with Cons.prems have "s' = s \<and> e \<noteq> None" by (auto simp: daemonObject_def split: sum.splits)
    then show ?thesis by auto
  next
    case (Some obj')
    obtain e1 s1 where ap: "ApplyObject c obj' s = (e1, s1)" by force
    note ch = ApplyObject_changes [OF ap]
    have step: "applyDaemonObjects c env cfg (obj # objs) s =
        (case e1 of Some err \<Rightarrow> (Some (Errorf (''failed to apply object with err: '' @ Error err)), s1)
         | None \<Rightarrow> applyDaemonObjects c env cfg objs s1)"
      using Some ap by (auto simp: daemonObject_def split: sum.splits)
    show ?thesis
    proof (cases e1)
      case (Some x)
      with Cons.prems step ch \<open>daemonObject env cfg obj = _\<close> show ?thesis
        by (auto simp: map_filter_simps intro: changesOnly_mono)
    next
      case None
      with Cons.prems step have rest: "applyDaemonObjects c env cfg objs s1 = (e, s')" by simp
      note ih = Cons.IH [OF rest]
      have "changesOnly (lookup s) (lookup s') ({objKey obj'} \<union>
          objKey ` set (List.map_filter (daemonObject env cfg) objs))"
        by (rule changesOnly_trans [OF ch conjunct1 [OF ih]])
      moreover have "applicable obj' \<longrightarrow> objKey obj' \<in> dom (lookup s')"
        using ApplyObject_present [of obj' s s1] ap None ih unfolding changesOnly_def by blast
      ultimately show ?thesis using ih Some by (simp add: map_filter_simps del: keyOf.simps)
    qed
  qed
qed (simp add: map_filter_simps)

end

section \<open>The objects of a configuration\<close>

text \<open>What a manifest renders to; nothing when rendering fails.\<close>

definition rendered :: "'t Env \<Rightarrow> string \<Rightarrow> renderValues \<Rightarrow> Unstructured list" where
  "rendered env path d =
     (case RenderTemplate (env_Render env) path \<lparr>render_Funcs = [], render_Data = d\<rparr> of
        Inl err \<Rightarrow> [] | Inr objs \<Rightarrow> objs)"

definition serviceObjects :: "'t Env \<Rightarrow> renderValues \<Rightarrow> Node \<Rightarrow> Unstructured list" where
  "serviceObjects env d node =
     rendered env serviceManifest (AList.update ''NodeName'' (JString (shortName node)) d)"

text \<open>
  The objects a reconciliation applies: those of the daemon with selector and owner set, and, with an
  event configuration, the services of the nodes.
\<close>

definition desiredObjects :: "'t Env \<Rightarrow> PtpOperatorConfig \<Rightarrow> Node list \<Rightarrow> Unstructured list" where
  "desiredObjects env cfg nodes =
     (case daemonData env cfg of
        Inl err \<Rightarrow> []
      | Inr d \<Rightarrow>
          List.map_filter (daemonObject env cfg) (rendered env daemonManifest d) @
          (if ospec_EventConfig (oconfig_Spec cfg) = None then []
           else concat (map (serviceObjects env d) nodes)))"

lemma update_twice: "AList.update k v (AList.update k w m) = AList.update k v m"
  by (induction m) auto

context api_client
begin

lemma syncEventServices_effect:
  assumes "syncEventServices c env d nodes s = (e, s')"
  shows "changesOnly (lookup s) (lookup s') (objKey ` set (concat (map (serviceObjects env d) nodes))) \<and>
    (e = None \<longrightarrow> (\<forall>obj \<in> set (concat (map (serviceObjects env d) nodes)).
       applicable obj \<longrightarrow> objKey obj \<in> dom (lookup s')))"
  using assms
proof (induction nodes arbitrary: s d)
  case (Cons node nodes)
  let ?d = "AList.update ''NodeName'' (JString (shortName node)) d"
  have data: "serviceObjects env ?d = serviceObjects env d"
    by (rule ext) (simp add: serviceObjects_def update_twice)
  show ?case
  proof (cases "RenderTemplate (env_Render env) serviceManifest \<lparr>render_Funcs = [], render_Data = ?d\<rparr>")
    case (Inl err)
    with Cons.prems show ?thesis by (auto simp: Let_def)
  next
    case (Inr objs)
    then have objs: "serviceObjects env d node = objs" by (simp add: serviceObjects_def rendered_def)
    obtain e1 s1 where ap: "applyServiceObjects c objs s = (e1, s1)" by force
    note ch = applyServiceObjects_effect [OF ap]
    show ?thesis
    proof (cases e1)
      case (Some x)
      with Cons.prems Inr ap have "s' = s1" "e \<noteq> None" by (auto simp: Let_def)
      with ch objs show ?thesis by (auto intro: changesOnly_mono simp del: keyOf.simps)
    next
      case None
      with Cons.prems Inr ap have "syncEventServices c env ?d nodes s1 = (e, s')" by (simp add: Let_def)
      note ih = Cons.IH [OF this, unfolded data]
      have "changesOnly (lookup s) (lookup s') (objKey ` set objs \<union>
          objKey ` set (concat (map (serviceObjects env d) nodes)))"
        by (rule changesOnly_trans [OF conjunct1 [OF ch] conjunct1 [OF ih]])
      moreover have "\<forall>obj \<in> set objs. applicable obj \<longrightarrow> objKey obj \<in> dom (lookup s')"
        using ch ih None unfolding changesOnly_def by blast
      ultimately show ?thesis using ih objs by (simp add: image_Un ball_Un del: keyOf.simps)
    qed
  qed
qed simp

lemma syncLinuxptpDaemon_effect:
  assumes "syncLinuxptpDaemon c env cfg nodes s = (e, s')"
  shows "changesOnly (lookup s) (lookup s') (objKey ` set (desiredObjects env cfg nodes)) \<and>
    (e = None \<longrightarrow> (\<forall>obj \<in> set (desiredObjects env cfg nodes).
       applicable obj \<longrightarrow> objKey obj \<in> dom (lookup s')))"
proof (cases "daemonData env cfg")
  case (Inl err)
  with assms show ?thesis by (auto simp: syncLinuxptpDaemon_def)
next
  case (Inr d)
  show ?thesis
  proof (cases "RenderTemplate (env_Render env) daemonManifest \<lparr>render_Funcs = [], render_Data = d\<rparr>")
    case (Inl err)
    with assms \<open>daemonData env cfg = _\<close> show ?thesis by (auto simp: syncLinuxptpDaemon_def)
  next
    case ren: (Inr objs)
    obtain e1 s1 where ap: "applyDaemonObjects c env cfg objs s = (e1, s1)" by force
    let ?D = "List.map_filter (daemonObject env cfg) objs"
    let ?S = "if ospec_EventConfig (oconfig_Spec cfg) = None then [] else concat (map (serviceObjects env d) nodes)"
    have objs: "desiredObjects env cfg nodes = ?D @ ?S"
      using Inr ren by (simp add: desiredObjects_def rendered_def)
    note ch = applyDaemonObjects_effect [OF ap]
    have present: "e1 = None \<longrightarrow> (\<forall>obj \<in> set ?D. applicable obj \<longrightarrow> objKey obj \<in> dom (lookup s1))"
      using ch by (auto simp: map_filter_def simp del: keyOf.simps)
    have rest: "if e1 \<noteq> None then s' = s1 \<and> e \<noteq> None
      else if ospec_EventConfig (oconfig_Spec cfg) = None then s' = s1
      else syncEventServices c env d nodes s1 = (e, s')"
      using assms Inr ren ap by (auto simp: syncLinuxptpDaemon_def split: option.splits)
    have S: "changesOnly (lookup s1) (lookup s') (objKey ` set ?S) \<and> (e = None \<longrightarrow>
        (\<forall>obj \<in> set ?S. applicable obj \<longrightarrow> objKey obj \<in> dom (lookup s')))"
      using rest syncEventServices_effect [of env d nodes s1 e s']
      by (auto split: if_splits simp del: keyOf.simps)
    have "changesOnly (lookup s) (lookup s') (objKey ` set ?D \<union> objKey ` set ?S)"
      by (rule changesOnly_trans [OF conjunct1 [OF ch] conjunct1 [OF S]])
    moreover have "e = None \<longrightarrow> e1 = None" using rest by (auto split: if_splits)
    then have "e = None \<longrightarrow> (\<forall>obj \<in> set ?D. applicable obj \<longrightarrow> objKey obj \<in> dom (lookup s'))"
      using present S unfolding changesOnly_def by blast
    ultimately show ?thesis using S unfolding objs set_append image_Un ball_Un by blast
  qed
qed

end

section \<open>A reconciliation\<close>

definition clusterNodes :: "(Key \<rightharpoonup> Object) \<Rightarrow> Node set" where
  "clusterNodes m = {node. \<exists>ns name. m (coreKind ''Node'', ns, name) = Some (NodeObj node)}"

text \<open>The keys of the objects a reconciliation only ever creates.\<close>

definition baseKeys :: "Node list \<Rightarrow> Key set" where
  "baseKeys nodes =
     {cmKey DefaultPTPConfigMapName, cmKey DefaultLeapConfigMapName} \<union> deviceKey ` set nodes"

context api_client
begin

lemma ListNodes_found:
  assumes "ListNodes c s = (Inr nodes, s')"
  shows "set nodes = clusterNodes (lookup s)"
proof -
  have "asNode obj = Some x \<longleftrightarrow> obj = NodeObj x" for obj x by (cases obj) auto
  with typed_list_found [OF assms [unfolded ListNodes_def]] show ?thesis
    by (auto simp: clusterNodes_def)
qed

text \<open>The steps before the manifests are applied.\<close>

lemma createMaps_effect:
  assumes "createPTPConfigMap c cfg s = (e1, s1)" "createLeapConfigMap c cfg s1 = (e2, s2)"
  shows "addsOnly (lookup s) (lookup s1) {cmKey DefaultPTPConfigMapName}"
    "addsOnly (lookup s1) (lookup s2) {cmKey DefaultLeapConfigMapName}"
    "e1 = None \<Longrightarrow> cmKey DefaultPTPConfigMapName \<in> dom (lookup s1)"
    "e2 = None \<Longrightarrow> cmKey DefaultLeapConfigMapName \<in> dom (lookup s2)"
  using createConfigMap_effect [OF assms(1) [unfolded createPTPConfigMap_def]]
    createConfigMap_effect [OF assms(2) [unfolded createLeapConfigMap_def]] by auto

lemma Reconcile_steps:
  assumes run: "PtpOperatorConfig_Reconcile c env s = ((res, e), s')"
    and cfg: "lookup s cfgKey = Some (PtpOperatorConfigObj cfg)"
  obtains nodes m where "set nodes \<subseteq> clusterNodes (lookup s)"
    "addsOnly (lookup s) m (baseKeys nodes)"
    "changesOnly m (lookup s') (objKey ` set (desiredObjects env cfg nodes))"
    "e = None \<longrightarrow> res = \<lparr>result_RequeueAfter = ResyncPeriod\<rparr> \<and> set nodes = clusterNodes (lookup s) \<and>
       baseKeys nodes \<subseteq> dom m \<and>
       (\<forall>obj \<in> set (desiredObjects env cfg nodes). applicable obj \<longrightarrow> objKey obj \<in> dom (lookup s'))"
proof -
  obtain r s0 where get: "GetPtpOperatorConfig c Namespace DefaultOperatorConfigName s = (r, s0)" by force
  note get' = get [unfolded GetPtpOperatorConfig_def]
  have s0: "lookup s0 = lookup s" using typed_get_frame [OF get'] .
  have fail: "lookup s' = lookup s \<Longrightarrow> e \<noteq> None \<Longrightarrow> thesis"
    using that [of "[]" "lookup s"] by auto
  show thesis
  proof (cases r)
    case (Inl err)
    then have "\<not> IsNotFound err" using typed_get_missing [OF get' [unfolded Inl]] cfg by auto
    with run get Inl s0 fail show thesis by (auto simp: PtpOperatorConfig_Reconcile_def)
  next
    case (Inr cfg')
    then have "cfg' = cfg" using typed_get_found [OF get' [unfolded Inr]] cfg by auto
    note get = get [unfolded Inr this]
    obtain ns s1 where lst: "ListNodes c s0 = (ns, s1)" by force
    have s1: "lookup s1 = lookup s" using typed_list_frame [OF lst [unfolded ListNodes_def]] s0 by simp
    show thesis
    proof (cases ns)
      case (Inl err)
      with run get lst s1 fail show thesis by (auto simp: PtpOperatorConfig_Reconcile_def)
    next
      case (Inr nodes)
      note lst = lst [unfolded Inr] and nodes = ListNodes_found [OF lst [unfolded Inr], unfolded s0]
      obtain e2 s2 where dev: "syncNodePtpDevice c nodes s1 = (e2, s2)" by force
      obtain e3 s3 where cm1: "createPTPConfigMap c cfg s2 = (e3, s3)" by force
      obtain e4 s4 where cm2: "createLeapConfigMap c cfg s3 = (e4, s4)" by force
      obtain e5 s5 where dae: "syncLinuxptpDaemon c env cfg nodes s4 = (e5, s5)" by force
      have D: "addsOnly (lookup s) (lookup s2) (baseKeys nodes)"
        "e2 = None \<Longrightarrow> deviceKey ` set nodes \<subseteq> dom (lookup s2)"
        using syncNodePtpDevice_effect [OF dev] s1 by (auto simp: baseKeys_def intro: addsOnly_mono)
      note M = createMaps_effect [OF cm1 cm2]
      have M3: "addsOnly (lookup s) (lookup s3) (baseKeys nodes)"
        by (rule addsOnly_trans [OF D(1) addsOnly_mono [OF M(1)]]) (simp add: baseKeys_def)
      have M4: "addsOnly (lookup s) (lookup s4) (baseKeys nodes)"
        by (rule addsOnly_trans [OF M3 addsOnly_mono [OF M(2)]]) (simp add: baseKeys_def)
      note S = syncLinuxptpDaemon_effect [OF dae]
      have cases: "if e2 \<noteq> None then s' = s2 \<and> e \<noteq> None else if e3 \<noteq> None then s' = s3 \<and> e \<noteq> None
        else if e4 \<noteq> None then s' = s4 \<and> e \<noteq> None
        else s' = s5 \<and> e = e5 \<and> (e5 = None \<longrightarrow> res = \<lparr>result_RequeueAfter = ResyncPeriod\<rparr>)"
        using run get lst dev cm1 cm2 dae
        by (auto simp: PtpOperatorConfig_Reconcile_def split: option.splits)
      show thesis
      proof (cases "e2 = None \<and> e3 = None \<and> e4 = None")
        case True
        have "baseKeys nodes \<subseteq> dom (lookup s4)"
          using D(2) M(3,4) True addsOnly_dom [OF M(1)] addsOnly_dom [OF M(2)]
          unfolding baseKeys_def by blast
        with that [of nodes "lookup s4"] nodes M4 S cases True show thesis by simp
      next
        case False
        with cases have "e \<noteq> None" "addsOnly (lookup s) (lookup s') (baseKeys nodes)"
          using D(1) M3 M4 by (auto split: if_splits)
        with that [of nodes "lookup s'"] nodes show thesis by simp
      qed
    qed
  qed
qed

end

end
