(* ===== verification/Operator_Reconcile.thy ===== *)
theory Operator_Reconcile
  imports Operator_Config_Controller
begin

text \<open>
  What a reconciliation of the operator's configuration promises: what it may touch, what is there
  when it succeeds, when it must succeed, and that it has nothing to do once everything is in place.
\<close>

section \<open>Progress\<close>

text \<open>
  Objects that can be applied one after the other: they have different keys, and what is stored at
  each key, if anything, can be merged with the object. Objects are settled when nothing would change.
\<close>

definition ready :: "Object option \<Rightarrow> Unstructured \<Rightarrow> bool" where
  "ready x obj \<longleftrightarrow> applicable obj \<and>
     (x = None \<or> (\<exists>cur m. x = Some (UnstructuredObj cur) \<and> MergeObjectForUpdate cur obj = (None, m)))"

definition settled :: "Object option \<Rightarrow> Unstructured \<Rightarrow> bool" where
  "settled x obj \<longleftrightarrow> applicable obj \<and>
     (\<exists>cur m. x = Some (UnstructuredObj cur) \<and> MergeObjectForUpdate cur obj = (None, m) \<and>
        DeepEqual (JObj cur) (JObj m))"

text \<open>Every template renders, and every object of the daemon gets its selector and its owner.\<close>

definition renders :: "'t Env \<Rightarrow> PtpOperatorConfig \<Rightarrow> Node list \<Rightarrow> bool" where
  "renders env cfg nodes \<longleftrightarrow>
     (\<exists>d objs. daemonData env cfg = Inr d \<and>
        RenderTemplate (env_Render env) daemonManifest \<lparr>render_Funcs = [], render_Data = d\<rparr> = Inr objs \<and>
        (\<forall>obj \<in> set objs. daemonObject env cfg obj \<noteq> None) \<and>
        (ospec_EventConfig (oconfig_Spec cfg) \<noteq> None \<longrightarrow> (\<forall>node \<in> set nodes. \<exists>objs.
           RenderTemplate (env_Render env) serviceManifest
             \<lparr>render_Funcs = [], render_Data = AList.update ''NodeName'' (JString (shortName node)) d\<rparr> =
           Inr objs)))"

text \<open>The loops over objects as one loop over the objects that are applied.\<close>

fun applyAll :: "'s Client \<Rightarrow> Unstructured list \<Rightarrow> 's \<Rightarrow> error option \<times> 's" where
  "applyAll c [] s = (None, s)"
| "applyAll c (obj # objs) s =
     (case ApplyObject c obj s of (Some err, s) \<Rightarrow> (Some err, s) | (None, s) \<Rightarrow> applyAll c objs s)"

lemma applyAll_append:
  "applyAll c (xs @ ys) s =
     (case applyAll c xs s of (Some err, s) \<Rightarrow> (Some err, s) | (None, s) \<Rightarrow> applyAll c ys s)"
  by (induction xs arbitrary: s) (auto split: prod.splits option.splits)

lemma applyServiceObjects_all:
  "applyAll c objs s = (None, s') \<Longrightarrow> applyServiceObjects c objs s = (None, s')"
  by (induction objs arbitrary: s) (auto split: prod.splits option.splits)

lemma applyDaemonObjects_all:
  "\<forall>obj \<in> set objs. daemonObject env cfg obj \<noteq> None \<Longrightarrow>
   applyAll c (List.map_filter (daemonObject env cfg) objs) s = (None, s') \<Longrightarrow>
   applyDaemonObjects c env cfg objs s = (None, s')"
proof (induction objs arbitrary: s)
  case (Cons obj objs)
  then obtain obj' where obj': "daemonObject env cfg obj = Some obj'" by auto
  then obtain o1 where "setDaemonNodeSelector env cfg obj = Inr o1" "SetControllerReference cfg o1 = Inr obj'"
    by (auto simp: daemonObject_def split: sum.splits)
  with Cons obj' show ?case by (auto simp: map_filter_simps split: prod.splits option.splits)
qed (simp add: map_filter_simps)

lemma syncEventServices_all:
  assumes "\<forall>node \<in> set nodes. \<exists>objs. RenderTemplate (env_Render env) serviceManifest
      \<lparr>render_Funcs = [], render_Data = AList.update ''NodeName'' (JString (shortName node)) d\<rparr> = Inr objs"
    and "applyAll c (concat (map (serviceObjects env d) nodes)) s = (None, s')"
  shows "syncEventServices c env d nodes s = (None, s')"
  using assms
proof (induction nodes arbitrary: s d)
  case (Cons node nodes)
  let ?d = "AList.update ''NodeName'' (JString (shortName node)) d"
  from Cons.prems(1) obtain objs where
    objs: "RenderTemplate (env_Render env) serviceManifest \<lparr>render_Funcs = [], render_Data = ?d\<rparr> = Inr objs"
    by auto
  then have "serviceObjects env d node = objs" by (simp add: serviceObjects_def rendered_def)
  with Cons.prems(2) obtain s1 where s1: "applyAll c objs s = (None, s1)"
    "applyAll c (concat (map (serviceObjects env d) nodes)) s1 = (None, s')"
    by (auto simp: applyAll_append split: prod.splits option.splits)
  have data: "serviceObjects env ?d = serviceObjects env d"
    by (rule ext) (simp add: serviceObjects_def update_twice)
  have "syncEventServices c env ?d nodes s1 = (None, s')"
    using Cons.prems(1) s1(2) by (intro Cons.IH) (simp_all add: update_twice data)
  with objs applyServiceObjects_all [OF s1(1)] show ?case by (simp add: Let_def)
qed simp

lemma syncLinuxptpDaemon_all:
  assumes "renders env cfg nodes" "applyAll c (desiredObjects env cfg nodes) s = (None, s')"
  shows "syncLinuxptpDaemon c env cfg nodes s = (None, s')"
proof -
  from assms(1) obtain d objs where d: "daemonData env cfg = Inr d"
    "RenderTemplate (env_Render env) daemonManifest \<lparr>render_Funcs = [], render_Data = d\<rparr> = Inr objs"
    "\<forall>obj \<in> set objs. daemonObject env cfg obj \<noteq> None"
    and services: "ospec_EventConfig (oconfig_Spec cfg) \<noteq> None \<longrightarrow> (\<forall>node \<in> set nodes. \<exists>objs.
      RenderTemplate (env_Render env) serviceManifest \<lparr>render_Funcs = [],
        render_Data = AList.update ''NodeName'' (JString (shortName node)) d\<rparr> = Inr objs)"
    by (auto simp: renders_def)
  obtain s1 where s1: "applyAll c (List.map_filter (daemonObject env cfg) objs) s = (None, s1)"
    "applyAll c (if ospec_EventConfig (oconfig_Spec cfg) = None then []
       else concat (map (serviceObjects env d) nodes)) s1 = (None, s')"
    using assms(2) d(1,2)
    by (auto simp: desiredObjects_def rendered_def applyAll_append split: prod.splits option.splits)
  show ?thesis
    using d(1,2) applyDaemonObjects_all [OF d(3) s1(1)] s1(2) services syncEventServices_all
    by (auto simp: syncLinuxptpDaemon_def split: option.splits)
qed

context reliable_client
begin

lemma ready_applies:
  assumes "ready (lookup s (objKey obj)) obj"
  shows "\<exists>s'. ApplyObject c obj s = (None, s')"
  using assms ApplyObject_missing [of obj s] ApplyObject_existing [of obj s]
  by (auto simp: ready_def simp del: keyOf.simps)

lemma settled_applies:
  assumes "settled (lookup s (objKey obj)) obj"
  shows "\<exists>s'. ApplyObject c obj s = (None, s') \<and> lookup s' = lookup s"
  using assms ApplyObject_existing [of obj s] get_frame [of "objKey obj" s]
  by (auto simp: settled_def simp del: keyOf.simps)

lemma applyAll_ready:
  "distinct (map objKey objs) \<Longrightarrow> \<forall>obj \<in> set objs. ready (lookup s (objKey obj)) obj \<Longrightarrow>
   \<exists>s'. applyAll c objs s = (None, s')"
proof (induction objs arbitrary: s)
  case (Cons obj objs)
  then obtain s1 where s1: "ApplyObject c obj s = (None, s1)" using ready_applies by force
  have "lookup s1 (objKey x) = lookup s (objKey x)" if "x \<in> set objs" for x
  proof -
    have "objKey obj \<notin> objKey ` set objs" using Cons.prems(1) by (simp del: keyOf.simps)
    with that have "objKey x \<noteq> objKey obj" by (metis imageI)
    then show ?thesis by (rule ApplyObject_frame [OF s1])
  qed
  with Cons.prems have "\<forall>x \<in> set objs. ready (lookup s1 (objKey x)) x" "distinct (map objKey objs)"
    by (simp_all del: keyOf.simps)
  from Cons.IH [OF this(2,1)] s1 show ?case by simp
qed simp

lemma applyAll_settled:
  "\<forall>obj \<in> set objs. settled (lookup s (objKey obj)) obj \<Longrightarrow>
   \<exists>s'. applyAll c objs s = (None, s') \<and> lookup s' = lookup s"
proof (induction objs arbitrary: s)
  case (Cons obj objs)
  then obtain s1 where "ApplyObject c obj s = (None, s1)" "lookup s1 = lookup s"
    using settled_applies by force
  moreover from this Cons.prems have "\<forall>x \<in> set objs. settled (lookup s1 (objKey x)) x"
    by (simp del: keyOf.simps)
  ultimately show ?case using Cons.IH [of s1] by auto
qed simp

end

section \<open>Reconciling against a server that is up\<close>

text \<open>A place that is empty or holds an object of the right type.\<close>

definition slot :: "(Object \<Rightarrow> 'a option) \<Rightarrow> Object option \<Rightarrow> bool" where
  "slot conv x \<longleftrightarrow> (case x of None \<Rightarrow> True | Some obj \<Rightarrow> conv obj \<noteq> None)"

definition slots :: "(Key \<rightharpoonup> Object) \<Rightarrow> Node list \<Rightarrow> bool" where
  "slots m nodes \<longleftrightarrow>
     (\<forall>node \<in> set nodes. slot asNodePtpDevice (m (deviceKey node))) \<and>
     slot asConfigMap (m (cmKey DefaultPTPConfigMapName)) \<and>
     slot asConfigMap (m (cmKey DefaultLeapConfigMapName))"

definition nodeListing :: "(Key \<rightharpoonup> Object) \<Rightarrow> Node list \<Rightarrow> bool" where
  "nodeListing m nodes \<longleftrightarrow>
     (\<exists>objs. listing (coreKind ''Node'') m objs \<and> nodes = List.map_filter asNode objs)"

definition homeNamespace :: "PtpOperatorConfig \<Rightarrow> bool" where
  "homeNamespace cfg \<longleftrightarrow> meta_Namespace (oconfig_ObjectMeta cfg) \<in> {[], Namespace}"

lemma SetControllerReference_new_ok:
  assumes "homeNamespace cfg"
  shows "SetControllerReference_cm cfg
    \<lparr>cm_ObjectMeta = emptyMeta\<lparr>meta_Name := name, meta_Namespace := Namespace\<rparr>, cm_Data = []\<rparr> =
    Inr (newConfigMap name cfg)"
proof -
  have "newOwnerRefs cfg Namespace name [] = Inr [controllerRef cfg]"
    using assms by (auto simp: newOwnerRefs_ok homeNamespace_def GetControllerOf_def)
  then show ?thesis by (simp add: SetControllerReference_cm_def newConfigMap_def emptyMeta_def Let_def)
qed

lemma asConfigMap_Some [simp]: "asConfigMap obj = Some x \<longleftrightarrow> obj = ConfigMapObj x"
  by (cases obj) auto

context reliable_client
begin

lemma get_slot:
  assumes "slot conv (lookup s k)"
  shows "(\<exists>x s1. typedResult conv (client_Get c k s) = (Inr x, s1) \<and> lookup s1 = lookup s \<and> lookup s k \<noteq> None) \<or>
    (\<exists>err s1. typedResult conv (client_Get c k s) = (Inl err, s1) \<and> IsNotFound err \<and> lookup s1 = lookup s \<and>
       lookup s k = None)"
proof (cases "lookup s k")
  case None
  with typed_get_reports [OF this] show ?thesis by metis
next
  case (Some obj)
  with assms obtain x where "conv obj = Some x" by (auto simp: slot_def)
  with typed_get_answers [of s k obj conv x] Some show ?thesis by auto
qed

lemma create_progress:
  assumes "lookup s1 = lookup s" "lookup s k = None" "keyOf obj = k"
  shows "\<exists>s2 stored. client_Create c obj s1 = (None, s2) \<and> lookup s2 = (lookup s)(k \<mapsto> stored) \<and> keeps obj stored"
proof -
  have "fst (client_Create c obj s1) = None" using create_answers assms by simp
  then obtain s2 where s2: "client_Create c obj s1 = (None, s2)" by (metis prod.collapse)
  then obtain stored where "keeps obj stored" "lookup s2 = (lookup s1)(keyOf obj \<mapsto> stored)"
    by (rule create_lookup)
  with assms s2 show ?thesis by auto
qed

lemma syncNodePtpDevice_progress:
  assumes "\<forall>node \<in> set nodes. slot asNodePtpDevice (lookup s (deviceKey node))"
  shows "\<exists>s'. syncNodePtpDevice c nodes s = (None, s')"
  using assms
proof (induction nodes arbitrary: s)
  case (Cons node nodes)
  then have "slot asNodePtpDevice (lookup s (deviceKey node))" by simp
  from get_slot [OF this] show ?case
  proof (elim disjE exE conjE)
    fix x s1 assume "typedResult asNodePtpDevice (client_Get c (deviceKey node) s) = (Inr x, s1)"
      "lookup s1 = lookup s"
    with Cons show ?thesis by (simp add: GetNodePtpDevice_def deviceKey_def)
  next
    fix err s1 assume get: "typedResult asNodePtpDevice (client_Get c (deviceKey node) s) = (Inl err, s1)"
      "IsNotFound err" and s1: "lookup s1 = lookup s" "lookup s (deviceKey node) = None"
    let ?dev = "NodePtpDeviceObj \<lparr>ndevice_ObjectMeta =
      emptyMeta\<lparr>meta_Name := node_Name node, meta_Namespace := Namespace\<rparr>,
      ndevice_Status = \<lparr>dstatus_Devices = [], dstatus_Hwconfig = []\<rparr>\<rparr>"
    have "keyOf ?dev = deviceKey node" by (simp add: deviceKey_def emptyMeta_def)
    from create_progress [OF s1 this] obtain s2 stored where
      cr: "client_Create c ?dev s1 = (None, s2)" "lookup s2 = (lookup s)(deviceKey node \<mapsto> stored)"
      and st: "keeps ?dev stored" by blast
    from st obtain z where "stored = NodePtpDeviceObj z" by auto
    with cr(2) Cons.prems have "\<forall>n \<in> set nodes. slot asNodePtpDevice (lookup s2 (deviceKey n))"
      by (simp add: slot_def)
    from Cons.IH [OF this] cr(1) get show ?thesis by (auto simp: GetNodePtpDevice_def deviceKey_def)
  qed
qed simp

lemma createConfigMap_progress:
  assumes "slot asConfigMap (lookup s (cmKey name))" "homeNamespace cfg"
  shows "\<exists>s'. createConfigMap name t1 t2 c cfg s = (None, s')"
  using get_slot [OF assms(1)]
proof (elim disjE exE conjE)
  fix x s1 assume "typedResult asConfigMap (client_Get c (cmKey name) s) = (Inr x, s1)"
  then show ?thesis by (simp add: createConfigMap_def GetConfigMap_def cmKey_def)
next
  fix err s1 assume get: "typedResult asConfigMap (client_Get c (cmKey name) s) = (Inl err, s1)"
    "IsNotFound err" and s1: "lookup s1 = lookup s" "lookup s (cmKey name) = None"
  have "keyOf (ConfigMapObj (newConfigMap name cfg)) = cmKey name"
    by (simp add: newConfigMap_def cmKey_def emptyMeta_def)
  from create_progress [OF s1 this] get SetControllerReference_new_ok [OF assms(2)] show ?thesis
    by (auto simp: createConfigMap_def GetConfigMap_def cmKey_def)
qed

lemma createMap_progress:
  "slot asConfigMap (lookup s (cmKey DefaultPTPConfigMapName)) \<Longrightarrow> homeNamespace cfg \<Longrightarrow>
   \<exists>s'. createPTPConfigMap c cfg s = (None, s')"
  "slot asConfigMap (lookup s (cmKey DefaultLeapConfigMapName)) \<Longrightarrow> homeNamespace cfg \<Longrightarrow>
   \<exists>s'. createLeapConfigMap c cfg s = (None, s')"
  unfolding createPTPConfigMap_def createLeapConfigMap_def by (rule createConfigMap_progress; assumption)+

text \<open>A reconciliation succeeds when the places are right and the objects can be applied.\<close>

lemma Reconcile_runs:
  assumes cfg: "lookup s cfgKey = Some (PtpOperatorConfigObj cfg)" "homeNamespace cfg"
    and base: "\<And>nodes. nodeListing (lookup s) nodes \<Longrightarrow> slots (lookup s) nodes \<and> renders env cfg nodes"
    and run: "\<And>nodes s4. nodeListing (lookup s) nodes \<Longrightarrow>
      addsOnly (lookup s) (lookup s4) (baseKeys nodes) \<Longrightarrow>
      \<exists>s'. applyAll c (desiredObjects env cfg nodes) s4 = (None, s')"
  shows "\<exists>nodes s4 s'. nodeListing (lookup s) nodes \<and> addsOnly (lookup s) (lookup s4) (baseKeys nodes) \<and>
    (\<exists>cm. lookup s4 (cmKey DefaultPTPConfigMapName) = Some (ConfigMapObj cm)) \<and>
    applyAll c (desiredObjects env cfg nodes) s4 = (None, s') \<and>
    PtpOperatorConfig_Reconcile c env s = ((\<lparr>result_RequeueAfter = ResyncPeriod\<rparr>, None), s')"
proof -
  obtain s0 where get: "GetPtpOperatorConfig c Namespace DefaultOperatorConfigName s = (Inr cfg, s0)"
    and s0: "lookup s0 = lookup s"
    using typed_get_answers [OF cfg(1), of asPtpOperatorConfig cfg] by (auto simp: GetPtpOperatorConfig_def)
  obtain objs s1 where objs: "client_List c (coreKind ''Node'') s0 = (Inr objs, s1)"
    using list_answers by (metis prod.collapse)
  define nodes where "nodes = List.map_filter asNode objs"
  have lst: "ListNodes c s0 = (Inr nodes, s1)" by (simp add: ListNodes_def typedList_def objs nodes_def)
  have s1: "lookup s1 = lookup s" using list_frame [of "coreKind ''Node''" s0] objs s0 by simp
  have nodes: "nodeListing (lookup s) nodes"
    using list_found [of "coreKind ''Node''" s0 objs] objs s0 by (auto simp: nodeListing_def nodes_def)
  note slots = conjunct1 [OF base [OF nodes], unfolded slots_def]
  obtain s2 where dev: "syncNodePtpDevice c nodes s1 = (None, s2)"
    using syncNodePtpDevice_progress [of nodes s1] slots s1 by auto
  have K: "cmKey n \<notin> deviceKey ` set nodes" "cmKey DefaultPTPConfigMapName \<noteq> cmKey DefaultLeapConfigMapName" for n
    by (auto simp: cmKey_def deviceKey_def coreKind_def ptpKind_def name_defs)
  have a2: "addsOnly (lookup s) (lookup s2) (deviceKey ` set nodes)"
    using syncNodePtpDevice_effect [OF dev] s1 by simp
  obtain s3 where cm1: "createPTPConfigMap c cfg s2 = (None, s3)"
    using createMap_progress(1) [of s2 cfg] slots addsOnly_other [OF a2 K(1)] cfg(2) by auto
  have a3: "addsOnly (lookup s2) (lookup s3) {cmKey DefaultPTPConfigMapName}"
    using createConfigMap_effect [OF cm1 [unfolded createPTPConfigMap_def]] by simp
  have "lookup s3 (cmKey DefaultLeapConfigMapName) = lookup s (cmKey DefaultLeapConfigMapName)"
    using addsOnly_other [OF a3] addsOnly_other [OF a2 K(1)] K(2) by simp
  then obtain s4 where cm2: "createLeapConfigMap c cfg s3 = (None, s4)"
    using createMap_progress(2) [of s3 cfg] slots cfg(2) by auto
  note M = createMaps_effect [OF cm1 cm2]
  have "lookup s2 (cmKey DefaultPTPConfigMapName) = lookup s (cmKey DefaultPTPConfigMapName)"
    by (rule addsOnly_other [OF a2 K(1)])
  then have here: "slot asConfigMap (lookup s2 (cmKey DefaultPTPConfigMapName))" using slots by simp
  obtain stored where stored: "lookup s3 (cmKey DefaultPTPConfigMapName) = Some stored"
    "lookup s2 (cmKey DefaultPTPConfigMapName) = None \<longrightarrow>
       keeps (ConfigMapObj (newConfigMap DefaultPTPConfigMapName cfg)) stored"
    using mp [OF conjunct2 [OF createConfigMap_effect [OF cm1 [unfolded createPTPConfigMap_def]]] refl]
    by (elim exE conjE) (rule that)
  have "\<exists>cm. stored = ConfigMapObj cm"
  proof (cases "lookup s2 (cmKey DefaultPTPConfigMapName)")
    case None
    with stored(2) show ?thesis by auto
  next
    case (Some obj)
    then have "stored = obj" using addsOnly_keeps [OF a3] stored(1) by (metis domI option.inject)
    with here Some show ?thesis by (simp add: slot_def)
  qed
  with stored(1) have "\<exists>cm. lookup s3 (cmKey DefaultPTPConfigMapName) = Some (ConfigMapObj cm)" by blast
  then have cm: "\<exists>cm. lookup s4 (cmKey DefaultPTPConfigMapName) = Some (ConfigMapObj cm)"
    using addsOnly_other [OF M(2)] K(2) by simp
  have a4: "addsOnly (lookup s) (lookup s4) (baseKeys nodes)"
    by (rule addsOnly_trans [OF addsOnly_mono [OF a2] addsOnly_trans [OF addsOnly_mono [OF M(1)]
          addsOnly_mono [OF M(2)]]]) (auto simp: baseKeys_def)
  from run [OF nodes this] obtain s' where ap: "applyAll c (desiredObjects env cfg nodes) s4 = (None, s')" by blast
  then have "syncLinuxptpDaemon c env cfg nodes s4 = (None, s')"
    using base [OF nodes] by (intro syncLinuxptpDaemon_all) simp_all
  with get lst dev cm1 cm2
  have "PtpOperatorConfig_Reconcile c env s = ((\<lparr>result_RequeueAfter = ResyncPeriod\<rparr>, None), s')"
    by (simp add: PtpOperatorConfig_Reconcile_def)
  with nodes a4 cm ap show ?thesis by blast
qed

end

section \<open>Properties\<close>

text \<open>
  (C13) Whatever the outcome of a reconciliation, against any API server that keeps its contract:
  nothing is deleted; a NodePtpDevice or ConfigMap that exists is left as it is; and the only other
  objects that change are those of the rendered manifests.
\<close>
theorem reconcile_frame:
  assumes "api_client c lookup" and "PtpOperatorConfig_Reconcile c env s = ((res, e), s')"
    and "lookup s cfgKey = Some (PtpOperatorConfigObj cfg)"
  shows "\<exists>nodes. set nodes \<subseteq> clusterNodes (lookup s) \<and> dom (lookup s) \<subseteq> dom (lookup s') \<and>
    (\<forall>k. k \<notin> objKey ` set (desiredObjects env cfg nodes) \<and> (k \<in> baseKeys nodes \<longrightarrow> k \<in> dom (lookup s)) \<longrightarrow>
       lookup s' k = lookup s k)"
proof -
  obtain nodes m where 1: "set nodes \<subseteq> clusterNodes (lookup s)"
    "addsOnly (lookup s) m (baseKeys nodes)"
    "changesOnly m (lookup s') (objKey ` set (desiredObjects env cfg nodes))"
    "e = None \<longrightarrow> res = \<lparr>result_RequeueAfter = ResyncPeriod\<rparr> \<and> set nodes = clusterNodes (lookup s) \<and>
       baseKeys nodes \<subseteq> dom m \<and>
       (\<forall>obj \<in> set (desiredObjects env cfg nodes). applicable obj \<longrightarrow> objKey obj \<in> dom (lookup s'))"
    by (rule api_client.Reconcile_steps [OF assms(1), OF assms(2,3)])
  have "lookup s' k = lookup s k" if "k \<notin> objKey ` set (desiredObjects env cfg nodes)"
    "k \<in> baseKeys nodes \<longrightarrow> k \<in> dom (lookup s)" for k
  proof -
    have "lookup s' k = m k" using 1(3) that(1) unfolding changesOnly_def by blast
    also have "\<dots> = lookup s k" using that(2) addsOnly_keeps [OF 1(2)] addsOnly_other [OF 1(2)] by blast
    finally show ?thesis .
  qed
  moreover have "dom (lookup s) \<subseteq> dom (lookup s')"
    using addsOnly_dom [OF 1(2)] 1(3) unfolding changesOnly_def by blast
  ultimately show ?thesis using 1(1) by blast
qed

text \<open>
  (C12) After a reconciliation that succeeds every node of the cluster has a NodePtpDevice, both
  ConfigMaps exist, every object of the manifests exists, and the next reconciliation is due after the
  resync period.
\<close>
theorem reconcile_establishes:
  assumes "api_client c lookup" and "PtpOperatorConfig_Reconcile c env s = ((res, None), s')"
    and "lookup s cfgKey = Some (PtpOperatorConfigObj cfg)"
  shows "res = \<lparr>result_RequeueAfter = ResyncPeriod\<rparr> \<and>
    (\<exists>nodes. set nodes = clusterNodes (lookup s) \<and> baseKeys nodes \<subseteq> dom (lookup s') \<and>
       (\<forall>obj \<in> set (desiredObjects env cfg nodes). applicable obj \<longrightarrow> objKey obj \<in> dom (lookup s')))"
proof -
  obtain nodes m where 1: "set nodes \<subseteq> clusterNodes (lookup s)"
    "addsOnly (lookup s) m (baseKeys nodes)"
    "changesOnly m (lookup s') (objKey ` set (desiredObjects env cfg nodes))"
    "(None :: error option) = None \<longrightarrow> res = \<lparr>result_RequeueAfter = ResyncPeriod\<rparr> \<and> set nodes = clusterNodes (lookup s) \<and>
       baseKeys nodes \<subseteq> dom m \<and>
       (\<forall>obj \<in> set (desiredObjects env cfg nodes). applicable obj \<longrightarrow> objKey obj \<in> dom (lookup s'))"
    by (rule api_client.Reconcile_steps [OF assms(1), OF assms(2,3)])
  then have "baseKeys nodes \<subseteq> dom (lookup s')" unfolding changesOnly_def by blast
  with 1 show ?thesis by blast
qed

text \<open>
  Without a configuration the reconciliation creates the default one, with an empty node selector
  and no event configuration, changes nothing else, and does not ask to be run again.
\<close>
theorem reconcile_creates_default:
  assumes "reliable_client c lookup" and "lookup s cfgKey = None"
  shows "\<exists>s' stored. PtpOperatorConfig_Reconcile c env s = ((emptyResult, None), s') \<and>
    keeps (PtpOperatorConfigObj defaultConfig) stored \<and> lookup s' = (lookup s)(cfgKey \<mapsto> stored)"
proof -
  obtain err s1 where get: "GetPtpOperatorConfig c Namespace DefaultOperatorConfigName s = (Inl err, s1)"
    "IsNotFound err" and s1: "lookup s1 = lookup s"
    using reliable_client.typed_get_reports [OF assms(1), OF assms(2), of asPtpOperatorConfig]
    unfolding GetPtpOperatorConfig_def by blast
  have "keyOf (PtpOperatorConfigObj defaultConfig) = cfgKey" by (simp add: defaultConfig_def emptyMeta_def)
  from reliable_client.create_progress [OF assms(1), OF s1 assms(2) this] get show ?thesis
    by (auto simp: PtpOperatorConfig_Reconcile_def simp del: keeps.simps)
qed

text \<open>
  The conditions under which a reconciliation has to succeed: the manifests render to objects with
  different keys, none of them a NodePtpDevice or ConfigMap of the operator, and each can be created
  or merged; and the operator's own objects are missing or of the right type.
\<close>

definition installable :: "'t Env \<Rightarrow> PtpOperatorConfig \<Rightarrow> (Key \<rightharpoonup> Object) \<Rightarrow> Node list \<Rightarrow> bool" where
  "installable env cfg m nodes \<longleftrightarrow>
     slots m nodes \<and> renders env cfg nodes \<and>
     distinct (map objKey (desiredObjects env cfg nodes)) \<and>
     objKey ` set (desiredObjects env cfg nodes) \<inter> baseKeys nodes = {} \<and>
     (\<forall>obj \<in> set (desiredObjects env cfg nodes). ready (m (objKey obj)) obj)"

text \<open>Everything is there, and applying any object of the manifests would change nothing.\<close>

definition deployed :: "'t Env \<Rightarrow> PtpOperatorConfig \<Rightarrow> (Key \<rightharpoonup> Object) \<Rightarrow> Node list \<Rightarrow> bool" where
  "deployed env cfg m nodes \<longleftrightarrow>
     slots m nodes \<and> baseKeys nodes \<subseteq> dom m \<and> renders env cfg nodes \<and>
     (\<forall>obj \<in> set (desiredObjects env cfg nodes). settled (m (objKey obj)) obj)"

context reliable_client
begin

lemma applyAll_effect: "applyAll c objs s = (e, s') \<Longrightarrow> changesOnly (lookup s) (lookup s') (objKey ` set objs)"
proof (induction objs arbitrary: s)
  case (Cons obj objs)
  obtain e1 s1 where ap: "ApplyObject c obj s = (e1, s1)" by force
  note ch = ApplyObject_changes [OF ap]
  show ?case
  proof (cases e1)
    case None
    with Cons ap have "changesOnly (lookup s1) (lookup s') (objKey ` set objs)" by simp
    from changesOnly_trans [OF ch this] show ?thesis by simp
  next
    case (Some err)
    with Cons.prems ap ch show ?thesis by (auto intro: changesOnly_mono)
  qed
qed simp

text \<open>What can be installed is installed: first the operator's own objects, then those of the manifests.\<close>

lemma Reconcile_installs:
  assumes "lookup s cfgKey = Some (PtpOperatorConfigObj cfg)" "homeNamespace cfg"
    and inst: "\<And>nodes. nodeListing (lookup s) nodes \<Longrightarrow> installable env cfg (lookup s) nodes"
  shows "\<exists>nodes s4 s'. nodeListing (lookup s) nodes \<and> addsOnly (lookup s) (lookup s4) (baseKeys nodes) \<and>
    (\<exists>cm. lookup s4 (cmKey DefaultPTPConfigMapName) = Some (ConfigMapObj cm)) \<and>
    changesOnly (lookup s4) (lookup s') (objKey ` set (desiredObjects env cfg nodes)) \<and>
    PtpOperatorConfig_Reconcile c env s = ((\<lparr>result_RequeueAfter = ResyncPeriod\<rparr>, None), s')"
proof -
  have ap: "\<exists>s'. applyAll c (desiredObjects env cfg nodes) s4 = (None, s')"
    if nodes: "nodeListing (lookup s) nodes" and s4: "addsOnly (lookup s) (lookup s4) (baseKeys nodes)"
    for nodes s4
  proof -
    note here = inst [OF nodes, unfolded installable_def]
    have "lookup s4 (objKey obj) = lookup s (objKey obj)" if "obj \<in> set (desiredObjects env cfg nodes)" for obj
      using here that by (intro addsOnly_other [OF s4]) blast
    with here show ?thesis by (intro applyAll_ready) (simp_all del: keyOf.simps)
  qed
  have "slots (lookup s) nodes \<and> renders env cfg nodes" if "nodeListing (lookup s) nodes" for nodes
    using inst [OF that] by (simp add: installable_def)
  from Reconcile_runs [OF assms(1,2) this ap] show ?thesis using applyAll_effect by blast
qed

end

text \<open>
  (C15) Against a server that is up, a reconciliation of a configuration that can be installed
  succeeds, on a fresh cluster as well as over what an earlier one has left.
\<close>
theorem reconcile_progress:
  assumes "reliable_client c lookup" and "lookup s cfgKey = Some (PtpOperatorConfigObj cfg)"
    and "homeNamespace cfg"
    and "\<And>nodes. nodeListing (lookup s) nodes \<Longrightarrow> installable env cfg (lookup s) nodes"
  shows "\<exists>s'. PtpOperatorConfig_Reconcile c env s = ((\<lparr>result_RequeueAfter = ResyncPeriod\<rparr>, None), s')"
  using reliable_client.Reconcile_installs [OF assms(1), OF assms(2-4)] by blast


section \<open>The data of the templates\<close>

definition eventValues :: "'t Env \<Rightarrow> PtpEventConfig \<Rightarrow> string \<Rightarrow> string" where
  "eventValues env ec key =
     (if key = ''EventTransportHost'' then
        (if event_EnableEventPublisher ec \<and>
           (event_TransportHost ec = [] \<or> url_Parse env (event_TransportHost ec) \<noteq> None)
         then DefaultTransportHost else event_TransportHost ec)
      else if key = ''StorageType'' then
        (if event_EnableEventPublisher ec \<and> event_StorageType ec \<noteq> [] then event_StorageType ec
         else DefaultStorageType)
      else (if event_EnableEventPublisher ec \<and> event_ApiVersion ec \<noteq> [] then event_ApiVersion ec
         else DefaultApiVersion))"

text \<open>
  The data of the templates never fails to be made. The event values are the defaults unless the
  publisher is on and the configuration gives a value; a transport host that is empty or not a URL is
  replaced by the default, so no check of it stops a reconciliation; without an event configuration
  there is no transport host; without a plugin list the e810 plugin is enabled.
\<close>
theorem daemon_data_values:
  "\<exists>d. daemonData env cfg = Inr d \<and>
    map_of d ''EnableEventPublisher'' = Some (JBool (case ospec_EventConfig (oconfig_Spec cfg) of
       None \<Rightarrow> False | Some ec \<Rightarrow> event_EnableEventPublisher ec)) \<and>
    map_of d ''EventTransportHost'' = map_option (\<lambda>ec. JString (eventValues env ec ''EventTransportHost''))
      (ospec_EventConfig (oconfig_Spec cfg)) \<and>
    map_of d ''StorageType'' = Some (JString (case ospec_EventConfig (oconfig_Spec cfg) of
       None \<Rightarrow> DefaultStorageType | Some ec \<Rightarrow> eventValues env ec ''StorageType'')) \<and>
    map_of d ''EventApiVersion'' = Some (JString (case ospec_EventConfig (oconfig_Spec cfg) of
       None \<Rightarrow> DefaultApiVersion | Some ec \<Rightarrow> eventValues env ec ''EventApiVersion'')) \<and>
    map_of d ''EnabledPlugins'' = Some (JString (case ospec_EnabledPlugins (oconfig_Spec cfg) of
       None \<Rightarrow> ''e810'' | Some m \<Rightarrow> strings_Join (map fst m) '',''))"
proof -
  have base: "map_of (baseData env) ''EventTransportHost'' = None"
    "map_of (baseData env) ''StorageType'' = Some (JString DefaultStorageType)"
    "map_of (baseData env) ''EventApiVersion'' = Some (JString DefaultApiVersion)"
    by (simp_all add: baseData_def MakeRenderData_def Let_def)
  have plugins: "strings_Join (pluginList (ospec_EnabledPlugins (oconfig_Spec cfg))) '','' =
      (case ospec_EnabledPlugins (oconfig_Spec cfg) of None \<Rightarrow> ''e810'' | Some m \<Rightarrow> strings_Join (map fst m) '','')"
    by (simp add: pluginList_def split: option.split)
  show ?thesis
  proof (cases "ospec_EventConfig (oconfig_Spec cfg)")
    case None
    then show ?thesis by (simp add: daemonData_def eventData_def base plugins)
  next
    case (Some ec)
    then show ?thesis
      by (simp add: daemonData_def eventData_def EventTransportHostAvailabilityCheck_def Let_def base plugins
          eventValues_def split: option.split)
  qed
qed

text \<open>
  The data depends on the order in which Go visits the map of plugins: the same map, visited in
  two orders, gives two values for the enabled plugins, and so two manifests of the daemon.
\<close>
theorem plugin_order_changes_data:
  "\<exists>p q d e. map_of p = map_of q \<and> set p = set q \<and> gomap_wf p \<and> gomap_wf q \<and>
    daemonData env (cfg\<lparr>oconfig_Spec := (oconfig_Spec cfg)\<lparr>ospec_EnabledPlugins := Some p\<rparr>\<rparr>) = Inr d \<and>
    daemonData env (cfg\<lparr>oconfig_Spec := (oconfig_Spec cfg)\<lparr>ospec_EnabledPlugins := Some q\<rparr>\<rparr>) = Inr e \<and>
    map_of d ''EnabledPlugins'' = Some (JString ''a,b'') \<and> map_of e ''EnabledPlugins'' = Some (JString ''b,a'')"
proof -
  have "\<exists>d. daemonData env (cfg\<lparr>oconfig_Spec := (oconfig_Spec cfg)\<lparr>ospec_EnabledPlugins := Some m\<rparr>\<rparr>) = Inr d \<and>
      map_of d ''EnabledPlugins'' = Some (JString (strings_Join (map fst m) '',''))" for m
    by (auto simp: daemonData_def pluginList_def eventData_def EventTransportHostAvailabilityCheck_def Let_def
        split: option.split)
  note data = this [of "[(''a'', None), (''b'', None)]"] this [of "[(''b'', None), (''a'', None)]"]
  have "map_of [(''a'', None :: string option), (''b'', None)] = map_of [(''b'', None), (''a'', None)]"
    by (rule ext) simp
  moreover have "gomap_wf [(''a'', None :: string option), (''b'', None)]"
    "gomap_wf [(''b'', None :: string option), (''a'', None)]"
    "set [(''a'', None :: string option), (''b'', None)] = set [(''b'', None), (''a'', None)]"
    by (auto simp: gomap_wf_def)
  ultimately show ?thesis using data by (simp only: list.map fst_conv strings_Join.simps append.simps) blast
qed

section \<open>Examples\<close>

text \<open>An environment whose daemon manifest holds one object and whose service manifest none.\<close>

definition exampleEnv :: "string Env" where
  "exampleEnv =
     \<lparr>Getenv = (\<lambda>_. []), url_Parse = (\<lambda>_. None), toDaemonSet = (\<lambda>_. Inl (Errorf [])),
      fromDaemonSet = (\<lambda>_. Inl (Errorf [])),
      env_Render = \<lparr>ReadFile = (\<lambda>p. Inr p), Parse = (\<lambda>_ src. Inr src), Execute = (\<lambda>t _. Inr t),
        Decoder = (\<lambda>text. if text = daemonManifest then [Inr exampleDaemonSet] else []), SprigFuncs = []\<rparr>\<rparr>"

definition exampleNode :: Node where
  "exampleNode = \<lparr>node_ObjectMeta = emptyMeta\<lparr>meta_Name := ''n1''\<rparr>\<rparr>"

definition exampleFleet :: Tracker where
  "exampleFleet = [(cfgKey, PtpOperatorConfigObj exampleConfig),
     ((coreKind ''Node'', [], ''n1''), NodeObj exampleNode)]"

lemma example_fleet:
  "map_of exampleFleet cfgKey = Some (PtpOperatorConfigObj exampleConfig)" "homeNamespace exampleConfig"
  by (simp_all add: exampleFleet_def homeNamespace_def exampleConfig_def)

text \<open>The one object of the example, with its owner set.\<close>

definition exampleOwned :: Unstructured where
  "exampleOwned = SetOwnerReferences exampleDaemonSet (GetOwnerReferences exampleDaemonSet @ [controllerRef exampleConfig])"

lemma example_owned:
  "SetControllerReference exampleConfig exampleDaemonSet = Inr exampleOwned"
  "applicable exampleOwned" "json_wf (JObj exampleOwned)" "typedFields exampleOwned"
  "canonicalTime (GetCreationTimestamp exampleOwned)" "hasMeta exampleOwned"
  "objKey exampleOwned = (\<lparr>gvk_Group = ''apps'', gvk_Version = ''v1'', gvk_Kind = ''DaemonSet''\<rparr>,
     Namespace, ''linuxptp-daemon'')"
  by code_simp+

lemma example_manifest_text: "strings_TrimSpace daemonManifest = daemonManifest"
  "strings_TrimSpace serviceManifest \<noteq> []"
  by (simp_all add: strings_TrimSpace_graphic graphic_def less_eq_char_def daemonManifest_def serviceManifest_def)

lemma example_render:
  "RenderTemplate (env_Render exampleEnv) daemonManifest d = Inr [exampleDaemonSet]"
  by (simp add: RenderTemplate_def exampleEnv_def example_manifest_text Let_def) (simp add: daemonManifest_def)

lemma example_data: "\<exists>d. daemonData exampleEnv exampleConfig = Inr d"
  by (simp add: daemonData_def eventData_def exampleConfig_def)

lemma example_daemonObject: "daemonObject exampleEnv exampleConfig exampleDaemonSet = Some exampleOwned"
  using example_owned(1) by (simp add: daemonObject_def setDaemonNodeSelector_def exampleConfig_def)

lemma example_objects: "desiredObjects exampleEnv exampleConfig nodes = [exampleOwned]"
  using example_data
  by (auto simp: desiredObjects_def rendered_def example_render map_filter_simps example_daemonObject)
    (simp add: exampleConfig_def)

lemma example_renders: "renders exampleEnv exampleConfig nodes"
  using example_data
  by (auto simp: renders_def example_render example_daemonObject) (simp add: exampleConfig_def)

lemma example_listing:
  assumes "{k \<in> dom m. fst k = coreKind ''Node''} = {(coreKind ''Node'', [], ''n1'')}"
    and "m (coreKind ''Node'', [], ''n1'') = Some (NodeObj exampleNode)" and "nodeListing m nodes"
  shows "nodes = [exampleNode]"
proof -
  obtain ks where "distinct ks" "set ks = {(coreKind ''Node'', [], ''n1'')}"
    "nodes = List.map_filter asNode (map (\<lambda>k. the (m k)) ks)"
    using assms by (auto simp: nodeListing_def listing_def)
  moreover from this have "ks = [(coreKind ''Node'', [], ''n1'')]"
    by (cases ks) (auto simp: subset_singleton_iff)
  ultimately show ?thesis using assms(2) by (simp add: map_filter_simps)
qed

lemma example_keys:
  "cmKey DefaultPTPConfigMapName \<noteq> cmKey DefaultLeapConfigMapName"
  "objKey exampleOwned \<notin> baseKeys nodes" "objKey exampleOwned \<noteq> cfgKey"
  "objKey exampleOwned \<noteq> (coreKind ''Node'', [], ''n1'')"
  unfolding example_owned(7)
  by (auto simp: baseKeys_def cmKey_def deviceKey_def coreKind_def ptpKind_def name_defs)

lemma example_base_keys:
  "cmKey n \<noteq> cfgKey" "cmKey n \<noteq> (coreKind ''Node'', [], ''n1'')"
  "deviceKey node \<noteq> cfgKey" "deviceKey node \<noteq> (coreKind ''Node'', [], ''n1'')" "deviceKey node \<noteq> cmKey n"
  "cmKey n \<noteq> deviceKey node" "cfgKey \<notin> baseKeys nodes"
  by (auto simp: baseKeys_def cmKey_def deviceKey_def coreKind_def ptpKind_def)

lemma example_installable:
  assumes "nodeListing (map_of exampleFleet) nodes"
  shows "installable exampleEnv exampleConfig (map_of exampleFleet) nodes"
proof -
  have fleet: "map_of exampleFleet k = None" if "k \<noteq> cfgKey" "k \<noteq> (coreKind ''Node'', [], ''n1'')" for k
    using that by (auto simp: exampleFleet_def)
  show ?thesis
    using example_keys(2-4) example_base_keys example_owned(2)
    by (simp add: installable_def slots_def slot_def fleet example_renders example_objects ready_def
        del: keyOf.simps)
qed

lemma example_run: "\<exists>s'. PtpOperatorConfig_Reconcile trackerClient exampleEnv exampleFleet =
  ((\<lparr>result_RequeueAfter = ResyncPeriod\<rparr>, None), s')"
proof -
  have "\<exists>s'. applyAll trackerClient (desiredObjects exampleEnv exampleConfig nodes) s4 = (None, s')"
    if nodes: "nodeListing (map_of exampleFleet) nodes"
      and s4: "addsOnly (map_of exampleFleet) (map_of s4) (baseKeys nodes)" for nodes s4
    using example_installable [OF nodes] addsOnly_other [OF s4 example_keys(2)]
    by (intro tr.applyAll_ready) (simp_all add: installable_def example_objects del: keyOf.simps)
  moreover have "slots (map_of exampleFleet) nodes \<and> renders exampleEnv exampleConfig nodes"
    if "nodeListing (map_of exampleFleet) nodes" for nodes
    using example_installable [OF that] by (simp add: installable_def)
  ultimately show ?thesis using tr.Reconcile_runs [OF example_fleet] by blast
qed

theorem reconcile_progress_witness:
  "\<exists>s'. PtpOperatorConfig_Reconcile trackerClient exampleEnv exampleFleet =
     ((\<lparr>result_RequeueAfter = ResyncPeriod\<rparr>, None), s')"
  using reconcile_progress [OF tracker_contract(2), OF example_fleet example_installable] by blast

theorem reconcile_frame_witness:
  "map_of (snd (PtpOperatorConfig_Reconcile trackerClient exampleEnv exampleFleet)) cfgKey =
     Some (PtpOperatorConfigObj exampleConfig)"
proof -
  obtain s' where run: "PtpOperatorConfig_Reconcile trackerClient exampleEnv exampleFleet =
    ((\<lparr>result_RequeueAfter = ResyncPeriod\<rparr>, None), s')" using example_run by blast
  from reconcile_frame [OF tracker_contract(1), OF run example_fleet(1)] obtain nodes where
    "\<forall>k. k \<notin> objKey ` set (desiredObjects exampleEnv exampleConfig nodes) \<and>
       (k \<in> baseKeys nodes \<longrightarrow> k \<in> dom (map_of exampleFleet)) \<longrightarrow> map_of s' k = map_of exampleFleet k"
    by blast
  from this [rule_format, of cfgKey] show ?thesis
    using example_fleet(1) example_keys(3) example_base_keys(7) by (simp add: run example_objects del: keyOf.simps)
qed

theorem reconcile_establishes_witness:
  "map_of (snd (PtpOperatorConfig_Reconcile trackerClient exampleEnv exampleFleet)) (objKey exampleOwned) \<noteq> None \<and>
   map_of (snd (PtpOperatorConfig_Reconcile trackerClient exampleEnv exampleFleet))
     (cmKey DefaultPTPConfigMapName) \<noteq> None"
proof -
  obtain s' where run: "PtpOperatorConfig_Reconcile trackerClient exampleEnv exampleFleet =
    ((\<lparr>result_RequeueAfter = ResyncPeriod\<rparr>, None), s')" using example_run by blast
  from reconcile_establishes [OF tracker_contract(1), OF run example_fleet(1)] example_owned(2)
  show ?thesis by (auto simp: run example_objects baseKeys_def simp del: keyOf.simps)
qed

theorem reconcile_creates_default_witness:
  "\<exists>s'. PtpOperatorConfig_Reconcile trackerClient exampleEnv [] = ((emptyResult, None), s') \<and>
     map_of s' cfgKey \<noteq> None"
proof -
  have "map_of [] cfgKey = None" by simp
  from reconcile_creates_default [OF tracker_contract(2), OF this, of exampleEnv]
  show ?thesis by force
qed

text \<open>The example with everything in place.\<close>

definition exampleDeployed :: Tracker where
  "exampleDeployed = exampleFleet @
     [(deviceKey exampleNode, NodePtpDeviceObj \<lparr>ndevice_ObjectMeta = emptyMeta,
         ndevice_Status = \<lparr>dstatus_Devices = [], dstatus_Hwconfig = []\<rparr>\<rparr>),
      (cmKey DefaultPTPConfigMapName, ConfigMapObj (newConfigMap DefaultPTPConfigMapName exampleConfig)),
      (cmKey DefaultLeapConfigMapName, ConfigMapObj (newConfigMap DefaultLeapConfigMapName exampleConfig)),
      (objKey exampleOwned, UnstructuredObj (snd (MergeObjectForUpdate exampleOwned exampleOwned)))]"

lemma example_deployed_lookup:
  "map_of exampleDeployed cfgKey = Some (PtpOperatorConfigObj exampleConfig)"
  "map_of exampleDeployed (coreKind ''Node'', [], ''n1'') = Some (NodeObj exampleNode)"
  "map_of exampleDeployed (objKey exampleOwned) =
     Some (UnstructuredObj (snd (MergeObjectForUpdate exampleOwned exampleOwned)))"
  "map_of exampleDeployed (deviceKey exampleNode) \<noteq> None"
  "slot asNodePtpDevice (map_of exampleDeployed (deviceKey exampleNode))"
  "\<exists>cm. map_of exampleDeployed (cmKey DefaultPTPConfigMapName) = Some (ConfigMapObj cm)"
  "\<exists>cm. map_of exampleDeployed (cmKey DefaultLeapConfigMapName) = Some (ConfigMapObj cm)"
proof -
  have ne: "objKey exampleOwned \<noteq> deviceKey exampleNode"
    "objKey exampleOwned \<noteq> cmKey DefaultPTPConfigMapName" "objKey exampleOwned \<noteq> cmKey DefaultLeapConfigMapName"
    using example_keys(2) [of "[exampleNode]"] unfolding baseKeys_def by auto
  have node: "(coreKind ''Node'', [], ''n1'') \<noteq> cfgKey" by (simp add: coreKind_def ptpKind_def)
  show "map_of exampleDeployed cfgKey = Some (PtpOperatorConfigObj exampleConfig)"
    "map_of exampleDeployed (coreKind ''Node'', [], ''n1'') = Some (NodeObj exampleNode)"
    using node by (simp_all add: exampleDeployed_def exampleFleet_def)
  show "map_of exampleDeployed (objKey exampleOwned) =
     Some (UnstructuredObj (snd (MergeObjectForUpdate exampleOwned exampleOwned)))"
    "map_of exampleDeployed (deviceKey exampleNode) \<noteq> None"
    "slot asNodePtpDevice (map_of exampleDeployed (deviceKey exampleNode))"
    "\<exists>cm. map_of exampleDeployed (cmKey DefaultPTPConfigMapName) = Some (ConfigMapObj cm)"
    "\<exists>cm. map_of exampleDeployed (cmKey DefaultLeapConfigMapName) = Some (ConfigMapObj cm)"
    using ne example_keys(1,3,4) example_base_keys
    by (simp_all add: exampleDeployed_def exampleFleet_def slot_def del: keyOf.simps)
qed

lemma example_deployed:
  assumes "nodeListing (map_of exampleDeployed) nodes"
  shows "deployed exampleEnv exampleConfig (map_of exampleDeployed) nodes"
proof -
  let ?others = "{cfgKey, deviceKey exampleNode, cmKey DefaultPTPConfigMapName,
    cmKey DefaultLeapConfigMapName, objKey exampleOwned}"
  have dom: "dom (map_of exampleDeployed) = insert (coreKind ''Node'', [], ''n1'') ?others"
    unfolding exampleDeployed_def exampleFleet_def dom_map_of_conv_image_fst append.simps list.set
      image_insert image_empty fst_conv by (rule insert_commute)
  have others: "fst k \<noteq> coreKind ''Node''" if "k \<in> ?others" for k
    using that unfolding example_owned(7) by (auto simp: deviceKey_def cmKey_def coreKind_def ptpKind_def)
  have "{k \<in> dom (map_of exampleDeployed). fst k = coreKind ''Node''} = {(coreKind ''Node'', [], ''n1'')}"
    unfolding dom using others by fastforce
  from example_listing [OF this example_deployed_lookup(2) assms]
  have nodes: "nodes = [exampleNode]" .
  obtain m where m: "MergeObjectForUpdate exampleOwned exampleOwned = (None, m)"
    using merge_self [OF example_owned(4,6)] by blast
  have "MergeObjectForUpdate m exampleOwned = (None, m)" "DeepEqual (JObj m) (JObj m)"
    using merge_again [OF m example_owned(6,3,4,5)] DeepEqual_refl [OF merge_wf [OF m example_owned(6,3,3)]]
    by simp_all
  with m example_owned(2) example_deployed_lookup(3)
  have "settled (map_of exampleDeployed (objKey exampleOwned)) exampleOwned"
    by (simp add: settled_def del: keyOf.simps)
  moreover have "slots (map_of exampleDeployed) nodes" "baseKeys nodes \<subseteq> dom (map_of exampleDeployed)"
    using example_deployed_lookup(4-7) by (auto simp: slots_def nodes slot_def baseKeys_def)
  ultimately show ?thesis by (simp add: deployed_def example_renders example_objects del: keyOf.simps)
qed


end
