(* ===== verification/Recommend.thy ===== *)
theory Recommend
  imports Api_Types
begin

text \<open>
  \<^verbatim>\<open>src/controllers/recommend.go\<close>: which profiles of the PtpConfig resources apply to a node.
  The recommendations of all resources are sorted by priority, the first one that matches the
  node fixes the priority, and every matching recommendation of that priority contributes its
  profile. The profiles of those names are then collected and sorted by name.

  A nil pointer that the code dereferences without a check is a \<open>Panic\<close> of the model.
  Logging is left out.
\<close>

section \<open>Definitions\<close>

text \<open>The comparison function of \<^verbatim>\<open>sort.Slice\<close> in \<^verbatim>\<open>getRecommendProfilesNames\<close>.\<close>

definition recommendLess :: "PtpRecommend \<Rightarrow> PtpRecommend \<Rightarrow> bool" where
  "recommendLess a b =
     (case (recommend_Priority a, recommend_Priority b) of
        (Some p, Some q) \<Rightarrow> p < q
      | _ \<Rightarrow> recommend_Priority a \<noteq> None)"

text \<open>The loop over the labels of the node inside \<^verbatim>\<open>nodeMatches\<close>.\<close>

fun labelMatches :: "MatchRule \<Rightarrow> string list \<Rightarrow> bool" where
  "labelMatches m [] = False"
| "labelMatches m (k # ks) =
     (if match_NodeLabel m \<noteq> None \<and> the (match_NodeLabel m) = k then True
      else labelMatches m ks)"

fun nodeMatches :: "Node \<Rightarrow> MatchRule list \<Rightarrow> bool" where
  "nodeMatches node [] = False"
| "nodeMatches node (m # ms) =
     (if match_NodeName m \<noteq> None \<and> the (match_NodeName m) = node_Name node then True
      else if labelMatches m (gomap_keys (node_Labels node)) then True
      else nodeMatches node ms)"

text \<open>
  The loop of \<^verbatim>\<open>getRecommendProfilesNames\<close> over the sorted recommendations. The Go
  \<^verbatim>\<open>default: break\<close> leaves the switch, not the loop, so that case goes on with the next
  recommendation.
\<close>

fun recommendLoop ::
  "Node \<Rightarrow> PtpRecommend list \<Rightarrow> (string, unit) gomap \<Rightarrow> bool \<Rightarrow> int64 \<Rightarrow> (string, unit) gomap go"
where
  "recommendLoop node [] profilesNames foundPolicy priority = Ret profilesNames"
| "recommendLoop node (r # rs) profilesNames foundPolicy priority =
     (case recommend_Profile r of
        None \<Rightarrow> recommendLoop node rs profilesNames foundPolicy priority
      | Some profile \<Rightarrow>
          if recommend_Match r = [] then recommendLoop node rs profilesNames foundPolicy priority
          else if \<not> nodeMatches node (recommend_Match r) then
            recommendLoop node rs profilesNames foundPolicy priority
          else if \<not> foundPolicy then
            (case recommend_Priority r of
               None \<Rightarrow> Panic nilPanic
             | Some p \<Rightarrow> recommendLoop node rs (AList.update profile () profilesNames) True p)
          else
            (case recommend_Priority r of
               None \<Rightarrow> Panic nilPanic
             | Some p \<Rightarrow>
                 if p = priority then
                   recommendLoop node rs (AList.update profile () profilesNames) foundPolicy priority
                 else recommendLoop node rs profilesNames foundPolicy priority))"

definition allRecommend :: "PtpConfigList \<Rightarrow> PtpRecommend list" where
  "allRecommend cfgs =
     concat (map (\<lambda>cfg. cspec_Recommend (config_Spec cfg)) (configlist_Items cfgs))"

definition getRecommendProfilesNames ::
  "((PtpRecommend \<Rightarrow> PtpRecommend \<Rightarrow> bool) \<Rightarrow> PtpRecommend list \<Rightarrow> PtpRecommend list) \<Rightarrow>
   PtpConfigList \<Rightarrow> Node \<Rightarrow> (string, unit) gomap go"
where
  "getRecommendProfilesNames sort_Slice cfgs node =
     recommendLoop node (sort_Slice recommendLess (allRecommend cfgs)) [] False (-1)"

fun returnMapKeys :: "(string, unit) gomap \<Rightarrow> string list" where
  "returnMapKeys [] = []"
| "returnMapKeys ((k, v) # profiles) = k # returnMapKeys profiles"

text \<open>The two nested loops of \<^verbatim>\<open>getRecommendProfiles\<close> that collect the profiles.\<close>

fun collectProfiles :: "(string, unit) gomap \<Rightarrow> PtpProfile list \<Rightarrow> PtpProfile list go" where
  "collectProfiles names [] = Ret []"
| "collectProfiles names (p # ps) =
     (case profile_Name p of
        None \<Rightarrow> Panic nilPanic
      | Some n \<Rightarrow>
          bind_go (collectProfiles names ps)
            (\<lambda>rest. Ret (if map_of names n \<noteq> None then p # rest else rest)))"

definition allProfiles :: "PtpConfigList \<Rightarrow> PtpProfile list" where
  "allProfiles cfgs =
     concat (map (\<lambda>cfg. cspec_Profile (config_Spec cfg)) (configlist_Items cfgs))"

text \<open>
  \<^verbatim>\<open>sort.SliceStable\<close> with the comparison by name has exactly one result, the stable sort.
\<close>

definition getRecommendProfiles ::
  "((PtpRecommend \<Rightarrow> PtpRecommend \<Rightarrow> bool) \<Rightarrow> PtpRecommend list \<Rightarrow> PtpRecommend list) \<Rightarrow>
   PtpConfigList \<Rightarrow> Node \<Rightarrow> (error + PtpProfile list) go"
where
  "getRecommendProfiles sort_Slice cfgs node =
     bind_go (getRecommendProfilesNames sort_Slice cfgs node) (\<lambda>profilesNames.
     bind_go (collectProfiles profilesNames (allProfiles cfgs)) (\<lambda>profiles.
       if length profiles \<noteq> length profilesNames
       then Ret (Inl (Errorf ''failed to find all the profiles''))
       else Ret (Inr (sort_key (\<lambda>p. the (profile_Name p)) profiles))))"

definition getRecommendNodePtpProfiles ::
  "((PtpRecommend \<Rightarrow> PtpRecommend \<Rightarrow> bool) \<Rightarrow> PtpRecommend list \<Rightarrow> PtpRecommend list) \<Rightarrow>
   PtpConfigList \<Rightarrow> Node \<Rightarrow> (error + PtpProfile list) go"
where
  "getRecommendNodePtpProfiles sort_Slice cfgs node =
     bind_go (getRecommendProfiles sort_Slice cfgs node) (\<lambda>r.
       case r of
         Inl err \<Rightarrow> Ret (Inl (Errorf (''get recommended ptp profiles failed: '' @ Error err)))
       | Inr profiles \<Rightarrow> Ret (Inr profiles))"

section \<open>The specification\<close>

text \<open>
  A recommendation is eligible for a node when it names a profile and one of its match rules
  names the node or one of its labels. The recommended names are the profiles of the eligible
  recommendations of the least priority value.
\<close>

definition ruleMatches :: "Node \<Rightarrow> MatchRule \<Rightarrow> bool" where
  "ruleMatches node m \<longleftrightarrow>
     match_NodeName m = Some (node_Name node) \<or>
     (\<exists>l. match_NodeLabel m = Some l \<and> l \<in> fst ` set (node_Labels node))"

definition eligible :: "Node \<Rightarrow> PtpRecommend \<Rightarrow> bool" where
  "eligible node r \<longleftrightarrow>
     recommend_Profile r \<noteq> None \<and> (\<exists>m \<in> set (recommend_Match r). ruleMatches node m)"

definition recommendedNames :: "PtpRecommend list \<Rightarrow> Node \<Rightarrow> string set" where
  "recommendedNames recs node =
     {n. \<exists>r \<in> set recs. eligible node r \<and> recommend_Profile r = Some n \<and>
        (\<forall>r' \<in> set recs. eligible node r' \<longrightarrow>
           the (recommend_Priority r) \<le> the (recommend_Priority r'))}"

text \<open>The same loop with a \<^verbatim>\<open>break\<close> that would leave the \<^verbatim>\<open>for\<close>.\<close>

fun recommendLoopBreak ::
  "Node \<Rightarrow> PtpRecommend list \<Rightarrow> (string, unit) gomap \<Rightarrow> bool \<Rightarrow> int64 \<Rightarrow> (string, unit) gomap go"
where
  "recommendLoopBreak node [] names found priority = Ret names"
| "recommendLoopBreak node (r # rs) names found priority =
     (if \<not> eligible node r then recommendLoopBreak node rs names found priority
      else bind_go (deref (recommend_Priority r)) (\<lambda>p.
        if \<not> found then
          recommendLoopBreak node rs (AList.update (the (recommend_Profile r)) () names) True p
        else if p = priority then
          recommendLoopBreak node rs (AList.update (the (recommend_Profile r)) () names) found priority
        else Ret names))"

section \<open>Matching\<close>

lemma labelMatches_iff:
  "labelMatches m ks \<longleftrightarrow> (\<exists>l. match_NodeLabel m = Some l \<and> l \<in> set ks)"
  by (induction ks) auto

lemma nodeMatches_Cons: "nodeMatches node (m # ms) \<longleftrightarrow> ruleMatches node m \<or> nodeMatches node ms"
  by (cases "match_NodeName m") (auto simp: ruleMatches_def labelMatches_iff)

lemma nodeMatches_iff: "nodeMatches node ms \<longleftrightarrow> (\<exists>m \<in> set ms. ruleMatches node m)"
  by (induction ms) (simp_all add: nodeMatches_Cons del: nodeMatches.simps(2))

lemma eligible_iff:
  "eligible node r \<longleftrightarrow>
     recommend_Profile r \<noteq> None \<and> recommend_Match r \<noteq> [] \<and> nodeMatches node (recommend_Match r)"
  by (auto simp: eligible_def nodeMatches_iff)

lemma recommendLess_strict_weak_order: "strict_weak_order recommendLess"
  unfolding strict_weak_order_def recommendLess_def by (auto split: option.splits)

lemma recommendLess_iff:
  assumes "recommend_Priority a = Some p" and "recommend_Priority b = Some q"
  shows "recommendLess a b \<longleftrightarrow> p < q"
  using assms by (simp add: recommendLess_def)

section \<open>The loop\<close>

text \<open>One equation for the loop: skip what is not eligible, otherwise read the priority.\<close>

lemma recommendLoop_Cons:
  "recommendLoop node (r # rs) names found priority =
     (if \<not> eligible node r then recommendLoop node rs names found priority
      else bind_go (deref (recommend_Priority r)) (\<lambda>p.
        if \<not> found then
          recommendLoop node rs (AList.update (the (recommend_Profile r)) () names) True p
        else if p = priority then
          recommendLoop node rs (AList.update (the (recommend_Profile r)) () names) found priority
        else recommendLoop node rs names found priority))"
  by (auto simp: eligible_iff split: option.splits)

declare recommendLoop.simps(2) [simp del]

definition hasPriorities :: "Node \<Rightarrow> PtpRecommend list \<Rightarrow> bool" where
  "hasPriorities node recs \<longleftrightarrow>
     (\<forall>r \<in> set recs. eligible node r \<longrightarrow> recommend_Priority r \<noteq> None)"

lemma hasPriorities_Cons [simp]:
  "hasPriorities node (r # rs) \<longleftrightarrow>
     (eligible node r \<longrightarrow> recommend_Priority r \<noteq> None) \<and> hasPriorities node rs"
  by (auto simp: hasPriorities_def)

text \<open>The names that the eligible recommendations of priority \<open>p\<close> contribute, in order.\<close>

definition namesAt :: "Node \<Rightarrow> int64 \<Rightarrow> PtpRecommend list \<Rightarrow> string list" where
  "namesAt node p recs =
     map (\<lambda>r. the (recommend_Profile r))
       (filter (\<lambda>r. eligible node r \<and> recommend_Priority r = Some p) recs)"

lemma namesAt_Cons [simp]:
  "namesAt node p (r # rs) =
     (if eligible node r \<and> recommend_Priority r = Some p
      then the (recommend_Profile r) # namesAt node p rs else namesAt node p rs)"
  by (simp add: namesAt_def)

lemma namesAt_Nil [simp]: "namesAt node p [] = []"
  by (simp add: namesAt_def)

lemma recommendLoop_found:
  "hasPriorities node recs \<Longrightarrow>
   recommendLoop node recs names True p =
     Ret (fold (\<lambda>k. AList.update k ()) (namesAt node p recs) names)"
  by (induction recs arbitrary: names) (auto simp: recommendLoop_Cons)

lemma recommendLoop_start:
  "hasPriorities node recs \<Longrightarrow>
   recommendLoop node recs names False q =
     (case filter (eligible node) recs of
        [] \<Rightarrow> Ret names
      | r # _ \<Rightarrow>
          Ret (fold (\<lambda>k. AList.update k ())
                 (namesAt node (the (recommend_Priority r)) recs) names))"
  by (induction recs arbitrary: names)
    (auto simp: recommendLoop_Cons recommendLoop_found split: list.split)

lemma recommendLoop_panic:
  "\<not> hasPriorities node recs \<Longrightarrow> recommendLoop node recs names found p = Panic nilPanic"
proof (induction recs arbitrary: names found p)
  case Nil
  then show ?case by (simp add: hasPriorities_def)
next
  case (Cons r rs)
  then show ?case by (cases "recommend_Priority r") (auto simp: recommendLoop_Cons)
qed

lemma namesAt_set:
  "set (namesAt node p recs) =
     {n. \<exists>r \<in> set recs. eligible node r \<and> recommend_Priority r = Some p \<and>
        recommend_Profile r = Some n}"
  by (force simp: namesAt_def eligible_def)

text \<open>In a sorted list the first eligible recommendation has the least priority.\<close>

lemma first_eligible_least:
  assumes sorted: "sorted_wrt (\<lambda>x y. \<not> recommendLess y x) recs"
    and prio: "hasPriorities node recs"
    and first: "filter (eligible node) recs = r # rest"
    and r': "r' \<in> set recs" "eligible node r'"
  shows "the (recommend_Priority r) \<le> the (recommend_Priority r')"
proof -
  have srt: "sorted_wrt (\<lambda>x y. \<not> recommendLess y x) (r # rest)"
    using sorted first by (metis sorted_wrt_filter)
  have mem: "r' \<in> set (r # rest)" "r \<in> set recs" "eligible node r"
    using r' filter_ConsD [OF first] by (auto simp flip: first)
  obtain p p' where p: "recommend_Priority r = Some p" "recommend_Priority r' = Some p'"
    using prio mem r' unfolding hasPriorities_def by blast
  show ?thesis
  proof (cases "r' = r")
    case False
    with srt mem have "\<not> recommendLess r' r" by auto
    with p show ?thesis by (simp add: recommendLess_def)
  qed simp
qed

lemma recommendedNames_of_first:
  assumes "sorted_wrt (\<lambda>x y. \<not> recommendLess y x) recs" and "hasPriorities node recs"
    and "filter (eligible node) recs = r # rest"
  shows "recommendedNames recs node = set (namesAt node (the (recommend_Priority r)) recs)"
proof -
  have r: "r \<in> set recs" "eligible node r"
    using filter_ConsD [OF assms(3)] by auto
  have least: "\<And>r'. r' \<in> set recs \<Longrightarrow> eligible node r' \<Longrightarrow>
      the (recommend_Priority r) \<le> the (recommend_Priority r')"
    using first_eligible_least [OF assms] .
  have "n \<in> recommendedNames recs node \<longleftrightarrow>
      n \<in> set (namesAt node (the (recommend_Priority r)) recs)" for n
    using r least assms(2) unfolding namesAt_set recommendedNames_def hasPriorities_def
    by simp (metis antisym option.collapse option.sel)
  then show ?thesis by blast
qed

lemma recommendedNames_cong: "set xs = set ys \<Longrightarrow> recommendedNames xs node = recommendedNames ys node"
  by (simp add: recommendedNames_def)

lemma hasPriorities_cong: "set xs = set ys \<Longrightarrow> hasPriorities node xs = hasPriorities node ys"
  by (simp add: hasPriorities_def)

lemma recommendLoop_sorted:
  assumes "sorted_wrt (\<lambda>x y. \<not> recommendLess y x) recs" and "hasPriorities node recs"
  shows "\<exists>names. recommendLoop node recs [] False q = Ret names \<and> gomap_wf names \<and>
     fst ` set names = recommendedNames recs node"
proof (cases "filter (eligible node) recs")
  case Nil
  then have "recommendedNames recs node = {}"
    by (auto simp: recommendedNames_def filter_empty_conv)
  with Nil show ?thesis by (simp add: recommendLoop_start [OF assms(2)])
next
  case (Cons r rest)
  have wf: "gomap_wf (fold (\<lambda>k. AList.update k ()) ks m)" if "gomap_wf m"
    for ks and m :: "(string, unit) gomap"
    using that by (induction ks arbitrary: m) auto
  show ?thesis
    using Cons wf recommendedNames_of_first [OF assms Cons]
    by (simp add: recommendLoop_start [OF assms(2)] fold_update_dom)
qed

section \<open>The names\<close>

text \<open>
  The lemmas below are proved once for every sorting routine that keeps the contract of
  \<^verbatim>\<open>sort.Slice\<close>.
\<close>

locale recommend_sort = sort_slice_contract sort_Slice
  for sort_Slice :: "(PtpRecommend \<Rightarrow> PtpRecommend \<Rightarrow> bool) \<Rightarrow> PtpRecommend list \<Rightarrow> PtpRecommend list"
begin

lemma sorted_recommend: "sorted_wrt (\<lambda>x y. \<not> recommendLess y x) (sort_Slice recommendLess recs)"
  by (rule sort_slice_ordered [OF recommendLess_strict_weak_order])

lemma hasPriorities_sort: "hasPriorities node (sort_Slice recommendLess recs) = hasPriorities node recs"
  by (rule hasPriorities_cong) simp

lemma names_eq:
  assumes "hasPriorities node (allRecommend cfgs)"
  shows "\<exists>names. getRecommendProfilesNames sort_Slice cfgs node = Ret names \<and> gomap_wf names \<and>
     fst ` set names = recommendedNames (allRecommend cfgs) node"
  using recommendLoop_sorted [OF sorted_recommend, of node "allRecommend cfgs" "- 1"] assms
    recommendedNames_cong [of "sort_Slice recommendLess (allRecommend cfgs)" "allRecommend cfgs" node]
  unfolding getRecommendProfilesNames_def hasPriorities_sort by simp

lemma names_panic:
  assumes "\<not> hasPriorities node (allRecommend cfgs)"
  shows "getRecommendProfilesNames sort_Slice cfgs node = Panic nilPanic"
  unfolding getRecommendProfilesNames_def
  by (rule recommendLoop_panic) (simp add: hasPriorities_sort assms)

end

interpretation rins: recommend_sort insertionSort ..

lemma recommend_sortI: "sort_slice_contract f \<Longrightarrow> recommend_sort f"
  by (rule recommend_sort.intro)

text \<open>
  (C1) The names that \<^verbatim>\<open>getRecommendProfilesNames\<close> returns are exactly the profiles of the
  eligible recommendations with the least priority value, whatever order \<^verbatim>\<open>sort.Slice\<close> gives to
  recommendations of equal priority, provided every eligible recommendation has a priority.
\<close>
theorem recommend_names_are_least_priority:
  assumes "sort_slice_contract sort_Slice"
    and "\<forall>r \<in> set (allRecommend cfgs). eligible node r \<longrightarrow> recommend_Priority r \<noteq> None"
  shows "\<exists>names. getRecommendProfilesNames sort_Slice cfgs node = Ret names \<and> gomap_wf names \<and>
     fst ` set names = recommendedNames (allRecommend cfgs) node"
  using recommend_sort.names_eq [OF recommend_sortI [OF assms(1)]] assms(2)
  by (simp add: hasPriorities_def)

text \<open>
  (C37) \<^verbatim>\<open>getRecommendProfilesNames\<close> panics exactly when some eligible recommendation has no
  priority: the comparison function allows a nil priority, the loop dereferences it.
\<close>
theorem recommend_names_panic_iff:
  assumes "sort_slice_contract sort_Slice"
  shows "getRecommendProfilesNames sort_Slice cfgs node = Panic nilPanic \<longleftrightarrow>
     (\<exists>r \<in> set (allRecommend cfgs). eligible node r \<and> recommend_Priority r = None)"
proof (cases "hasPriorities node (allRecommend cfgs)")
  case True
  then have "getRecommendProfilesNames sort_Slice cfgs node \<noteq> Panic nilPanic"
    using recommend_sort.names_eq [OF recommend_sortI [OF assms]] by fastforce
  with True show ?thesis by (auto simp: hasPriorities_def)
next
  case False
  then show ?thesis
    using recommend_sort.names_panic [OF recommend_sortI [OF assms]]
    by (auto simp: hasPriorities_def)
qed

lemma recommendLoopBreak_found:
  assumes "sorted_wrt (\<lambda>x y. \<not> recommendLess y x) recs" and "hasPriorities node recs"
    and "\<And>r. r \<in> set recs \<Longrightarrow> eligible node r \<Longrightarrow> p \<le> the (recommend_Priority r)"
  shows "recommendLoopBreak node recs names True p = recommendLoop node recs names True p"
  using assms
proof (induction recs arbitrary: names)
  case (Cons r rs)
  have IH: "recommendLoopBreak node rs m True p = recommendLoop node rs m True p" for m
    using Cons by simp
  have none: "namesAt node p rs = []"
    if "eligible node r" "recommend_Priority r = Some q" "q \<noteq> p" for q
  proof -
    have "p < q" using Cons.prems(3) [of r] that by simp
    moreover have "\<not> recommendLess r' r" if "r' \<in> set rs" for r'
      using Cons.prems(1) that by simp
    ultimately show ?thesis
      using that by (fastforce simp: namesAt_def filter_empty_conv recommendLess_def)
  qed
  show ?case
    using Cons.prems(2) IH none
    by (auto simp: recommendLoop_Cons recommendLoop_found)
qed simp

lemma recommendLoopBreak_start:
  assumes "sorted_wrt (\<lambda>x y. \<not> recommendLess y x) recs" and "hasPriorities node recs"
  shows "recommendLoopBreak node recs names False q = recommendLoop node recs names False q"
  using assms
proof (induction recs arbitrary: names)
  case (Cons r rs)
  show ?case
  proof (cases "eligible node r")
    case True
    with Cons.prems(2) obtain p where p: "recommend_Priority r = Some p" by auto
    have "p \<le> the (recommend_Priority r')" if "r' \<in> set rs" "eligible node r'" for r'
      using first_eligible_least [OF Cons.prems, of r "filter (eligible node) rs" r'] True p that
      by simp
    then show ?thesis
      using recommendLoopBreak_found [of rs node p] Cons.prems True p
      by (simp add: recommendLoop_Cons)
  qed (use Cons in \<open>simp add: recommendLoop_Cons\<close>)
qed simp

context recommend_sort
begin

lemma names_break:
  assumes "hasPriorities node (allRecommend cfgs)"
  shows "getRecommendProfilesNames sort_Slice cfgs node =
     recommendLoopBreak node (sort_Slice recommendLess (allRecommend cfgs)) [] False (-1)"
  unfolding getRecommendProfilesNames_def
  by (rule recommendLoopBreak_start [OF sorted_recommend, symmetric])
    (simp add: hasPriorities_sort assms)

end

text \<open>
  The \<^verbatim>\<open>break\<close> in the last case of the switch leaves only the switch, so the loop visits the
  recommendations of lower priority too. It makes no difference: a loop that stops there computes
  the same names.
\<close>
theorem recommend_break_makes_no_difference:
  assumes "sort_slice_contract sort_Slice"
    and "\<forall>r \<in> set (allRecommend cfgs). eligible node r \<longrightarrow> recommend_Priority r \<noteq> None"
  shows "getRecommendProfilesNames sort_Slice cfgs node =
     recommendLoopBreak node (sort_Slice recommendLess (allRecommend cfgs)) [] False (-1)"
  using recommend_sort.names_break [OF recommend_sortI [OF assms(1)]] assms(2)
  by (simp add: hasPriorities_def)

section \<open>The profiles\<close>

definition allNamed :: "PtpConfigList \<Rightarrow> bool" where
  "allNamed cfgs \<longleftrightarrow> (\<forall>p \<in> set (allProfiles cfgs). profile_Name p \<noteq> None)"

definition profileNames :: "PtpProfile list \<Rightarrow> string list" where
  "profileNames ps = map (\<lambda>p. the (profile_Name p)) ps"

lemma collectProfiles_eq:
  "(\<forall>p \<in> set ps. profile_Name p \<noteq> None) \<Longrightarrow>
   collectProfiles names ps = Ret (filter (\<lambda>p. the (profile_Name p) \<in> fst ` set names) ps)"
proof (induction ps)
  case (Cons p ps)
  then obtain n where "profile_Name p = Some n" by auto
  with Cons show ?case by (auto simp: map_of_eq_None_iff)
qed simp

lemma length_filter_names:
  assumes "distinct (profileNames ps)"
  shows "length (filter (\<lambda>p. the (profile_Name p) \<in> N) ps) = card (set (profileNames ps) \<inter> N)"
  using assms
proof (induction ps)
  case (Cons p ps)
  then have "the (profile_Name p) \<notin> set (profileNames ps)" by (simp add: profileNames_def)
  with Cons show ?case by (auto simp: profileNames_def Int_insert_left)
qed (simp add: profileNames_def)

lemma recommendedNames_finite: "finite (recommendedNames recs node)"
proof -
  have "recommendedNames recs node \<subseteq> (\<lambda>r. the (recommend_Profile r)) ` set recs"
    by (force simp: recommendedNames_def)
  then show ?thesis by (rule finite_subset) simp
qed

context recommend_sort
begin

lemma profiles_eq:
  assumes "hasPriorities node (allRecommend cfgs)" and "allNamed cfgs"
  shows "getRecommendProfiles sort_Slice cfgs node =
     (let N = recommendedNames (allRecommend cfgs) node;
          ps = filter (\<lambda>p. the (profile_Name p) \<in> N) (allProfiles cfgs)
      in if length ps \<noteq> card N then Ret (Inl (Errorf ''failed to find all the profiles''))
         else Ret (Inr (sort_key (\<lambda>p. the (profile_Name p)) ps)))"
proof -
  obtain names where n: "getRecommendProfilesNames sort_Slice cfgs node = Ret names"
    "gomap_wf names" "fst ` set names = recommendedNames (allRecommend cfgs) node"
    using names_eq [OF assms(1)] by blast
  then have "card (recommendedNames (allRecommend cfgs) node) = length names"
    using card_gomap_keys by metis
  with n assms(2) show ?thesis
    by (simp add: getRecommendProfiles_def collectProfiles_eq allNamed_def Let_def)
qed

lemma profiles_distinct:
  assumes "hasPriorities node (allRecommend cfgs)" and "allNamed cfgs"
    and "distinct (profileNames (allProfiles cfgs))"
  shows "getRecommendProfiles sort_Slice cfgs node =
     (let N = recommendedNames (allRecommend cfgs) node
      in if N \<subseteq> set (profileNames (allProfiles cfgs))
         then Ret (Inr (sort_key (\<lambda>p. the (profile_Name p))
                (filter (\<lambda>p. the (profile_Name p) \<in> N) (allProfiles cfgs))))
         else Ret (Inl (Errorf ''failed to find all the profiles'')))"
proof -
  let ?N = "recommendedNames (allRecommend cfgs) node"
  let ?P = "set (profileNames (allProfiles cfgs))"
  have "card (?P \<inter> ?N) = card ?N \<longleftrightarrow> ?N \<subseteq> ?P"
    using card_seteq [OF recommendedNames_finite, of "?P \<inter> ?N" "allRecommend cfgs" node]
    by (metis Int_absorb1 inf_le2 inf_commute le_iff_inf order_refl)
  then show ?thesis
    by (simp add: profiles_eq [OF assms(1,2)] length_filter_names [OF assms(3)] Let_def)
qed

end

text \<open>
  (C21) When the profile names are distinct and every eligible recommendation has a priority,
  \<^verbatim>\<open>getRecommendProfiles\<close> returns the profiles of the recommended names, sorted by name, if each of
  those names has a profile, and the error \<^verbatim>\<open>failed to find all the profiles\<close> otherwise.
\<close>
theorem recommend_profiles_distinct_names:
  assumes "sort_slice_contract sort_Slice"
    and "\<forall>r \<in> set (allRecommend cfgs). eligible node r \<longrightarrow> recommend_Priority r \<noteq> None"
    and "allNamed cfgs" and "distinct (profileNames (allProfiles cfgs))"
  shows "getRecommendProfiles sort_Slice cfgs node =
     (let N = recommendedNames (allRecommend cfgs) node
      in if N \<subseteq> set (profileNames (allProfiles cfgs))
         then Ret (Inr (sort_key (\<lambda>p. the (profile_Name p))
                (filter (\<lambda>p. the (profile_Name p) \<in> N) (allProfiles cfgs))))
         else Ret (Inl (Errorf ''failed to find all the profiles'')))"
  using recommend_sort.profiles_distinct [OF recommend_sortI [OF assms(1)] _ assms(3,4)] assms(2)
  by (simp add: hasPriorities_def)

text \<open>
  Whatever \<^verbatim>\<open>getRecommendProfiles\<close> returns without an error is sorted by name, is a selection of
  the profiles of the resources, and every profile in it has a recommended name.
\<close>
theorem recommend_profiles_sound:
  assumes "sort_slice_contract sort_Slice"
    and "getRecommendProfiles sort_Slice cfgs node = Ret (Inr ps)"
  shows "sorted (profileNames ps) \<and> set ps \<subseteq> set (allProfiles cfgs) \<and>
     set (profileNames ps) \<subseteq> recommendedNames (allRecommend cfgs) node"
proof -
  have prio: "hasPriorities node (allRecommend cfgs)"
    using recommend_sort.names_panic [OF recommend_sortI [OF assms(1)]] assms(2)
    by (fastforce simp: getRecommendProfiles_def)
  have "collectProfiles names qs = Ret rs \<Longrightarrow> \<forall>p \<in> set qs. profile_Name p \<noteq> None" for names qs rs
    by (induction qs arbitrary: rs) (auto simp: bind_go_Ret_iff split: option.splits)
  then have "allNamed cfgs"
    using assms(2) unfolding getRecommendProfiles_def allNamed_def bind_go_Ret_iff by blast
  from recommend_sort.profiles_eq [OF recommend_sortI [OF assms(1)] prio this] assms(2)
  show ?thesis by (auto simp: Let_def profileNames_def split: if_splits)
qed

section \<open>Concrete configurations\<close>

definition exMeta :: "string \<Rightarrow> ObjectMeta" where
  "exMeta n = emptyMeta\<lparr>meta_Name := n\<rparr>"

definition exNode :: Node where
  "exNode = \<lparr>node_ObjectMeta = (exMeta ''n1'')\<lparr>meta_Labels := [(''wk'', '''')]\<rparr>\<rparr>"

definition exProfile :: "string \<Rightarrow> PtpProfile" where
  "exProfile n = emptyProfile\<lparr>profile_Name := Some n\<rparr>"

definition exRecommend :: "string \<Rightarrow> int64 \<Rightarrow> MatchRule \<Rightarrow> PtpRecommend" where
  "exRecommend n p m =
     \<lparr>recommend_Profile = Some n, recommend_Priority = Some p, recommend_Match = [m]\<rparr>"

definition byLabel :: "string \<Rightarrow> MatchRule" where
  "byLabel l = \<lparr>match_NodeLabel = Some l, match_NodeName = None\<rparr>"

definition byName :: "string \<Rightarrow> MatchRule" where
  "byName n = \<lparr>match_NodeLabel = None, match_NodeName = Some n\<rparr>"

definition exConfig :: "PtpProfile list \<Rightarrow> PtpRecommend list \<Rightarrow> PtpConfig" where
  "exConfig ps rs =
     \<lparr>config_ObjectMeta = exMeta ''c'',
      config_Spec = \<lparr>cspec_Profile = ps, cspec_Recommend = rs\<rparr>,
      config_Status = \<lparr>cstatus_MatchList = []\<rparr>\<rparr>"

text \<open>Three profiles; \<open>b\<close> and \<open>a\<close> are recommended with priority 4, \<open>c\<close> with priority 10.\<close>

definition exConfigs :: PtpConfigList where
  "exConfigs = \<lparr>configlist_Items =
     [exConfig [exProfile ''c'', exProfile ''b''] [exRecommend ''c'' 10 (byLabel ''wk''),
        exRecommend ''b'' 4 (byName ''n1'')],
      exConfig [exProfile ''a''] [exRecommend ''a'' 4 (byLabel ''wk'')]]\<rparr>"

text \<open>Profile \<open>a\<close> is defined twice, profile \<open>b\<close> not at all; both are recommended.\<close>

definition exDuplicate :: PtpConfigList where
  "exDuplicate = \<lparr>configlist_Items =
     [exConfig [exProfile ''a''] [exRecommend ''a'' 4 (byName ''n1'')],
      exConfig [exProfile ''a''] [exRecommend ''b'' 4 (byName ''n1'')]]\<rparr>"

lemmas ex_defs = exMeta_def exNode_def exProfile_def exRecommend_def byLabel_def byName_def
  exConfig_def exConfigs_def exDuplicate_def emptyMeta_def emptyProfile_def

lemma allRecommend_exConfigs:
  "allRecommend exConfigs = [exRecommend ''c'' 10 (byLabel ''wk''),
     exRecommend ''b'' 4 (byName ''n1''), exRecommend ''a'' 4 (byLabel ''wk'')]"
  by (simp add: allRecommend_def ex_defs)

lemma allProfiles_exConfigs: "allProfiles exConfigs = [exProfile ''c'', exProfile ''b'', exProfile ''a'']"
  by (simp add: allProfiles_def ex_defs)

lemma eligible_ex:
  "eligible exNode (exRecommend n p (byLabel ''wk''))"
  "eligible exNode (exRecommend n p (byName ''n1''))"
  by (simp_all add: eligible_def ruleMatches_def ex_defs)

lemma recommendedNames_exConfigs:
  "recommendedNames (allRecommend exConfigs) exNode = {''a'', ''b''}"
  by (auto simp: recommendedNames_def allRecommend_exConfigs eligible_ex)
    (auto simp: exRecommend_def)

lemma exConfigs_priorities:
  "\<forall>r \<in> set (allRecommend exConfigs). eligible exNode r \<longrightarrow> recommend_Priority r \<noteq> None"
  by (simp add: allRecommend_exConfigs exRecommend_def)

theorem recommend_names_are_least_priority_witness:
  "\<exists>names. getRecommendProfilesNames insertionSort exConfigs exNode = Ret names \<and> gomap_wf names \<and>
     fst ` set names = {''a'', ''b''}"
  using recommend_names_are_least_priority [OF ins.sort_slice_contract_axioms exConfigs_priorities]
  by (simp add: recommendedNames_exConfigs)

theorem recommend_names_panic_iff_witness:
  "getRecommendProfilesNames insertionSort
     \<lparr>configlist_Items = [exConfig [] [exRecommend ''a'' 4 (byName ''n1'')\<lparr>recommend_Priority := None\<rparr>]]\<rparr>
     exNode = Panic nilPanic"
  using recommend_names_panic_iff [OF ins.sort_slice_contract_axioms, of
      "\<lparr>configlist_Items = [exConfig [] [exRecommend ''a'' 4 (byName ''n1'')\<lparr>recommend_Priority := None\<rparr>]]\<rparr>"
      exNode]
  by (simp add: allRecommend_def eligible_def ruleMatches_def ex_defs)

theorem recommend_break_makes_no_difference_witness:
  "getRecommendProfilesNames insertionSort exConfigs exNode =
     recommendLoopBreak exNode (insertionSort recommendLess (allRecommend exConfigs)) [] False (-1)"
  by (rule recommend_break_makes_no_difference [OF ins.sort_slice_contract_axioms exConfigs_priorities])

theorem recommend_profiles_distinct_names_witness:
  "getRecommendProfiles insertionSort exConfigs exNode = Ret (Inr [exProfile ''a'', exProfile ''b''])"
proof -
  have "allNamed exConfigs" "distinct (profileNames (allProfiles exConfigs))"
    by (simp_all add: allNamed_def profileNames_def allProfiles_exConfigs exProfile_def)
  from recommend_profiles_distinct_names [OF ins.sort_slice_contract_axioms exConfigs_priorities this]
  show ?thesis
    by (simp add: recommendedNames_exConfigs allProfiles_exConfigs profileNames_def exProfile_def)
qed

theorem recommend_profiles_sound_witness:
  "set (profileNames [exProfile ''a'', exProfile ''b'']) \<subseteq>
     recommendedNames (allRecommend exConfigs) exNode"
proof -
  have "getRecommendProfiles insertionSort exConfigs exNode = Ret (Inr [exProfile ''a'', exProfile ''b''])"
    by code_simp
  from recommend_profiles_sound [OF ins.sort_slice_contract_axioms this] show ?thesis by blast
qed

text \<open>
  The check that all profiles were found compares lengths only. With a duplicated profile name
  it does not notice a missing one: a recommended name without any profile, and no error.
\<close>
theorem recommend_duplicate_hides_missing:
  "\<exists>cfgs node ps n. getRecommendProfiles insertionSort cfgs node = Ret (Inr ps) \<and>
     n \<in> recommendedNames (allRecommend cfgs) node \<and> n \<notin> set (profileNames (allProfiles cfgs))"
proof (intro exI conjI)
  show "getRecommendProfiles insertionSort exDuplicate exNode =
      Ret (Inr [exProfile ''a'', exProfile ''a''])"
    by code_simp
  show "''b'' \<in> recommendedNames (allRecommend exDuplicate) exNode"
    by (auto simp: recommendedNames_def allRecommend_def eligible_def ruleMatches_def ex_defs)
  show "''b'' \<notin> set (profileNames (allProfiles exDuplicate))"
    by (simp add: allProfiles_def profileNames_def ex_defs)
qed

end
