(* ===== verification/Ptp_Config_Controller.thy ===== *)
theory Ptp_Config_Controller
  imports Recommend Cluster
begin

text \<open>
  \<^verbatim>\<open>controllers/ptpconfig_controller.go\<close>: the reconciler of the PtpConfig resources. For every node
  it computes the recommended profiles, encodes them as JSON, and puts the texts into the ConfigMap
  that the daemon on the nodes reads, one entry per node.

  \<^verbatim>\<open>json.Marshal\<close> and \<^verbatim>\<open>sort.Slice\<close> are parameters. The recommendation may panic, so the result of
  an operation is a value of \<open>go\<close>, beside the state the operation leaves.
\<close>

section \<open>Definitions\<close>

type_synonym recommendSort =
  "(PtpRecommend \<Rightarrow> PtpRecommend \<Rightarrow> bool) \<Rightarrow> PtpRecommend list \<Rightarrow> PtpRecommend list"

type_synonym marshaller = "PtpProfile list \<Rightarrow> error + string"

text \<open>The loop of \<^verbatim>\<open>syncPtpConfig\<close> that fills the data of the new ConfigMap.\<close>

fun nodeData :: "recommendSort \<Rightarrow> marshaller \<Rightarrow> PtpConfigList \<Rightarrow> Node list \<Rightarrow> strmap \<Rightarrow> (error + strmap) go" where
  "nodeData sort_Slice json_Marshal cfgs [] data = Ret (Inr data)"
| "nodeData sort_Slice json_Marshal cfgs (node # nodes) data =
     bind_go (getRecommendNodePtpProfiles sort_Slice cfgs node) (\<lambda>r.
       case r of
         Inl err \<Rightarrow> Ret (Inl (Errorf (''failed to get recommended node PtpConfig: '' @ Error err)))
       | Inr nodePtpProfiles \<Rightarrow>
           (case json_Marshal nodePtpProfiles of
              Inl err \<Rightarrow> Ret (Inl (Errorf (''failed to Marshal nodePtpProfiles: '' @ Error err)))
            | Inr enc \<Rightarrow>
                nodeData sort_Slice json_Marshal cfgs nodes (AList.update (node_Name node) enc data)))"

definition syncPtpConfig ::
  "recommendSort \<Rightarrow> marshaller \<Rightarrow> 's Client \<Rightarrow> PtpConfigList \<Rightarrow> Node list \<Rightarrow> 's \<Rightarrow> error option go \<times> 's"
where
  "syncPtpConfig sort_Slice json_Marshal c ptpConfigList nodes s =
     (case nodeData sort_Slice json_Marshal ptpConfigList nodes [] of
        Panic m \<Rightarrow> (Panic m, s)
      | Ret (Inl err) \<Rightarrow> (Ret (Some err), s)
      | Ret (Inr data) \<Rightarrow>
          (case GetConfigMap c Namespace DefaultPTPConfigMapName s of
             (Inl err, s) \<Rightarrow> (Ret (Some (Errorf (''failed to get ptp config map: '' @ Error err))), s)
           | (Inr cm, s) \<Rightarrow>
               (case client_Update c (ConfigMapObj (cm\<lparr>cm_Data := data\<rparr>)) s of
                  (Some err, s) \<Rightarrow>
                    (Ret (Some (Errorf (''failed to update ptp config map: '' @ Error err))), s)
                | (None, s) \<Rightarrow> (Ret None, s))))"

definition PtpConfig_Reconcile ::
  "recommendSort \<Rightarrow> marshaller \<Rightarrow> 's Client \<Rightarrow> 's \<Rightarrow> (Result \<times> error option) go \<times> 's"
where
  "PtpConfig_Reconcile sort_Slice json_Marshal c s =
     (case ListPtpConfigs c s of
        (Inl err, s) \<Rightarrow>
          if IsNotFound err then (Ret (emptyResult, None), s) else (Ret (emptyResult, Some err), s)
      | (Inr instances, s) \<Rightarrow>
     (case ListNodes c s of
        (Inl err, s) \<Rightarrow> (Ret (emptyResult, Some err), s)
      | (Inr nodes, s) \<Rightarrow>
     (case syncPtpConfig sort_Slice json_Marshal c \<lparr>configlist_Items = instances\<rparr> nodes s of
        (Panic m, s) \<Rightarrow> (Panic m, s)
      | (Ret (Some err), s) \<Rightarrow> (Ret (emptyResult, Some err), s)
      | (Ret None, s) \<Rightarrow> (Ret (emptyResult, None), s))))"

section \<open>The data of the ConfigMap\<close>

lemma getRecommendNodePtpProfiles_Ret:
  "getRecommendNodePtpProfiles srt cfgs node = Ret (Inr ps) \<longleftrightarrow> getRecommendProfiles srt cfgs node = Ret (Inr ps)"
  by (cases "getRecommendProfiles srt cfgs node")
    (auto simp: getRecommendNodePtpProfiles_def split: sum.splits)

lemma nodeData_ok:
  "nodeData srt marshal cfgs nodes m = Ret (Inr d) \<longleftrightarrow>
     (\<forall>node \<in> set nodes. \<exists>ps enc. getRecommendProfiles srt cfgs node = Ret (Inr ps) \<and> marshal ps = Inr enc) \<and>
     d = fold (\<lambda>node. AList.update (node_Name node)
       (projr (marshal (case getRecommendProfiles srt cfgs node of Ret (Inr ps) \<Rightarrow> ps | _ \<Rightarrow> [])))) nodes m"
proof (induction nodes arbitrary: m)
  case (Cons node nodes)
  show ?case
  proof (cases "\<exists>ps enc. getRecommendProfiles srt cfgs node = Ret (Inr ps) \<and> marshal ps = Inr enc")
    case True
    then obtain ps enc where "getRecommendProfiles srt cfgs node = Ret (Inr ps)" "marshal ps = Inr enc" by blast
    then show ?thesis using Cons by (simp add: getRecommendNodePtpProfiles_Ret [THEN iffD2])
  next
    case False
    have "nodeData srt marshal cfgs (node # nodes) m \<noteq> Ret (Inr d)"
    proof
      assume "nodeData srt marshal cfgs (node # nodes) m = Ret (Inr d)"
      then obtain r where "getRecommendNodePtpProfiles srt cfgs node = Ret r"
        "(case r of Inl err \<Rightarrow> Ret (Inl (Errorf (''failed to get recommended node PtpConfig: '' @ Error err)))
         | Inr ps \<Rightarrow> (case marshal ps of
              Inl err \<Rightarrow> Ret (Inl (Errorf (''failed to Marshal nodePtpProfiles: '' @ Error err)))
            | Inr enc \<Rightarrow> nodeData srt marshal cfgs nodes (AList.update (node_Name node) enc m))) = Ret (Inr d)"
        unfolding nodeData.simps bind_go_Ret_iff by blast
      with False show False by (auto simp: getRecommendNodePtpProfiles_Ret split: sum.splits)
    qed
    with False show ?thesis by simp
  qed
qed auto

section \<open>What a reconciliation changes\<close>

abbreviation publishedKey :: Key where
  "publishedKey \<equiv> cmKey DefaultPTPConfigMapName"

context api_client
begin

text \<open>Either nothing changes, or the data of the one ConfigMap is replaced.\<close>

lemma syncPtpConfig_effect:
  assumes "syncPtpConfig srt marshal c cfgs nodes s = (r, s')" and "wellTyped (lookup s)"
  obtains (failed) "r \<noteq> Ret None" "lookup s' = lookup s"
  | (published) d cm stored where "r = Ret None" "nodeData srt marshal cfgs nodes [] = Ret (Inr d)"
      "lookup s publishedKey = Some (ConfigMapObj cm)"
      "lookup s' = (lookup s)(publishedKey \<mapsto> ConfigMapObj stored)"
      "keeps (ConfigMapObj (cm\<lparr>cm_Data := d\<rparr>)) (ConfigMapObj stored)"
      "keyOf (ConfigMapObj stored) = publishedKey"
proof -
  obtain g s1 where get: "typedResult asConfigMap (client_Get c publishedKey s) = (g, s1)" by force
  have get': "GetConfigMap c Namespace DefaultPTPConfigMapName s = (g, s1)"
    using get by (simp add: GetConfigMap_def cmKey_def)
  note s1 = typed_get_frame [OF get]
  show thesis
  proof (cases "\<exists>d cm. nodeData srt marshal cfgs nodes [] = Ret (Inr d) \<and> g = Inr cm")
    case False
    with assms(1) get' s1 show thesis
      by (intro failed) (auto simp: syncPtpConfig_def split: go.splits sum.splits)
  next
    case True
    then obtain d cm where d: "nodeData srt marshal cfgs nodes [] = Ret (Inr d)" and cm: "g = Inr cm" by blast
    obtain obj where "lookup s publishedKey = Some obj" "asConfigMap obj = Some cm"
      using typed_get_found [OF get [unfolded cm]] by blast
    then have found: "lookup s publishedKey = Some (ConfigMapObj cm)" by (cases obj) auto
    from wellTypedD [OF assms(2) this]
    have key: "keyOf (ConfigMapObj (cm\<lparr>cm_Data := d\<rparr>)) = publishedKey" by simp
    obtain e s2 where up: "client_Update c (ConfigMapObj (cm\<lparr>cm_Data := d\<rparr>)) s1 = (e, s2)" by force
    show thesis
    proof (cases e)
      case (Some err)
      with assms(1) get' d cm up have "r \<noteq> Ret None" "s' = s2" by (auto simp: syncPtpConfig_def)
      with update_failed up Some s1 show thesis by (intro failed) auto
    next
      case None
      with up obtain obj where stored: "keeps (ConfigMapObj (cm\<lparr>cm_Data := d\<rparr>)) obj"
        "keyOf obj = publishedKey" "lookup s2 = (lookup s1)(publishedKey \<mapsto> obj)"
        using update_lookup key by metis
      obtain z where "obj = ConfigMapObj z" using stored(1) by (cases obj) auto
      moreover have "r = Ret None" "s' = s2"
        using assms(1) get' d cm up None by (auto simp: syncPtpConfig_def)
      ultimately show thesis using stored s1 d found by (intro published) simp_all
    qed
  qed
qed

lemma PtpConfig_Reconcile_cases:
  assumes "PtpConfig_Reconcile srt marshal c s = (r, s')" and "wellTyped (lookup s)"
  obtains (unchanged) "lookup s' = lookup s"
      "r = Ret (emptyResult, None) \<longrightarrow> (\<exists>err. fst (ListPtpConfigs c s) = Inl err \<and> IsNotFound err)"
  | (published) cfgs nodes d cm stored where "r = Ret (emptyResult, None)"
      "fst (ListPtpConfigs c s) = Inr cfgs" "fst (ListNodes c (snd (ListPtpConfigs c s))) = Inr nodes"
      "nodeData srt marshal \<lparr>configlist_Items = cfgs\<rparr> nodes [] = Ret (Inr d)"
      "lookup s publishedKey = Some (ConfigMapObj cm)"
      "lookup s' = (lookup s)(publishedKey \<mapsto> ConfigMapObj stored)"
      "keeps (ConfigMapObj (cm\<lparr>cm_Data := d\<rparr>)) (ConfigMapObj stored)"
      "keyOf (ConfigMapObj stored) = publishedKey"
proof -
  obtain lc s1 where lc: "ListPtpConfigs c s = (lc, s1)" by force
  obtain ln s2 where ln: "ListNodes c s1 = (ln, s2)" by force
  have s1: "lookup s1 = lookup s" using typed_list_frame lc unfolding ListPtpConfigs_def by metis
  have s2: "lookup s2 = lookup s" using typed_list_frame ln s1 unfolding ListNodes_def by metis
  show thesis
  proof (cases "\<exists>cfgs nodes. lc = Inr cfgs \<and> ln = Inr nodes")
    case False
    with assms(1) lc ln
    have "s' = s1 \<or> s' = s2"
      "r = Ret (emptyResult, None) \<longrightarrow> (\<exists>err. lc = Inl err \<and> IsNotFound err)"
      by (auto simp: PtpConfig_Reconcile_def split: sum.splits if_splits)
    with s1 s2 lc show thesis by (intro that(1)) auto
  next
    case True
    then obtain cfgs nodes where lists: "lc = Inr cfgs" "ln = Inr nodes" by blast
    obtain rs s3 where sync: "syncPtpConfig srt marshal c \<lparr>configlist_Items = cfgs\<rparr> nodes s2 = (rs, s3)" by force
    have res: "s' = s3" "rs = Ret None \<longleftrightarrow> r = Ret (emptyResult, None)"
      using assms(1) lc ln lists sync by (auto simp: PtpConfig_Reconcile_def split: go.splits option.splits)
    have typed: "wellTyped (lookup s2)" using assms(2) s2 by simp
    from sync typed show thesis
    proof (cases rule: syncPtpConfig_effect)
      case failed
      show thesis using res s2 failed by (intro that(1)) simp_all
    next
      case (published d cm stored)
      with res lc ln lists s2 show thesis by (intro that(2)) simp_all
    qed
  qed
qed

end

section \<open>The fleet\<close>

text \<open>
  The abstract state: the configurations, the nodes, and what is published for each node. The
  published profiles of a node are, sorted by name, those whose name is chosen: the profiles of the
  recommendations for the node that have the least priority value.
\<close>

record Fleet =
  fleet_Configs :: "PtpConfig set"
  fleet_Nodes :: "Node set"
  fleet_Published :: "string \<rightharpoonup> string"

definition absFleet :: "(Key \<rightharpoonup> Object) \<Rightarrow> Fleet" where
  "absFleet m =
     \<lparr>fleet_Configs = {cfg. \<exists>ns name. m (ptpKind ''PtpConfig'', ns, name) = Some (PtpConfigObj cfg)},
      fleet_Nodes = {node. \<exists>ns name. m (coreKind ''Node'', ns, name) = Some (NodeObj node)},
      fleet_Published =
        (case m publishedKey of Some (ConfigMapObj cm) \<Rightarrow> map_of (cm_Data cm) | _ \<Rightarrow> Map.empty)\<rparr>"

definition fleetProfiles :: "Fleet \<Rightarrow> PtpProfile set" where
  "fleetProfiles f = (\<Union>cfg \<in> fleet_Configs f. set (cspec_Profile (config_Spec cfg)))"

definition fleetRecommend :: "Fleet \<Rightarrow> PtpRecommend set" where
  "fleetRecommend f = (\<Union>cfg \<in> fleet_Configs f. set (cspec_Recommend (config_Spec cfg)))"

definition chosenNames :: "PtpRecommend set \<Rightarrow> Node \<Rightarrow> string set" where
  "chosenNames recs node =
     {n. \<exists>r \<in> recs. eligible node r \<and> recommend_Profile r = Some n \<and>
        (\<forall>r' \<in> recs. eligible node r' \<longrightarrow> the (recommend_Priority r) \<le> the (recommend_Priority r'))}"

abbreviation pname :: "PtpProfile \<Rightarrow> string" where
  "pname p \<equiv> the (profile_Name p)"

definition publishes :: "marshaller \<Rightarrow> Fleet \<Rightarrow> Fleet \<Rightarrow> bool" where
  "publishes marshal f f' \<longleftrightarrow>
     fleet_Configs f' = fleet_Configs f \<and> fleet_Nodes f' = fleet_Nodes f \<and>
     dom (fleet_Published f') = node_Name ` fleet_Nodes f \<and>
     (\<forall>node \<in> fleet_Nodes f. \<exists>ps. distinct ps \<and> sorted (profileNames ps) \<and>
        set ps = {p \<in> fleetProfiles f. pname p \<in> chosenNames (fleetRecommend f) node} \<and>
        fleet_Published f' (node_Name node) = Some (projr (marshal ps)))"

text \<open>Profile names are given and unique, and so are node names; what is chosen for a node exists.\<close>

definition uniquelyNamed :: "Fleet \<Rightarrow> bool" where
  "uniquelyNamed f \<longleftrightarrow> (\<forall>p \<in> fleetProfiles f. profile_Name p \<noteq> None) \<and>
     (\<forall>cfg \<in> fleet_Configs f. distinct (profileNames (cspec_Profile (config_Spec cfg)))) \<and>
     (\<forall>cfg \<in> fleet_Configs f. \<forall>cfg' \<in> fleet_Configs f. cfg \<noteq> cfg' \<longrightarrow>
        set (profileNames (cspec_Profile (config_Spec cfg))) \<inter>
        set (profileNames (cspec_Profile (config_Spec cfg'))) = {})"

definition deployable :: "Fleet \<Rightarrow> Node \<Rightarrow> bool" where
  "deployable f node \<longleftrightarrow>
     (\<forall>r \<in> fleetRecommend f. eligible node r \<longrightarrow> recommend_Priority r \<noteq> None) \<and>
     chosenNames (fleetRecommend f) node \<subseteq> pname ` fleetProfiles f"

lemma allRecommend_set: "set (allRecommend \<lparr>configlist_Items = cfgs\<rparr>) =
    (\<Union>cfg \<in> set cfgs. set (cspec_Recommend (config_Spec cfg)))"
  by (auto simp: allRecommend_def)

lemma allProfiles_set: "set (allProfiles \<lparr>configlist_Items = cfgs\<rparr>) =
    (\<Union>cfg \<in> set cfgs. set (cspec_Profile (config_Spec cfg)))"
  by (auto simp: allProfiles_def)

lemma recommendedNames_chosen: "recommendedNames recs node = chosenNames (set recs) node"
  by (simp add: recommendedNames_def chosenNames_def)

lemma uniquelyNamed_profiles:
  assumes "uniquelyNamed f" "set cfgs = fleet_Configs f" "distinct cfgs"
  shows "allNamed \<lparr>configlist_Items = cfgs\<rparr>" "distinct (profileNames (allProfiles \<lparr>configlist_Items = cfgs\<rparr>))"
proof -
  show "allNamed \<lparr>configlist_Items = cfgs\<rparr>"
    using assms(1,2) by (simp add: allNamed_def allProfiles_set uniquelyNamed_def fleetProfiles_def)
  have "profileNames (allProfiles \<lparr>configlist_Items = cfgs\<rparr>) =
      concat (map (\<lambda>cfg. profileNames (cspec_Profile (config_Spec cfg))) cfgs)"
    by (simp add: profileNames_def allProfiles_def map_concat comp_def)
  then show "distinct (profileNames (allProfiles \<lparr>configlist_Items = cfgs\<rparr>))"
    using assms by (simp only:) (rule distinct_concat_map, auto simp: uniquelyNamed_def)
qed

text \<open>The recommendation for a node of the fleet, for every order the configurations are listed in.\<close>

lemma getRecommendProfiles_fleet:
  assumes "sort_slice_contract srt" "uniquelyNamed f" "set cfgs = fleet_Configs f" "distinct cfgs"
  shows "(\<exists>ps. getRecommendProfiles srt \<lparr>configlist_Items = cfgs\<rparr> node = Ret (Inr ps)) \<longleftrightarrow> deployable f node"
    "getRecommendProfiles srt \<lparr>configlist_Items = cfgs\<rparr> node = Ret (Inr ps) \<Longrightarrow>
     distinct ps \<and> sorted (profileNames ps) \<and>
     set ps = {p \<in> fleetProfiles f. pname p \<in> chosenNames (fleetRecommend f) node}"
proof -
  let ?cfgs = "\<lparr>configlist_Items = cfgs\<rparr>"
  note uniq = uniquelyNamed_profiles [OF assms(2,3,4)]
  have recs: "set (allRecommend ?cfgs) = fleetRecommend f"
    using assms(3) by (simp add: allRecommend_set fleetRecommend_def)
  have profs: "set (allProfiles ?cfgs) = fleetProfiles f"
    using assms(3) by (simp add: allProfiles_set fleetProfiles_def)
  have prio: "hasPriorities node (allRecommend ?cfgs) \<longleftrightarrow>
      (\<forall>r \<in> fleetRecommend f. eligible node r \<longrightarrow> recommend_Priority r \<noteq> None)"
    by (simp add: hasPriorities_def recs)
  have "getRecommendProfiles srt ?cfgs node =
    (if \<not> hasPriorities node (allRecommend ?cfgs) then Panic nilPanic
     else if chosenNames (fleetRecommend f) node \<subseteq> pname ` fleetProfiles f
     then Ret (Inr (sort_key pname
       (filter (\<lambda>p. pname p \<in> chosenNames (fleetRecommend f) node) (allProfiles ?cfgs))))
     else Ret (Inl (Errorf ''failed to find all the profiles'')))"
    using recommend_sort.profiles_distinct [OF recommend_sortI [OF assms(1)] _ uniq, of node]
      recommend_sort.names_panic [OF recommend_sortI [OF assms(1)], of node ?cfgs]
    by (simp add: getRecommendProfiles_def recommendedNames_chosen recs profs profileNames_def Let_def)
  note eq = this
  show "(\<exists>ps. getRecommendProfiles srt ?cfgs node = Ret (Inr ps)) \<longleftrightarrow> deployable f node"
    by (simp add: eq deployable_def prio)
  have "distinct (allProfiles ?cfgs)"
    using uniq(2) by (simp add: profileNames_def distinct_map)
  moreover assume "getRecommendProfiles srt ?cfgs node = Ret (Inr ps)"
  then have "ps = sort_key pname
      (filter (\<lambda>p. pname p \<in> chosenNames (fleetRecommend f) node) (allProfiles ?cfgs))"
    by (simp add: eq split: if_splits)
  ultimately show "distinct ps \<and> sorted (profileNames ps) \<and>
     set ps = {p \<in> fleetProfiles f. pname p \<in> chosenNames (fleetRecommend f) node}"
    by (auto simp: profileNames_def profs)
qed

lemma asPtpConfig_Some [simp]: "asPtpConfig obj = Some x \<longleftrightarrow> obj = PtpConfigObj x"
  by (cases obj) auto

lemma asNode_Some [simp]: "asNode obj = Some x \<longleftrightarrow> obj = NodeObj x"
  by (cases obj) auto

context api_client
begin

lemma typed_list_distinct:
  assumes "wellTyped (lookup s)" "typedList conv (client_List c gvk s) = (Inr xs, s')"
    and "\<And>x y z. conv x = Some z \<Longrightarrow> conv y = Some z \<Longrightarrow> x = y"
  shows "distinct xs"
proof -
  obtain objs where objs: "fst (client_List c gvk s) = Inr objs" "xs = List.map_filter conv objs"
    using assms(2) by (auto simp: typedList_def split: prod.splits sum.splits)
  obtain ks where ks: "distinct ks" "set ks = {k \<in> dom (lookup s). fst k = gvk}"
    "objs = map (\<lambda>k. the (lookup s k)) ks"
    using list_found [OF objs(1)] by (auto simp: listing_def)
  have "inj_on (\<lambda>k. the (lookup s k)) (set ks)"
  proof (rule inj_onI)
    fix k l
    assume kl: "k \<in> set ks" "l \<in> set ks" "the (lookup s k) = the (lookup s l)"
    then obtain x y where "lookup s k = Some x" "lookup s l = Some y" using ks(2) by auto
    with kl(3) wellTypedD [OF assms(1)] show "k = l" by (metis option.sel)
  qed
  with ks show ?thesis by (simp add: objs(2) distinct_map distinct_map_filter [OF _ assms(3)])
qed

lemma lists_of_fleet:
  assumes "wellTyped (lookup s)" "fst (ListPtpConfigs c s) = Inr cfgs"
    and "fst (ListNodes c (snd (ListPtpConfigs c s))) = Inr nodes"
  shows "set cfgs = fleet_Configs (absFleet (lookup s))" "distinct cfgs"
    "set nodes = fleet_Nodes (absFleet (lookup s))"
proof -
  obtain s1 where s1: "ListPtpConfigs c s = (Inr cfgs, s1)" using assms(2) by (metis prod.collapse)
  obtain s2 where s2: "ListNodes c s1 = (Inr nodes, s2)" using assms(3) s1 by (metis prod.collapse snd_conv)
  note l1 = s1 [unfolded ListPtpConfigs_def] and l2 = s2 [unfolded ListNodes_def]
  show "set cfgs = fleet_Configs (absFleet (lookup s))"
    using typed_list_found [OF l1] by (simp add: absFleet_def)
  show "distinct cfgs" by (rule typed_list_distinct [OF assms(1) l1]) simp
  show "set nodes = fleet_Nodes (absFleet (lookup s))"
    using typed_list_found [OF l2] typed_list_frame [OF l1] by (simp add: absFleet_def)
qed

end

section \<open>Properties\<close>


context reliable_client
begin

lemma lists_answer:
  "\<exists>cfgs nodes s1 s2. ListPtpConfigs c s = (Inr cfgs, s1) \<and> ListNodes c s1 = (Inr nodes, s2) \<and>
     lookup s1 = lookup s \<and> lookup s2 = lookup s"
proof -
  obtain cfgs s1 where s1: "ListPtpConfigs c s = (Inr cfgs, s1)" "lookup s1 = lookup s"
    using typed_list_answers [where conv = asPtpConfig and s = s] unfolding ListPtpConfigs_def by blast
  obtain nodes s2 where s2: "ListNodes c s1 = (Inr nodes, s2)" "lookup s2 = lookup s1"
    using typed_list_answers [where conv = asNode and s = s1] unfolding ListNodes_def by blast
  show ?thesis using s1 s2 by auto
qed

text \<open>Whatever the data are, once they are computed they are written.\<close>

lemma syncPtpConfig_writes:
  assumes "wellTyped (lookup s)" "lookup s publishedKey = Some (ConfigMapObj cm)"
    and "nodeData srt marshal cfgs nodes [] = Ret (Inr d)"
  shows "\<exists>s'. syncPtpConfig srt marshal c cfgs nodes s = (Ret None, s')"
proof -
  obtain s1 where s1: "GetConfigMap c Namespace DefaultPTPConfigMapName s = (Inr cm, s1)" "lookup s1 = lookup s"
    using typed_get_answers [OF assms(2), where conv = asConfigMap] by (auto simp: GetConfigMap_def cmKey_def)
  have "keyOf (ConfigMapObj (cm\<lparr>cm_Data := d\<rparr>)) = publishedKey"
    using wellTypedD [OF assms(1,2)] by simp
  then have "fst (client_Update c (ConfigMapObj (cm\<lparr>cm_Data := d\<rparr>)) s1) = None"
    using update_answers assms(2) s1(2) by simp
  then obtain s2 where "client_Update c (ConfigMapObj (cm\<lparr>cm_Data := d\<rparr>)) s1 = (None, s2)"
    by (metis prod.collapse)
  with s1 assms(3) show ?thesis by (simp add: syncPtpConfig_def)
qed

end

lemma nodeData_fleet:
  assumes "sort_slice_contract srt" "uniquelyNamed f" "set cfgs = fleet_Configs f" "distinct cfgs"
    and "set nodes = fleet_Nodes f"
  shows "nodeData srt marshal \<lparr>configlist_Items = cfgs\<rparr> nodes [] = Ret (Inr d) \<Longrightarrow>
      \<forall>node \<in> fleet_Nodes f. deployable f node"
    "\<forall>node \<in> fleet_Nodes f. deployable f node \<Longrightarrow>
     \<forall>ps. set ps \<subseteq> fleetProfiles f \<longrightarrow> \<not> isl (marshal ps) \<Longrightarrow>
     \<exists>d. nodeData srt marshal \<lparr>configlist_Items = cfgs\<rparr> nodes [] = Ret (Inr d)"
proof -
  note rec = getRecommendProfiles_fleet [OF assms(1-4)]
  show "\<forall>node \<in> fleet_Nodes f. deployable f node"
    if "nodeData srt marshal \<lparr>configlist_Items = cfgs\<rparr> nodes [] = Ret (Inr d)"
    using that rec(1) assms(5) unfolding nodeData_ok by blast
  show "\<exists>d. nodeData srt marshal \<lparr>configlist_Items = cfgs\<rparr> nodes [] = Ret (Inr d)"
    if dep: "\<forall>node \<in> fleet_Nodes f. deployable f node"
      and enc: "\<forall>ps. set ps \<subseteq> fleetProfiles f \<longrightarrow> \<not> isl (marshal ps)"
  proof -
    have "\<exists>ps t. getRecommendProfiles srt \<lparr>configlist_Items = cfgs\<rparr> node = Ret (Inr ps) \<and> marshal ps = Inr t"
      if node: "node \<in> set nodes" for node
    proof -
      obtain ps where ps: "getRecommendProfiles srt \<lparr>configlist_Items = cfgs\<rparr> node = Ret (Inr ps)"
        using rec(1) dep node assms(5) by blast
      then have "\<not> isl (marshal ps)" using rec(2) enc by blast
      with ps show ?thesis by (metis sum.collapse(2))
    qed
    then show ?thesis unfolding nodeData_ok by blast
  qed
qed

lemma nodeData_publishes:
  assumes "sort_slice_contract srt" "uniquelyNamed f" "set cfgs = fleet_Configs f" "distinct cfgs"
    and "set nodes = fleet_Nodes f" "inj_on node_Name (fleet_Nodes f)"
    and "nodeData srt marshal \<lparr>configlist_Items = cfgs\<rparr> nodes [] = Ret (Inr d)"
  shows "publishes marshal f (f\<lparr>fleet_Published := map_of d\<rparr>)"
  unfolding publishes_def
proof (intro conjI ballI)
  show "dom (fleet_Published (f\<lparr>fleet_Published := map_of d\<rparr>)) = node_Name ` fleet_Nodes f"
    using assms(5,7) by (simp add: nodeData_ok dom_fold_update)
  fix node assume node: "node \<in> fleet_Nodes f"
  obtain ps where ps: "getRecommendProfiles srt \<lparr>configlist_Items = cfgs\<rparr> node = Ret (Inr ps)"
    using assms(5,7) node unfolding nodeData_ok by blast
  have "map_of d (node_Name node) = Some (projr (marshal ps))"
    unfolding conjunct2 [OF assms(7) [unfolded nodeData_ok]]
    using node assms(5,6) ps by (subst map_of_fold_update) simp_all
  with getRecommendProfiles_fleet(2) [OF assms(1-4) ps]
  show "\<exists>ps. distinct ps \<and> sorted (profileNames ps) \<and>
      set ps = {p \<in> fleetProfiles f. pname p \<in> chosenNames (fleetRecommend f) node} \<and>
      fleet_Published (f\<lparr>fleet_Published := map_of d\<rparr>) (node_Name node) = Some (projr (marshal ps))"
    by auto
qed simp_all

lemma absFleet_upd:
  assumes "m' = m(publishedKey \<mapsto> ConfigMapObj cm)"
  shows "absFleet m' = (absFleet m)\<lparr>fleet_Published := map_of (cm_Data cm)\<rparr>"
  by (simp add: assms absFleet_def cmKey_def coreKind_def ptpKind_def)

text \<open>
  A fleet that can be published: names are given and unique, what is chosen for each node exists, and
  the profiles can be encoded.
\<close>

definition publishable :: "marshaller \<Rightarrow> Fleet \<Rightarrow> bool" where
  "publishable marshal f \<longleftrightarrow> uniquelyNamed f \<and> inj_on node_Name (fleet_Nodes f) \<and>
     (\<forall>node \<in> fleet_Nodes f. deployable f node) \<and>
     (\<forall>ps. set ps \<subseteq> fleetProfiles f \<longrightarrow> \<not> isl (marshal ps))"

context reliable_client
begin

lemma Reconcile_publishes:
  assumes "sort_slice_contract srt" "wellTyped (lookup s)" "lookup s publishedKey = Some (ConfigMapObj cm)"
    and "publishable marshal (absFleet (lookup s))"
  shows "\<exists>s'. PtpConfig_Reconcile srt marshal c s = (Ret (emptyResult, None), s') \<and>
    publishes marshal (absFleet (lookup s)) (absFleet (lookup s'))"
proof -
  let ?f = "absFleet (lookup s)"
  note pub = assms(4) [unfolded publishable_def, THEN conjunct1] assms(4) [unfolded publishable_def, THEN conjunct2, THEN conjunct1]
    assms(4) [unfolded publishable_def, THEN conjunct2, THEN conjunct2, THEN conjunct1]
    assms(4) [unfolded publishable_def, THEN conjunct2, THEN conjunct2, THEN conjunct2]
  obtain cfgs nodes s1 s2 where lists: "ListPtpConfigs c s = (Inr cfgs, s1)" "ListNodes c s1 = (Inr nodes, s2)"
    and same: "lookup s1 = lookup s" "lookup s2 = lookup s"
    using lists_answer by blast
  have fleet: "set cfgs = fleet_Configs ?f" "distinct cfgs" "set nodes = fleet_Nodes ?f"
    by (rule lists_of_fleet [OF assms(2)]; simp add: lists)+
  obtain d where d: "nodeData srt marshal \<lparr>configlist_Items = cfgs\<rparr> nodes [] = Ret (Inr d)"
    using nodeData_fleet(2) [OF assms(1) pub(1) fleet pub(3,4)] by blast
  obtain s3 where sync: "syncPtpConfig srt marshal c \<lparr>configlist_Items = cfgs\<rparr> nodes s2 = (Ret None, s3)"
    using syncPtpConfig_writes [OF _ _ d, of s2 cm] same assms(2,3) by auto
  have typed: "wellTyped (lookup s2)" using same assms(2) by simp
  obtain stored where stored: "lookup s3 = (lookup s)(publishedKey \<mapsto> ConfigMapObj stored)" "cm_Data stored = d"
    by (rule syncPtpConfig_effect [OF sync typed]) (use d same in auto)
  have "publishes marshal ?f (absFleet (lookup s3))"
    using nodeData_publishes [OF assms(1) pub(1) fleet pub(2) d] by (simp add: absFleet_upd [OF stored(1)] stored(2))
  moreover have "PtpConfig_Reconcile srt marshal c s = (Ret (emptyResult, None), s3)"
    using lists sync by (simp add: PtpConfig_Reconcile_def)
  ultimately show ?thesis by blast
qed

end

text \<open>
  (C2) Against a server that is up, and with unique names, a reconciliation of the PtpConfigs
  implements the step of the abstract fleet: it succeeds and publishes for every node the profiles
  chosen for it, sorted by name, and nothing for anything else, whatever was published before and in
  whatever order the server lists its objects.
\<close>
theorem ptp_reconcile_refines_publish:
  assumes "reliable_client c lookup" and "sort_slice_contract srt" and "wellTyped (lookup s)"
    and "lookup s publishedKey = Some (ConfigMapObj cm)" and "publishable marshal (absFleet (lookup s))"
  shows "\<exists>s'. PtpConfig_Reconcile srt marshal c s = (Ret (emptyResult, None), s') \<and>
    publishes marshal (absFleet (lookup s)) (absFleet (lookup s'))"
  by (rule reliable_client.Reconcile_publishes [OF assms(1), OF assms(2-5)])

text \<open>
  One node is enough to stop the whole fleet: as long as a node is chosen a profile that does not
  exist, or matches a recommendation without a priority, a reconciliation does not succeed and no node
  gets new profiles.
\<close>
theorem ptp_reconcile_blocked_by_one_node:
  assumes "reliable_client c lookup" and "sort_slice_contract srt" and "wellTyped (lookup s)"
    and "uniquelyNamed (absFleet (lookup s))"
    and "node \<in> fleet_Nodes (absFleet (lookup s))" and "\<not> deployable (absFleet (lookup s)) node"
    and "PtpConfig_Reconcile srt marshal c s = (r, s')"
  shows "lookup s' = lookup s \<and> r \<noteq> Ret (emptyResult, None)"
proof -
  have api: "api_client c lookup" using assms(1) by (rule reliable_client.axioms)
  show ?thesis
  proof (cases rule: api_client.PtpConfig_Reconcile_cases [OF api assms(7,3)])
    case 1
    then show ?thesis using reliable_client.lists_answer [OF assms(1), of s] by auto
  next
    case (2 cfgs nodes d cm stored)
    note fleet = api_client.lists_of_fleet [OF api assms(3) 2(2,3)]
    from nodeData_fleet(1) [OF assms(2,4) fleet 2(4)] assms(5,6) show ?thesis by blast
  qed
qed

section \<open>Examples\<close>

definition exFleetConfig :: PtpConfig where
  "exFleetConfig = exConfig [exProfile ''c'', exProfile ''b'', exProfile ''a'']
     [exRecommend ''c'' 10 (byLabel ''wk''), exRecommend ''b'' 4 (byName ''n1''),
      exRecommend ''a'' 4 (byLabel ''wk'')]"

text \<open>The same configuration without its profiles.\<close>

definition exBrokenConfig :: PtpConfig where
  "exBrokenConfig = exConfig [] [exRecommend ''a'' 4 (byLabel ''wk'')]"

definition exPublished :: ConfigMap where
  "exPublished = \<lparr>cm_ObjectMeta =
     emptyMeta\<lparr>meta_Name := DefaultPTPConfigMapName, meta_Namespace := Namespace\<rparr>,
     cm_Data = [(''old'', ''x'')]\<rparr>"

definition exTracker :: "PtpConfig \<Rightarrow> Tracker" where
  "exTracker cfg = [((ptpKind ''PtpConfig'', [], ''c''), PtpConfigObj cfg),
     ((coreKind ''Node'', [], ''n1''), NodeObj exNode), (publishedKey, ConfigMapObj exPublished)]"

definition exMarshal :: marshaller where
  "exMarshal ps = Inr (strings_Join (profileNames ps) '','')"

lemma exTracker_typed:
  "cfg = exFleetConfig \<or> cfg = exBrokenConfig \<Longrightarrow> wellTyped (map_of (exTracker cfg))"
  by (auto simp: wellTyped_def exTracker_def exFleetConfig_def exBrokenConfig_def exPublished_def cmKey_def ex_defs)

lemma exTracker_fleet:
  "fleet_Configs (absFleet (map_of (exTracker cfg))) = {cfg}"
  "fleet_Nodes (absFleet (map_of (exTracker cfg))) = {exNode}"
  "fleet_Published (absFleet (map_of (exTracker cfg))) = [''old'' \<mapsto> ''x'']"
  "map_of (exTracker cfg) publishedKey = Some (ConfigMapObj exPublished)"
  by (auto simp: absFleet_def exTracker_def cmKey_def coreKind_def ptpKind_def exPublished_def)

lemma exFleet_contents:
  "fleetProfiles (absFleet (map_of (exTracker exFleetConfig))) = {exProfile ''a'', exProfile ''b'', exProfile ''c''}"
  "fleetRecommend (absFleet (map_of (exTracker exFleetConfig))) =
     {exRecommend ''c'' 10 (byLabel ''wk''), exRecommend ''b'' 4 (byName ''n1''), exRecommend ''a'' 4 (byLabel ''wk'')}"
  "fleetProfiles (absFleet (map_of (exTracker exBrokenConfig))) = {}"
  "fleetRecommend (absFleet (map_of (exTracker exBrokenConfig))) = {exRecommend ''a'' 4 (byLabel ''wk'')}"
  by (auto simp: fleetProfiles_def fleetRecommend_def exTracker_fleet exFleetConfig_def exBrokenConfig_def exConfig_def)

lemma chosen_ex:
  "chosenNames {exRecommend ''c'' 10 (byLabel ''wk''), exRecommend ''b'' 4 (byName ''n1''),
     exRecommend ''a'' 4 (byLabel ''wk'')} exNode = {''a'', ''b''}"
  "chosenNames {exRecommend ''a'' 4 (byLabel ''wk'')} exNode = {''a''}"
  by (auto simp: chosenNames_def eligible_ex) (auto simp: exRecommend_def)

lemma exFleet_unique: "uniquelyNamed (absFleet (map_of (exTracker exFleetConfig)))"
  "uniquelyNamed (absFleet (map_of (exTracker exBrokenConfig)))"
  by (simp_all add: uniquelyNamed_def exTracker_fleet exFleet_contents)
    (simp_all add: exFleetConfig_def exBrokenConfig_def exConfig_def profileNames_def exProfile_def)

lemma exFleet_deployable:
  "deployable (absFleet (map_of (exTracker exFleetConfig))) exNode"
  "\<not> deployable (absFleet (map_of (exTracker exBrokenConfig))) exNode"
  by (simp_all add: deployable_def exFleet_contents chosen_ex) (simp_all add: exRecommend_def exProfile_def)

theorem ptp_reconcile_refines_publish_witness:
  "\<exists>s'. PtpConfig_Reconcile insertionSort exMarshal trackerClient (exTracker exFleetConfig) =
       (Ret (emptyResult, None), s') \<and>
     dom (fleet_Published (absFleet (map_of s'))) = {''n1''} \<and>
     publishes exMarshal (absFleet (map_of (exTracker exFleetConfig))) (absFleet (map_of s'))"
proof -
  have typed: "wellTyped (map_of (exTracker exFleetConfig))" using exTracker_typed by simp
  have pub: "publishable exMarshal (absFleet (map_of (exTracker exFleetConfig)))"
    by (simp add: publishable_def exFleet_unique exTracker_fleet exFleet_deployable exMarshal_def)
  obtain s' where s': "PtpConfig_Reconcile insertionSort exMarshal trackerClient (exTracker exFleetConfig) =
      (Ret (emptyResult, None), s')"
    and pub: "publishes exMarshal (absFleet (map_of (exTracker exFleetConfig))) (absFleet (map_of s'))"
    using ptp_reconcile_refines_publish [OF tracker_contract(2) ins.sort_slice_contract_axioms typed
      exTracker_fleet(4) pub] by blast
  have "node_Name exNode = ''n1''" by (simp add: ex_defs)
  with pub have "dom (fleet_Published (absFleet (map_of s'))) = {''n1''}"
    by (simp add: publishes_def exTracker_fleet)
  with s' pub show ?thesis by blast
qed

theorem ptp_reconcile_blocked_by_one_node_witness:
  "map_of (snd (PtpConfig_Reconcile insertionSort exMarshal trackerClient (exTracker exBrokenConfig))) =
     map_of (exTracker exBrokenConfig)"
proof -
  have typed: "wellTyped (map_of (exTracker exBrokenConfig))" using exTracker_typed by simp
  from ptp_reconcile_blocked_by_one_node [OF tracker_contract(2) ins.sort_slice_contract_axioms typed
      exFleet_unique(2) _ exFleet_deployable(2) prod.collapse [symmetric], where marshal = exMarshal]
  show ?thesis by (simp add: exTracker_fleet)
qed


end
