(* ===== verification/Leader_Election.thy ===== *)
theory Leader_Election
  imports Api_Types Go_Strings "HOL-Library.Word"
begin

text \<open>
  \<^verbatim>\<open>pkg/leaderelection\<close> and what it uses of the vendored library-go: the lease times of the leader
  election, which depend on whether the control plane has one replica. The checks of client-go's
  \<^verbatim>\<open>NewLeaderElector\<close> on these times are modelled as well, since they decide whether the operator
  starts.

  A \<^verbatim>\<open>time.Duration\<close> is an \<^verbatim>\<open>int64\<close> of nanoseconds, a word of 64 bits read by \<open>sint\<close>. The answer of
  the cluster about its infrastructure, the namespace file of the service account and the
  floating-point product with the jitter factor are parameters. Logging is left out.
\<close>

section \<open>Definitions\<close>

type_synonym Duration = "64 word"

definition Second :: Duration where "Second = 1000000000"

record LeaderElection =
  le_Disable :: bool
  le_Namespace :: string
  le_Name :: string
  le_LeaseDuration :: Duration
  le_RenewDeadline :: Duration
  le_RetryPeriod :: Duration

datatype TopologyMode = HighlyAvailableTopologyMode | SingleReplicaTopologyMode | ExternalTopologyMode
  | OtherTopologyMode string

record InfrastructureStatus =
  infra_ControlPlaneTopology :: TopologyMode

text \<open>
  \<open>namespaceFile\<close> is the answer of reading the namespace of the service account.
\<close>

definition LeaderElectionDefaulting ::
  "error + string \<Rightarrow> LeaderElection \<Rightarrow> string \<Rightarrow> string \<Rightarrow> LeaderElection"
where
  "LeaderElectionDefaulting namespaceFile config defaultNamespace defaultName =
     (let ret = config;
          ret = (if le_LeaseDuration ret = 0 then ret\<lparr>le_LeaseDuration := 137 * Second\<rparr> else ret);
          ret = (if le_RenewDeadline ret = 0 then ret\<lparr>le_RenewDeadline := 107 * Second\<rparr> else ret);
          ret = (if le_RetryPeriod ret = 0 then ret\<lparr>le_RetryPeriod := 26 * Second\<rparr> else ret);
          ret = (if length (le_Namespace ret) = 0 then
                   (if 0 < length defaultNamespace then ret\<lparr>le_Namespace := defaultNamespace\<rparr>
                    else case namespaceFile of
                        Inl err \<Rightarrow> ret
                      | Inr data \<Rightarrow>
                          (let ns = strings_TrimSpace data in
                           if 0 < length ns then ret\<lparr>le_Namespace := ns\<rparr> else ret))
                 else ret)
      in if length (le_Name ret) = 0 then ret\<lparr>le_Name := defaultName\<rparr> else ret)"

definition LeaderElectionSNOConfig :: "LeaderElection \<Rightarrow> LeaderElection" where
  "LeaderElectionSNOConfig config =
     config\<lparr>le_LeaseDuration := 270 * Second, le_RenewDeadline := 240 * Second,
       le_RetryPeriod := 60 * Second\<rparr>"

text \<open>\<open>infra\<close> is the answer of \<^verbatim>\<open>GetClusterInfraStatus\<close>, within three seconds.\<close>

definition GetLeaderElectionConfig ::
  "error + string \<Rightarrow> error + InfrastructureStatus option \<Rightarrow> bool \<Rightarrow> LeaderElection"
where
  "GetLeaderElectionConfig namespaceFile infra enabled =
     (let defaultLeaderElection = LeaderElectionDefaulting namespaceFile
            \<lparr>le_Disable = \<not> enabled, le_Namespace = [], le_Name = [], le_LeaseDuration = 0,
             le_RenewDeadline = 0, le_RetryPeriod = 0\<rparr> [] []
      in if enabled then
           (case infra of
              Inr (Some i) \<Rightarrow>
                if infra_ControlPlaneTopology i = SingleReplicaTopologyMode
                then LeaderElectionSNOConfig defaultLeaderElection else defaultLeaderElection
            | _ \<Rightarrow> defaultLeaderElection)
         else defaultLeaderElection)"

text \<open>
  The checks of \<^verbatim>\<open>NewLeaderElector\<close> on the times; \<open>jitter\<close> is the product with \<^verbatim>\<open>JitterFactor\<close>.
  The comparisons are those of \<^verbatim>\<open>int64\<close>.
\<close>

definition leaseTimesError :: "(Duration \<Rightarrow> Duration) \<Rightarrow> Duration \<Rightarrow> Duration \<Rightarrow> Duration \<Rightarrow> error option" where
  "leaseTimesError jitter lease renew retry =
     (if sint lease \<le> sint renew then Some (Errorf ''leaseDuration must be greater than renewDeadline'')
      else if sint renew \<le> sint (jitter retry)
      then Some (Errorf ''renewDeadline must be greater than retryPeriod*JitterFactor'')
      else if sint lease < 1 then Some (Errorf ''leaseDuration must be greater than zero'')
      else if sint renew < 1 then Some (Errorf ''renewDeadline must be greater than zero'')
      else if sint retry < 1 then Some (Errorf ''retryPeriod must be greater than zero'')
      else None)"

section \<open>Bounds\<close>

text \<open>The times as integers: nothing wraps.\<close>

lemma seconds:
  "sint (137 * Second) = 137 * 10 ^ 9" "sint (107 * Second) = 107 * 10 ^ 9" "sint (26 * Second) = 26 * 10 ^ 9"
  "sint (270 * Second) = 270 * 10 ^ 9" "sint (240 * Second) = 240 * 10 ^ 9" "sint (60 * Second) = 60 * 10 ^ 9"
  by (simp_all add: Second_def)

lemma defaulting_times:
  assumes "le_LeaseDuration config = 0" "le_RenewDeadline config = 0" "le_RetryPeriod config = 0"
  shows "le_LeaseDuration (LeaderElectionDefaulting nsFile config ns name) = 137 * Second"
    "le_RenewDeadline (LeaderElectionDefaulting nsFile config ns name) = 107 * Second"
    "le_RetryPeriod (LeaderElectionDefaulting nsFile config ns name) = 26 * Second"
    "le_Disable (LeaderElectionDefaulting nsFile config ns name) = le_Disable config"
  using assms by (simp_all add: LeaderElectionDefaulting_def Let_def split: sum.split)

text \<open>The cluster says that it has one replica, and the election is enabled.\<close>

definition singleReplica :: "error + InfrastructureStatus option \<Rightarrow> bool \<Rightarrow> bool" where
  "singleReplica infra enabled \<longleftrightarrow> enabled \<and>
     (\<exists>i. infra = Inr (Some i) \<and> infra_ControlPlaneTopology i = SingleReplicaTopologyMode)"

lemma config_times:
  "(le_LeaseDuration (GetLeaderElectionConfig nsFile infra enabled),
    le_RenewDeadline (GetLeaderElectionConfig nsFile infra enabled),
    le_RetryPeriod (GetLeaderElectionConfig nsFile infra enabled)) =
     (if singleReplica infra enabled then (270 * Second, 240 * Second, 60 * Second)
      else (137 * Second, 107 * Second, 26 * Second))"
  "le_Disable (GetLeaderElectionConfig nsFile infra enabled) = (\<not> enabled)"
  by (auto simp: GetLeaderElectionConfig_def Let_def singleReplica_def defaulting_times
      LeaderElectionSNOConfig_def split: sum.splits option.splits)

text \<open>
  (C25) Whatever the cluster answers, the lease times pass the checks of \<^verbatim>\<open>NewLeaderElector\<close> for every
  jitter factor of at most two, do not wrap, leave 30 seconds for clock skew and fit four retries into
  the renew deadline; the election is disabled exactly when it was not asked for.
\<close>
theorem leader_election_times:
  assumes "\<And>d. 0 < sint d \<Longrightarrow> sint (jitter d) \<le> 2 * sint d"
  shows "let c = GetLeaderElectionConfig nsFile infra enabled;
      lease = le_LeaseDuration c; renew = le_RenewDeadline c; retry = le_RetryPeriod c
    in leaseTimesError jitter lease renew retry = None \<and>
       sint lease - sint renew = sint (30 * Second) \<and> sint renew div sint retry = 4 \<and>
       sint lease = (if singleReplica infra enabled then 270 else 137) * 10 ^ 9 \<and>
       le_Disable c = (\<not> enabled)"
proof -
  have "sint (jitter (26 * Second)) \<le> 2 * (26 * 10 ^ 9)" "sint (jitter (60 * Second)) \<le> 2 * (60 * 10 ^ 9)"
    using assms [of "26 * Second"] assms [of "60 * Second"] by (simp_all add: seconds)
  moreover have "sint (30 * Second) = 30 * 10 ^ 9" by (simp add: Second_def)
  ultimately show ?thesis
    using config_times(1) [of nsFile infra enabled] config_times(2) [of nsFile infra enabled]
    by (auto simp: leaseTimesError_def Let_def seconds split: if_splits)
qed

text \<open>Client-go's factor is 1.2.\<close>

theorem leader_election_times_witness:
  "leaseTimesError (\<lambda>d. word_of_int (sint d * 6 div 5)) (137 * Second) (107 * Second) (26 * Second) = None \<and>
   le_LeaseDuration (GetLeaderElectionConfig (Inl (Errorf [])) (Inl (Errorf [])) True) = 137 * Second"
proof -
  let ?jitter = "\<lambda>d :: Duration. word_of_int (sint d * 6 div 5) :: Duration"
  have "sint (?jitter d) \<le> 2 * sint d" if "0 < sint d" for d
  proof -
    have "sint (?jitter d) = signed_take_bit 63 (sint d * 6 div 5)" by (simp add: sint_sbintrunc')
    also have "\<dots> \<le> sint d * 6 div 5" using that by (simp add: signed_take_bit_int_less_eq_self_iff)
    finally show ?thesis using that by simp
  qed
  note times = leader_election_times [of ?jitter, OF this, of "Inl (Errorf [])" "Inl (Errorf [])" True]
  have "\<not> singleReplica (Inl (Errorf [])) True" by (simp add: singleReplica_def)
  with times config_times(1) [of "Inl (Errorf [])" "Inl (Errorf [])" True] show ?thesis
    by (simp add: Let_def)
qed

end
