(* ===== verification/Manager.thy ===== *)
theory Manager
  imports Operator_Config_Controller Leader_Election
begin

text \<open>
  \<^verbatim>\<open>main.go\<close>: the options of the controller manager, the steps of the start-up, each of which ends
  the process when it fails, and the goroutine that waits for the webhook server and then creates
  the default configuration. The calls into controller-runtime are parameters (\<open>ManagerCalls\<close>).

  The wait is a loop over the answers of the checker. \<open>checker k\<close> is the answer to the \<open>k\<close>-th poll and
  the time it takes, in nanoseconds; \<open>late k\<close> is how much longer than asked the \<open>k\<close>-th sleep lasts.
  The time since the start is threaded through the loop.
\<close>

section \<open>Definitions\<close>

record Flags =
  flag_EnableHTTP2 :: bool
  flag_MetricsAddr :: string
  flag_ProbeAddr :: string
  flag_EnableLeaderElection :: bool

definition defaultFlags :: Flags where
  "defaultFlags = \<lparr>flag_EnableHTTP2 = False, flag_MetricsAddr = '':8080'', flag_ProbeAddr = '':8081'',
     flag_EnableLeaderElection = False\<rparr>"

text \<open>What \<^verbatim>\<open>disableHTTP2\<close> does to the protocols of a TLS configuration.\<close>

definition disableHTTP2 :: "bool \<Rightarrow> string list \<Rightarrow> string list" where
  "disableHTTP2 enableHTTP2 nextProtos = (if enableHTTP2 then nextProtos else [''http/1.1''])"

record Options =
  opt_HealthProbeBindAddress :: string
  opt_LeaderElection :: bool
  opt_LeaseDuration :: Duration
  opt_RenewDeadline :: Duration
  opt_RetryPeriod :: Duration
  opt_LeaderElectionID :: string
  opt_LeaderElectionReleaseOnCancel :: bool
  opt_MetricsBindAddress :: string
  opt_WebhookPort :: int
  opt_WebhookTLS :: "string list \<Rightarrow> string list"
  opt_DefaultNamespaces :: "(string, unit) gomap option"

text \<open>The namespaces of the cache: \<open>None\<close> leaves the cache of the manager as it is.\<close>

definition cacheNamespaces :: "string \<Rightarrow> (string, unit) gomap option" where
  "cacheNamespaces namespace =
     (if namespace \<noteq> [] then
        Some (fold (\<lambda>ns. AList.update ns ()) (strings_Split namespace (CHR '','')) [])
      else None)"

definition managerOptions :: "Flags \<Rightarrow> LeaderElection \<Rightarrow> string \<Rightarrow> Options" where
  "managerOptions flags le watchNamespace =
     \<lparr>opt_HealthProbeBindAddress = flag_ProbeAddr flags,
      opt_LeaderElection = flag_EnableLeaderElection flags,
      opt_LeaseDuration = le_LeaseDuration le, opt_RenewDeadline = le_RenewDeadline le,
      opt_RetryPeriod = le_RetryPeriod le, opt_LeaderElectionID = ''ptp.openshift.io'',
      opt_LeaderElectionReleaseOnCancel = True, opt_MetricsBindAddress = flag_MetricsAddr flags,
      opt_WebhookPort = 9443, opt_WebhookTLS = disableHTTP2 (flag_EnableHTTP2 flags),
      opt_DefaultNamespaces = cacheNamespaces watchNamespace\<rparr>"

record ManagerCalls =
  mgr_New :: "Options \<Rightarrow> error option"
  mgr_SetupController :: "string \<Rightarrow> error option"
  mgr_SetupWebhook :: "string \<Rightarrow> error option"
  mgr_AddHealthzCheck :: "string \<Rightarrow> error option"
  mgr_AddReadyzCheck :: "string \<Rightarrow> error option"
  mgr_Start :: "error option"

text \<open>What the process does, in order; \<open>CreateDefault\<close> is the start of the goroutine.\<close>

datatype Action =
    NewManager Options
  | SetupController string
  | SetupWebhook string
  | AddHealthzCheck string
  | AddReadyzCheck string
  | CreateDefault
  | StartManager
  | Exit int string error

fun runSteps :: "(Action \<times> error option \<times> string) list \<Rightarrow> Action list" where
  "runSteps [] = []"
| "runSteps ((a, r, msg) # steps) =
     a # (case r of Some err \<Rightarrow> [Exit 1 msg err] | None \<Rightarrow> runSteps steps)"

definition main ::
  "ManagerCalls \<Rightarrow> Flags \<Rightarrow> error + string \<Rightarrow> error + InfrastructureStatus option \<Rightarrow> string \<Rightarrow> Action list"
where
  "main calls flags namespaceFile infra watchNamespace =
     (let le = GetLeaderElectionConfig namespaceFile infra (flag_EnableLeaderElection flags);
          options = managerOptions flags le watchNamespace
      in runSteps
        [(NewManager options, mgr_New calls options, ''unable to start manager''),
         (SetupController ''PtpOperatorConfig'', mgr_SetupController calls ''PtpOperatorConfig'',
            ''unable to create controller''),
         (SetupController ''PtpConfig'', mgr_SetupController calls ''PtpConfig'',
            ''unable to create controller''),
         (SetupWebhook ''PtpConfig'', mgr_SetupWebhook calls ''PtpConfig'', ''unable to create webhook''),
         (SetupWebhook ''PtpOperatorConfig'', mgr_SetupWebhook calls ''PtpOperatorConfig'',
            ''unable to create webhook''),
         (AddHealthzCheck ''healthz'', mgr_AddHealthzCheck calls ''healthz'', ''unable to set up health check''),
         (AddReadyzCheck ''readyz'', mgr_AddReadyzCheck calls ''readyz'', ''unable to set up ready check''),
         (CreateDefault, None, []),
         (StartManager, mgr_Start calls, ''problem running manager'')])"

text \<open>\<^verbatim>\<open>setupChecks\<close>, which \<^verbatim>\<open>main\<close> does not call.\<close>

definition setupChecks :: "ManagerCalls \<Rightarrow> Action list" where
  "setupChecks calls = runSteps
     [(AddReadyzCheck ''webhook'', mgr_AddReadyzCheck calls ''webhook'', ''unable to create ready check''),
      (AddHealthzCheck ''webhook'', mgr_AddHealthzCheck calls ''webhook'', ''unable to create health check'')]"

definition waitTimeout :: nat where "waitTimeout = 30 * 1000000000"

definition pollingFreq :: nat where "pollingFreq = 1 * 1000000000"

partial_function (option) waitLoop ::
  "(nat \<Rightarrow> error option \<times> nat) \<Rightarrow> (nat \<Rightarrow> nat) \<Rightarrow> nat \<Rightarrow> nat \<Rightarrow> error option option"
where
  "waitLoop checker late k since =
     (if fst (checker k) = None then Some None
      else if since + snd (checker k) > waitTimeout
      then Some (Some (Errorf ''timeout waiting for webhook server to start''))
      else waitLoop checker late (Suc k) (since + snd (checker k) + pollingFreq + late k))"

definition waitForWebhookServer ::
  "error option \<Rightarrow> (nat \<Rightarrow> error option \<times> nat) \<Rightarrow> (nat \<Rightarrow> nat) \<Rightarrow> error option option"
where
  "waitForWebhookServer newRequest checker late =
     (case newRequest of Some err \<Rightarrow> Some (Some err) | None \<Rightarrow> waitLoop checker late 0 0)"

definition createDefaultOperatorConfig :: "error option \<Rightarrow> 's Client \<Rightarrow> 's \<Rightarrow> error option \<times> 's" where
  "createDefaultOperatorConfig newClient c s =
     (case newClient of
        Some err \<Rightarrow> (Some (Errorf (''couldn'' @ [CHR 0x27] @ ''t create client: '' @ Error err)), s)
      | None \<Rightarrow>
          (case GetPtpOperatorConfig c Namespace DefaultOperatorConfigName s of
             (Inl err, s) \<Rightarrow>
               if IsNotFound err then
                 (case client_Create c (PtpOperatorConfigObj defaultConfig) s of
                    (Some err, s) \<Rightarrow> (Some err, s)
                  | (None, s) \<Rightarrow> (None, s))
               else (Some err, s)
           | (Inr config, s) \<Rightarrow> (None, s)))"

text \<open>The goroutine of \<^verbatim>\<open>main\<close>: its error is only logged.\<close>

definition createDefaultWhenReady ::
  "error option \<Rightarrow> (nat \<Rightarrow> error option \<times> nat) \<Rightarrow> (nat \<Rightarrow> nat) \<Rightarrow> error option \<Rightarrow> 's Client \<Rightarrow> 's \<Rightarrow>
   (error option \<times> 's) option"
where
  "createDefaultWhenReady newRequest checker late newClient c s =
     (case waitForWebhookServer newRequest checker late of
        None \<Rightarrow> None
      | Some (Some err) \<Rightarrow> Some (Some err, s)
      | Some None \<Rightarrow> Some (createDefaultOperatorConfig newClient c s))"

section \<open>The wait ends\<close>

text \<open>The time since the start when the answer to the \<open>k\<close>-th poll is there, if the loop gets that far.\<close>

fun pollTime :: "(nat \<Rightarrow> error option \<times> nat) \<Rightarrow> (nat \<Rightarrow> nat) \<Rightarrow> nat \<Rightarrow> nat" where
  "pollTime checker late 0 = snd (checker 0)"
| "pollTime checker late (Suc k) =
     pollTime checker late k + pollingFreq + late k + snd (checker (Suc k))"

lemma pollTime_ge: "k * pollingFreq \<le> pollTime checker late k"
  by (induction k) auto

text \<open>A poll at which the loop goes on: it failed and the time is not up.\<close>

definition pollsOn :: "(nat \<Rightarrow> error option \<times> nat) \<Rightarrow> (nat \<Rightarrow> nat) \<Rightarrow> nat \<Rightarrow> bool" where
  "pollsOn checker late k \<longleftrightarrow> fst (checker k) \<noteq> None \<and> pollTime checker late k \<le> waitTimeout"

lemma pollsOn_bound: "pollsOn checker late k \<Longrightarrow> k \<le> 30"
  using pollTime_ge [of k checker late]
  by (simp add: pollsOn_def waitTimeout_def pollingFreq_def)

lemma waitLoop_step:
  assumes "since + snd (checker k) = pollTime checker late k"
  shows "waitLoop checker late k since =
    (if fst (checker k) = None then Some None
     else if pollTime checker late k > waitTimeout
     then Some (Some (Errorf ''timeout waiting for webhook server to start''))
     else waitLoop checker late (Suc k) (pollTime checker late k + pollingFreq + late k))"
  by (subst waitLoop.simps) (simp add: assms)

text \<open>From a poll on, the loop runs to the first poll at which it does not go on.\<close>

lemma waitLoop_result:
  assumes "k \<le> n" "\<not> pollsOn checker late n" "\<forall>j. k \<le> j \<and> j < n \<longrightarrow> pollsOn checker late j"
    and "since + snd (checker k) = pollTime checker late k"
  shows "waitLoop checker late k since =
    Some (if fst (checker n) = None then None
      else Some (Errorf ''timeout waiting for webhook server to start''))"
  using assms
proof (induction "n - k" arbitrary: k since)
  case 0
  then have "k = n" by simp
  with 0 show ?case unfolding waitLoop_step [OF 0(5)] by (auto simp: pollsOn_def)
next
  case (Suc m)
  then have on: "pollsOn checker late k" by auto
  have "waitLoop checker late (Suc k) (pollTime checker late k + pollingFreq + late k) =
    Some (if fst (checker n) = None then None
      else Some (Errorf ''timeout waiting for webhook server to start''))"
    using Suc.prems Suc.hyps(2) by (intro Suc.hyps(1)) auto
  with on show ?case unfolding waitLoop_step [OF Suc.prems(4)] by (simp add: pollsOn_def)
qed

lemma first_poll:
  obtains n where "n \<le> 31" "\<not> pollsOn checker late n" "\<forall>j<n. pollsOn checker late j"
proof -
  have ex: "\<not> pollsOn checker late 31" using pollsOn_bound [of checker late 31] by auto
  define n where "n = (LEAST n. \<not> pollsOn checker late n)"
  show thesis
  proof (rule that [of n])
    show "n \<le> 31" "\<not> pollsOn checker late n"
      unfolding n_def using ex by (rule Least_le, rule LeastI)
    show "\<forall>j<n. pollsOn checker late j" unfolding n_def using not_less_Least by blast
  qed
qed

text \<open>
  (C24) The wait for the webhook server always ends, after at most 32 polls: at the first poll that
  succeeds, or at the first that fails after more than 30 seconds, whichever comes first, and only the
  latter is an error. A success is accepted however late it comes.
\<close>
theorem wait_ends:
  "\<exists>n \<le> 31. (\<forall>j < n. fst (checker j) \<noteq> None \<and> pollTime checker late j \<le> waitTimeout) \<and>
     (fst (checker n) = None \<or> waitTimeout < pollTime checker late n) \<and>
     waitForWebhookServer None checker late =
       Some (if fst (checker n) = None then None
         else Some (Errorf ''timeout waiting for webhook server to start''))"
proof -
  obtain n where n: "n \<le> 31" "\<not> pollsOn checker late n" "\<forall>j<n. pollsOn checker late j"
    by (rule first_poll)
  then have "waitLoop checker late 0 0 = Some (if fst (checker n) = None then None
      else Some (Errorf ''timeout waiting for webhook server to start''))"
    by (intro waitLoop_result) auto
  with n show ?thesis by (intro exI [of _ n]) (auto simp: waitForWebhookServer_def pollsOn_def)
qed

text \<open>A server that answers the third poll, each after two seconds.\<close>

definition exampleChecker :: "nat \<Rightarrow> error option \<times> nat" where
  "exampleChecker k = (if k < 2 then Some (Errorf ''not ready'') else None, 2000000000)"

theorem wait_ends_witness: "waitForWebhookServer None exampleChecker (\<lambda>_. 0) = Some None"
proof -
  from wait_ends [of exampleChecker "\<lambda>_. 0"] obtain n where
    n: "\<forall>j < n. fst (exampleChecker j) \<noteq> None \<and> pollTime exampleChecker (\<lambda>_. 0) j \<le> waitTimeout"
      "fst (exampleChecker n) = None \<or> waitTimeout < pollTime exampleChecker (\<lambda>_. 0) n"
      "waitForWebhookServer None exampleChecker (\<lambda>_. 0) =
         Some (if fst (exampleChecker n) = None then None
           else Some (Errorf ''timeout waiting for webhook server to start''))"
    by blast
  have "\<not> (fst (exampleChecker 0) = None \<or> waitTimeout < pollTime exampleChecker (\<lambda>_. 0) 0)"
    "\<not> (fst (exampleChecker (Suc 0)) = None \<or> waitTimeout < pollTime exampleChecker (\<lambda>_. 0) (Suc 0))"
    by (simp_all add: exampleChecker_def waitTimeout_def pollingFreq_def)
  with n(2) have "n \<noteq> 0" "n \<noteq> Suc 0" by metis+
  then have "fst (exampleChecker n) = None" by (simp add: exampleChecker_def)
  with n(3) show ?thesis by simp
qed

end
