(* ===== verification/Operator_System.thy ===== *)
theory Operator_System
  imports Operator_Reconcile Ptp_Config_Controller Manager
begin

text \<open>
  The operator as a whole: its two reconcilers, the creation of the default configuration at start-up,
  and everybody else who uses the API server, as one step relation on the state of the server. The
  reconcilers may run in any order and any number of times, fail at any point, and see any state the
  others leave; what holds of every reachable state is proved by rule induction.

  A reconciler touches the server only through its client; \<open>calls\<close> is the closure of that, with what
  may be created and what may be updated on the way.
\<close>

section \<open>Sequences of calls\<close>

inductive calls :: "'s Client \<Rightarrow> (Object \<Rightarrow> bool) \<Rightarrow> (Object \<Rightarrow> bool) \<Rightarrow> 's \<Rightarrow> 's \<Rightarrow> bool"
  for c C U where
  calls_none: "calls c C U s s"
| calls_get: "calls c C U s s1 \<Longrightarrow> client_Get c k s1 = (g, s2) \<Longrightarrow> calls c C U s s2"
| calls_list: "calls c C U s s1 \<Longrightarrow> client_List c gvk s1 = (l, s2) \<Longrightarrow> calls c C U s s2"
| calls_create: "calls c C U s s1 \<Longrightarrow> C obj \<Longrightarrow> client_Create c obj s1 = (e, s2) \<Longrightarrow> calls c C U s s2"
| calls_update: "calls c C U s s1 \<Longrightarrow> U obj \<Longrightarrow> client_Update c obj s1 = (e, s2) \<Longrightarrow> calls c C U s s2"

declare calls_none [simp, intro]

lemma calls_trans:
  assumes "calls c C U s2 s3" "calls c C U s1 s2"
  shows "calls c C U s1 s3"
  using assms by induction (blast intro: calls.intros)+

lemma calls_typed: "typedResult conv (client_Get c k s) = (r, s') \<Longrightarrow> calls c C U s s'"
  by (cases "client_Get c k s")
    (auto simp: typedResult_def split: sum.splits option.splits intro: calls_get [OF calls_none])

lemma calls_typedList: "typedList conv (client_List c gvk s) = (r, s') \<Longrightarrow> calls c C U s s'"
  by (cases "client_List c gvk s")
    (auto simp: typedList_def split: sum.splits intro: calls_list [OF calls_none])

text \<open>The same with the call first, so that the call of the code fixes the object.\<close>

lemma calls_created: "client_Create c obj s1 = (e, s2) \<Longrightarrow> C obj \<Longrightarrow> calls c C U s s1 \<Longrightarrow> calls c C U s s2"
  by (rule calls_create)

lemma calls_updated: "client_Update c obj s1 = (e, s2) \<Longrightarrow> U obj \<Longrightarrow> calls c C U s s1 \<Longrightarrow> calls c C U s s2"
  by (rule calls_update)

text \<open>
  The operator reconciler creates ConfigMaps only without data, and updates only what it applies from
  manifests.
\<close>

definition freshObject :: "Object \<Rightarrow> bool" where
  "freshObject obj \<longleftrightarrow> (\<forall>cm. obj = ConfigMapObj cm \<longrightarrow> cm_Data cm = [])"

definition manifestObject :: "Object \<Rightarrow> bool" where
  "manifestObject obj \<longleftrightarrow> (\<exists>u. obj = UnstructuredObj u)"

abbreviation operatorCalls :: "'s Client \<Rightarrow> 's \<Rightarrow> 's \<Rightarrow> bool" where
  "operatorCalls c \<equiv> calls c freshObject manifestObject"

lemma freshObject_simps [simp]:
  "freshObject (NodePtpDeviceObj d)" "freshObject (PtpOperatorConfigObj cfg)" "freshObject (UnstructuredObj u)"
  "freshObject (ConfigMapObj (newConfigMap name cfg))" "manifestObject (UnstructuredObj u)"
  by (simp_all add: freshObject_def manifestObject_def newConfigMap_def)

lemma syncNodePtpDevice_calls: "syncNodePtpDevice c nodes s = (e, s') \<Longrightarrow> operatorCalls c s s'"
proof (induction nodes arbitrary: s)
  case (Cons node nodes)
  obtain g s1 where get: "GetNodePtpDevice c Namespace (node_Name node) s = (g, s1)" by force
  have s1: "operatorCalls c s s1" using get [unfolded GetNodePtpDevice_def] by (rule calls_typed)
  obtain e2 s2 where cr: "client_Create c (NodePtpDeviceObj \<lparr>ndevice_ObjectMeta =
      emptyMeta\<lparr>meta_Name := node_Name node, meta_Namespace := Namespace\<rparr>,
      ndevice_Status = \<lparr>dstatus_Devices = [], dstatus_Hwconfig = []\<rparr>\<rparr>) s1 = (e2, s2)" by force
  have s2: "operatorCalls c s s2" by (rule calls_created [OF cr _ s1]) simp
  have "s' = s1 \<or> s' = s2 \<or> syncNodePtpDevice c nodes s1 = (e, s') \<or> syncNodePtpDevice c nodes s2 = (e, s')"
    using Cons.prems get cr by (auto simp: Let_def split: sum.splits if_splits option.splits)
  with s1 s2 calls_trans [OF Cons.IH] show ?case by blast
qed simp

lemma createConfigMap_calls:
  assumes "createConfigMap name t1 t2 c cfg s = (e, s')"
  shows "operatorCalls c s s'"
proof -
  obtain g s1 where get: "GetConfigMap c Namespace name s = (g, s1)" by force
  have s1: "operatorCalls c s s1" using get [unfolded GetConfigMap_def] by (rule calls_typed)
  have "s' = s1 \<or> (\<exists>e2. client_Create c (ConfigMapObj (newConfigMap name cfg)) s1 = (e2, s'))"
    using assms get
    by (auto simp: createConfigMap_def Let_def split: sum.splits if_splits prod.splits option.splits
        dest!: SetControllerReference_new)
  with s1 show ?thesis using calls_created [OF _ _ s1] by auto
qed

lemma ApplyObject_operatorCalls: "ApplyObject c obj s = (e, s') \<Longrightarrow> operatorCalls c s s'"
  by (erule ApplyObject_calls)
    (auto intro: calls_created [OF _ _ calls_typed] calls_updated [OF _ _ calls_typed] calls_typed)

lemma applyServiceObjects_calls: "applyServiceObjects c objs s = (e, s') \<Longrightarrow> operatorCalls c s s'"
proof (induction objs arbitrary: s)
  case (Cons obj objs)
  obtain e1 s1 where "ApplyObject c obj s = (e1, s1)" by force
  with Cons calls_trans [OF Cons.IH ApplyObject_operatorCalls] show ?case
    by (auto split: option.splits intro: ApplyObject_operatorCalls)
qed simp

lemma applyDaemonObjects_calls: "applyDaemonObjects c env cfg objs s = (e, s') \<Longrightarrow> operatorCalls c s s'"
proof (induction objs arbitrary: s)
  case (Cons obj objs)
  have "s' = s \<or> (\<exists>obj' e1 s1. ApplyObject c obj' s = (e1, s1) \<and>
      (s' = s1 \<or> applyDaemonObjects c env cfg objs s1 = (e, s')))"
    using Cons.prems by (auto split: sum.splits prod.splits option.splits)
  with calls_trans [OF Cons.IH ApplyObject_operatorCalls] ApplyObject_operatorCalls show ?case
    by (metis calls_none)
qed simp

lemma syncEventServices_calls: "syncEventServices c env d nodes s = (e, s') \<Longrightarrow> operatorCalls c s s'"
proof (induction nodes arbitrary: s d)
  case (Cons node nodes)
  have "s' = s \<or> (\<exists>objs d' e1 s1. applyServiceObjects c objs s = (e1, s1) \<and>
      (s' = s1 \<or> syncEventServices c env d' nodes s1 = (e, s')))"
    using Cons.prems by (auto simp: Let_def split: sum.splits prod.splits option.splits)
  with calls_trans [OF Cons.IH applyServiceObjects_calls] applyServiceObjects_calls show ?case
    by (metis calls_none)
qed simp

lemma syncLinuxptpDaemon_calls:
  assumes "syncLinuxptpDaemon c env cfg nodes s = (e, s')"
  shows "operatorCalls c s s'"
proof -
  have "s' = s \<or> (\<exists>objs d e1 s1. applyDaemonObjects c env cfg objs s = (e1, s1) \<and>
      (s' = s1 \<or> syncEventServices c env d nodes s1 = (e, s')))"
    using assms by (auto simp: syncLinuxptpDaemon_def split: sum.splits prod.splits option.splits)
  with calls_trans [OF syncEventServices_calls applyDaemonObjects_calls] applyDaemonObjects_calls
  show ?thesis by (metis calls_none)
qed

lemma createDefault_calls:
  assumes "createDefaultOperatorConfig newClient c s = (e, s')"
  shows "operatorCalls c s s'"
proof -
  obtain g s1 where get: "GetPtpOperatorConfig c Namespace DefaultOperatorConfigName s = (g, s1)" by force
  have s1: "operatorCalls c s s1" using get [unfolded GetPtpOperatorConfig_def] by (rule calls_typed)
  have "s' = s \<or> s' = s1 \<or> (\<exists>e2. client_Create c (PtpOperatorConfigObj defaultConfig) s1 = (e2, s'))"
    using assms get
    by (auto simp: createDefaultOperatorConfig_def split: sum.splits if_splits prod.splits option.splits)
  with s1 show ?thesis using calls_created [OF _ _ s1] by auto
qed

lemma operator_Reconcile_calls:
  assumes "PtpOperatorConfig_Reconcile c env s = (r, s')"
  shows "operatorCalls c s s'"
proof -
  obtain g s1 where get: "GetPtpOperatorConfig c Namespace DefaultOperatorConfigName s = (g, s1)" by force
  have s1: "operatorCalls c s s1" using get [unfolded GetPtpOperatorConfig_def] by (rule calls_typed)
  obtain l s2 where lst: "ListNodes c s1 = (l, s2)" by force
  have s2: "operatorCalls c s s2" using calls_trans [OF calls_typedList [OF lst [unfolded ListNodes_def]] s1] .
  show ?thesis
  proof (cases "\<exists>cfg nodes. g = Inr cfg \<and> l = Inr nodes")
    case False
    with assms get lst have "s' = s1 \<or> s' = s2 \<or>
        (\<exists>e. client_Create c (PtpOperatorConfigObj defaultConfig) s1 = (e, s'))"
      by (auto simp: PtpOperatorConfig_Reconcile_def split: sum.splits if_splits prod.splits option.splits)
    with s1 s2 show ?thesis using calls_created [OF _ _ s1] by auto
  next
    case True
    then obtain cfg nodes where gl: "g = Inr cfg" "l = Inr nodes" by blast
    obtain e3 s3 where dev: "syncNodePtpDevice c nodes s2 = (e3, s3)" by force
    obtain e4 s4 where cm1: "createPTPConfigMap c cfg s3 = (e4, s4)" by force
    obtain e5 s5 where cm2: "createLeapConfigMap c cfg s4 = (e5, s5)" by force
    obtain e6 s6 where dae: "syncLinuxptpDaemon c env cfg nodes s5 = (e6, s6)" by force
    have s3: "operatorCalls c s s3" by (rule calls_trans [OF syncNodePtpDevice_calls [OF dev] s2])
    have s4: "operatorCalls c s s4"
      by (rule calls_trans [OF createConfigMap_calls [OF cm1 [unfolded createPTPConfigMap_def]] s3])
    have s5: "operatorCalls c s s5"
      by (rule calls_trans [OF createConfigMap_calls [OF cm2 [unfolded createLeapConfigMap_def]] s4])
    have s6: "operatorCalls c s s6" by (rule calls_trans [OF syncLinuxptpDaemon_calls [OF dae] s5])
    have "s' \<in> {s3, s4, s5, s6}"
      using assms get lst gl dev cm1 cm2 dae by (auto simp: PtpOperatorConfig_Reconcile_def split: option.splits)
    with s3 s4 s5 s6 show ?thesis by auto
  qed
qed

section \<open>The step relation\<close>

text \<open>
  The parameters that the code gets anew in every run (the environment with its template engine, the
  order in which \<^verbatim>\<open>sort.Slice\<close> leaves equal elements, whether a client can be made) may differ from
  step to step. The others are the users, the kubelets and the garbage collector: they may do anything
  to the server but write the ConfigMap of the profiles; they may delete it.
\<close>

inductive step :: "'s Client \<Rightarrow> ('s \<Rightarrow> Key \<rightharpoonup> Object) \<Rightarrow> marshaller \<Rightarrow> 's \<Rightarrow> 's \<Rightarrow> bool"
  for c lookup marshal where
  start_up: "createDefaultOperatorConfig newClient c s = (e, s') \<Longrightarrow> step c lookup marshal s s'"
| operator_config: "PtpOperatorConfig_Reconcile c (env :: string Env) s = (r, s') \<Longrightarrow> step c lookup marshal s s'"
| ptp_config: "PtpConfig_Reconcile srt marshal c s = (res, s') \<Longrightarrow> step c lookup marshal s s'"
| others: "wellTyped (lookup s') \<Longrightarrow>
    lookup s' publishedKey = lookup s publishedKey \<or> lookup s' publishedKey = None \<Longrightarrow>
    step c lookup marshal s s'"

text \<open>A fresh installation: well typed, and nothing published.\<close>

definition installed :: "(Key \<rightharpoonup> Object) \<Rightarrow> bool" where
  "installed m \<longleftrightarrow> wellTyped m \<and> (\<forall>cm. m publishedKey = Some (ConfigMapObj cm) \<longrightarrow> cm_Data cm = [])"

inductive reachable :: "'s Client \<Rightarrow> ('s \<Rightarrow> Key \<rightharpoonup> Object) \<Rightarrow> marshaller \<Rightarrow> 's \<Rightarrow> bool"
  for c lookup marshal where
  reachable_start: "installed (lookup s) \<Longrightarrow> reachable c lookup marshal s"
| reachable_step: "reachable c lookup marshal s \<Longrightarrow> step c lookup marshal s s' \<Longrightarrow> reachable c lookup marshal s'"

inductive_cases stepE: "step c lookup marshal s s'"

lemmas step_cases = stepE [consumes 1, case_names start_up operator_config ptp_config others]

text \<open>What was published in one go from a state that was reached.\<close>

definition computed :: "'s Client \<Rightarrow> ('s \<Rightarrow> Key \<rightharpoonup> Object) \<Rightarrow> marshaller \<Rightarrow> strmap \<Rightarrow> bool" where
  "computed c lookup marshal data \<longleftrightarrow>
     (\<exists>srt s cfgs nodes. reachable c lookup marshal s \<and>
        set cfgs = fleet_Configs (absFleet (lookup s)) \<and> set nodes = fleet_Nodes (absFleet (lookup s)) \<and>
        nodeData srt marshal \<lparr>configlist_Items = cfgs\<rparr> nodes [] = Ret (Inr data))"

definition publishedOk :: "'s Client \<Rightarrow> ('s \<Rightarrow> Key \<rightharpoonup> Object) \<Rightarrow> marshaller \<Rightarrow> (Key \<rightharpoonup> Object) \<Rightarrow> bool" where
  "publishedOk c lookup marshal m \<longleftrightarrow>
     (\<forall>cm. m publishedKey = Some (ConfigMapObj cm) \<longrightarrow> cm_Data cm = [] \<or> computed c lookup marshal (cm_Data cm))"

context api_client
begin

lemma calls_wellTyped:
  "calls c C U s s' \<Longrightarrow> wellTyped (lookup s) \<Longrightarrow> wellTyped (lookup s')"
proof (induction rule: calls.induct)
  case (calls_get s s1 k g s2)
  then show ?case using get_frame [of k s1] by simp
next
  case (calls_list s s1 gvk l s2)
  then show ?case using list_frame [of gvk s1] by simp
next
  case (calls_create s s1 obj e s2)
  then show ?case
    by (cases e) (metis create_lookup wellTyped_upd, metis create_failed)
next
  case (calls_update s s1 obj e s2)
  then show ?case
    by (cases e) (metis update_lookup wellTyped_upd, metis update_failed)
qed

text \<open>The operator reconciler only ever puts an empty ConfigMap where profiles are published.\<close>

lemma operatorCalls_published:
  "operatorCalls c s s' \<Longrightarrow> lookup s' k = Some (ConfigMapObj cm) \<Longrightarrow>
   lookup s k = Some (ConfigMapObj cm) \<or> cm_Data cm = []"
proof (induction arbitrary: cm rule: calls.induct)
  case (calls_get s s1 k' g s2)
  then show ?case using get_frame [of k' s1] by simp
next
  case (calls_list s s1 gvk l s2)
  then show ?case using list_frame [of gvk s1] by simp
next
  case (calls_create s s1 obj e s2)
  show ?case
  proof (cases e)
    case None
    with calls_create.hyps(3) obtain stored where "keeps obj stored" "lookup s2 = (lookup s1)(keyOf obj \<mapsto> stored)"
      using create_lookup by metis
    with calls_create show ?thesis by (cases obj) (auto simp: freshObject_def split: if_splits)
  next
    case (Some err)
    with calls_create show ?thesis using create_failed by metis
  qed
next
  case (calls_update s s1 obj e s2)
  show ?case
  proof (cases e)
    case None
    with calls_update.hyps(3) obtain stored where "keeps obj stored" "lookup s2 = (lookup s1)(keyOf obj \<mapsto> stored)"
      using update_lookup by metis
    with calls_update show ?thesis by (auto simp: manifestObject_def split: if_splits)
  next
    case (Some err)
    with calls_update show ?thesis using update_failed by metis
  qed
qed simp

lemma step_wellTyped:
  assumes "step c lookup marshal s s'" "wellTyped (lookup s)"
  shows "wellTyped (lookup s')"
  using assms(1)
proof (cases rule: step_cases)
  case (start_up newClient e)
  then show ?thesis using calls_wellTyped [OF createDefault_calls] assms(2) by blast
next
  case (operator_config env r)
  then show ?thesis using calls_wellTyped [OF operator_Reconcile_calls] assms(2) by blast
next
  case (ptp_config srt res)
  from PtpConfig_Reconcile_cases [OF ptp_config assms(2)] show ?thesis
    using assms(2) by (metis wellTyped_upd)
qed simp

lemma reachable_wellTyped: "reachable c lookup marshal s \<Longrightarrow> wellTyped (lookup s)"
  by (induction rule: reachable.induct) (auto simp: installed_def dest: step_wellTyped)

lemma step_publishedOk:
  assumes "reachable c lookup marshal s" "step c lookup marshal s s'" "publishedOk c lookup marshal (lookup s)"
  shows "publishedOk c lookup marshal (lookup s')"
  unfolding publishedOk_def
proof (intro allI impI)
  fix cm
  assume cm: "lookup s' publishedKey = Some (ConfigMapObj cm)"
  note typed = reachable_wellTyped [OF assms(1)]
  have old: "cm_Data cm = [] \<or> computed c lookup marshal (cm_Data cm)"
    if "lookup s publishedKey = Some (ConfigMapObj cm) \<or> cm_Data cm = []"
    using that assms(3) by (auto simp: publishedOk_def)
  from assms(2) show "cm_Data cm = [] \<or> computed c lookup marshal (cm_Data cm)"
  proof (cases rule: step_cases)
    case (start_up newClient e)
    then show ?thesis using old operatorCalls_published [OF createDefault_calls [OF start_up] cm] by blast
  next
    case (operator_config env r)
    then show ?thesis using old operatorCalls_published [OF operator_Reconcile_calls [OF operator_config] cm] by blast
  next
    case (ptp_config srt res)
    show ?thesis
    proof (cases rule: PtpConfig_Reconcile_cases [OF ptp_config typed])
      case 1
      with cm old show ?thesis by simp
    next
      case (2 cfgs nodes d cm0 stored)
      then have "cm_Data cm = d" using cm by simp
      with 2(4) lists_of_fleet [OF typed 2(2,3)] assms(1) show ?thesis
        unfolding computed_def by blast
    qed
  next
    case others
    with cm old show ?thesis by auto
  qed
qed

end

section \<open>Invariants\<close>

context api_client
begin

lemma reachable_publishedOk:
  "reachable c lookup marshal s \<Longrightarrow> publishedOk c lookup marshal (lookup s)"
proof (induction rule: reachable.induct)
  case (reachable_start s)
  then show ?case by (simp add: publishedOk_def installed_def)
next
  case (reachable_step s s')
  then show ?case using step_publishedOk by blast
qed

end



section \<open>An example run\<close>

text \<open>An installation with one configuration, one node and an empty ConfigMap, and a PtpConfig step.\<close>

definition exInstalled :: Tracker where
  "exInstalled = [((ptpKind ''PtpConfig'', [], ''c''), PtpConfigObj exFleetConfig),
     ((coreKind ''Node'', [], ''n1''), NodeObj exNode),
     (publishedKey, ConfigMapObj (exPublished\<lparr>cm_Data := []\<rparr>))]"

definition exRunning :: Tracker where
  "exRunning = snd (PtpConfig_Reconcile insertionSort exMarshal trackerClient exInstalled)"

lemma exRunning_published:
  "map_of exRunning publishedKey = Some (ConfigMapObj (exPublished\<lparr>cm_Data := [(''n1'', ''a,b'')]\<rparr>))"
  by code_simp

lemma exRunning_reachable: "reachable trackerClient map_of exMarshal exRunning"
proof (rule reachable_step [OF reachable_start ptp_config])
  show "installed (map_of exInstalled)"
    by (auto simp: installed_def wellTyped_def exInstalled_def exFleetConfig_def exPublished_def cmKey_def ex_defs
        coreKind_def ptpKind_def split: if_splits)
  show "PtpConfig_Reconcile insertionSort exMarshal trackerClient exInstalled =
      (fst (PtpConfig_Reconcile insertionSort exMarshal trackerClient exInstalled), exRunning)"
    by (simp add: exRunning_def)
qed



end
