(* ===== verification/Bootstrap.thy ===== *)
theory Bootstrap
  imports Operator_System
begin

text \<open>
  From an empty installation to published profiles: the default configuration that \<^verbatim>\<open>main.go\<close> creates
  when its webhook server answers, one reconciliation of it, and one of the PtpConfigs. Each part
  leaves what the next one needs: the configuration, then the ConfigMap of the profiles; and none of
  them touches the configurations and nodes from which the profiles are computed.
\<close>

section \<open>Fleets that differ in what is published\<close>

text \<open>The keys of the objects that the profiles are computed from.\<close>

definition fleetKey :: "Key \<Rightarrow> bool" where
  "fleetKey k \<longleftrightarrow> fst k = ptpKind ''PtpConfig'' \<or> fst k = coreKind ''Node''"

definition sameFleet :: "(Key \<rightharpoonup> Object) \<Rightarrow> (Key \<rightharpoonup> Object) \<Rightarrow> bool" where
  "sameFleet m m' \<longleftrightarrow> (\<forall>k. fleetKey k \<longrightarrow> m' k = m k)"

lemma sameFleet_refl [simp]: "sameFleet m m"
  by (simp add: sameFleet_def)

lemma sameFleet_trans: "sameFleet m m' \<Longrightarrow> sameFleet m' m'' \<Longrightarrow> sameFleet m m''"
  by (simp add: sameFleet_def)

lemma sameFleet_upd: "\<not> fleetKey k \<Longrightarrow> sameFleet m (m(k \<mapsto> x))"
  by (auto simp: sameFleet_def)

lemma sameFleetI:
  assumes "\<And>k. k \<notin> K \<Longrightarrow> m' k = m k" "\<forall>k \<in> K. \<not> fleetKey k"
  shows "sameFleet m m'"
  unfolding sameFleet_def
proof (intro allI impI)
  fix k assume "fleetKey k"
  with assms(2) have "k \<notin> K" by blast
  then show "m' k = m k" by (rule assms(1))
qed

lemma sameFleet_adds: "addsOnly m m' K \<Longrightarrow> \<forall>k \<in> K. \<not> fleetKey k \<Longrightarrow> sameFleet m m'"
  by (rule sameFleetI [OF addsOnly_other])

lemma sameFleet_changes: "changesOnly m m' K \<Longrightarrow> \<forall>k \<in> K. \<not> fleetKey k \<Longrightarrow> sameFleet m m'"
  using sameFleetI [of K m' m] unfolding changesOnly_def by blast

lemma fleetKeys [simp]:
  "\<not> fleetKey cfgKey" "\<not> fleetKey (cmKey name)" "\<not> fleetKey (deviceKey node)"
  "fleetKey (ptpKind ''PtpConfig'', ns, name)" "fleetKey (coreKind ''Node'', ns, name)"
  by (simp_all add: fleetKey_def cmKey_def deviceKey_def coreKind_def ptpKind_def)

lemma sameFleet_parts:
  assumes "sameFleet m m'"
  shows "fleet_Configs (absFleet m') = fleet_Configs (absFleet m)"
    "fleet_Nodes (absFleet m') = fleet_Nodes (absFleet m)"
proof -
  have "m' (ptpKind ''PtpConfig'', ns, name) = m (ptpKind ''PtpConfig'', ns, name)"
    "m' (coreKind ''Node'', ns, name) = m (coreKind ''Node'', ns, name)" for ns name
    using assms by (simp_all add: sameFleet_def)
  then show "fleet_Configs (absFleet m') = fleet_Configs (absFleet m)"
    "fleet_Nodes (absFleet m') = fleet_Nodes (absFleet m)"
    by (simp_all add: absFleet_def)
qed

lemma fleet_parts_eq:
  assumes "fleet_Configs f' = fleet_Configs f" "fleet_Nodes f' = fleet_Nodes f"
  shows "publishable marshal f' = publishable marshal f" "publishes marshal f' g = publishes marshal f g"
proof -
  have "fleetProfiles f' = fleetProfiles f" "fleetRecommend f' = fleetRecommend f"
    using assms by (simp_all add: fleetProfiles_def fleetRecommend_def)
  with assms show "publishable marshal f' = publishable marshal f" "publishes marshal f' g = publishes marshal f g"
    by (simp_all add: publishable_def publishes_def uniquelyNamed_def deployable_def)
qed

lemma sameFleet_listing:
  assumes "sameFleet m m'"
  shows "nodeListing m' nodes \<longleftrightarrow> nodeListing m nodes"
proof -
  have eq: "m' k = m k" if "fst k = coreKind ''Node''" for k
    using assms that by (simp add: sameFleet_def fleetKey_def del: split_paired_All)
  have keys: "{k \<in> dom m'. fst k = coreKind ''Node''} = {k \<in> dom m. fst k = coreKind ''Node''}"
    using eq by (auto simp: dom_def)
  have objs: "map (\<lambda>k. the (m' k)) ks = map (\<lambda>k. the (m k)) ks"
    if "set ks = {k \<in> dom m. fst k = coreKind ''Node''}" for ks
    using that eq by simp
  have "listing (coreKind ''Node'') m' objs \<longleftrightarrow> listing (coreKind ''Node'') m objs" for objs
    unfolding listing_def keys by (intro ex_cong1 conj_cong refl) (simp only: objs)
  then show ?thesis by (simp add: nodeListing_def)
qed

section \<open>Starting up\<close>

text \<open>
  The manifests do not contain objects of the operator's own resources or nodes, and can be installed,
  whatever the server adds to the metadata of the default configuration.
\<close>

definition bootable :: "'t Env \<Rightarrow> (Key \<rightharpoonup> Object) \<Rightarrow> bool" where
  "bootable env m \<longleftrightarrow>
     (\<forall>cfg nodes. oconfig_Spec cfg = oconfig_Spec defaultConfig \<and> homeNamespace cfg \<and> nodeListing m nodes \<longrightarrow>
        installable env cfg m nodes \<and>
        (\<forall>obj \<in> set (desiredObjects env cfg nodes). \<not> fleetKey (objKey obj) \<and> objKey obj \<noteq> cfgKey))"

lemma installable_cfg:
  assumes "installable env cfg m nodes" "\<forall>obj \<in> set (desiredObjects env cfg nodes). objKey obj \<noteq> cfgKey"
  shows "installable env cfg (m(cfgKey \<mapsto> x)) nodes"
proof -
  have keys: "deviceKey node \<noteq> cfgKey" "cmKey name \<noteq> cfgKey" for node name
    by (simp_all add: deviceKey_def cmKey_def coreKind_def ptpKind_def)
  show ?thesis
    using assms by (simp add: installable_def slots_def keys del: keyOf.simps)
qed

context reliable_client
begin

lemma createDefault_installs:
  assumes "wellTyped (lookup s)" "lookup s cfgKey = None"
  shows "\<exists>s1 cfg. createDefaultOperatorConfig None c s = (None, s1) \<and>
    lookup s1 = (lookup s)(cfgKey \<mapsto> PtpOperatorConfigObj cfg) \<and>
    oconfig_Spec cfg = oconfig_Spec defaultConfig \<and> homeNamespace cfg \<and> wellTyped (lookup s1)"
proof -
  obtain err s0 where get: "typedResult asPtpOperatorConfig (client_Get c cfgKey s) = (Inl err, s0)"
    "IsNotFound err" and s0: "lookup s0 = lookup s"
    using typed_get_reports [OF assms(2)] by metis
  have "keyOf (PtpOperatorConfigObj defaultConfig) = cfgKey" by (simp add: defaultConfig_def emptyMeta_def)
  from create_progress [OF s0 assms(2) this] obtain s1 stored where
    cr: "client_Create c (PtpOperatorConfigObj defaultConfig) s0 = (None, s1)"
    and s1: "lookup s1 = (lookup s)(cfgKey \<mapsto> stored)"
    and st: "keeps (PtpOperatorConfigObj defaultConfig) stored" by metis
  from st obtain cfg where cfg: "stored = PtpOperatorConfigObj cfg" "oconfig_Spec cfg = oconfig_Spec defaultConfig"
    by auto
  have run: "createDefaultOperatorConfig None c s = (None, s1)"
    using get cr by (simp add: createDefaultOperatorConfig_def GetPtpOperatorConfig_def)
  have typed: "wellTyped (lookup s1)" by (rule calls_wellTyped [OF createDefault_calls [OF run] assms(1)])
  have "lookup s1 cfgKey = Some (PtpOperatorConfigObj cfg)" by (simp add: s1 cfg(1))
  then have "keyOf (PtpOperatorConfigObj cfg) = cfgKey" by (rule wellTypedD [OF typed])
  then have "homeNamespace cfg" by (simp add: homeNamespace_def)
  with run s1 cfg typed show ?thesis by blast
qed

lemma bootstrap:
  assumes "sort_slice_contract srt" "wellTyped (lookup s)" "lookup s cfgKey = None"
    and "bootable env (lookup s)" "publishable marshal (absFleet (lookup s))"
  shows "\<exists>s1 s2 s3. createDefaultOperatorConfig None c s = (None, s1) \<and>
    PtpOperatorConfig_Reconcile c env s1 = ((\<lparr>result_RequeueAfter = ResyncPeriod\<rparr>, None), s2) \<and>
    PtpConfig_Reconcile srt marshal c s2 = (Ret (emptyResult, None), s3) \<and>
    publishes marshal (absFleet (lookup s)) (absFleet (lookup s3))"
proof -
  obtain s1 cfg where s1: "createDefaultOperatorConfig None c s = (None, s1)"
    "lookup s1 = (lookup s)(cfgKey \<mapsto> PtpOperatorConfigObj cfg)"
    and cfg: "oconfig_Spec cfg = oconfig_Spec defaultConfig" "homeNamespace cfg"
    and typed1: "wellTyped (lookup s1)"
    using createDefault_installs [OF assms(2,3)] by (elim exE conjE) (rule that)
  have same1: "sameFleet (lookup s) (lookup s1)" unfolding s1(2) by (rule sameFleet_upd) simp
  have boot: "installable env cfg (lookup s) nodes"
    "\<forall>obj \<in> set (desiredObjects env cfg nodes). \<not> fleetKey (objKey obj) \<and> objKey obj \<noteq> cfgKey"
    if "nodeListing (lookup s) nodes" for nodes
    using assms(4) cfg that by (simp_all add: bootable_def del: keyOf.simps)
  have inst: "installable env cfg (lookup s1) nodes" if "nodeListing (lookup s1) nodes" for nodes
    using boot [of nodes] that sameFleet_listing [OF same1] unfolding s1(2) by (intro installable_cfg) blast+
  have here: "lookup s1 cfgKey = Some (PtpOperatorConfigObj cfg)" by (simp add: s1(2))
  obtain nodes s4 s2 cm where nodes: "nodeListing (lookup s1) nodes"
    and s4: "addsOnly (lookup s1) (lookup s4) (baseKeys nodes)"
      "lookup s4 publishedKey = Some (ConfigMapObj cm)"
      "changesOnly (lookup s4) (lookup s2) (objKey ` set (desiredObjects env cfg nodes))"
    and run2: "PtpOperatorConfig_Reconcile c env s1 = ((\<lparr>result_RequeueAfter = ResyncPeriod\<rparr>, None), s2)"
    by (rule exE [OF Reconcile_installs [OF here cfg(2), of env]]) (use inst in blast, elim exE conjE, rule that)
  note nodes' = nodes [unfolded sameFleet_listing [OF same1]]
  have manifest: "\<forall>k \<in> objKey ` set (desiredObjects env cfg nodes). \<not> fleetKey k"
    using boot(2) [OF nodes'] by (simp del: keyOf.simps)
  have base: "\<forall>k \<in> baseKeys nodes. \<not> fleetKey k" by (auto simp: baseKeys_def)
  have same2: "sameFleet (lookup s) (lookup s2)"
    by (rule sameFleet_trans [OF same1 sameFleet_trans [OF sameFleet_adds [OF s4(1) base] sameFleet_changes [OF s4(3) manifest]]])
  have "publishedKey \<in> baseKeys nodes" by (simp add: baseKeys_def)
  then have "publishedKey \<notin> objKey ` set (desiredObjects env cfg nodes)"
    using boot(1) [OF nodes'] unfolding installable_def by blast
  then have cm: "lookup s2 publishedKey = Some (ConfigMapObj cm)"
    using s4(2,3) unfolding changesOnly_def by metis
  have typed2: "wellTyped (lookup s2)" by (rule calls_wellTyped [OF operator_Reconcile_calls [OF run2] typed1])
  note parts = fleet_parts_eq [OF sameFleet_parts [OF same2]]
  obtain s3 where "PtpConfig_Reconcile srt marshal c s2 = (Ret (emptyResult, None), s3)"
    "publishes marshal (absFleet (lookup s2)) (absFleet (lookup s3))"
    using Reconcile_publishes [OF assms(1) typed2 cm] assms(5) parts(1) by blast
  with s1(1) run2 parts(2) show ?thesis by blast
qed

end

text \<open>The goroutine of \<^verbatim>\<open>main\<close> creates the default once a poll succeeds in time.\<close>

lemma createDefaultWhenReady_ready:
  assumes "fst (checker n) = None" "\<forall>j < n. pollTime checker late j \<le> waitTimeout"
  shows "createDefaultWhenReady None checker late newClient c s = Some (createDefaultOperatorConfig newClient c s)"
proof -
  define n0 where "n0 = (LEAST n. fst (checker n) = None)"
  have first: "fst (checker n0) = None" "n0 \<le> n" unfolding n0_def using assms(1) by (rule LeastI, rule Least_le)
  have "fst (checker j) \<noteq> None" if "j < n0" for j using that unfolding n0_def by (rule not_less_Least)
  then have "\<forall>j. 0 \<le> j \<and> j < n0 \<longrightarrow> pollsOn checker late j"
    using assms(2) first(2) by (simp add: pollsOn_def)
  with first(1) have "waitLoop checker late 0 0 = Some None"
    by (subst waitLoop_result [of 0 n0]) (auto simp: pollsOn_def)
  then show ?thesis by (simp add: createDefaultWhenReady_def waitForWebhookServer_def)
qed

text \<open>
  (C7) The parts of the operator together: on a cluster without a configuration, against a server
  that is up and once the webhook server answers in time, the start-up creates the default
  configuration, the reconciliation of it installs the manifests and the ConfigMap, and the next
  reconciliation of the PtpConfigs publishes for every node the profiles that are chosen for it, all
  without an error and without changing what the profiles are computed from.
\<close>
theorem operator_bootstraps:
  assumes "reliable_client c lookup" and "sort_slice_contract srt" and "wellTyped (lookup s)"
    and "lookup s cfgKey = None" and "bootable env (lookup s)"
    and "publishable marshal (absFleet (lookup s))"
    and "fst (checker n) = None" and "\<forall>j < n. pollTime checker late j \<le> waitTimeout"
  shows "\<exists>s1 s2 s3. createDefaultWhenReady None checker late None c s = Some (None, s1) \<and>
    PtpOperatorConfig_Reconcile c env s1 = ((\<lparr>result_RequeueAfter = ResyncPeriod\<rparr>, None), s2) \<and>
    PtpConfig_Reconcile srt marshal c s2 = (Ret (emptyResult, None), s3) \<and>
    publishes marshal (absFleet (lookup s)) (absFleet (lookup s3))"
  unfolding createDefaultWhenReady_ready [of checker, OF assms(7,8)] option.inject
  by (rule reliable_client.bootstrap [OF assms(1), OF assms(2-6)])

section \<open>An example\<close>

text \<open>The fleet of the PtpConfig examples on a cluster that has nothing else, with one manifest.\<close>

definition exampleBare :: Tracker where
  "exampleBare = [((ptpKind ''PtpConfig'', [], ''c''), PtpConfigObj exFleetConfig),
     ((coreKind ''Node'', [], ''n1''), NodeObj exNode)]"

lemma bare_fleet:
  "fleet_Configs (absFleet (map_of exampleBare)) = fleet_Configs (absFleet (map_of (exTracker exFleetConfig)))"
  "fleet_Nodes (absFleet (map_of exampleBare)) = fleet_Nodes (absFleet (map_of (exTracker exFleetConfig)))"
  by (auto simp: absFleet_def exampleBare_def exTracker_def cmKey_def coreKind_def ptpKind_def)

lemma bare_publishable: "publishable exMarshal (absFleet (map_of exampleBare))"
  unfolding fleet_parts_eq(1) [OF bare_fleet]
  by (simp add: publishable_def exFleet_unique exTracker_fleet exFleet_deployable exMarshal_def)

lemma bare_typed: "wellTyped (map_of exampleBare)"
  by (auto simp: wellTyped_def exampleBare_def exFleetConfig_def ex_defs split: if_splits)

lemma exampleDaemonSet_facts:
  "GetNamespace exampleDaemonSet = Namespace" "GetControllerOf (GetOwnerReferences exampleDaemonSet) = None"
  "hasMeta exampleDaemonSet" "applicable exampleDaemonSet"
  "objKey exampleDaemonSet = (\<lparr>gvk_Group = ''apps'', gvk_Version = ''v1'', gvk_Kind = ''DaemonSet''\<rparr>,
     Namespace, ''linuxptp-daemon'')"
  by code_simp+

text \<open>Whatever metadata the server adds to the configuration, the manifest gets its owner and can be applied.\<close>

lemma example_owned_any:
  assumes "homeNamespace cfg"
  shows "\<exists>owned. SetControllerReference cfg exampleDaemonSet = Inr owned \<and>
    objKey owned = objKey exampleDaemonSet \<and> applicable owned"
proof -
  define refs where "refs = upsertOwnerRef (controllerRef cfg) (GetOwnerReferences exampleDaemonSet)"
  have "newOwnerRefs cfg Namespace (GetName exampleDaemonSet) (GetOwnerReferences exampleDaemonSet) = Inr refs"
    using assms exampleDaemonSet_facts(2) by (auto simp: newOwnerRefs_ok homeNamespace_def refs_def)
  then have refs: "SetControllerReference cfg exampleDaemonSet = Inr (SetOwnerReferences exampleDaemonSet refs)"
    using exampleDaemonSet_facts(1) by (simp add: SetControllerReference_def)
  have key: "objKey (SetOwnerReferences exampleDaemonSet refs) = objKey exampleDaemonSet"
    by (rule SetOwnerReferences_key [OF exampleDaemonSet_facts(3)])
  then have "applicable (SetOwnerReferences exampleDaemonSet refs)"
    using exampleDaemonSet_facts(4,5) by (simp add: applicable_def IsObjectSupported_def)
  with refs key show ?thesis by blast
qed

lemma bare_bootable: "bootable exampleEnv (map_of exampleBare)"
  unfolding bootable_def
proof (intro allI impI)
  fix cfg nodes
  assume cfg: "oconfig_Spec cfg = oconfig_Spec defaultConfig \<and> homeNamespace cfg \<and>
    nodeListing (map_of exampleBare) nodes"
  then obtain owned where owned: "SetControllerReference cfg exampleDaemonSet = Inr owned"
    "objKey owned = objKey exampleDaemonSet" "applicable owned"
    using example_owned_any by blast
  have spec: "ospec_EventConfig (oconfig_Spec cfg) = None" "ospec_DaemonNodeSelector (oconfig_Spec cfg) = []"
    using cfg by (simp_all add: defaultConfig_def)
  obtain d where d: "daemonData exampleEnv cfg = Inr d"
    by (auto simp: daemonData_def eventData_def spec)
  have one: "daemonObject exampleEnv cfg exampleDaemonSet = Some owned"
    by (simp add: daemonObject_def setDaemonNodeSelector_def spec owned(1))
  have objects: "desiredObjects exampleEnv cfg nodes = [owned]"
    by (simp add: desiredObjects_def rendered_def d example_render map_filter_simps one spec)
  have renders: "renders exampleEnv cfg nodes"
    by (simp add: renders_def d example_render one spec)
  note key = owned(2) [unfolded exampleDaemonSet_facts(5)]
  have empty: "slots (map_of exampleBare) nodes" "map_of exampleBare (objKey owned) = None"
    unfolding key
    by (simp_all add: slots_def slot_def exampleBare_def deviceKey_def cmKey_def coreKind_def ptpKind_def)
  have apart: "objKey owned \<notin> baseKeys nodes" "\<not> fleetKey (objKey owned)" "objKey owned \<noteq> cfgKey"
    unfolding key by (auto simp: baseKeys_def fleetKey_def deviceKey_def cmKey_def coreKind_def ptpKind_def)
  show "installable exampleEnv cfg (map_of exampleBare) nodes \<and>
    (\<forall>obj \<in> set (desiredObjects exampleEnv cfg nodes). \<not> fleetKey (objKey obj) \<and> objKey obj \<noteq> cfgKey)"
    using renders empty apart owned(3)
    by (simp add: installable_def objects ready_def del: keyOf.simps)
qed

theorem operator_bootstraps_witness:
  "\<exists>s1 s2 s3. createDefaultWhenReady None exampleChecker (\<lambda>_. 0) None trackerClient exampleBare = Some (None, s1) \<and>
    PtpOperatorConfig_Reconcile trackerClient exampleEnv s1 = ((\<lparr>result_RequeueAfter = ResyncPeriod\<rparr>, None), s2) \<and>
    PtpConfig_Reconcile insertionSort exMarshal trackerClient s2 = (Ret (emptyResult, None), s3) \<and>
    dom (fleet_Published (absFleet (map_of s3))) = {''n1''}"
proof -
  have "map_of exampleBare cfgKey = None" by (simp add: exampleBare_def coreKind_def ptpKind_def)
  moreover have "fst (exampleChecker 2) = None" by (simp add: exampleChecker_def)
  moreover have "\<forall>j < 2. pollTime exampleChecker (\<lambda>_. 0) j \<le> waitTimeout"
    by (auto simp: less_2_cases_iff exampleChecker_def waitTimeout_def pollingFreq_def)
  ultimately obtain s1 s2 s3 where
    "createDefaultWhenReady None exampleChecker (\<lambda>_. 0) None trackerClient exampleBare = Some (None, s1)"
    "PtpOperatorConfig_Reconcile trackerClient exampleEnv s1 = ((\<lparr>result_RequeueAfter = ResyncPeriod\<rparr>, None), s2)"
    "PtpConfig_Reconcile insertionSort exMarshal trackerClient s2 = (Ret (emptyResult, None), s3)"
    "publishes exMarshal (absFleet (map_of exampleBare)) (absFleet (map_of s3))"
    using operator_bootstraps [OF tracker_contract(2) ins.sort_slice_contract_axioms bare_typed _ bare_bootable
        bare_publishable] by blast
  moreover have "node_Name exNode = ''n1''" by (simp add: ex_defs)
  ultimately show ?thesis by (auto simp: publishes_def bare_fleet exTracker_fleet)
qed

end
