(* ===== verification/Go_Heap.thy ===== *)
theory Go_Heap
  imports Prelude
begin

text \<open>
  An explicit store for Go values, for the code whose point is what is shared: pointers, slices and
  maps are addresses of cells, a struct is a list of named fields. On it the primitives of generated
  deep copies, a reference deep copy by type, and its correctness: the copy reads as the original, uses
  new cells only, and leaves the old ones as they were.

  A cell holds the value a pointer points to, the array of a slice or the entries of a map. The store
  is the list of cells, an address a position in it; allocation appends. Strings are immutable in Go and
  are values.
\<close>

section \<open>Values and types\<close>

datatype GoVal =
    VString string
  | VInt int
  | VBool bool
  | VPtr "nat option"
  | VSlice "nat option"
  | VMap "nat option"
  | VStruct "(string \<times> GoVal) list"
  | VArr "GoVal list"
  | VEntries "(string \<times> GoVal) list"
  | VZero

text \<open>
  Types say where the pointers are: a flat value has none. All maps of the API have strings as keys.
\<close>

datatype GoType =
    TFlat
  | TPtr GoType
  | TSlice GoType
  | TMap GoType
  | TStruct "(string \<times> GoType) list"

type_synonym Store = "GoVal list"
type_synonym copier = "GoVal \<Rightarrow> Store \<Rightarrow> GoVal \<times> Store"

fun flat :: "GoVal \<Rightarrow> bool" where
  "flat (VString s) = True" | "flat (VInt i) = True" | "flat (VBool b) = True" | "flat v = False"

fun elems :: "GoVal \<Rightarrow> GoVal list" where
  "elems (VArr vs) = vs" | "elems v = []"

fun entries :: "GoVal \<Rightarrow> (string \<times> GoVal) list" where
  "entries (VEntries es) = es" | "entries v = []"

fun structFields :: "GoVal \<Rightarrow> (string \<times> GoVal) list" where
  "structFields (VStruct fs) = fs" | "structFields v = []"

definition getField :: "string \<Rightarrow> GoVal \<Rightarrow> GoVal" where
  "getField n v = (case map_of (structFields v) n of Some x \<Rightarrow> x | None \<Rightarrow> VZero)"

definition setField :: "string \<Rightarrow> GoVal \<Rightarrow> GoVal \<Rightarrow> GoVal" where
  "setField n x v = VStruct (AList.update n x (structFields v))"

section \<open>The statements of a deep copy\<close>

text \<open>\<^verbatim>\<open>*out = *in\<close>\<close>

definition assign :: copier where
  "assign v h = (v, h)"

text \<open>\<^verbatim>\<open>new(T)\<close>, \<^verbatim>\<open>make([]T, n)\<close> and \<^verbatim>\<open>make(map[string]T, n)\<close>: the zeroed cell is written before it is read.\<close>

definition new :: "Store \<Rightarrow> nat \<times> Store" where
  "new h = (length h, h @ [VZero])"

text \<open>\<^verbatim>\<open>if *in != nil { *out = new(T); (**in).DeepCopyInto(*out) }\<close>\<close>

definition copyPtr :: "copier \<Rightarrow> copier" where
  "copyPtr f v h =
     (case v of
        VPtr (Some a) \<Rightarrow>
          (let (b, h) = new h; (x, h) = f (h ! a) h in (VPtr (Some b), h[b := x]))
      | _ \<Rightarrow> (v, h))"

text \<open>\<^verbatim>\<open>for i := range *in { (*in)[i].DeepCopyInto(&(*out)[i]) }\<close>; \<^verbatim>\<open>copy(*out, *in)\<close> is the loop of assignments.\<close>

fun copyElems :: "copier \<Rightarrow> GoVal list \<Rightarrow> Store \<Rightarrow> GoVal list \<times> Store" where
  "copyElems f [] h = ([], h)"
| "copyElems f (v # vs) h =
     (let (x, h) = f v h; (xs, h) = copyElems f vs h in (x # xs, h))"

definition copySlice :: "copier \<Rightarrow> copier" where
  "copySlice f v h =
     (case v of
        VSlice (Some a) \<Rightarrow>
          (let (b, h) = new h; (xs, h) = copyElems f (elems (h ! a)) h in (VSlice (Some b), h[b := VArr xs]))
      | _ \<Rightarrow> (v, h))"

text \<open>\<^verbatim>\<open>for key, val := range *in { (*out)[key] = ... }\<close>\<close>

fun copyEntries :: "copier \<Rightarrow> (string \<times> GoVal) list \<Rightarrow> Store \<Rightarrow> (string \<times> GoVal) list \<times> Store" where
  "copyEntries f [] h = ([], h)"
| "copyEntries f ((k, v) # es) h =
     (let (x, h) = f v h; (xs, h) = copyEntries f es h in ((k, x) # xs, h))"

definition copyMap :: "copier \<Rightarrow> copier" where
  "copyMap f v h =
     (case v of
        VMap (Some a) \<Rightarrow>
          (let (b, h) = new h; (xs, h) = copyEntries f (entries (h ! a)) h in (VMap (Some b), h[b := VEntries xs]))
      | _ \<Rightarrow> (v, h))"

text \<open>A struct: \<^verbatim>\<open>*out = *in\<close>, then the fields that are copied, in order.\<close>

fun copyFields :: "(string \<times> copier) list \<Rightarrow> GoVal \<Rightarrow> GoVal \<Rightarrow> Store \<Rightarrow> GoVal \<times> Store" where
  "copyFields [] inp out h = (out, h)"
| "copyFields ((n, f) # cs) inp out h =
     (let (x, h) = f (getField n inp) h in copyFields cs inp (setField n x out) h)"

definition copyStruct :: "(string \<times> copier) list \<Rightarrow> copier" where
  "copyStruct cs inp h = copyFields cs inp inp h"

text \<open>\<^verbatim>\<open>DeepCopy\<close> and \<^verbatim>\<open>DeepCopyObject\<close> of a pointer; a nil interface is the nil pointer.\<close>

definition deepCopyOf :: "copier \<Rightarrow> copier" where
  "deepCopyOf into p h =
     (case p of
        VPtr (Some a) \<Rightarrow>
          (let (out, h) = new h; (x, h) = into (h ! a) h in (VPtr (Some out), h[out := x]))
      | _ \<Rightarrow> (VPtr None, h))"

definition deepCopyObjectOf :: "copier \<Rightarrow> copier" where
  "deepCopyObjectOf copy p h =
     (case copy p h of
        (VPtr (Some c), h) \<Rightarrow> (VPtr (Some c), h)
      | (_, h) \<Rightarrow> (VPtr None, h))"

section \<open>The reference\<close>

text \<open>Deep copy by type: everything behind a pointer, a slice or a map is made anew.\<close>

fun deepCopy :: "GoType \<Rightarrow> copier"
  and fieldCopiers :: "(string \<times> GoType) list \<Rightarrow> (string \<times> copier) list"
where
  "deepCopy TFlat = assign"
| "deepCopy (TPtr T) = copyPtr (deepCopy T)"
| "deepCopy (TSlice T) = copySlice (deepCopy T)"
| "deepCopy (TMap T) = copyMap (deepCopy T)"
| "deepCopy (TStruct fs) = copyStruct (fieldCopiers fs)"
| "fieldCopiers [] = []"
| "fieldCopiers ((n, T) # fs) =
     (if T = TFlat then fieldCopiers fs else (n, deepCopy T) # fieldCopiers fs)"

text \<open>What a value reads as when every pointer is followed.\<close>

datatype Tree =
    Leaf GoVal
  | NilRef
  | Pointee Tree
  | Elems "Tree list"
  | Entries "(string \<times> Tree) list"
  | Fields "(string \<times> Tree) list"

fun readVal :: "GoType \<Rightarrow> Store \<Rightarrow> GoVal \<Rightarrow> Tree"
  and readFields :: "(string \<times> GoType) list \<Rightarrow> Store \<Rightarrow> GoVal \<Rightarrow> (string \<times> Tree) list"
where
  "readVal TFlat h v = Leaf v"
| "readVal (TPtr T) h v = (case v of VPtr (Some a) \<Rightarrow> Pointee (readVal T h (h ! a)) | _ \<Rightarrow> NilRef)"
| "readVal (TSlice T) h v =
     (case v of VSlice (Some a) \<Rightarrow> Elems (map (\<lambda>x. readVal T h x) (elems (h ! a))) | _ \<Rightarrow> NilRef)"
| "readVal (TMap T) h v =
     (case v of VMap (Some a) \<Rightarrow> Entries (map (\<lambda>e. (fst e, readVal T h (snd e))) (entries (h ! a))) | _ \<Rightarrow> NilRef)"
| "readVal (TStruct fs) h v = Fields (readFields fs h v)"
| "readFields [] h v = []"
| "readFields ((n, T) # fs) h v = (n, readVal T h (getField n v)) # readFields fs h v"

text \<open>
  A value has a type, and every address it reaches is allocated and at least \<open>n\<close>. The names of the
  fields of a struct are distinct.
\<close>

fun owned :: "nat \<Rightarrow> GoType \<Rightarrow> Store \<Rightarrow> GoVal \<Rightarrow> bool"
  and ownedFields :: "nat \<Rightarrow> (string \<times> GoType) list \<Rightarrow> Store \<Rightarrow> GoVal \<Rightarrow> bool"
where
  "owned n TFlat h v = flat v"
| "owned n (TPtr T) h v =
     (case v of VPtr None \<Rightarrow> True
      | VPtr (Some a) \<Rightarrow> n \<le> a \<and> a < length h \<and> owned n T h (h ! a) | _ \<Rightarrow> False)"
| "owned n (TSlice T) h v =
     (case v of VSlice None \<Rightarrow> True
      | VSlice (Some a) \<Rightarrow> n \<le> a \<and> a < length h \<and> h ! a = VArr (elems (h ! a)) \<and>
          list_all (\<lambda>x. owned n T h x) (elems (h ! a))
      | _ \<Rightarrow> False)"
| "owned n (TMap T) h v =
     (case v of VMap None \<Rightarrow> True
      | VMap (Some a) \<Rightarrow> n \<le> a \<and> a < length h \<and> h ! a = VEntries (entries (h ! a)) \<and>
          list_all (\<lambda>e. owned n T h (snd e)) (entries (h ! a))
      | _ \<Rightarrow> False)"
| "owned n (TStruct fs) h v =
     (v = VStruct (structFields v) \<and> map fst (structFields v) = map fst fs \<and> distinct (map fst fs) \<and>
      ownedFields n fs h v)"
| "ownedFields n [] h v = True"
| "ownedFields n ((m, T) # fs) h v = (owned n T h (getField m v) \<and> ownedFields n fs h v)"

section \<open>What a value depends on\<close>

text \<open>A value is read the same in every store that agrees on the cells it owns.\<close>

lemma owned_agree:
  "owned n T h v \<Longrightarrow> length h \<le> length k \<Longrightarrow> \<forall>a. n \<le> a \<and> a < length h \<longrightarrow> k ! a = h ! a \<Longrightarrow>
   owned n T k v \<and> readVal T k v = readVal T h v"
  "ownedFields n fs h v \<Longrightarrow> length h \<le> length k \<Longrightarrow> \<forall>a. n \<le> a \<and> a < length h \<longrightarrow> k ! a = h ! a \<Longrightarrow>
   ownedFields n fs k v \<and> readFields fs k v = readFields fs h v"
proof (induction n T h v and n fs h v rule: owned_ownedFields.induct)
  case (3 n T h v)
  then show ?case by (auto simp: list_all_iff split: GoVal.splits option.splits)
next
  case (4 n T h v)
  then show ?case by (fastforce simp: list_all_iff split: GoVal.splits option.splits)
qed (auto split: GoVal.splits option.splits)

lemma owned_mono:
  "owned n T h v \<Longrightarrow> m \<le> n \<Longrightarrow> owned m T h v"
  "ownedFields n fs h v \<Longrightarrow> m \<le> n \<Longrightarrow> ownedFields m fs h v"
proof (induction n T h v and n fs h v rule: owned_ownedFields.induct)
  case (3 n T h v)
  then show ?case by (auto simp: list_all_iff split: GoVal.splits option.splits)
next
  case (4 n T h v)
  then show ?case by (auto simp: list_all_iff split: GoVal.splits option.splits)
qed (auto split: GoVal.splits option.splits)

lemma owned_append: "owned n T h v \<Longrightarrow> owned n T (h @ g) v \<and> readVal T (h @ g) v = readVal T h v"
  by (rule owned_agree(1)) (auto simp: nth_append)

lemma owned_update: "owned n T h v \<Longrightarrow> a < n \<Longrightarrow> owned n T (h[a := x]) v \<and> readVal T (h[a := x]) v = readVal T h v"
  by (rule owned_agree(1)) auto

lemma ownedFields_iff: "ownedFields n fs h v \<longleftrightarrow> (\<forall>(m, T) \<in> set fs. owned n T h (getField m v))"
  by (induction fs) auto

lemma readFields_eq: "readFields fs h v = map (\<lambda>(m, T). (m, readVal T h (getField m v))) fs"
  by (induction fs) auto

lemma getField_setField [simp]:
  "getField m (setField n x v) = (if m = n then x else getField m v)"
  by (simp add: getField_def setField_def)

section \<open>The reference is a deep copy\<close>

text \<open>A copier copies a type: it only appends cells, and the copy uses only those and reads as the original.\<close>

definition copies :: "copier \<Rightarrow> GoType \<Rightarrow> bool" where
  "copies f T \<longleftrightarrow> (\<forall>h v. owned 0 T h v \<longrightarrow>
     (\<exists>w g. f v h = (w, h @ g) \<and> owned (length h) T (h @ g) w \<and> readVal T (h @ g) w = readVal T h v))"

lemma copiesE:
  assumes "copies f T" "owned 0 T h v"
  obtains w g where "f v h = (w, h @ g)" "owned (length h) T (h @ g) w" "readVal T (h @ g) w = readVal T h v"
  using assms unfolding copies_def by blast

lemma copies_assign: "copies assign TFlat"
  by (simp add: copies_def assign_def)

text \<open>A cell that was allocated before the copy is written after it.\<close>

lemma write_new:
  assumes "owned (Suc (length h)) T (h @ z # g) x"
  shows "(h @ z # g)[length h := y] = h @ y # g" "owned (Suc (length h)) T (h @ y # g) x"
    "readVal T (h @ y # g) x = readVal T (h @ z # g) x"
  using owned_update [OF assms, of "length h" y] by (simp_all add: list_update_append)

lemma copies_ptr:
  assumes "copies f T"
  shows "copies (copyPtr f) (TPtr T)"
  unfolding copies_def
proof (intro allI impI)
  fix h v assume own: "owned 0 (TPtr T) h v"
  show "\<exists>w g. copyPtr f v h = (w, h @ g) \<and> owned (length h) (TPtr T) (h @ g) w \<and>
      readVal (TPtr T) (h @ g) w = readVal (TPtr T) h v"
  proof (cases "v = VPtr None")
    case True
    then show ?thesis by (intro exI [of _ v] exI [of _ "[]"]) (simp add: copyPtr_def)
  next
    case False
    with own obtain a where v: "v = VPtr (Some a)" and a: "a < length h" "owned 0 T h (h ! a)"
      by (auto split: GoVal.splits option.splits)
    note ext = owned_append [OF a(2), of "[VZero]"]
    obtain x g where f: "f (h ! a) (h @ [VZero]) = (x, h @ VZero # g)"
      "owned (Suc (length h)) T (h @ VZero # g) x"
      "readVal T (h @ VZero # g) x = readVal T (h @ [VZero]) (h ! a)"
      using copiesE [OF assms conjunct1 [OF ext]] by auto
    note w = write_new [OF f(2), of x]
    have "copyPtr f v h = (VPtr (Some (length h)), h @ x # g)"
      using f(1) w(1) a(1) by (simp add: copyPtr_def v new_def nth_append)
    moreover have "owned (length h) T (h @ x # g) x" using w(2) by (rule owned_mono) simp
    ultimately show ?thesis using f(3) w(3) ext by (simp add: v)
  qed
qed

lemma copies_elems:
  assumes "copies f T" "list_all (\<lambda>x. owned 0 T h x) vs"
  shows "\<exists>ws g. copyElems f vs h = (ws, h @ g) \<and> list_all (\<lambda>x. owned (length h) T (h @ g) x) ws \<and>
    map (readVal T (h @ g)) ws = map (readVal T h) vs"
  using assms(2)
proof (induction vs arbitrary: h)
  case (Cons v vs)
  obtain x g where x: "f v h = (x, h @ g)" "owned (length h) T (h @ g) x" "readVal T (h @ g) x = readVal T h v"
    using copiesE [OF assms(1), of h v] Cons.prems by auto
  have rest: "list_all (\<lambda>x. owned 0 T (h @ g) x) vs" "map (readVal T (h @ g)) vs = map (readVal T h) vs"
    using Cons.prems owned_append by (auto simp: list_all_iff)
  obtain ws g' where ws: "copyElems f vs (h @ g) = (ws, h @ g @ g')"
    "list_all (\<lambda>x. owned (length (h @ g)) T (h @ g @ g') x) ws"
    "map (readVal T (h @ g @ g')) ws = map (readVal T (h @ g)) vs"
    using Cons.IH [OF rest(1)] by auto
  have "list_all (\<lambda>x. owned (length h) T (h @ g @ g') x) ws"
    using ws(2) by (auto simp: list_all_iff intro: owned_mono)
  moreover have "owned (length h) T (h @ g @ g') x" "readVal T (h @ g @ g') x = readVal T h v"
    using owned_append [OF x(2), of g'] x(3) by simp_all
  ultimately show ?case using x(1) ws(1,3) rest(2) by (intro exI [of _ "x # ws"] exI [of _ "g @ g'"]) simp
qed simp

text \<open>Entries are copied like elements, with their keys.\<close>

lemma copyEntries_elems:
  "copyEntries f es h = (case copyElems f (map snd es) h of (xs, h) \<Rightarrow> (zip (map fst es) xs, h))"
  by (induction es arbitrary: h) (auto split: prod.split)

lemma copyElems_length: "copyElems f vs h = (xs, h') \<Longrightarrow> length xs = length vs"
  by (induction vs arbitrary: h xs) (auto split: prod.splits)

text \<open>The elements of a slice or a map, copied after the cell for the result is allocated.\<close>

lemma copies_elems_new:
  assumes "copies f T" "list_all (\<lambda>x. owned 0 T h x) vs"
  shows "\<exists>ws g. copyElems f vs (h @ [VZero]) = (ws, h @ VZero # g) \<and>
    (\<forall>y. list_all (\<lambda>x. owned (length h) T (h @ y # g) x) ws \<and>
      map (readVal T (h @ y # g)) ws = map (readVal T h) vs)"
proof -
  have "list_all (\<lambda>x. owned 0 T (h @ [VZero]) x) vs" "map (readVal T (h @ [VZero])) vs = map (readVal T h) vs"
    using assms(2) owned_append by (auto simp: list_all_iff)
  with copies_elems [OF assms(1), of "h @ [VZero]" vs] obtain ws g where
    ws: "copyElems f vs (h @ [VZero]) = (ws, h @ VZero # g)"
      "list_all (\<lambda>x. owned (Suc (length h)) T (h @ VZero # g) x) ws"
      "map (readVal T (h @ VZero # g)) ws = map (readVal T h) vs" by auto
  have "list_all (\<lambda>x. owned (length h) T (h @ y # g) x) ws \<and>
      map (readVal T (h @ y # g)) ws = map (readVal T h) vs" for y
  proof
    show "list_all (\<lambda>x. owned (length h) T (h @ y # g) x) ws"
      by (rule list.pred_mono_strong [OF ws(2)]) (rule owned_mono(1) [OF write_new(2)], assumption, simp)
    have "map (readVal T (h @ y # g)) ws = map (readVal T (h @ VZero # g)) ws"
      using ws(2) write_new(3) by (simp add: list_all_iff)
    with ws(3) show "map (readVal T (h @ y # g)) ws = map (readVal T h) vs" by simp
  qed
  with ws(1) show ?thesis by blast
qed

lemma copies_slice:
  assumes "copies f T"
  shows "copies (copySlice f) (TSlice T)"
  unfolding copies_def
proof (intro allI impI)
  fix h v assume own: "owned 0 (TSlice T) h v"
  show "\<exists>w g. copySlice f v h = (w, h @ g) \<and> owned (length h) (TSlice T) (h @ g) w \<and>
      readVal (TSlice T) (h @ g) w = readVal (TSlice T) h v"
  proof (cases "v = VSlice None")
    case True
    then show ?thesis by (intro exI [of _ v] exI [of _ "[]"]) (simp add: copySlice_def)
  next
    case False
    with own obtain a where v: "v = VSlice (Some a)" "a < length h" "list_all (\<lambda>x. owned 0 T h x) (elems (h ! a))"
      by (auto split: GoVal.splits option.splits)
    from copies_elems_new [OF assms v(3)] obtain ws g where
      ws: "copyElems f (elems (h ! a)) (h @ [VZero]) = (ws, h @ VZero # g)"
        "list_all (\<lambda>x. owned (length h) T (h @ y # g) x) ws"
        "map (readVal T (h @ y # g)) ws = map (readVal T h) (elems (h ! a))" for y by blast
    have "copySlice f v h = (VSlice (Some (length h)), h @ VArr ws # g)"
      using ws(1) v(2) by (simp add: copySlice_def v(1) new_def nth_append list_update_append)
    with ws(2,3) show ?thesis by (simp add: v(1))
  qed
qed

lemma copies_map:
  assumes "copies f T"
  shows "copies (copyMap f) (TMap T)"
  unfolding copies_def
proof (intro allI impI)
  fix h v assume own: "owned 0 (TMap T) h v"
  show "\<exists>w g. copyMap f v h = (w, h @ g) \<and> owned (length h) (TMap T) (h @ g) w \<and>
      readVal (TMap T) (h @ g) w = readVal (TMap T) h v"
  proof (cases "v = VMap None")
    case True
    then show ?thesis by (intro exI [of _ v] exI [of _ "[]"]) (simp add: copyMap_def)
  next
    case False
    with own obtain a where v: "v = VMap (Some a)" "a < length h"
      "list_all (\<lambda>x. owned 0 T h x) (map snd (entries (h ! a)))"
      by (auto simp: list_all_iff split: GoVal.splits option.splits)
    let ?es = "entries (h ! a)"
    from copies_elems_new [OF assms v(3)] obtain ws g where
      ws: "copyElems f (map snd ?es) (h @ [VZero]) = (ws, h @ VZero # g)"
        "list_all (\<lambda>x. owned (length h) T (h @ y # g) x) ws"
        "map (readVal T (h @ y # g)) ws = map (readVal T h) (map snd ?es)" for y by blast
    let ?new = "VEntries (zip (map fst ?es) ws)"
    have "copyMap f v h = (VMap (Some (length h)), h @ ?new # g)"
      using ws(1) v(2) by (simp add: copyMap_def v(1) new_def nth_append list_update_append copyEntries_elems)
    moreover have "list_all (\<lambda>e. owned (length h) T (h @ ?new # g) (snd e)) (zip (map fst ?es) ws)"
      using ws(2) by (auto simp: list_all_iff dest!: set_zip_rightD)
    moreover have "map (\<lambda>e. (fst e, readVal T (h @ ?new # g) (snd e))) (zip (map fst ?es) ws) =
        map (\<lambda>e. (fst e, readVal T h (snd e))) ?es"
      using ws(3) [of ?new] copyElems_length [OF ws(1)] by (auto simp: list_eq_iff_nth_eq)
    ultimately show ?thesis by (simp add: v(1))
  qed
qed

text \<open>A struct: only the fields that are copied change, and it keeps its field names.\<close>

lemma fieldCopiers_names: "fst ` set (fieldCopiers fs) \<subseteq> fst ` set fs"
proof (induction fs)
  case (Cons f fs)
  then show ?case by (cases f) (simp add: subset_insertI2 insert_mono)
qed simp

lemma copyFields_other:
  "copyFields cs inp out h = (w, k) \<Longrightarrow> n \<notin> fst ` set cs \<Longrightarrow> getField n w = getField n out"
  by (induction cs inp out h rule: copyFields.induct) (auto split: prod.splits)

lemma copyFields_names:
  "copyFields cs inp out h = (w, k) \<Longrightarrow> out = VStruct (structFields out) \<Longrightarrow>
   fst ` set cs \<subseteq> fst ` set (structFields out) \<Longrightarrow>
   w = VStruct (structFields w) \<and> map fst (structFields w) = map fst (structFields out)"
proof (induction cs inp out h rule: copyFields.induct)
  case (2 n f cs inp out h)
  obtain x h1 where x: "f (getField n inp) h = (x, h1)" by force
  have "map fst (structFields (setField n x out)) = map fst (structFields out)"
    using 2(4) by (simp add: setField_def update_keys)
  with 2 x show ?case by (auto simp: setField_def dest: arg_cong [of "map fst _" _ set])
qed auto

definition fieldsCopied :: "(string \<times> GoType) list \<Rightarrow> Store \<Rightarrow> GoVal \<Rightarrow> Store \<Rightarrow> GoVal \<Rightarrow> bool" where
  "fieldsCopied fs h inp k w \<longleftrightarrow>
     (\<forall>(n, T) \<in> set fs. owned (length h) T k (getField n w) \<and> readVal T k (getField n w) = readVal T h (getField n inp))"

lemma copyFields_effect:
  assumes "\<forall>(n, T) \<in> set fs. copies (deepCopy T) T" "distinct (map fst fs)" "ownedFields 0 fs h inp"
    and "\<forall>n \<in> fst ` set fs. getField n out = getField n inp"
  shows "\<exists>w g. copyFields (fieldCopiers fs) inp out h = (w, h @ g) \<and> fieldsCopied fs h inp (h @ g) w"
  using assms
proof (induction fs arbitrary: h out)
  case Nil
  then show ?case by (simp add: fieldsCopied_def)
next
  case (Cons f fs)
  obtain n T where f: "f = (n, T)" by force
  have fresh: "n \<notin> fst ` set (fieldCopiers fs)" using Cons.prems(2) fieldCopiers_names f by auto
  show ?case
  proof (cases "T = TFlat")
    case True
    obtain w g where w: "copyFields (fieldCopiers fs) inp out h = (w, h @ g)" "fieldsCopied fs h inp (h @ g) w"
      using Cons.IH [of h out] Cons.prems by auto
    have "getField n w = getField n inp" using copyFields_other [OF w(1) fresh] Cons.prems(4) f by simp
    with w True Cons.prems(3) f show ?thesis by (simp add: fieldsCopied_def)
  next
    case False
    obtain x g where x: "deepCopy T (getField n inp) h = (x, h @ g)" "owned (length h) T (h @ g) x"
      "readVal T (h @ g) x = readVal T h (getField n inp)"
      using Cons.prems(1,3) f copiesE [of "deepCopy T" T h "getField n inp"] by auto
    let ?out = "setField n x out"
    have ext: "ownedFields 0 fs (h @ g) inp" "readFields fs (h @ g) inp = readFields fs h inp"
      using owned_agree(2) [of 0 fs h inp "h @ g"] Cons.prems(3) f by (auto simp: nth_append)
    have "\<exists>w g'. copyFields (fieldCopiers fs) inp ?out (h @ g) = (w, (h @ g) @ g') \<and>
        fieldsCopied fs (h @ g) inp ((h @ g) @ g') w"
    proof (rule Cons.IH [OF _ _ ext(1)])
      show "\<forall>m \<in> fst ` set fs. getField m ?out = getField m inp"
        using Cons.prems(2,4) f by auto
    qed (use Cons.prems(1,2) in auto)
    then obtain w g' where w: "copyFields (fieldCopiers fs) inp ?out (h @ g) = (w, h @ g @ g')"
      "fieldsCopied fs (h @ g) inp (h @ g @ g') w" by auto
    have "getField n w = x" using copyFields_other [OF w(1) fresh] by simp
    then have here: "owned (length h) T (h @ g @ g') (getField n w)"
      "readVal T (h @ g @ g') (getField n w) = readVal T h (getField n inp)"
      using owned_append [OF x(2), of g'] x(3) by simp_all
    have "fieldsCopied fs h inp (h @ g @ g') w"
      using w(2) ext(2) owned_mono(1) [of "length (h @ g)" _ "h @ g @ g'" _ "length h"]
      by (auto simp: fieldsCopied_def readFields_eq split: prod.splits)
    with x(1) w(1) here False f show ?thesis by (intro exI [of _ w] exI [of _ "g @ g'"]) (simp add: fieldsCopied_def)
  qed
qed

lemma copies_struct:
  assumes "\<forall>(n, T) \<in> set fs. copies (deepCopy T) T"
  shows "copies (deepCopy (TStruct fs)) (TStruct fs)"
  unfolding copies_def
proof (intro allI impI)
  fix h v assume own: "owned 0 (TStruct fs) h v"
  then obtain w g where w: "copyFields (fieldCopiers fs) v v h = (w, h @ g)" "fieldsCopied fs h v (h @ g) w"
    using copyFields_effect [OF assms, of h v v] by auto
  have "set (map fst (structFields v)) = set (map fst fs)" using own by simp
  then have keys: "fst ` set (structFields v) = fst ` set fs" by simp
  have "w = VStruct (structFields w) \<and> map fst (structFields w) = map fst (structFields v)"
    using own keys fieldCopiers_names [of fs] by (intro copyFields_names [OF w(1)]) simp_all
  with own w(2) have "owned (length h) (TStruct fs) (h @ g) w"
    by (simp add: ownedFields_iff fieldsCopied_def split_beta)
  moreover have "readVal (TStruct fs) (h @ g) w = readVal (TStruct fs) h v"
    using w(2) by (auto simp: readFields_eq fieldsCopied_def)
  ultimately show "\<exists>w g. deepCopy (TStruct fs) v h = (w, h @ g) \<and> owned (length h) (TStruct fs) (h @ g) w \<and>
      readVal (TStruct fs) (h @ g) w = readVal (TStruct fs) h v"
    using w(1) by (auto simp: copyStruct_def)
qed

theorem deepCopy_copies: "copies (deepCopy T) T"
proof (induction T)
  case (TStruct fs)
  then show ?case by (intro copies_struct) auto
qed (simp_all add: copies_assign copies_ptr copies_slice copies_map)

end
