(* ===== verification/Deep_Copy.thy ===== *)
theory Deep_Copy
  imports Go_Heap
begin

text \<open>
  \<^verbatim>\<open>api/v1/zz_generated.deepcopy.go\<close>: the deep copies that controller-gen made of the resource types. The
  cache of the manager hands out shared objects, so a reconciler that changes what it was given
  relies on these copies sharing nothing with the original.

  The types are those of the structs in \<^verbatim>\<open>api/v1/*_types.go\<close> (and of the vendored metadata types), field
  by field; the copies are translated from the generated file. A \<^verbatim>\<open>time.Time\<close> is flat: its location is
  never written.
\<close>

section \<open>Types\<close>

definition TimeT :: GoType where "TimeT = TStruct [(''Time'', TFlat)]"

definition TypeMetaT :: GoType where "TypeMetaT = TStruct [(''Kind'', TFlat), (''APIVersion'', TFlat)]"

definition FieldsV1T :: GoType where
  "FieldsV1T = TStruct [
     (''Raw'', TSlice TFlat)]"

definition ManagedFieldsEntryT :: GoType where
  "ManagedFieldsEntryT = TStruct [
     (''Manager'', TFlat), (''Operation'', TFlat), (''APIVersion'', TFlat),
     (''Time'', TPtr TimeT), (''FieldsType'', TFlat), (''FieldsV1'', TPtr FieldsV1T),
     (''Subresource'', TFlat)]"

definition OwnerReferenceT :: GoType where
  "OwnerReferenceT = TStruct [
     (''APIVersion'', TFlat), (''Kind'', TFlat), (''Name'', TFlat), (''UID'', TFlat),
     (''Controller'', TPtr TFlat), (''BlockOwnerDeletion'', TPtr TFlat)]"

definition ObjectMetaT :: GoType where
  "ObjectMetaT = TStruct [
     (''Name'', TFlat), (''GenerateName'', TFlat), (''Namespace'', TFlat), (''SelfLink'', TFlat),
     (''UID'', TFlat), (''ResourceVersion'', TFlat), (''Generation'', TFlat),
     (''CreationTimestamp'', TimeT), (''DeletionTimestamp'', TPtr TimeT),
     (''DeletionGracePeriodSeconds'', TPtr TFlat), (''Labels'', TMap TFlat),
     (''Annotations'', TMap TFlat), (''OwnerReferences'', TSlice OwnerReferenceT),
     (''Finalizers'', TSlice TFlat), (''ManagedFields'', TSlice ManagedFieldsEntryT)]"

definition ListMetaT :: GoType where
  "ListMetaT = TStruct [
     (''SelfLink'', TFlat), (''ResourceVersion'', TFlat), (''Continue'', TFlat),
     (''RemainingItemCount'', TPtr TFlat)]"

definition JSONT :: GoType where
  "JSONT = TStruct [
     (''Raw'', TSlice TFlat)]"

definition HwConfigT :: GoType where
  "HwConfigT = TStruct [
     (''DeviceID'', TFlat), (''VendorID'', TFlat), (''Failed'', TFlat), (''Status'', TFlat),
     (''Config'', TPtr JSONT)]"

definition MatchRuleT :: GoType where
  "MatchRuleT = TStruct [
     (''NodeLabel'', TPtr TFlat), (''NodeName'', TPtr TFlat)]"

definition NodeMatchListT :: GoType where
  "NodeMatchListT = TStruct [
     (''NodeName'', TPtr TFlat), (''Profile'', TPtr TFlat)]"

definition NodePtpDeviceSpecT :: GoType where
  "NodePtpDeviceSpecT = TStruct []"

definition PtpDeviceT :: GoType where
  "PtpDeviceT = TStruct [
     (''Name'', TFlat), (''Profile'', TFlat)]"

definition NodePtpDeviceStatusT :: GoType where
  "NodePtpDeviceStatusT = TStruct [
     (''Devices'', TSlice PtpDeviceT), (''Hwconfig'', TSlice HwConfigT)]"

definition NodePtpDeviceT :: GoType where
  "NodePtpDeviceT = TStruct [
     (''TypeMeta'', TypeMetaT), (''ObjectMeta'', ObjectMetaT), (''Spec'', NodePtpDeviceSpecT),
     (''Status'', NodePtpDeviceStatusT)]"

definition NodePtpDeviceListT :: GoType where
  "NodePtpDeviceListT = TStruct [
     (''TypeMeta'', TypeMetaT), (''ListMeta'', ListMetaT), (''Items'', TSlice NodePtpDeviceT)]"

definition PtpClockThresholdT :: GoType where
  "PtpClockThresholdT = TStruct [
     (''HoldOverTimeout'', TFlat), (''MaxOffsetThreshold'', TFlat),
     (''MinOffsetThreshold'', TFlat)]"

definition PtpProfileT :: GoType where
  "PtpProfileT = TStruct [
     (''Name'', TPtr TFlat), (''Interface'', TPtr TFlat), (''Ptp4lOpts'', TPtr TFlat),
     (''Phc2sysOpts'', TPtr TFlat), (''Ts2PhcOpts'', TPtr TFlat), (''Synce4lOpts'', TPtr TFlat),
     (''Ptp4lConf'', TPtr TFlat), (''Phc2sysConf'', TPtr TFlat), (''Ts2PhcConf'', TPtr TFlat),
     (''Synce4lConf'', TPtr TFlat), (''PtpSchedulingPolicy'', TPtr TFlat),
     (''PtpSchedulingPriority'', TPtr TFlat), (''PtpClockThreshold'', TPtr PtpClockThresholdT),
     (''PtpSettings'', TMap TFlat), (''Plugins'', TMap (TPtr JSONT))]"

definition PtpRecommendT :: GoType where
  "PtpRecommendT = TStruct [
     (''Profile'', TPtr TFlat), (''Priority'', TPtr TFlat), (''Match'', TSlice MatchRuleT)]"

definition PtpConfigSpecT :: GoType where
  "PtpConfigSpecT = TStruct [
     (''Profile'', TSlice PtpProfileT), (''Recommend'', TSlice PtpRecommendT)]"

definition PtpConfigStatusT :: GoType where
  "PtpConfigStatusT = TStruct [
     (''MatchList'', TSlice NodeMatchListT)]"

definition PtpConfigT :: GoType where
  "PtpConfigT = TStruct [
     (''TypeMeta'', TypeMetaT), (''ObjectMeta'', ObjectMetaT), (''Spec'', PtpConfigSpecT),
     (''Status'', PtpConfigStatusT)]"

definition PtpConfigListT :: GoType where
  "PtpConfigListT = TStruct [
     (''TypeMeta'', TypeMetaT), (''ListMeta'', ListMetaT), (''Items'', TSlice PtpConfigT)]"

definition PtpEventConfigT :: GoType where
  "PtpEventConfigT = TStruct [
     (''EnableEventPublisher'', TFlat), (''TransportHost'', TFlat), (''StorageType'', TFlat),
     (''ApiVersion'', TFlat)]"

definition PtpOperatorConfigSpecT :: GoType where
  "PtpOperatorConfigSpecT = TStruct [
     (''DaemonNodeSelector'', TMap TFlat), (''EventConfig'', TPtr PtpEventConfigT),
     (''EnabledPlugins'', TPtr (TMap (TPtr JSONT)))]"

definition PtpOperatorConfigStatusT :: GoType where
  "PtpOperatorConfigStatusT = TStruct []"

definition PtpOperatorConfigT :: GoType where
  "PtpOperatorConfigT = TStruct [
     (''TypeMeta'', TypeMetaT), (''ObjectMeta'', ObjectMetaT),
     (''Spec'', PtpOperatorConfigSpecT), (''Status'', PtpOperatorConfigStatusT)]"

definition PtpOperatorConfigListT :: GoType where
  "PtpOperatorConfigListT = TStruct [
     (''TypeMeta'', TypeMetaT), (''ListMeta'', ListMetaT), (''Items'', TSlice PtpOperatorConfigT)]"

section \<open>The vendored copies\<close>

definition FieldsV1_DeepCopyInto :: copier where
  "FieldsV1_DeepCopyInto = copyStruct [
     (''Raw'', copySlice assign)]"

definition ManagedFieldsEntry_DeepCopyInto :: copier where
  "ManagedFieldsEntry_DeepCopyInto = copyStruct [
     (''Time'', copyPtr assign), (''FieldsV1'', copyPtr FieldsV1_DeepCopyInto)]"

definition OwnerReference_DeepCopyInto :: copier where
  "OwnerReference_DeepCopyInto = copyStruct [
     (''Controller'', copyPtr assign), (''BlockOwnerDeletion'', copyPtr assign)]"

definition ObjectMeta_DeepCopyInto :: copier where
  "ObjectMeta_DeepCopyInto = copyStruct [
     (''CreationTimestamp'', assign), (''DeletionTimestamp'', copyPtr assign),
     (''DeletionGracePeriodSeconds'', copyPtr assign), (''Labels'', copyMap assign),
     (''Annotations'', copyMap assign),
     (''OwnerReferences'', copySlice OwnerReference_DeepCopyInto),
     (''Finalizers'', copySlice assign),
     (''ManagedFields'', copySlice ManagedFieldsEntry_DeepCopyInto)]"

definition ListMeta_DeepCopyInto :: copier where
  "ListMeta_DeepCopyInto = copyStruct [
     (''RemainingItemCount'', copyPtr assign)]"

definition JSON_DeepCopyInto :: copier where
  "JSON_DeepCopyInto = copyStruct [
     (''Raw'', copySlice assign)]"

section \<open>The generated copies\<close>

definition HwConfig_DeepCopyInto :: copier where
  "HwConfig_DeepCopyInto = copyStruct [
     (''Config'', copyPtr JSON_DeepCopyInto)]"

definition HwConfig_DeepCopy :: copier where
  "HwConfig_DeepCopy = deepCopyOf HwConfig_DeepCopyInto"

definition MatchRule_DeepCopyInto :: copier where
  "MatchRule_DeepCopyInto = copyStruct [
     (''NodeLabel'', copyPtr assign), (''NodeName'', copyPtr assign)]"

definition MatchRule_DeepCopy :: copier where
  "MatchRule_DeepCopy = deepCopyOf MatchRule_DeepCopyInto"

definition NodeMatchList_DeepCopyInto :: copier where
  "NodeMatchList_DeepCopyInto = copyStruct [
     (''NodeName'', copyPtr assign), (''Profile'', copyPtr assign)]"

definition NodeMatchList_DeepCopy :: copier where
  "NodeMatchList_DeepCopy = deepCopyOf NodeMatchList_DeepCopyInto"

definition NodePtpDeviceSpec_DeepCopyInto :: copier where
  "NodePtpDeviceSpec_DeepCopyInto = assign"

definition NodePtpDeviceSpec_DeepCopy :: copier where
  "NodePtpDeviceSpec_DeepCopy = deepCopyOf NodePtpDeviceSpec_DeepCopyInto"

definition PtpDevice_DeepCopyInto :: copier where
  "PtpDevice_DeepCopyInto = assign"

definition PtpDevice_DeepCopy :: copier where
  "PtpDevice_DeepCopy = deepCopyOf PtpDevice_DeepCopyInto"

definition NodePtpDeviceStatus_DeepCopyInto :: copier where
  "NodePtpDeviceStatus_DeepCopyInto = copyStruct [
     (''Devices'', copySlice assign), (''Hwconfig'', copySlice HwConfig_DeepCopyInto)]"

definition NodePtpDeviceStatus_DeepCopy :: copier where
  "NodePtpDeviceStatus_DeepCopy = deepCopyOf NodePtpDeviceStatus_DeepCopyInto"

definition NodePtpDevice_DeepCopyInto :: copier where
  "NodePtpDevice_DeepCopyInto = copyStruct [
     (''TypeMeta'', assign), (''ObjectMeta'', ObjectMeta_DeepCopyInto), (''Spec'', assign),
     (''Status'', NodePtpDeviceStatus_DeepCopyInto)]"

definition NodePtpDevice_DeepCopy :: copier where
  "NodePtpDevice_DeepCopy = deepCopyOf NodePtpDevice_DeepCopyInto"

definition NodePtpDevice_DeepCopyObject :: copier where
  "NodePtpDevice_DeepCopyObject = deepCopyObjectOf NodePtpDevice_DeepCopy"

definition NodePtpDeviceList_DeepCopyInto :: copier where
  "NodePtpDeviceList_DeepCopyInto = copyStruct [
     (''TypeMeta'', assign), (''ListMeta'', ListMeta_DeepCopyInto),
     (''Items'', copySlice NodePtpDevice_DeepCopyInto)]"

definition NodePtpDeviceList_DeepCopy :: copier where
  "NodePtpDeviceList_DeepCopy = deepCopyOf NodePtpDeviceList_DeepCopyInto"

definition NodePtpDeviceList_DeepCopyObject :: copier where
  "NodePtpDeviceList_DeepCopyObject = deepCopyObjectOf NodePtpDeviceList_DeepCopy"

definition PtpClockThreshold_DeepCopyInto :: copier where
  "PtpClockThreshold_DeepCopyInto = assign"

definition PtpClockThreshold_DeepCopy :: copier where
  "PtpClockThreshold_DeepCopy = deepCopyOf PtpClockThreshold_DeepCopyInto"

definition PtpProfile_DeepCopyInto :: copier where
  "PtpProfile_DeepCopyInto = copyStruct [
     (''Name'', copyPtr assign), (''Interface'', copyPtr assign),
     (''Ptp4lOpts'', copyPtr assign), (''Phc2sysOpts'', copyPtr assign),
     (''Ts2PhcOpts'', copyPtr assign), (''Synce4lOpts'', copyPtr assign),
     (''Ptp4lConf'', copyPtr assign), (''Phc2sysConf'', copyPtr assign),
     (''Ts2PhcConf'', copyPtr assign), (''Synce4lConf'', copyPtr assign),
     (''PtpSchedulingPolicy'', copyPtr assign), (''PtpSchedulingPriority'', copyPtr assign),
     (''PtpClockThreshold'', copyPtr assign), (''PtpSettings'', copyMap assign),
     (''Plugins'', copyMap (copyPtr JSON_DeepCopyInto))]"

definition PtpProfile_DeepCopy :: copier where
  "PtpProfile_DeepCopy = deepCopyOf PtpProfile_DeepCopyInto"

definition PtpRecommend_DeepCopyInto :: copier where
  "PtpRecommend_DeepCopyInto = copyStruct [
     (''Profile'', copyPtr assign), (''Priority'', copyPtr assign),
     (''Match'', copySlice MatchRule_DeepCopyInto)]"

definition PtpRecommend_DeepCopy :: copier where
  "PtpRecommend_DeepCopy = deepCopyOf PtpRecommend_DeepCopyInto"

definition PtpConfigSpec_DeepCopyInto :: copier where
  "PtpConfigSpec_DeepCopyInto = copyStruct [
     (''Profile'', copySlice PtpProfile_DeepCopyInto),
     (''Recommend'', copySlice PtpRecommend_DeepCopyInto)]"

definition PtpConfigSpec_DeepCopy :: copier where
  "PtpConfigSpec_DeepCopy = deepCopyOf PtpConfigSpec_DeepCopyInto"

definition PtpConfigStatus_DeepCopyInto :: copier where
  "PtpConfigStatus_DeepCopyInto = copyStruct [
     (''MatchList'', copySlice NodeMatchList_DeepCopyInto)]"

definition PtpConfigStatus_DeepCopy :: copier where
  "PtpConfigStatus_DeepCopy = deepCopyOf PtpConfigStatus_DeepCopyInto"

definition PtpConfig_DeepCopyInto :: copier where
  "PtpConfig_DeepCopyInto = copyStruct [
     (''TypeMeta'', assign), (''ObjectMeta'', ObjectMeta_DeepCopyInto),
     (''Spec'', PtpConfigSpec_DeepCopyInto), (''Status'', PtpConfigStatus_DeepCopyInto)]"

definition PtpConfig_DeepCopy :: copier where
  "PtpConfig_DeepCopy = deepCopyOf PtpConfig_DeepCopyInto"

definition PtpConfig_DeepCopyObject :: copier where
  "PtpConfig_DeepCopyObject = deepCopyObjectOf PtpConfig_DeepCopy"

definition PtpConfigList_DeepCopyInto :: copier where
  "PtpConfigList_DeepCopyInto = copyStruct [
     (''TypeMeta'', assign), (''ListMeta'', ListMeta_DeepCopyInto),
     (''Items'', copySlice PtpConfig_DeepCopyInto)]"

definition PtpConfigList_DeepCopy :: copier where
  "PtpConfigList_DeepCopy = deepCopyOf PtpConfigList_DeepCopyInto"

definition PtpConfigList_DeepCopyObject :: copier where
  "PtpConfigList_DeepCopyObject = deepCopyObjectOf PtpConfigList_DeepCopy"

definition PtpEventConfig_DeepCopyInto :: copier where
  "PtpEventConfig_DeepCopyInto = assign"

definition PtpEventConfig_DeepCopy :: copier where
  "PtpEventConfig_DeepCopy = deepCopyOf PtpEventConfig_DeepCopyInto"

definition PtpOperatorConfigSpec_DeepCopyInto :: copier where
  "PtpOperatorConfigSpec_DeepCopyInto = copyStruct [
     (''DaemonNodeSelector'', copyMap assign), (''EventConfig'', copyPtr assign),
     (''EnabledPlugins'', copyPtr (copyMap (copyPtr JSON_DeepCopyInto)))]"

definition PtpOperatorConfigSpec_DeepCopy :: copier where
  "PtpOperatorConfigSpec_DeepCopy = deepCopyOf PtpOperatorConfigSpec_DeepCopyInto"

definition PtpOperatorConfigStatus_DeepCopyInto :: copier where
  "PtpOperatorConfigStatus_DeepCopyInto = assign"

definition PtpOperatorConfigStatus_DeepCopy :: copier where
  "PtpOperatorConfigStatus_DeepCopy = deepCopyOf PtpOperatorConfigStatus_DeepCopyInto"

definition PtpOperatorConfig_DeepCopyInto :: copier where
  "PtpOperatorConfig_DeepCopyInto = copyStruct [
     (''TypeMeta'', assign), (''ObjectMeta'', ObjectMeta_DeepCopyInto),
     (''Spec'', PtpOperatorConfigSpec_DeepCopyInto), (''Status'', assign)]"

definition PtpOperatorConfig_DeepCopy :: copier where
  "PtpOperatorConfig_DeepCopy = deepCopyOf PtpOperatorConfig_DeepCopyInto"

definition PtpOperatorConfig_DeepCopyObject :: copier where
  "PtpOperatorConfig_DeepCopyObject = deepCopyObjectOf PtpOperatorConfig_DeepCopy"

definition PtpOperatorConfigList_DeepCopyInto :: copier where
  "PtpOperatorConfigList_DeepCopyInto = copyStruct [
     (''TypeMeta'', assign), (''ListMeta'', ListMeta_DeepCopyInto),
     (''Items'', copySlice PtpOperatorConfig_DeepCopyInto)]"

definition PtpOperatorConfigList_DeepCopy :: copier where
  "PtpOperatorConfigList_DeepCopy = deepCopyOf PtpOperatorConfigList_DeepCopyInto"

definition PtpOperatorConfigList_DeepCopyObject :: copier where
  "PtpOperatorConfigList_DeepCopyObject = deepCopyObjectOf PtpOperatorConfigList_DeepCopy"

lemmas type_defs =
  FieldsV1T_def ManagedFieldsEntryT_def OwnerReferenceT_def ObjectMetaT_def ListMetaT_def
  JSONT_def HwConfigT_def MatchRuleT_def NodeMatchListT_def NodePtpDeviceSpecT_def
  PtpDeviceT_def NodePtpDeviceStatusT_def NodePtpDeviceT_def NodePtpDeviceListT_def
  PtpClockThresholdT_def PtpProfileT_def PtpRecommendT_def PtpConfigSpecT_def
  PtpConfigStatusT_def PtpConfigT_def PtpConfigListT_def PtpEventConfigT_def
  PtpOperatorConfigSpecT_def PtpOperatorConfigStatusT_def PtpOperatorConfigT_def
  PtpOperatorConfigListT_def TimeT_def TypeMetaT_def

lemmas into_defs =
  FieldsV1_DeepCopyInto_def ManagedFieldsEntry_DeepCopyInto_def
  OwnerReference_DeepCopyInto_def ObjectMeta_DeepCopyInto_def ListMeta_DeepCopyInto_def
  JSON_DeepCopyInto_def HwConfig_DeepCopyInto_def MatchRule_DeepCopyInto_def
  NodeMatchList_DeepCopyInto_def NodePtpDeviceSpec_DeepCopyInto_def PtpDevice_DeepCopyInto_def
  NodePtpDeviceStatus_DeepCopyInto_def NodePtpDevice_DeepCopyInto_def
  NodePtpDeviceList_DeepCopyInto_def PtpClockThreshold_DeepCopyInto_def
  PtpProfile_DeepCopyInto_def PtpRecommend_DeepCopyInto_def PtpConfigSpec_DeepCopyInto_def
  PtpConfigStatus_DeepCopyInto_def PtpConfig_DeepCopyInto_def PtpConfigList_DeepCopyInto_def
  PtpEventConfig_DeepCopyInto_def PtpOperatorConfigSpec_DeepCopyInto_def
  PtpOperatorConfigStatus_DeepCopyInto_def PtpOperatorConfig_DeepCopyInto_def
  PtpOperatorConfigList_DeepCopyInto_def

lemmas copy_defs =
  HwConfig_DeepCopy_def MatchRule_DeepCopy_def NodeMatchList_DeepCopy_def
  NodePtpDeviceSpec_DeepCopy_def PtpDevice_DeepCopy_def NodePtpDeviceStatus_DeepCopy_def
  NodePtpDevice_DeepCopy_def NodePtpDeviceList_DeepCopy_def PtpClockThreshold_DeepCopy_def
  PtpProfile_DeepCopy_def PtpRecommend_DeepCopy_def PtpConfigSpec_DeepCopy_def
  PtpConfigStatus_DeepCopy_def PtpConfig_DeepCopy_def PtpConfigList_DeepCopy_def
  PtpEventConfig_DeepCopy_def PtpOperatorConfigSpec_DeepCopy_def
  PtpOperatorConfigStatus_DeepCopy_def PtpOperatorConfig_DeepCopy_def
  PtpOperatorConfigList_DeepCopy_def

text \<open>The generated \<^verbatim>\<open>DeepCopy\<close> methods, each with the type of what it copies.\<close>

definition generatedCopies :: "(copier \<times> GoType) list" where
  "generatedCopies = [
     (HwConfig_DeepCopy, HwConfigT), (MatchRule_DeepCopy, MatchRuleT),
     (NodeMatchList_DeepCopy, NodeMatchListT), (NodePtpDeviceSpec_DeepCopy, NodePtpDeviceSpecT),
     (PtpDevice_DeepCopy, PtpDeviceT), (NodePtpDeviceStatus_DeepCopy, NodePtpDeviceStatusT),
     (NodePtpDevice_DeepCopy, NodePtpDeviceT), (NodePtpDeviceList_DeepCopy, NodePtpDeviceListT),
     (PtpClockThreshold_DeepCopy, PtpClockThresholdT), (PtpProfile_DeepCopy, PtpProfileT),
     (PtpRecommend_DeepCopy, PtpRecommendT), (PtpConfigSpec_DeepCopy, PtpConfigSpecT),
     (PtpConfigStatus_DeepCopy, PtpConfigStatusT), (PtpConfig_DeepCopy, PtpConfigT),
     (PtpConfigList_DeepCopy, PtpConfigListT), (PtpEventConfig_DeepCopy, PtpEventConfigT),
     (PtpOperatorConfigSpec_DeepCopy, PtpOperatorConfigSpecT),
     (PtpOperatorConfigStatus_DeepCopy, PtpOperatorConfigStatusT),
     (PtpOperatorConfig_DeepCopy, PtpOperatorConfigT),
     (PtpOperatorConfigList_DeepCopy, PtpOperatorConfigListT)]"

section \<open>The copies are deep\<close>

lemma copyStruct_Nil [simp]: "copyStruct [] = assign"
  by (intro ext) (simp add: copyStruct_def assign_def)

lemma vendored_copies:
  "JSON_DeepCopyInto = deepCopy JSONT" "ObjectMeta_DeepCopyInto = deepCopy ObjectMetaT"
  "ListMeta_DeepCopyInto = deepCopy ListMetaT"
  by (simp_all add: into_defs type_defs)

text \<open>
  (C32) Every generated copy agrees with the struct it copies: it is the reference deep copy at the
  type declared in the API, so no pointer, slice or map field was added to a type without its copy.
\<close>
theorem generated_copies_match_types:
  "HwConfig_DeepCopyInto = deepCopy HwConfigT \<and>
   MatchRule_DeepCopyInto = deepCopy MatchRuleT \<and>
   NodeMatchList_DeepCopyInto = deepCopy NodeMatchListT \<and>
   NodePtpDeviceSpec_DeepCopyInto = deepCopy NodePtpDeviceSpecT \<and>
   PtpDevice_DeepCopyInto = deepCopy PtpDeviceT \<and>
   NodePtpDeviceStatus_DeepCopyInto = deepCopy NodePtpDeviceStatusT \<and>
   NodePtpDevice_DeepCopyInto = deepCopy NodePtpDeviceT \<and>
   NodePtpDeviceList_DeepCopyInto = deepCopy NodePtpDeviceListT \<and>
   PtpClockThreshold_DeepCopyInto = deepCopy PtpClockThresholdT \<and>
   PtpProfile_DeepCopyInto = deepCopy PtpProfileT \<and>
   PtpRecommend_DeepCopyInto = deepCopy PtpRecommendT \<and>
   PtpConfigSpec_DeepCopyInto = deepCopy PtpConfigSpecT \<and>
   PtpConfigStatus_DeepCopyInto = deepCopy PtpConfigStatusT \<and>
   PtpConfig_DeepCopyInto = deepCopy PtpConfigT \<and>
   PtpConfigList_DeepCopyInto = deepCopy PtpConfigListT \<and>
   PtpEventConfig_DeepCopyInto = deepCopy PtpEventConfigT \<and>
   PtpOperatorConfigSpec_DeepCopyInto = deepCopy PtpOperatorConfigSpecT \<and>
   PtpOperatorConfigStatus_DeepCopyInto = deepCopy PtpOperatorConfigStatusT \<and>
   PtpOperatorConfig_DeepCopyInto = deepCopy PtpOperatorConfigT \<and>
   PtpOperatorConfigList_DeepCopyInto = deepCopy PtpOperatorConfigListT"
  by (simp add: into_defs type_defs)

lemma generated_deepCopy: "(copy, T) \<in> set generatedCopies \<Longrightarrow> copy = deepCopyOf (deepCopy T)"
  by (auto simp: generatedCopies_def copy_defs into_defs type_defs)

lemma deepCopyOf_copyPtr: "owned n (TPtr T) h p \<Longrightarrow> deepCopyOf f p h = copyPtr f p h"
  by (auto simp: deepCopyOf_def copyPtr_def split: GoVal.splits option.splits)

lemma generated_copies_deep:
  assumes "(copy, T) \<in> set generatedCopies" "owned 0 (TPtr T) h p"
  shows "\<exists>q g. copy p h = (q, h @ g) \<and> owned (length h) (TPtr T) (h @ g) q \<and>
    readVal (TPtr T) (h @ g) q = readVal (TPtr T) h p"
proof -
  have "copies (copyPtr (deepCopy T)) (TPtr T)" by (rule copies_ptr [OF deepCopy_copies])
  with assms show ?thesis
    using deepCopyOf_copyPtr [OF assms(2), of "deepCopy T"] generated_deepCopy [OF assms(1)]
    unfolding copies_def by simp
qed

text \<open>
  (C31) Every generated \<^verbatim>\<open>DeepCopy\<close> gives a copy that reads as the original and shares nothing with it:
  no cell that was there before is changed, whatever is later written to such a cell does not show in
  the copy, and whatever is written to a new cell does not show in the original.
\<close>
theorem deep_copy_shares_nothing:
  assumes "(copy, T) \<in> set generatedCopies" and "owned 0 (TPtr T) h p" and "copy p h = (q, k)"
  shows "readVal (TPtr T) k q = readVal (TPtr T) h p \<and> take (length h) k = h \<and>
    (\<forall>a x. a < length h \<longrightarrow> readVal (TPtr T) (k[a := x]) q = readVal (TPtr T) h p) \<and>
    (\<forall>a x. length h \<le> a \<longrightarrow> readVal (TPtr T) (k[a := x]) p = readVal (TPtr T) h p)"
proof -
  obtain g where k: "k = h @ g" and q: "owned (length h) (TPtr T) k q"
    "readVal (TPtr T) k q = readVal (TPtr T) h p"
    using generated_copies_deep [OF assms(1,2)] assms(3) by auto
  have "readVal (TPtr T) (k[a := x]) q = readVal (TPtr T) h p" if "a < length h" for a x
    using owned_update [OF q(1) that] q(2) by metis
  moreover have "readVal (TPtr T) (k[a := x]) p = readVal (TPtr T) h p" if "length h \<le> a" for a x
    using that by (intro conjunct2 [OF owned_agree(1) [OF assms(2)]]) (auto simp: k nth_append nth_list_update)
  ultimately show ?thesis using q(2) by (simp add: k)
qed

text \<open>A match rule with a node name, in a store of two cells.\<close>

definition exampleStore :: Store where
  "exampleStore = [VString ''n1'', VStruct [(''NodeLabel'', VPtr None), (''NodeName'', VPtr (Some 0))]]"

theorem deep_copy_shares_nothing_witness:
  "readVal (TPtr MatchRuleT)
     (exampleStore[0 := VString ''n2''] @ [VStruct [(''NodeLabel'', VPtr None), (''NodeName'', VPtr (Some 3))], VString ''n1''])
     (VPtr (Some 2)) =
   Pointee (Fields [(''NodeLabel'', NilRef), (''NodeName'', Pointee (Leaf (VString ''n1'')))])"
proof -
  have "(MatchRule_DeepCopy, MatchRuleT) \<in> set generatedCopies" by (simp add: generatedCopies_def)
  moreover have "owned 0 (TPtr MatchRuleT) exampleStore (VPtr (Some 1))" by code_simp
  moreover have "MatchRule_DeepCopy (VPtr (Some 1)) exampleStore =
      (VPtr (Some 2), exampleStore @ [VStruct [(''NodeLabel'', VPtr None), (''NodeName'', VPtr (Some 3))], VString ''n1''])"
    by code_simp
  moreover have "readVal (TPtr MatchRuleT) exampleStore (VPtr (Some 1)) =
      Pointee (Fields [(''NodeLabel'', NilRef), (''NodeName'', Pointee (Leaf (VString ''n1'')))])"
    by code_simp
  moreover have "0 < length exampleStore" by (simp add: exampleStore_def)
  ultimately show ?thesis
    using deep_copy_shares_nothing [of MatchRule_DeepCopy MatchRuleT exampleStore "VPtr (Some 1)"]
    by (fastforce simp: list_update_append)
qed

end
