(* ===== verification/Rest_Request.thy ===== *)
theory Rest_Request
  imports Leader_Election Cluster
begin

text \<open>
  What the generated clients use of the vendored \<^verbatim>\<open>k8s.io/client-go/rest\<close>: the builder of a request,
  in which the first error stops everything that follows, the URL it gives, and the call that sends
  it. Go's \<^verbatim>\<open>path.Join\<close> and \<^verbatim>\<open>path.Clean\<close> come first, because they decide where a request goes.

  The transport (throttling, retries, the HTTP client), the codec of the parameters and the serializer
  are parameters, fields of \<open>RestClient\<close>. The timeout of a request is kept as a value beside its
  parameters; Go writes it into the query. Error texts quote a name without escaping it.
\<close>

section \<open>Paths\<close>

text \<open>The elements of a path after \<^verbatim>\<open>path.Clean\<close>; the second argument holds them in reverse.\<close>

fun cleanElements :: "bool \<Rightarrow> string list \<Rightarrow> string list \<Rightarrow> string list" where
  "cleanElements rooted acc [] = rev acc"
| "cleanElements rooted acc (e # es) =
     (if e = [] \<or> e = ''.'' then cleanElements rooted acc es
      else if e = ''..'' then
        (case acc of
           [] \<Rightarrow> cleanElements rooted (if rooted then [] else [''..'']) es
         | a # as \<Rightarrow> cleanElements rooted (if a = ''..'' then ''..'' # acc else as) es)
      else cleanElements rooted (e # acc) es)"

definition path_Clean :: "string \<Rightarrow> string" where
  "path_Clean p =
     (if p = [] then ''.''
      else let rooted = strings_HasPrefix p ''/'';
               r = strings_Join (cleanElements rooted [] (strings_Split p (CHR ''/''))) ''/''
           in if rooted then ''/'' @ r else if r = [] then ''.'' else r)"

definition path_Join :: "string list \<Rightarrow> string" where
  "path_Join elem =
     (case dropWhile (\<lambda>e. e = []) elem of [] \<Rightarrow> [] | es \<Rightarrow> path_Clean (strings_Join es ''/''))"

text \<open>The elements of a path that are not empty, and the rooted path of some elements.\<close>

definition elements :: "string \<Rightarrow> string list" where
  "elements p = filter (\<lambda>e. e \<noteq> []) (strings_Split p (CHR ''/''))"

definition pathOf :: "string list \<Rightarrow> string" where
  "pathOf es = concat (map ((#) (CHR ''/'')) es)"

definition plain :: "string \<Rightarrow> bool" where
  "plain e \<longleftrightarrow> e \<noteq> [] \<and> e \<noteq> ''.'' \<and> e \<noteq> ''..'' \<and> CHR ''/'' \<notin> set e"

lemma cleanElements_plain:
  "''.'' \<notin> set es \<Longrightarrow> ''..'' \<notin> set es \<Longrightarrow>
   cleanElements rooted acc es = rev acc @ filter (\<lambda>e. e \<noteq> []) es"
  by (induction es arbitrary: acc) auto

lemma cleanElements_append:
  "\<forall>e \<in> set ys. plain e \<Longrightarrow> cleanElements rooted acc (xs @ ys) = cleanElements rooted acc xs @ ys"
proof (induction xs arbitrary: acc)
  case Nil
  then have "''.'' \<notin> set ys" "''..'' \<notin> set ys" "filter (\<lambda>e. e \<noteq> []) ys = ys"
    unfolding plain_def by (auto simp: filter_id_conv)
  then show ?case using cleanElements_plain [of ys rooted acc] by simp
next
  case (Cons x xs)
  then show ?case by (cases acc) simp_all
qed

lemma cleanElements_skip: "cleanElements rooted acc (xs @ [] # ys) = cleanElements rooted acc (xs @ ys)"
proof (induction xs arbitrary: acc)
  case (Cons x xs)
  then show ?case by (cases acc) simp_all
qed simp

lemma plainI: "e \<noteq> [] \<Longrightarrow> e \<noteq> ''.'' \<Longrightarrow> e \<noteq> ''..'' \<Longrightarrow> CHR ''/'' \<notin> set e \<Longrightarrow> plain e"
  unfolding plain_def by blast

lemma plain_not_dots: "\<not> plain ''..''" unfolding plain_def by blast

lemma cleanElements_rooted_plain:
  "\<forall>a \<in> set acc. plain a \<Longrightarrow> \<forall>e \<in> set es. CHR ''/'' \<notin> set e \<Longrightarrow>
   \<forall>e \<in> set (cleanElements True acc es). plain e"
proof (induction es arbitrary: acc)
  case (Cons e es)
  have rest: "\<forall>x \<in> set es. CHR ''/'' \<notin> set x" and e: "CHR ''/'' \<notin> set e" using Cons.prems(2) by simp_all
  consider "e = [] \<or> e = ''.''" | "e = ''..''" "acc = []" | a as where "e = ''..''" "acc = a # as"
    | "e \<noteq> []" "e \<noteq> ''.''" "e \<noteq> ''..''"
    by (cases acc) metis+
  then show ?case
  proof cases
    case 1
    then show ?thesis using Cons.IH [OF Cons.prems(1) rest] by simp
  next
    case 2
    then show ?thesis using Cons.IH [of "[]"] rest by simp
  next
    case 3
    then have "a \<noteq> ''..''" using Cons.prems(1) plain_not_dots by auto
    with 3 show ?thesis using Cons.IH [of as] Cons.prems(1) rest by simp
  next
    case 4
    then have "plain e" using e by (intro plainI)
    then have acc: "\<forall>a \<in> set (e # acc). plain a" using Cons.prems(1) by simp
    have "cleanElements True acc (e # es) = cleanElements True (e # acc) es" using 4 by simp
    then show ?thesis using Cons.IH [OF acc rest] by (simp only:)
  qed
qed simp

lemma Split_append: "strings_Split (x @ c # y) c = strings_Split x c @ strings_Split y c"
proof (induction x)
  case (Cons d x)
  show ?case
  proof (cases "strings_Split x c")
    case Nil
    then show ?thesis by simp
  next
    case (Cons w ws)
    with \<open>strings_Split (x @ c # y) c = _\<close> show ?thesis by simp
  qed
qed simp

lemma Split_Join_parts:
  "xs \<noteq> [] \<Longrightarrow>
   strings_Split (strings_Join xs ''/'') (CHR ''/'') = concat (map (\<lambda>x. strings_Split x (CHR ''/'')) xs)"
proof (induction xs)
  case (Cons x xs)
  then show ?case
    by (cases "xs = []") (simp_all add: strings_Join_Cons Split_append)
qed simp

lemma elements_Join: "xs \<noteq> [] \<Longrightarrow> elements (strings_Join xs ''/'') = concat (map elements xs)"
  by (simp add: elements_def [abs_def] Split_Join_parts filter_concat comp_def)

lemma elements_Nil [simp]: "elements [] = []"
  by (simp add: elements_def)

lemma elements_plain: "plain e \<Longrightarrow> elements e = [e]"
  by (simp add: elements_def plain_def strings_Split_no_sep)

lemma elements_no_slash: "e \<in> set (elements p) \<Longrightarrow> e \<noteq> [] \<and> CHR ''/'' \<notin> set e"
  using strings_Split_parts by (auto simp: elements_def)

lemma pathOf_Join: "es \<noteq> [] \<Longrightarrow> pathOf es = ''/'' @ strings_Join es ''/''"
proof (induction es)
  case (Cons e es)
  then show ?case by (cases "es = []") (simp_all add: pathOf_def strings_Join_Cons)
qed simp

lemma elements_pathOf: "\<forall>e \<in> set es. plain e \<Longrightarrow> elements (pathOf es) = es"
proof (induction es)
  case (Cons e es)
  have "elements (''/'' @ p) = elements p" for p by (simp add: elements_def)
  moreover have "elements (x @ pathOf es) = elements x @ elements (pathOf es)" for x
  proof (cases es)
    case (Cons e' es')
    then have "elements (x @ pathOf es) = elements (strings_Join [x, strings_Join es ''/''] ''/'')"
      by (simp add: pathOf_Join)
    also have "\<dots> = elements x @ elements (pathOf es)"
      using Cons by (subst elements_Join) (simp_all add: pathOf_Join elements_def)
    finally show ?thesis .
  qed (simp add: pathOf_def)
  ultimately show ?case using Cons by (simp add: pathOf_def elements_plain [unfolded elements_def] elements_plain)
qed (simp add: pathOf_def)

lemma pathOf_inject: "\<forall>e \<in> set es. plain e \<Longrightarrow> \<forall>e \<in> set es'. plain e \<Longrightarrow> pathOf es = pathOf es' \<Longrightarrow> es = es'"
  using elements_pathOf by metis

text \<open>Joining onto a rooted path: without dots, the elements are put one after the other.\<close>

lemma path_Join_rooted:
  assumes "p = CHR ''/'' # q" and "concat (map elements (p # es)) \<noteq> []"
    and "\<forall>e \<in> set (concat (map elements (p # es))). e \<noteq> ''.'' \<and> e \<noteq> ''..''"
  shows "path_Join (p # es) = pathOf (concat (map elements (p # es)))"
proof -
  let ?j = "strings_Join (p # es) ''/''"
  have j: "?j \<noteq> []" "strings_HasPrefix ?j ''/''" using assms(1) by (cases es; simp)+
  have el: "concat (map elements (p # es)) = elements ?j" by (rule elements_Join [symmetric]) simp
  have "''.'' \<notin> set (strings_Split ?j (CHR ''/''))" "''..'' \<notin> set (strings_Split ?j (CHR ''/''))"
    using assms(3) unfolding el elements_def by auto
  then have "cleanElements True [] (strings_Split ?j (CHR ''/'')) = elements ?j"
    by (simp add: cleanElements_plain elements_def)
  then have "path_Clean ?j = ''/'' @ strings_Join (elements ?j) ''/''"
    using j by (simp add: path_Clean_def Let_def)
  moreover have "path_Join (p # es) = path_Clean ?j" using assms(1) by (simp add: path_Join_def)
  ultimately show ?thesis using assms(2) pathOf_Join unfolding el by simp
qed

text \<open>The rooted path of a server below which the elements of an API are put.\<close>

definition serverBase :: "string \<Rightarrow> string list" where
  "serverBase path = cleanElements True [] (strings_Split path (CHR ''/''))"

lemma serverBase_plain: "\<forall>e \<in> set (serverBase path). plain e"
  unfolding serverBase_def by (rule cleanElements_rooted_plain) (auto dest: strings_Split_parts)

lemma cleanElements_empty: "cleanElements rooted acc ([] # es) = cleanElements rooted acc es"
  by simp

lemma path_Join_server:
  assumes "es \<noteq> []" "\<forall>e \<in> set es. plain e"
  shows "path_Join [''/'', path, pathOf es] = pathOf (serverBase path @ es)"
proof -
  let ?j = "strings_Join [''/'', path, pathOf es] ''/''"
  have parts: "strings_Split ?j (CHR ''/'') =
      [] # [] # strings_Split path (CHR ''/'') @ strings_Split (pathOf es) (CHR ''/'')"
    by (subst Split_Join_parts) simp_all
  have "strings_Split (strings_Join es ''/'') (CHR ''/'') = es"
    using assms unfolding plain_def by (intro strings_Split_Join) simp_all
  then have es: "strings_Split (pathOf es) (CHR ''/'') = [] # es" by (simp add: pathOf_Join [OF assms(1)])
  have "cleanElements True [] (strings_Split path (CHR ''/'') @ [] # es) = serverBase path @ es"
    using assms(2) by (simp add: cleanElements_skip cleanElements_append serverBase_def)
  moreover have "?j \<noteq> []" "strings_HasPrefix ?j ''/''" by simp_all
  ultimately have "path_Clean ?j = ''/'' @ strings_Join (serverBase path @ es) ''/''"
    unfolding path_Clean_def Let_def parts es by (simp only: cleanElements_empty if_False if_True)
  then show ?thesis using assms(1) by (simp add: path_Join_def pathOf_Join)
qed

text \<open>Joining names that are empty or plain.\<close>

lemma elements_plains: "\<forall>e \<in> set es. plain e \<Longrightarrow> concat (map elements es) = es"
  by (induction es) (simp_all add: elements_plain)

lemma path_Clean_names:
  assumes "plain d" and "\<forall>e \<in> set ds. e = [] \<or> plain e"
  shows "path_Clean (strings_Join (d # ds) ''/'') = strings_Join (filter (\<lambda>e. e \<noteq> []) (d # ds)) ''/''"
proof -
  let ?j = "strings_Join (d # ds) ''/''" and ?f = "filter (\<lambda>e. e \<noteq> []) (d # ds)"
  have d: "d \<noteq> []" "hd d \<noteq> CHR ''/''" using assms(1) by (auto simp: plain_def neq_Nil_conv)
  have names: "CHR ''/'' \<notin> set w \<and> w \<noteq> ''.'' \<and> w \<noteq> ''..''" if "w \<in> set (d # ds)" for w
  proof -
    have "w = [] \<or> plain w" using assms that by (metis set_ConsD)
    then show ?thesis unfolding plain_def by (elim disjE) simp_all
  qed
  then have parts: "strings_Split ?j (CHR ''/'') = d # ds"
    by (intro strings_Split_Join) (simp, metis)
  obtain a e where "d = a # e" "a \<noteq> CHR ''/''" using d by (cases d) auto
  then obtain q where "?j = a # q" "a \<noteq> CHR ''/''" by (cases ds) auto
  then have j: "?j \<noteq> []" "\<not> strings_HasPrefix ?j ''/''" by simp_all
  have "''.'' \<notin> set (d # ds)" "''..'' \<notin> set (d # ds)" using names by metis+
  then have el: "cleanElements False [] (d # ds) = ?f" by (subst cleanElements_plain) simp_all
  have "strings_Join ?f ''/'' \<noteq> []" using d by (cases "filter (\<lambda>e. e \<noteq> []) ds") simp_all
  with j show ?thesis by (simp only: path_Clean_def Let_def parts el if_False)
qed

lemma elements_Join_names:
  assumes "\<forall>e \<in> set es. e = [] \<or> plain e"
  shows "elements (path_Join es) = filter (\<lambda>e. e \<noteq> []) es"
proof (cases "dropWhile (\<lambda>e. e = []) es")
  case Nil
  have "path_Join es = []" unfolding path_Join_def Nil by simp
  with Nil show ?thesis by (simp add: dropWhile_eq_Nil_conv filter_empty_conv)
next
  case (Cons d ds)
  let ?f = "filter (\<lambda>e. e \<noteq> []) (d # ds)"
  have rest: "\<forall>e \<in> set (d # ds). e = [] \<or> plain e"
    using assms set_dropWhileD [of _ "\<lambda>e. e = []" es] unfolding Cons by blast
  have "d \<noteq> []" using hd_dropWhile [of "\<lambda>e. e = []" es] unfolding Cons by simp
  with rest have "plain d" "\<forall>e \<in> set ds. e = [] \<or> plain e" by simp_all
  then have "path_Join es = strings_Join ?f ''/''"
    unfolding path_Join_def Cons list.case by (rule path_Clean_names)
  moreover have "elements (strings_Join ?f ''/'') = concat (map elements ?f)"
    using \<open>d \<noteq> []\<close> by (intro elements_Join) simp
  moreover have "concat (map elements ?f) = ?f" using rest by (intro elements_plains) auto
  moreover have "filter (\<lambda>e. e \<noteq> []) es = filter (\<lambda>e. e \<noteq> []) (dropWhile (\<lambda>e. e = []) es)"
    by (induction es) simp_all
  ultimately show ?thesis unfolding Cons by simp
qed

section \<open>Options and bodies\<close>

text \<open>The options of a call, with the fields of the vendored \<^verbatim>\<open>metav1\<close>.\<close>

record GetOptions =
  get_ResourceVersion :: string

record ListOptions =
  list_LabelSelector :: string
  list_FieldSelector :: string
  list_Watch :: bool
  list_AllowWatchBookmarks :: bool
  list_ResourceVersion :: string
  list_ResourceVersionMatch :: string
  list_TimeoutSeconds :: "64 word option"
  list_Limit :: "64 word"
  list_Continue :: string

record WriteOptions =
  write_DryRun :: "string list"
  write_FieldManager :: string
  write_FieldValidation :: string

type_synonym CreateOptions = WriteOptions
type_synonym UpdateOptions = WriteOptions

record PatchOptions = WriteOptions +
  patch_Force :: "bool option"

record DeleteOptions =
  delete_GracePeriodSeconds :: "64 word option"
  delete_Preconditions :: "(string option \<times> string option) option"
  delete_OrphanDependents :: "bool option"
  delete_PropagationPolicy :: "string option"
  delete_DryRun :: "string list"

datatype Options = GetOpts GetOptions | ListOpts ListOptions | CreateOpts CreateOptions
  | UpdateOpts UpdateOptions | PatchOpts PatchOptions

datatype Payload = ObjectBody Object | DeleteOptionsBody DeleteOptions | BytesBody string

text \<open>What a response may hold: an object, a list of objects of one type, or a status of success.\<close>

record ListMeta =
  lmeta_ResourceVersion :: string
  lmeta_Continue :: string
  lmeta_RemainingItemCount :: "64 word option"

definition emptyListMeta :: ListMeta where
  "emptyListMeta = \<lparr>lmeta_ResourceVersion = [], lmeta_Continue = [], lmeta_RemainingItemCount = None\<rparr>"

record 'a TypedList =
  list_ListMeta :: ListMeta
  list_Items :: "'a list"

definition emptyList :: "'a TypedList" where
  "emptyList = \<lparr>list_ListMeta = emptyListMeta, list_Items = []\<rparr>"

datatype RuntimeObject = ItemObj Object
  | PtpConfigListObj "PtpConfig TypedList"
  | PtpOperatorConfigListObj "PtpOperatorConfig TypedList"
  | NodePtpDeviceListObj "NodePtpDevice TypedList"
  | StatusObj

section \<open>The client and its requests\<close>

record HttpRequest =
  http_Method :: string
  http_Path :: string
  http_Params :: "(string \<times> string list) list"
  http_Timeout :: Duration
  http_ContentType :: "string option"
  http_Body :: "string option"

text \<open>
  The client: the path that \<^verbatim>\<open>NewRequest\<close> computes from its base and its versioned path, the timeout
  of its HTTP client, and the parameters of the model. \<open>rc_Send\<close> is the request on the wire with all
  its attempts, and answers the body of a response that is no error.
\<close>

record ('s, 'w) RestClient =
  rc_PathPrefix :: string
  rc_Timeout :: Duration
  rc_ContentType :: string
  rc_EncodeParameters :: "Options \<Rightarrow> error + (string \<times> string list) list"
  rc_Encode :: "Payload \<Rightarrow> error + string"
  rc_Decode :: "string \<Rightarrow> error + RuntimeObject"
  rc_Send :: "HttpRequest \<Rightarrow> 's \<Rightarrow> (error + string) \<times> 's"
  rc_Watch :: "HttpRequest \<Rightarrow> 's \<Rightarrow> (error + 'w) \<times> 's"

record Request =
  req_Timeout :: Duration
  req_Verb :: string
  req_PathPrefix :: string
  req_Params :: "(string \<times> string list) list"
  req_ContentType :: "string option"
  req_Namespace :: string
  req_NamespaceSet :: bool
  req_Resource :: string
  req_ResourceName :: string
  req_Subresource :: string
  req_Err :: "error option"
  req_Body :: "string option"

definition NewRequest :: "('s, 'w) RestClient \<Rightarrow> Request" where
  "NewRequest c =
     \<lparr>req_Timeout = rc_Timeout c, req_Verb = [], req_PathPrefix = rc_PathPrefix c, req_Params = [],
      req_ContentType = None, req_Namespace = [], req_NamespaceSet = False, req_Resource = [],
      req_ResourceName = [], req_Subresource = [], req_Err = None, req_Body = None\<rparr>"

definition RestClient_Verb :: "('s, 'w) RestClient \<Rightarrow> string \<Rightarrow> Request" where
  "RestClient_Verb c verb = (NewRequest c)\<lparr>req_Verb := verb\<rparr>"

definition RestClient_Patch :: "('s, 'w) RestClient \<Rightarrow> string \<Rightarrow> Request" where
  "RestClient_Patch c pt = (RestClient_Verb c ''PATCH'')\<lparr>req_ContentType := Some pt\<rparr>"

text \<open>A chain of calls on a request, in the order of the code.\<close>

fun chain :: "Request \<Rightarrow> (Request \<Rightarrow> Request) list \<Rightarrow> Request" where
  "chain r [] = r"
| "chain r (f # fs) = chain (f r) fs"

definition NameMayNotBe :: "string list" where "NameMayNotBe = [''.'', ''..'']"

definition NameMayNotContain :: "char list" where "NameMayNotContain = [CHR ''/'', CHR ''%'']"

definition IsValidPathSegmentName :: "string \<Rightarrow> string list" where
  "IsValidPathSegmentName name =
     (if name \<in> set NameMayNotBe then [''may not be '' @ [CHR 0x27] @ name @ [CHR 0x27]]
      else map (\<lambda>c. ''may not contain '' @ [CHR 0x27, c, CHR 0x27])
        (filter (\<lambda>c. c \<in> set name) NameMayNotContain))"

definition quoteName :: "string \<Rightarrow> string" where "quoteName s = [CHR 0x22] @ s @ [CHR 0x22]"

definition invalidName :: "string \<Rightarrow> string \<Rightarrow> error" where
  "invalidName what name = Errorf (''invalid '' @ what @ '' '' @ quoteName name @ '': ['' @
     strings_Join (IsValidPathSegmentName name) '' '' @ '']'')"

definition alreadySet :: "string \<Rightarrow> string \<Rightarrow> string \<Rightarrow> error" where
  "alreadySet what old new =
     Errorf (what @ '' already set to '' @ quoteName old @ '', cannot change to '' @ quoteName new)"

definition Request_Resource :: "string \<Rightarrow> Request \<Rightarrow> Request" where
  "Request_Resource resource r =
     (if req_Err r \<noteq> None then r
      else if req_Resource r \<noteq> [] then r\<lparr>req_Err := Some (alreadySet ''resource'' (req_Resource r) resource)\<rparr>
      else if IsValidPathSegmentName resource \<noteq> [] then r\<lparr>req_Err := Some (invalidName ''resource'' resource)\<rparr>
      else r\<lparr>req_Resource := resource\<rparr>)"

definition Request_SubResource :: "string list \<Rightarrow> Request \<Rightarrow> Request" where
  "Request_SubResource subresources r =
     (if req_Err r \<noteq> None then r
      else let subresource = path_Join subresources in
        if req_Subresource r \<noteq> []
        then r\<lparr>req_Err := Some (alreadySet ''subresource'' (req_Subresource r) subresource)\<rparr>
        else case find (\<lambda>s. IsValidPathSegmentName s \<noteq> []) subresources of
            Some s \<Rightarrow> r\<lparr>req_Err := Some (invalidName ''subresource'' s)\<rparr>
          | None \<Rightarrow> r\<lparr>req_Subresource := subresource\<rparr>)"

definition Request_Name :: "string \<Rightarrow> Request \<Rightarrow> Request" where
  "Request_Name resourceName r =
     (if req_Err r \<noteq> None then r
      else if resourceName = [] then r\<lparr>req_Err := Some (Errorf ''resource name may not be empty'')\<rparr>
      else if req_ResourceName r \<noteq> []
      then r\<lparr>req_Err := Some (alreadySet ''resource name'' (req_ResourceName r) resourceName)\<rparr>
      else if IsValidPathSegmentName resourceName \<noteq> []
      then r\<lparr>req_Err := Some (invalidName ''resource name'' resourceName)\<rparr>
      else r\<lparr>req_ResourceName := resourceName\<rparr>)"

definition Request_Namespace :: "string \<Rightarrow> Request \<Rightarrow> Request" where
  "Request_Namespace namespace r =
     (if req_Err r \<noteq> None then r
      else if req_NamespaceSet r
      then r\<lparr>req_Err := Some (alreadySet ''namespace'' (req_Namespace r) namespace)\<rparr>
      else if IsValidPathSegmentName namespace \<noteq> []
      then r\<lparr>req_Err := Some (invalidName ''namespace'' namespace)\<rparr>
      else r\<lparr>req_NamespaceSet := True, req_Namespace := namespace\<rparr>)"

definition Request_VersionedParams :: "('s, 'w) RestClient \<Rightarrow> Options \<Rightarrow> Request \<Rightarrow> Request" where
  "Request_VersionedParams c obj r =
     (if req_Err r \<noteq> None then r
      else case rc_EncodeParameters c obj of
          Inl err \<Rightarrow> r\<lparr>req_Err := Some err\<rparr>
        | Inr params \<Rightarrow>
            r\<lparr>req_Params := fold (\<lambda>(k, v) ps.
                AList.update k ((case map_of ps k of None \<Rightarrow> [] | Some vs \<Rightarrow> vs) @ v) ps) params (req_Params r)\<rparr>)"

definition Request_Timeout :: "Duration \<Rightarrow> Request \<Rightarrow> Request" where
  "Request_Timeout d r = (if req_Err r \<noteq> None then r else r\<lparr>req_Timeout := d\<rparr>)"

definition Request_Body :: "('s, 'w) RestClient \<Rightarrow> Payload \<Rightarrow> Request \<Rightarrow> Request" where
  "Request_Body c obj r =
     (if req_Err r \<noteq> None then r
      else case obj of
          BytesBody data \<Rightarrow> r\<lparr>req_Body := Some data\<rparr>
        | _ \<Rightarrow>
            (case rc_Encode c obj of
               Inl err \<Rightarrow> r\<lparr>req_Err := Some err\<rparr>
             | Inr data \<Rightarrow> r\<lparr>req_Body := Some data, req_ContentType := Some (rc_ContentType c)\<rparr>))"

text \<open>The path of \<^verbatim>\<open>Request.URL\<close>; these clients set no subpath.\<close>

definition Request_Path :: "Request \<Rightarrow> string" where
  "Request_Path r =
     (let p = req_PathPrefix r;
          p = (if req_NamespaceSet r \<and> req_Namespace r \<noteq> []
               then path_Join [p, ''namespaces'', req_Namespace r] else p);
          p = (if req_Resource r \<noteq> [] then path_Join [p, strings_ToLower (req_Resource r)] else p)
      in if req_ResourceName r \<noteq> [] \<or> req_Subresource r \<noteq> []
         then path_Join [p, req_ResourceName r, req_Subresource r, []] else p)"

definition requestPreflightCheck :: "Request \<Rightarrow> error option" where
  "requestPreflightCheck r =
     (if \<not> req_NamespaceSet r then None
      else if 0 < length (req_Namespace r) then None
      else if req_Verb r = ''POST'' then Some (Errorf ''an empty namespace may not be set during creation'')
      else if req_Verb r \<in> {''GET'', ''PUT'', ''DELETE''} \<and> 0 < length (req_ResourceName r)
      then Some (Errorf ''an empty namespace may not be set when a resource name is provided'')
      else None)"

definition newHTTPRequest :: "Request \<Rightarrow> HttpRequest" where
  "newHTTPRequest r =
     \<lparr>http_Method = req_Verb r, http_Path = Request_Path r, http_Params = req_Params r,
      http_Timeout = req_Timeout r, http_ContentType = req_ContentType r, http_Body = req_Body r\<rparr>"

definition Request_Do :: "('s, 'w) RestClient \<Rightarrow> Request \<Rightarrow> 's \<Rightarrow> (error + string) \<times> 's" where
  "Request_Do c r s =
     (case req_Err r of
        Some err \<Rightarrow> (Inl err, s)
      | None \<Rightarrow>
          (case requestPreflightCheck r of
             Some err \<Rightarrow> (Inl err, s)
           | None \<Rightarrow> rc_Send c (newHTTPRequest r) s))"

text \<open>A watch is sent without the check for a namespace.\<close>

definition Request_Watch :: "('s, 'w) RestClient \<Rightarrow> Request \<Rightarrow> 's \<Rightarrow> (error + 'w) \<times> 's" where
  "Request_Watch c r s =
     (case req_Err r of
        Some err \<Rightarrow> (Inl err, s)
      | None \<Rightarrow> rc_Watch c (newHTTPRequest r) s)"

text \<open>
  Storing the result into an object that is empty before: an object of another type leaves it empty
  without an error.
\<close>

definition Result_Into ::
  "('s, 'w) RestClient \<Rightarrow> (RuntimeObject \<Rightarrow> 'a option) \<Rightarrow> 'a \<Rightarrow> error + string \<Rightarrow> 'a \<times> error option"
where
  "Result_Into c conv blank result =
     (case result of
        Inl err \<Rightarrow> (blank, Some err)
      | Inr body \<Rightarrow>
          if body = [] then (blank, Some (Errorf ''0-length response''))
          else case rc_Decode c body of
              Inl err \<Rightarrow> (blank, Some err)
            | Inr obj \<Rightarrow> (case conv obj of None \<Rightarrow> (blank, None) | Some x \<Rightarrow> (x, None)))"

definition Result_Error :: "error + string \<Rightarrow> error option" where
  "Result_Error result = (case result of Inl err \<Rightarrow> Some err | Inr _ \<Rightarrow> None)"

section \<open>Where a request goes\<close>

lemma validSegment: "IsValidPathSegmentName e = [] \<Longrightarrow> e = [] \<or> plain e"
  by (auto simp: IsValidPathSegmentName_def NameMayNotBe_def NameMayNotContain_def plain_def split: if_splits)

text \<open>
  What a request that carries no error has been given: its verb, its namespace if one was set, the
  resource, the name if one was given, and the subresources.
\<close>

definition aims :: "string \<Rightarrow> string \<Rightarrow> string option \<Rightarrow> string \<Rightarrow> string list \<Rightarrow> string list \<Rightarrow> Request \<Rightarrow> bool" where
  "aims pre verb ns resource names subs r \<longleftrightarrow>
     (req_Err r = None \<longrightarrow>
        req_PathPrefix r = pre \<and> req_Verb r = verb \<and>
        req_NamespaceSet r = (ns \<noteq> None) \<and> req_Namespace r = (case ns of None \<Rightarrow> [] | Some n \<Rightarrow> n) \<and>
        req_Resource r = resource \<and> req_Subresource r = path_Join subs \<and>
        req_ResourceName r = strings_Join names [] \<and> length names \<le> 1 \<and> [] \<notin> set names \<and>
        (\<forall>e \<in> set (names @ subs @ [resource]) \<union> set_option ns. e = [] \<or> plain e))"

lemma path_Join_Nil [simp]: "path_Join [] = []" by (simp add: path_Join_def)

lemma aims_verb: "aims (rc_PathPrefix c) verb None [] [] [] (RestClient_Verb c verb)"
  by (simp add: aims_def RestClient_Verb_def NewRequest_def)

lemma aims_patch: "aims (rc_PathPrefix c) ''PATCH'' None [] [] [] (RestClient_Patch c pt)"
  by (simp add: aims_def RestClient_Patch_def RestClient_Verb_def NewRequest_def)

lemma aims_Namespace:
  "aims pre verb None resource names subs r \<Longrightarrow> aims pre verb (Some ns) resource names subs (Request_Namespace ns r)"
  using validSegment [of ns] by (cases "req_Err r") (auto simp: aims_def Request_Namespace_def)

lemma aims_Resource:
  "aims pre verb ns [] names subs r \<Longrightarrow> aims pre verb ns resource names subs (Request_Resource resource r)"
  using validSegment [of resource] by (cases "req_Err r") (auto simp: aims_def Request_Resource_def)

lemma aims_Name:
  "aims pre verb ns resource [] subs r \<Longrightarrow> aims pre verb ns resource [name] subs (Request_Name name r)"
  using validSegment [of name] by (cases "req_Err r") (auto simp: aims_def Request_Name_def)

lemma aims_SubResource:
  "aims pre verb ns resource names [] r \<Longrightarrow> aims pre verb ns resource names subs (Request_SubResource subs r)"
  using validSegment by (auto simp: aims_def Request_SubResource_def Let_def find_None_iff split: option.split)

lemma aims_VersionedParams:
  "aims pre verb ns resource names subs r \<Longrightarrow> aims pre verb ns resource names subs (Request_VersionedParams c opts r)"
  by (simp add: aims_def Request_VersionedParams_def split: sum.split)

lemma aims_Timeout:
  "aims pre verb ns resource names subs r \<Longrightarrow> aims pre verb ns resource names subs (Request_Timeout d r)"
  by (simp add: aims_def Request_Timeout_def)

lemma aims_Body:
  "aims pre verb ns resource names subs r \<Longrightarrow> aims pre verb ns resource names subs (Request_Body c obj r)"
  by (auto simp: aims_def Request_Body_def split: sum.split Payload.split)

lemmas aims_rules = aims_verb aims_patch aims_Namespace aims_Resource aims_Name aims_SubResource
  aims_VersionedParams aims_Timeout aims_Body

text \<open>Where such a request goes: below the prefix, with the names one after the other.\<close>

definition namespacePart :: "string option \<Rightarrow> string list" where
  "namespacePart ns = (case ns of None \<Rightarrow> [] | Some n \<Rightarrow> if n = [] then [] else [''namespaces'', n])"

definition target :: "string list \<Rightarrow> string option \<Rightarrow> string \<Rightarrow> string list \<Rightarrow> string list \<Rightarrow> string list" where
  "target base ns resource names subs =
     base @ namespacePart ns @ [resource] @ names @ filter (\<lambda>s. s \<noteq> []) subs"

lemma path_Join_pathOf:
  assumes "es \<noteq> []" "\<forall>e \<in> set es. plain e" "\<forall>e \<in> set (concat (map elements xs)). e \<noteq> ''.'' \<and> e \<noteq> ''..''"
  shows "path_Join (pathOf es # xs) = pathOf (es @ concat (map elements xs))"
proof -
  have "pathOf es = CHR ''/'' # strings_Join es ''/''" using pathOf_Join [OF assms(1)] by simp
  moreover have el: "concat (map elements (pathOf es # xs)) = es @ concat (map elements xs)"
    using elements_pathOf [OF assms(2)] by simp
  moreover have "\<forall>e \<in> set es. e \<noteq> ''.'' \<and> e \<noteq> ''..''" using assms(2) unfolding plain_def by blast
  ultimately show ?thesis
    using path_Join_rooted [of "pathOf es" "strings_Join es ''/''" xs] assms(1,3) unfolding el by auto
qed

lemma plain_no_dots: "plain e \<Longrightarrow> e \<noteq> ''.'' \<and> e \<noteq> ''..''"
  unfolding plain_def by blast

lemma plain_names [simp]: "plain ''namespaces'' = True" "plain ''status'' = True"
  by (simp_all add: plain_def)

lemma Request_Path_target:
  assumes "aims (pathOf base) verb ns resource names subs r" "req_Err r = None"
    and "base \<noteq> []" "\<forall>e \<in> set base. plain e" "resource \<noteq> []" "strings_ToLower resource = resource"
  shows "Request_Path r = pathOf (target base ns resource names subs)"
    "\<forall>e \<in> set (target base ns resource names subs). plain e"
proof -
  have r: "req_PathPrefix r = pathOf base" "req_NamespaceSet r = (ns \<noteq> None)"
    "req_Namespace r = (case ns of None \<Rightarrow> [] | Some n \<Rightarrow> n)" "req_Resource r = resource"
    "req_Subresource r = path_Join subs" "req_ResourceName r = strings_Join names []"
    "length names \<le> 1" "[] \<notin> set names"
    and good: "\<forall>e \<in> set names. e = [] \<or> plain e" "\<forall>e \<in> set subs. e = [] \<or> plain e" "plain resource"
      "\<forall>n. ns = Some n \<longrightarrow> n = [] \<or> plain n"
    using assms(1,2,5) unfolding aims_def by auto
  let ?p1 = "base @ namespacePart ns" and ?subs = "filter (\<lambda>s. s \<noteq> []) subs"
  have p1: "\<forall>e \<in> set ?p1. plain e" "?p1 \<noteq> []"
    using assms(3,4) good(4) by (auto simp: namespacePart_def split: option.split)
  have p2: "\<forall>e \<in> set (?p1 @ [resource]). plain e" "?p1 @ [resource] \<noteq> []" using p1 good(3) by auto
  have subs: "elements (path_Join subs) = ?subs" "\<forall>e \<in> set ?subs. plain e"
    using elements_Join_names [OF good(2)] good(2) by auto
  have names: "elements (strings_Join names []) = names" "\<forall>e \<in> set names. plain e"
    using r(7,8) good(1) elements_plain by (cases names; auto)+
  show "\<forall>e \<in> set (target base ns resource names subs). plain e"
    using p2 names(2) subs(2) by (auto simp: target_def)
  have ns: "(if req_NamespaceSet r \<and> req_Namespace r \<noteq> [] then path_Join [pathOf base, ''namespaces'', req_Namespace r]
      else pathOf base) = pathOf ?p1"
  proof (cases "\<exists>n. ns = Some n \<and> n \<noteq> []")
    case True
    then obtain n where n: "ns = Some n" "n \<noteq> []" "plain n" using good(4) by blast
    then have "path_Join [pathOf base, ''namespaces'', n] = pathOf (base @ [''namespaces'', n])"
      using plain_no_dots [OF n(3)]
      by (subst path_Join_pathOf [OF assms(3,4)]) (simp_all add: elements_plain)
    with n r(2,3) show ?thesis by (simp add: namespacePart_def)
  qed (use r(2,3) in \<open>auto simp: namespacePart_def split: option.split\<close>)
  have res: "path_Join [pathOf ?p1, strings_ToLower resource] = pathOf (?p1 @ [resource])"
    using good(3) plain_no_dots [OF good(3)]
    by (subst path_Join_pathOf [OF p1(2,1)]) (simp_all add: elements_plain assms(6))
  have "Request_Path r = (if strings_Join names [] \<noteq> [] \<or> path_Join subs \<noteq> []
      then path_Join [pathOf (?p1 @ [resource]), strings_Join names [], path_Join subs, []]
      else pathOf (?p1 @ [resource]))"
    unfolding Request_Path_def Let_def r(1) ns unfolding r(4-6) using assms(5) res by simp
  also have "\<dots> = pathOf (?p1 @ [resource] @ names @ ?subs)"
  proof (cases "strings_Join names [] \<noteq> [] \<or> path_Join subs \<noteq> []")
    case True
    have "\<forall>e \<in> set (names @ ?subs). e \<noteq> ''.'' \<and> e \<noteq> ''..''" using names(2) subs(2) plain_no_dots by auto
    with True show ?thesis by (subst path_Join_pathOf [OF p2(2,1)]) (simp_all add: names(1) subs(1))
  next
    case False
    with names(1) subs(1) have "names = []" "?subs = []" by simp_all
    with False show ?thesis by simp
  qed
  finally show "Request_Path r = pathOf (target base ns resource names subs)" by (simp add: target_def)
qed

end
