(* ===== verification/Clientset.thy ===== *)
theory Clientset
  imports Rest_Request
begin

text \<open>
  The generated typed clientset, \<^verbatim>\<open>pkg/client/clientset/versioned\<close>: for each of the three resources a
  client with nine methods, each of which builds one request and sends it, and the constructors that
  connect them to a configuration.

  A method returns its result beside the error, as in Go: a call that fails returns an empty object
  with the error. The context is left out.
\<close>

section \<open>The typed clients\<close>

text \<open>The types a response is stored into, and their zero values.\<close>

fun itemNodePtpDevice :: "RuntimeObject \<Rightarrow> NodePtpDevice option" where
  "itemNodePtpDevice (ItemObj (NodePtpDeviceObj x)) = Some x" | "itemNodePtpDevice _ = None"

fun itemPtpConfig :: "RuntimeObject \<Rightarrow> PtpConfig option" where
  "itemPtpConfig (ItemObj (PtpConfigObj x)) = Some x" | "itemPtpConfig _ = None"

fun itemPtpOperatorConfig :: "RuntimeObject \<Rightarrow> PtpOperatorConfig option" where
  "itemPtpOperatorConfig (ItemObj (PtpOperatorConfigObj x)) = Some x" | "itemPtpOperatorConfig _ = None"

fun listNodePtpDevice :: "RuntimeObject \<Rightarrow> NodePtpDevice TypedList option" where
  "listNodePtpDevice (NodePtpDeviceListObj x) = Some x" | "listNodePtpDevice _ = None"

fun listPtpConfig :: "RuntimeObject \<Rightarrow> PtpConfig TypedList option" where
  "listPtpConfig (PtpConfigListObj x) = Some x" | "listPtpConfig _ = None"

fun listPtpOperatorConfig :: "RuntimeObject \<Rightarrow> PtpOperatorConfig TypedList option" where
  "listPtpOperatorConfig (PtpOperatorConfigListObj x) = Some x" | "listPtpOperatorConfig _ = None"

definition emptyNodePtpDevice :: NodePtpDevice where
  "emptyNodePtpDevice = \<lparr>ndevice_ObjectMeta = emptyMeta,
     ndevice_Status = \<lparr>dstatus_Devices = [], dstatus_Hwconfig = []\<rparr>\<rparr>"

definition emptyPtpConfig :: PtpConfig where
  "emptyPtpConfig = \<lparr>config_ObjectMeta = emptyMeta, config_Spec = \<lparr>cspec_Profile = [], cspec_Recommend = []\<rparr>,
     config_Status = \<lparr>cstatus_MatchList = []\<rparr>\<rparr>"

definition emptyPtpOperatorConfig :: PtpOperatorConfig where
  "emptyPtpOperatorConfig = \<lparr>oconfig_ObjectMeta = emptyMeta,
     oconfig_Spec = \<lparr>ospec_DaemonNodeSelector = [], ospec_EventConfig = None, ospec_EnabledPlugins = None\<rparr>\<rparr>"

text \<open>The timeout of a list, a watch or a deletion of a collection: seconds times nanoseconds, in 64 bits.\<close>

definition listTimeout :: "ListOptions \<Rightarrow> Duration" where
  "listTimeout opts = (case list_TimeoutSeconds opts of Some t \<Rightarrow> t * Second | None \<Rightarrow> 0)"

record ('s, 'w) PtpV1Client =
  ptpV1_restClient :: "('s, 'w) RestClient"

subsection \<open>\<^verbatim>\<open>nodeptpdevice.go\<close>\<close>

record ('s, 'w) nodePtpDevices =
  nodePtpDevices_client :: "('s, 'w) RestClient"
  nodePtpDevices_ns :: string

definition newNodePtpDevices :: "('s, 'w) PtpV1Client \<Rightarrow> string \<Rightarrow> ('s, 'w) nodePtpDevices" where
  "newNodePtpDevices c namespace = \<lparr>nodePtpDevices_client = ptpV1_restClient c, nodePtpDevices_ns = namespace\<rparr>"

definition nodePtpDevices_Get ::
  "('s, 'w) nodePtpDevices \<Rightarrow> string \<Rightarrow> GetOptions \<Rightarrow> 's \<Rightarrow> (NodePtpDevice \<times> error option) \<times> 's"
where
  "nodePtpDevices_Get c name options s =
     (let client = nodePtpDevices_client c;
          (res, s) = Request_Do client
            (chain (RestClient_Verb client ''GET'')
            [Request_Namespace (nodePtpDevices_ns c), Request_Resource ''nodeptpdevices'',
             Request_Name name, Request_VersionedParams client (GetOpts options)]) s
      in (Result_Into client itemNodePtpDevice emptyNodePtpDevice res, s))"

definition nodePtpDevices_List ::
  "('s, 'w) nodePtpDevices \<Rightarrow> ListOptions \<Rightarrow> 's \<Rightarrow> (NodePtpDevice TypedList \<times> error option) \<times> 's"
where
  "nodePtpDevices_List c opts s =
     (let client = nodePtpDevices_client c;
          (res, s) = Request_Do client
            (chain (RestClient_Verb client ''GET'')
            [Request_Namespace (nodePtpDevices_ns c), Request_Resource ''nodeptpdevices'',
             Request_VersionedParams client (ListOpts opts), Request_Timeout (listTimeout opts)]) s
      in (Result_Into client listNodePtpDevice emptyList res, s))"

definition nodePtpDevices_Watch ::
  "('s, 'w) nodePtpDevices \<Rightarrow> ListOptions \<Rightarrow> 's \<Rightarrow> (error + 'w) \<times> 's"
where
  "nodePtpDevices_Watch c opts s =
     (let client = nodePtpDevices_client c; timeout = listTimeout opts; opts = opts\<lparr>list_Watch := True\<rparr>
      in Request_Watch client
        (chain (RestClient_Verb client ''GET'')
          [Request_Namespace (nodePtpDevices_ns c), Request_Resource ''nodeptpdevices'',
           Request_VersionedParams client (ListOpts opts), Request_Timeout timeout]) s)"

definition nodePtpDevices_Create ::
  "('s, 'w) nodePtpDevices \<Rightarrow> NodePtpDevice \<Rightarrow> CreateOptions \<Rightarrow> 's \<Rightarrow> (NodePtpDevice \<times> error option) \<times> 's"
where
  "nodePtpDevices_Create c nodePtpDevice opts s =
     (let client = nodePtpDevices_client c;
          (res, s) = Request_Do client
            (chain (RestClient_Verb client ''POST'')
            [Request_Namespace (nodePtpDevices_ns c), Request_Resource ''nodeptpdevices'',
             Request_VersionedParams client (CreateOpts opts),
             Request_Body client (ObjectBody (NodePtpDeviceObj nodePtpDevice))]) s
      in (Result_Into client itemNodePtpDevice emptyNodePtpDevice res, s))"

definition nodePtpDevices_Update ::
  "('s, 'w) nodePtpDevices \<Rightarrow> NodePtpDevice \<Rightarrow> UpdateOptions \<Rightarrow> 's \<Rightarrow> (NodePtpDevice \<times> error option) \<times> 's"
where
  "nodePtpDevices_Update c nodePtpDevice opts s =
     (let client = nodePtpDevices_client c;
          (res, s) = Request_Do client
            (chain (RestClient_Verb client ''PUT'')
            [Request_Namespace (nodePtpDevices_ns c), Request_Resource ''nodeptpdevices'',
             Request_Name (meta_Name (ndevice_ObjectMeta nodePtpDevice)), Request_VersionedParams client (UpdateOpts opts),
             Request_Body client (ObjectBody (NodePtpDeviceObj nodePtpDevice))]) s
      in (Result_Into client itemNodePtpDevice emptyNodePtpDevice res, s))"

definition nodePtpDevices_UpdateStatus ::
  "('s, 'w) nodePtpDevices \<Rightarrow> NodePtpDevice \<Rightarrow> UpdateOptions \<Rightarrow> 's \<Rightarrow> (NodePtpDevice \<times> error option) \<times> 's"
where
  "nodePtpDevices_UpdateStatus c nodePtpDevice opts s =
     (let client = nodePtpDevices_client c;
          (res, s) = Request_Do client
            (chain (RestClient_Verb client ''PUT'')
            [Request_Namespace (nodePtpDevices_ns c), Request_Resource ''nodeptpdevices'',
             Request_Name (meta_Name (ndevice_ObjectMeta nodePtpDevice)), Request_SubResource [''status''],
             Request_VersionedParams client (UpdateOpts opts),
             Request_Body client (ObjectBody (NodePtpDeviceObj nodePtpDevice))]) s
      in (Result_Into client itemNodePtpDevice emptyNodePtpDevice res, s))"

definition nodePtpDevices_Delete ::
  "('s, 'w) nodePtpDevices \<Rightarrow> string \<Rightarrow> DeleteOptions \<Rightarrow> 's \<Rightarrow> error option \<times> 's"
where
  "nodePtpDevices_Delete c name opts s =
     (let client = nodePtpDevices_client c;
          (res, s) = Request_Do client
            (chain (RestClient_Verb client ''DELETE'')
            [Request_Namespace (nodePtpDevices_ns c), Request_Resource ''nodeptpdevices'',
             Request_Name name, Request_Body client (DeleteOptionsBody opts)]) s
      in (Result_Error res, s))"

definition nodePtpDevices_DeleteCollection ::
  "('s, 'w) nodePtpDevices \<Rightarrow> DeleteOptions \<Rightarrow> ListOptions \<Rightarrow> 's \<Rightarrow> error option \<times> 's"
where
  "nodePtpDevices_DeleteCollection c opts listOpts s =
     (let client = nodePtpDevices_client c;
          (res, s) = Request_Do client
            (chain (RestClient_Verb client ''DELETE'')
            [Request_Namespace (nodePtpDevices_ns c), Request_Resource ''nodeptpdevices'',
             Request_VersionedParams client (ListOpts listOpts), Request_Timeout (listTimeout listOpts),
             Request_Body client (DeleteOptionsBody opts)]) s
      in (Result_Error res, s))"

definition nodePtpDevices_Patch ::
  "('s, 'w) nodePtpDevices \<Rightarrow> string \<Rightarrow> string \<Rightarrow> string \<Rightarrow> PatchOptions \<Rightarrow> string list \<Rightarrow> 's \<Rightarrow> (NodePtpDevice \<times> error option) \<times> 's"
where
  "nodePtpDevices_Patch c name pt data opts subresources s =
     (let client = nodePtpDevices_client c;
          (res, s) = Request_Do client
            (chain (RestClient_Patch client pt)
            [Request_Namespace (nodePtpDevices_ns c), Request_Resource ''nodeptpdevices'',
             Request_Name name, Request_SubResource subresources,
             Request_VersionedParams client (PatchOpts opts),
             Request_Body client (BytesBody data)]) s
      in (Result_Into client itemNodePtpDevice emptyNodePtpDevice res, s))"

subsection \<open>\<^verbatim>\<open>ptpconfig.go\<close>\<close>

record ('s, 'w) ptpConfigs =
  ptpConfigs_client :: "('s, 'w) RestClient"
  ptpConfigs_ns :: string

definition newPtpConfigs :: "('s, 'w) PtpV1Client \<Rightarrow> string \<Rightarrow> ('s, 'w) ptpConfigs" where
  "newPtpConfigs c namespace = \<lparr>ptpConfigs_client = ptpV1_restClient c, ptpConfigs_ns = namespace\<rparr>"

definition ptpConfigs_Get ::
  "('s, 'w) ptpConfigs \<Rightarrow> string \<Rightarrow> GetOptions \<Rightarrow> 's \<Rightarrow> (PtpConfig \<times> error option) \<times> 's"
where
  "ptpConfigs_Get c name options s =
     (let client = ptpConfigs_client c;
          (res, s) = Request_Do client
            (chain (RestClient_Verb client ''GET'')
            [Request_Namespace (ptpConfigs_ns c), Request_Resource ''ptpconfigs'',
             Request_Name name, Request_VersionedParams client (GetOpts options)]) s
      in (Result_Into client itemPtpConfig emptyPtpConfig res, s))"

definition ptpConfigs_List ::
  "('s, 'w) ptpConfigs \<Rightarrow> ListOptions \<Rightarrow> 's \<Rightarrow> (PtpConfig TypedList \<times> error option) \<times> 's"
where
  "ptpConfigs_List c opts s =
     (let client = ptpConfigs_client c;
          (res, s) = Request_Do client
            (chain (RestClient_Verb client ''GET'')
            [Request_Namespace (ptpConfigs_ns c), Request_Resource ''ptpconfigs'',
             Request_VersionedParams client (ListOpts opts), Request_Timeout (listTimeout opts)]) s
      in (Result_Into client listPtpConfig emptyList res, s))"

definition ptpConfigs_Watch ::
  "('s, 'w) ptpConfigs \<Rightarrow> ListOptions \<Rightarrow> 's \<Rightarrow> (error + 'w) \<times> 's"
where
  "ptpConfigs_Watch c opts s =
     (let client = ptpConfigs_client c; timeout = listTimeout opts; opts = opts\<lparr>list_Watch := True\<rparr>
      in Request_Watch client
        (chain (RestClient_Verb client ''GET'')
          [Request_Namespace (ptpConfigs_ns c), Request_Resource ''ptpconfigs'',
           Request_VersionedParams client (ListOpts opts), Request_Timeout timeout]) s)"

definition ptpConfigs_Create ::
  "('s, 'w) ptpConfigs \<Rightarrow> PtpConfig \<Rightarrow> CreateOptions \<Rightarrow> 's \<Rightarrow> (PtpConfig \<times> error option) \<times> 's"
where
  "ptpConfigs_Create c ptpConfig opts s =
     (let client = ptpConfigs_client c;
          (res, s) = Request_Do client
            (chain (RestClient_Verb client ''POST'')
            [Request_Namespace (ptpConfigs_ns c), Request_Resource ''ptpconfigs'',
             Request_VersionedParams client (CreateOpts opts),
             Request_Body client (ObjectBody (PtpConfigObj ptpConfig))]) s
      in (Result_Into client itemPtpConfig emptyPtpConfig res, s))"

definition ptpConfigs_Update ::
  "('s, 'w) ptpConfigs \<Rightarrow> PtpConfig \<Rightarrow> UpdateOptions \<Rightarrow> 's \<Rightarrow> (PtpConfig \<times> error option) \<times> 's"
where
  "ptpConfigs_Update c ptpConfig opts s =
     (let client = ptpConfigs_client c;
          (res, s) = Request_Do client
            (chain (RestClient_Verb client ''PUT'')
            [Request_Namespace (ptpConfigs_ns c), Request_Resource ''ptpconfigs'',
             Request_Name (meta_Name (config_ObjectMeta ptpConfig)), Request_VersionedParams client (UpdateOpts opts),
             Request_Body client (ObjectBody (PtpConfigObj ptpConfig))]) s
      in (Result_Into client itemPtpConfig emptyPtpConfig res, s))"

definition ptpConfigs_UpdateStatus ::
  "('s, 'w) ptpConfigs \<Rightarrow> PtpConfig \<Rightarrow> UpdateOptions \<Rightarrow> 's \<Rightarrow> (PtpConfig \<times> error option) \<times> 's"
where
  "ptpConfigs_UpdateStatus c ptpConfig opts s =
     (let client = ptpConfigs_client c;
          (res, s) = Request_Do client
            (chain (RestClient_Verb client ''PUT'')
            [Request_Namespace (ptpConfigs_ns c), Request_Resource ''ptpconfigs'',
             Request_Name (meta_Name (config_ObjectMeta ptpConfig)), Request_SubResource [''status''],
             Request_VersionedParams client (UpdateOpts opts),
             Request_Body client (ObjectBody (PtpConfigObj ptpConfig))]) s
      in (Result_Into client itemPtpConfig emptyPtpConfig res, s))"

definition ptpConfigs_Delete ::
  "('s, 'w) ptpConfigs \<Rightarrow> string \<Rightarrow> DeleteOptions \<Rightarrow> 's \<Rightarrow> error option \<times> 's"
where
  "ptpConfigs_Delete c name opts s =
     (let client = ptpConfigs_client c;
          (res, s) = Request_Do client
            (chain (RestClient_Verb client ''DELETE'')
            [Request_Namespace (ptpConfigs_ns c), Request_Resource ''ptpconfigs'',
             Request_Name name, Request_Body client (DeleteOptionsBody opts)]) s
      in (Result_Error res, s))"

definition ptpConfigs_DeleteCollection ::
  "('s, 'w) ptpConfigs \<Rightarrow> DeleteOptions \<Rightarrow> ListOptions \<Rightarrow> 's \<Rightarrow> error option \<times> 's"
where
  "ptpConfigs_DeleteCollection c opts listOpts s =
     (let client = ptpConfigs_client c;
          (res, s) = Request_Do client
            (chain (RestClient_Verb client ''DELETE'')
            [Request_Namespace (ptpConfigs_ns c), Request_Resource ''ptpconfigs'',
             Request_VersionedParams client (ListOpts listOpts), Request_Timeout (listTimeout listOpts),
             Request_Body client (DeleteOptionsBody opts)]) s
      in (Result_Error res, s))"

definition ptpConfigs_Patch ::
  "('s, 'w) ptpConfigs \<Rightarrow> string \<Rightarrow> string \<Rightarrow> string \<Rightarrow> PatchOptions \<Rightarrow> string list \<Rightarrow> 's \<Rightarrow> (PtpConfig \<times> error option) \<times> 's"
where
  "ptpConfigs_Patch c name pt data opts subresources s =
     (let client = ptpConfigs_client c;
          (res, s) = Request_Do client
            (chain (RestClient_Patch client pt)
            [Request_Namespace (ptpConfigs_ns c), Request_Resource ''ptpconfigs'',
             Request_Name name, Request_SubResource subresources,
             Request_VersionedParams client (PatchOpts opts),
             Request_Body client (BytesBody data)]) s
      in (Result_Into client itemPtpConfig emptyPtpConfig res, s))"

subsection \<open>\<^verbatim>\<open>ptpoperatorconfig.go\<close>\<close>

record ('s, 'w) ptpOperatorConfigs =
  ptpOperatorConfigs_client :: "('s, 'w) RestClient"
  ptpOperatorConfigs_ns :: string

definition newPtpOperatorConfigs :: "('s, 'w) PtpV1Client \<Rightarrow> string \<Rightarrow> ('s, 'w) ptpOperatorConfigs" where
  "newPtpOperatorConfigs c namespace = \<lparr>ptpOperatorConfigs_client = ptpV1_restClient c, ptpOperatorConfigs_ns = namespace\<rparr>"

definition ptpOperatorConfigs_Get ::
  "('s, 'w) ptpOperatorConfigs \<Rightarrow> string \<Rightarrow> GetOptions \<Rightarrow> 's \<Rightarrow> (PtpOperatorConfig \<times> error option) \<times> 's"
where
  "ptpOperatorConfigs_Get c name options s =
     (let client = ptpOperatorConfigs_client c;
          (res, s) = Request_Do client
            (chain (RestClient_Verb client ''GET'')
            [Request_Namespace (ptpOperatorConfigs_ns c), Request_Resource ''ptpoperatorconfigs'',
             Request_Name name, Request_VersionedParams client (GetOpts options)]) s
      in (Result_Into client itemPtpOperatorConfig emptyPtpOperatorConfig res, s))"

definition ptpOperatorConfigs_List ::
  "('s, 'w) ptpOperatorConfigs \<Rightarrow> ListOptions \<Rightarrow> 's \<Rightarrow> (PtpOperatorConfig TypedList \<times> error option) \<times> 's"
where
  "ptpOperatorConfigs_List c opts s =
     (let client = ptpOperatorConfigs_client c;
          (res, s) = Request_Do client
            (chain (RestClient_Verb client ''GET'')
            [Request_Namespace (ptpOperatorConfigs_ns c), Request_Resource ''ptpoperatorconfigs'',
             Request_VersionedParams client (ListOpts opts), Request_Timeout (listTimeout opts)]) s
      in (Result_Into client listPtpOperatorConfig emptyList res, s))"

definition ptpOperatorConfigs_Watch ::
  "('s, 'w) ptpOperatorConfigs \<Rightarrow> ListOptions \<Rightarrow> 's \<Rightarrow> (error + 'w) \<times> 's"
where
  "ptpOperatorConfigs_Watch c opts s =
     (let client = ptpOperatorConfigs_client c; timeout = listTimeout opts; opts = opts\<lparr>list_Watch := True\<rparr>
      in Request_Watch client
        (chain (RestClient_Verb client ''GET'')
          [Request_Namespace (ptpOperatorConfigs_ns c), Request_Resource ''ptpoperatorconfigs'',
           Request_VersionedParams client (ListOpts opts), Request_Timeout timeout]) s)"

definition ptpOperatorConfigs_Create ::
  "('s, 'w) ptpOperatorConfigs \<Rightarrow> PtpOperatorConfig \<Rightarrow> CreateOptions \<Rightarrow> 's \<Rightarrow> (PtpOperatorConfig \<times> error option) \<times> 's"
where
  "ptpOperatorConfigs_Create c ptpOperatorConfig opts s =
     (let client = ptpOperatorConfigs_client c;
          (res, s) = Request_Do client
            (chain (RestClient_Verb client ''POST'')
            [Request_Namespace (ptpOperatorConfigs_ns c), Request_Resource ''ptpoperatorconfigs'',
             Request_VersionedParams client (CreateOpts opts),
             Request_Body client (ObjectBody (PtpOperatorConfigObj ptpOperatorConfig))]) s
      in (Result_Into client itemPtpOperatorConfig emptyPtpOperatorConfig res, s))"

definition ptpOperatorConfigs_Update ::
  "('s, 'w) ptpOperatorConfigs \<Rightarrow> PtpOperatorConfig \<Rightarrow> UpdateOptions \<Rightarrow> 's \<Rightarrow> (PtpOperatorConfig \<times> error option) \<times> 's"
where
  "ptpOperatorConfigs_Update c ptpOperatorConfig opts s =
     (let client = ptpOperatorConfigs_client c;
          (res, s) = Request_Do client
            (chain (RestClient_Verb client ''PUT'')
            [Request_Namespace (ptpOperatorConfigs_ns c), Request_Resource ''ptpoperatorconfigs'',
             Request_Name (meta_Name (oconfig_ObjectMeta ptpOperatorConfig)), Request_VersionedParams client (UpdateOpts opts),
             Request_Body client (ObjectBody (PtpOperatorConfigObj ptpOperatorConfig))]) s
      in (Result_Into client itemPtpOperatorConfig emptyPtpOperatorConfig res, s))"

definition ptpOperatorConfigs_UpdateStatus ::
  "('s, 'w) ptpOperatorConfigs \<Rightarrow> PtpOperatorConfig \<Rightarrow> UpdateOptions \<Rightarrow> 's \<Rightarrow> (PtpOperatorConfig \<times> error option) \<times> 's"
where
  "ptpOperatorConfigs_UpdateStatus c ptpOperatorConfig opts s =
     (let client = ptpOperatorConfigs_client c;
          (res, s) = Request_Do client
            (chain (RestClient_Verb client ''PUT'')
            [Request_Namespace (ptpOperatorConfigs_ns c), Request_Resource ''ptpoperatorconfigs'',
             Request_Name (meta_Name (oconfig_ObjectMeta ptpOperatorConfig)), Request_SubResource [''status''],
             Request_VersionedParams client (UpdateOpts opts),
             Request_Body client (ObjectBody (PtpOperatorConfigObj ptpOperatorConfig))]) s
      in (Result_Into client itemPtpOperatorConfig emptyPtpOperatorConfig res, s))"

definition ptpOperatorConfigs_Delete ::
  "('s, 'w) ptpOperatorConfigs \<Rightarrow> string \<Rightarrow> DeleteOptions \<Rightarrow> 's \<Rightarrow> error option \<times> 's"
where
  "ptpOperatorConfigs_Delete c name opts s =
     (let client = ptpOperatorConfigs_client c;
          (res, s) = Request_Do client
            (chain (RestClient_Verb client ''DELETE'')
            [Request_Namespace (ptpOperatorConfigs_ns c), Request_Resource ''ptpoperatorconfigs'',
             Request_Name name, Request_Body client (DeleteOptionsBody opts)]) s
      in (Result_Error res, s))"

definition ptpOperatorConfigs_DeleteCollection ::
  "('s, 'w) ptpOperatorConfigs \<Rightarrow> DeleteOptions \<Rightarrow> ListOptions \<Rightarrow> 's \<Rightarrow> error option \<times> 's"
where
  "ptpOperatorConfigs_DeleteCollection c opts listOpts s =
     (let client = ptpOperatorConfigs_client c;
          (res, s) = Request_Do client
            (chain (RestClient_Verb client ''DELETE'')
            [Request_Namespace (ptpOperatorConfigs_ns c), Request_Resource ''ptpoperatorconfigs'',
             Request_VersionedParams client (ListOpts listOpts), Request_Timeout (listTimeout listOpts),
             Request_Body client (DeleteOptionsBody opts)]) s
      in (Result_Error res, s))"

definition ptpOperatorConfigs_Patch ::
  "('s, 'w) ptpOperatorConfigs \<Rightarrow> string \<Rightarrow> string \<Rightarrow> string \<Rightarrow> PatchOptions \<Rightarrow> string list \<Rightarrow> 's \<Rightarrow> (PtpOperatorConfig \<times> error option) \<times> 's"
where
  "ptpOperatorConfigs_Patch c name pt data opts subresources s =
     (let client = ptpOperatorConfigs_client c;
          (res, s) = Request_Do client
            (chain (RestClient_Patch client pt)
            [Request_Namespace (ptpOperatorConfigs_ns c), Request_Resource ''ptpoperatorconfigs'',
             Request_Name name, Request_SubResource subresources,
             Request_VersionedParams client (PatchOpts opts),
             Request_Body client (BytesBody data)]) s
      in (Result_Into client itemPtpOperatorConfig emptyPtpOperatorConfig res, s))"

subsection \<open>\<^verbatim>\<open>ptp_client.go\<close>\<close>

text \<open>
  A configuration, with the fields that the constructors read or set. A rate limiter is known by the
  rate and the burst it was made with, a serializer by a name; a rate is an integer, because only its
  sign is looked at.
\<close>

record RestConfig =
  cfg_Host :: string
  cfg_APIPath :: string
  cfg_GroupVersion :: "(string \<times> string) option"
  cfg_NegotiatedSerializer :: "string option"
  cfg_UserAgent :: string
  cfg_RateLimiter :: "(int \<times> int) option"
  cfg_QPS :: int
  cfg_Burst :: int

text \<open>
  The vendored \<^verbatim>\<open>rest.RESTClientFor\<close>. Parsing the host, which gives the path of the base URL, and
  making the HTTP client are parameters.
\<close>

record ('s, 'w) Connect =
  serverPath :: "string \<Rightarrow> error + string"
  httpClient :: "RestConfig \<Rightarrow> error + ('s, 'w) RestClient"
  defaultUserAgent :: string

definition DefaultVersionedAPIPath :: "string \<Rightarrow> string \<times> string \<Rightarrow> string" where
  "DefaultVersionedAPIPath apiPath gv =
     (let versionedAPIPath = path_Join [''/'', apiPath]
      in if 0 < length (fst gv) then path_Join [versionedAPIPath, fst gv, snd gv]
         else path_Join [versionedAPIPath, snd gv])"

definition RESTClientFor :: "('s, 'w) Connect \<Rightarrow> RestConfig \<Rightarrow> error + ('s, 'w) RestClient" where
  "RESTClientFor env config =
     (case cfg_GroupVersion config of
        None \<Rightarrow> Inl (Errorf ''GroupVersion is required when initializing a RESTClient'')
      | Some gv \<Rightarrow>
     (if cfg_NegotiatedSerializer config = None
      then Inl (Errorf ''NegotiatedSerializer is required when initializing a RESTClient'')
      else
     (case serverPath env (if cfg_Host config = [] then ''localhost'' else cfg_Host config) of
        Inl err \<Rightarrow> Inl err
      | Inr base \<Rightarrow>
     (case httpClient env config of
        Inl err \<Rightarrow> Inl err
      | Inr client \<Rightarrow>
          Inr (client\<lparr>rc_PathPrefix :=
            path_Join [''/'', base, DefaultVersionedAPIPath (cfg_APIPath config) gv]\<rparr>)))))"

definition setConfigDefaults :: "('s, 'w) Connect \<Rightarrow> RestConfig \<Rightarrow> RestConfig" where
  "setConfigDefaults env config =
     (let config = config\<lparr>cfg_GroupVersion := Some (''ptp.openshift.io'', ''v1''), cfg_APIPath := ''/apis'',
            cfg_NegotiatedSerializer := Some ''Codecs.WithoutConversion''\<rparr>
      in if cfg_UserAgent config = [] then config\<lparr>cfg_UserAgent := defaultUserAgent env\<rparr> else config)"

definition ptpV1_NewForConfig :: "('s, 'w) Connect \<Rightarrow> RestConfig \<Rightarrow> error + ('s, 'w) PtpV1Client" where
  "ptpV1_NewForConfig env c =
     (case RESTClientFor env (setConfigDefaults env c) of
        Inl err \<Rightarrow> Inl err
      | Inr client \<Rightarrow> Inr \<lparr>ptpV1_restClient = client\<rparr>)"

definition ptpV1_NewForConfigOrDie :: "('s, 'w) Connect \<Rightarrow> RestConfig \<Rightarrow> ('s, 'w) PtpV1Client go" where
  "ptpV1_NewForConfigOrDie env c =
     (case ptpV1_NewForConfig env c of Inl err \<Rightarrow> Panic (Error err) | Inr client \<Rightarrow> Ret client)"

definition ptpV1_New :: "('s, 'w) RestClient \<Rightarrow> ('s, 'w) PtpV1Client" where
  "ptpV1_New c = \<lparr>ptpV1_restClient = c\<rparr>"

definition ptpV1_RESTClient :: "('s, 'w) PtpV1Client option \<Rightarrow> ('s, 'w) RestClient option" where
  "ptpV1_RESTClient c = (case c of None \<Rightarrow> None | Some c \<Rightarrow> Some (ptpV1_restClient c))"

definition ptpV1_NodePtpDevices :: "('s, 'w) PtpV1Client \<Rightarrow> string \<Rightarrow> ('s, 'w) nodePtpDevices" where
  "ptpV1_NodePtpDevices c namespace = newNodePtpDevices c namespace"

definition ptpV1_PtpConfigs :: "('s, 'w) PtpV1Client \<Rightarrow> string \<Rightarrow> ('s, 'w) ptpConfigs" where
  "ptpV1_PtpConfigs c namespace = newPtpConfigs c namespace"

definition ptpV1_PtpOperatorConfigs :: "('s, 'w) PtpV1Client \<Rightarrow> string \<Rightarrow> ('s, 'w) ptpOperatorConfigs" where
  "ptpV1_PtpOperatorConfigs c namespace = newPtpOperatorConfigs c namespace"

subsection \<open>\<^verbatim>\<open>clientset.go\<close>\<close>

text \<open>The discovery client, whose constructors are vendored, is the third type parameter.\<close>

record ('s, 'w, 'd) Clientset =
  cs_ptpV1 :: "('s, 'w) PtpV1Client"
  cs_DiscoveryClient :: 'd

definition Clientset_PtpV1 :: "('s, 'w, 'd) Clientset \<Rightarrow> ('s, 'w) PtpV1Client" where
  "Clientset_PtpV1 c = cs_ptpV1 c"

definition Clientset_Discovery :: "('s, 'w, 'd) Clientset option \<Rightarrow> 'd option" where
  "Clientset_Discovery c = (case c of None \<Rightarrow> None | Some c \<Rightarrow> Some (cs_DiscoveryClient c))"

definition Clientset_NewForConfig ::
  "('s, 'w) Connect \<Rightarrow> (RestConfig \<Rightarrow> error + 'd) \<Rightarrow> RestConfig \<Rightarrow> error + ('s, 'w, 'd) Clientset"
where
  "Clientset_NewForConfig env newDiscovery c =
     (if cfg_RateLimiter c = None \<and> 0 < cfg_QPS c \<and> cfg_Burst c \<le> 0
      then Inl (Errorf (''burst is required to be greater than 0 when RateLimiter is not set and QPS is '' @
        ''set to greater than 0''))
      else let c = (if cfg_RateLimiter c = None \<and> 0 < cfg_QPS c
                    then c\<lparr>cfg_RateLimiter := Some (cfg_QPS c, cfg_Burst c)\<rparr> else c)
      in case ptpV1_NewForConfig env c of
          Inl err \<Rightarrow> Inl err
        | Inr ptpV1 \<Rightarrow>
            (case newDiscovery c of
               Inl err \<Rightarrow> Inl err
             | Inr discovery \<Rightarrow> Inr \<lparr>cs_ptpV1 = ptpV1, cs_DiscoveryClient = discovery\<rparr>))"

text \<open>The discovery client's constructor that panics is a parameter as well.\<close>

definition Clientset_NewForConfigOrDie ::
  "('s, 'w) Connect \<Rightarrow> (RestConfig \<Rightarrow> 'd go) \<Rightarrow> RestConfig \<Rightarrow> ('s, 'w, 'd) Clientset go"
where
  "Clientset_NewForConfigOrDie env newDiscoveryOrDie c =
     bind_go (ptpV1_NewForConfigOrDie env c) (\<lambda>ptpV1.
       bind_go (newDiscoveryOrDie c) (\<lambda>discovery. Ret \<lparr>cs_ptpV1 = ptpV1, cs_DiscoveryClient = discovery\<rparr>))"

definition Clientset_New ::
  "(('s, 'w) RestClient \<Rightarrow> 'd) \<Rightarrow> ('s, 'w) RestClient \<Rightarrow> ('s, 'w, 'd) Clientset"
where
  "Clientset_New newDiscovery c = \<lparr>cs_ptpV1 = ptpV1_New c, cs_DiscoveryClient = newDiscovery c\<rparr>"

section \<open>Where the calls go\<close>

text \<open>
  Every call of the three clients: the verb, the namespace of the client, the resource, the names and
  subresources that the call is about, and the state before and after it.
\<close>

inductive typedCall ::
  "('s, 'w) PtpV1Client \<Rightarrow> string \<Rightarrow> 's \<Rightarrow> string \<Rightarrow> string \<Rightarrow> string list \<Rightarrow> string list \<Rightarrow> 's \<Rightarrow> bool"
  for c ns s where
  nodeptpdevices_Get: "typedCall c ns s ''GET'' ''nodeptpdevices'' [name] []
    (snd (nodePtpDevices_Get (ptpV1_NodePtpDevices c ns) name options s))"
| nodeptpdevices_List: "typedCall c ns s ''GET'' ''nodeptpdevices'' [] []
    (snd (nodePtpDevices_List (ptpV1_NodePtpDevices c ns) opts s))"
| nodeptpdevices_Watch: "typedCall c ns s ''GET'' ''nodeptpdevices'' [] []
    (snd (nodePtpDevices_Watch (ptpV1_NodePtpDevices c ns) opts s))"
| nodeptpdevices_Create: "typedCall c ns s ''POST'' ''nodeptpdevices'' [] []
    (snd (nodePtpDevices_Create (ptpV1_NodePtpDevices c ns) nodePtpDevice opts s))"
| nodeptpdevices_Update: "typedCall c ns s ''PUT'' ''nodeptpdevices'' [meta_Name (ndevice_ObjectMeta nodePtpDevice)] []
    (snd (nodePtpDevices_Update (ptpV1_NodePtpDevices c ns) nodePtpDevice opts s))"
| nodeptpdevices_UpdateStatus: "typedCall c ns s ''PUT'' ''nodeptpdevices'' [meta_Name (ndevice_ObjectMeta nodePtpDevice)] [''status'']
    (snd (nodePtpDevices_UpdateStatus (ptpV1_NodePtpDevices c ns) nodePtpDevice opts s))"
| nodeptpdevices_Delete: "typedCall c ns s ''DELETE'' ''nodeptpdevices'' [name] []
    (snd (nodePtpDevices_Delete (ptpV1_NodePtpDevices c ns) name opts s))"
| nodeptpdevices_DeleteCollection: "typedCall c ns s ''DELETE'' ''nodeptpdevices'' [] []
    (snd (nodePtpDevices_DeleteCollection (ptpV1_NodePtpDevices c ns) opts listOpts s))"
| nodeptpdevices_Patch: "typedCall c ns s ''PATCH'' ''nodeptpdevices'' [name] subs
    (snd (nodePtpDevices_Patch (ptpV1_NodePtpDevices c ns) name pt data opts subs s))"
| ptpconfigs_Get: "typedCall c ns s ''GET'' ''ptpconfigs'' [name] []
    (snd (ptpConfigs_Get (ptpV1_PtpConfigs c ns) name options s))"
| ptpconfigs_List: "typedCall c ns s ''GET'' ''ptpconfigs'' [] []
    (snd (ptpConfigs_List (ptpV1_PtpConfigs c ns) opts s))"
| ptpconfigs_Watch: "typedCall c ns s ''GET'' ''ptpconfigs'' [] []
    (snd (ptpConfigs_Watch (ptpV1_PtpConfigs c ns) opts s))"
| ptpconfigs_Create: "typedCall c ns s ''POST'' ''ptpconfigs'' [] []
    (snd (ptpConfigs_Create (ptpV1_PtpConfigs c ns) ptpConfig opts s))"
| ptpconfigs_Update: "typedCall c ns s ''PUT'' ''ptpconfigs'' [meta_Name (config_ObjectMeta ptpConfig)] []
    (snd (ptpConfigs_Update (ptpV1_PtpConfigs c ns) ptpConfig opts s))"
| ptpconfigs_UpdateStatus: "typedCall c ns s ''PUT'' ''ptpconfigs'' [meta_Name (config_ObjectMeta ptpConfig)] [''status'']
    (snd (ptpConfigs_UpdateStatus (ptpV1_PtpConfigs c ns) ptpConfig opts s))"
| ptpconfigs_Delete: "typedCall c ns s ''DELETE'' ''ptpconfigs'' [name] []
    (snd (ptpConfigs_Delete (ptpV1_PtpConfigs c ns) name opts s))"
| ptpconfigs_DeleteCollection: "typedCall c ns s ''DELETE'' ''ptpconfigs'' [] []
    (snd (ptpConfigs_DeleteCollection (ptpV1_PtpConfigs c ns) opts listOpts s))"
| ptpconfigs_Patch: "typedCall c ns s ''PATCH'' ''ptpconfigs'' [name] subs
    (snd (ptpConfigs_Patch (ptpV1_PtpConfigs c ns) name pt data opts subs s))"
| ptpoperatorconfigs_Get: "typedCall c ns s ''GET'' ''ptpoperatorconfigs'' [name] []
    (snd (ptpOperatorConfigs_Get (ptpV1_PtpOperatorConfigs c ns) name options s))"
| ptpoperatorconfigs_List: "typedCall c ns s ''GET'' ''ptpoperatorconfigs'' [] []
    (snd (ptpOperatorConfigs_List (ptpV1_PtpOperatorConfigs c ns) opts s))"
| ptpoperatorconfigs_Watch: "typedCall c ns s ''GET'' ''ptpoperatorconfigs'' [] []
    (snd (ptpOperatorConfigs_Watch (ptpV1_PtpOperatorConfigs c ns) opts s))"
| ptpoperatorconfigs_Create: "typedCall c ns s ''POST'' ''ptpoperatorconfigs'' [] []
    (snd (ptpOperatorConfigs_Create (ptpV1_PtpOperatorConfigs c ns) ptpOperatorConfig opts s))"
| ptpoperatorconfigs_Update: "typedCall c ns s ''PUT'' ''ptpoperatorconfigs'' [meta_Name (oconfig_ObjectMeta ptpOperatorConfig)] []
    (snd (ptpOperatorConfigs_Update (ptpV1_PtpOperatorConfigs c ns) ptpOperatorConfig opts s))"
| ptpoperatorconfigs_UpdateStatus: "typedCall c ns s ''PUT'' ''ptpoperatorconfigs'' [meta_Name (oconfig_ObjectMeta ptpOperatorConfig)] [''status'']
    (snd (ptpOperatorConfigs_UpdateStatus (ptpV1_PtpOperatorConfigs c ns) ptpOperatorConfig opts s))"
| ptpoperatorconfigs_Delete: "typedCall c ns s ''DELETE'' ''ptpoperatorconfigs'' [name] []
    (snd (ptpOperatorConfigs_Delete (ptpV1_PtpOperatorConfigs c ns) name opts s))"
| ptpoperatorconfigs_DeleteCollection: "typedCall c ns s ''DELETE'' ''ptpoperatorconfigs'' [] []
    (snd (ptpOperatorConfigs_DeleteCollection (ptpV1_PtpOperatorConfigs c ns) opts listOpts s))"
| ptpoperatorconfigs_Patch: "typedCall c ns s ''PATCH'' ''ptpoperatorconfigs'' [name] subs
    (snd (ptpOperatorConfigs_Patch (ptpV1_PtpOperatorConfigs c ns) name pt data opts subs s))"

lemma Request_Do_effect:
  assumes "aims (pathOf base) verb ns resource names subs r" "base \<noteq> []" "\<forall>e \<in> set base. plain e"
    and "resource \<noteq> []" "strings_ToLower resource = resource"
  shows "snd (Request_Do client r s) = s \<or>
    (\<forall>e \<in> set (target base ns resource names subs). plain e) \<and>
    (ns = Some [] \<longrightarrow> verb \<noteq> ''POST'' \<and> (names = [] \<or> verb \<notin> {''GET'', ''PUT'', ''DELETE''})) \<and>
    (\<exists>q. http_Method q = verb \<and> http_Path q = pathOf (target base ns resource names subs) \<and>
       snd (Request_Do client r s) = snd (rc_Send client q s))"
proof (cases "req_Err r = None \<and> requestPreflightCheck r = None")
  case False
  then show ?thesis by (auto simp: Request_Do_def split: option.split)
next
  case True
  then have r: "req_Verb r = verb" "req_NamespaceSet r = (ns \<noteq> None)"
    "req_Namespace r = (case ns of None \<Rightarrow> [] | Some n \<Rightarrow> n)" "req_ResourceName r = strings_Join names []"
    "length names \<le> 1" "[] \<notin> set names"
    using assms(1) unfolding aims_def by simp_all
  note path = Request_Path_target [OF assms(1) True [THEN conjunct1] assms(2-5)]
  have "verb \<noteq> ''POST'' \<and> (names = [] \<or> verb \<notin> {''GET'', ''PUT'', ''DELETE''})" if "ns = Some []"
    using True that r by (cases names) (auto simp: requestPreflightCheck_def split: if_splits)
  moreover have "Request_Do client r s = rc_Send client (newHTTPRequest r) s"
    using True by (simp add: Request_Do_def)
  ultimately show ?thesis
    using path r(1) by (intro disjI2 conjI exI [of _ "newHTTPRequest r"]) (simp_all add: newHTTPRequest_def)
qed

lemma Request_Watch_effect:
  assumes "aims (pathOf base) verb ns resource names subs r" "base \<noteq> []" "\<forall>e \<in> set base. plain e"
    and "resource \<noteq> []" "strings_ToLower resource = resource"
  shows "snd (Request_Watch client r s) = s \<or>
    (\<forall>e \<in> set (target base ns resource names subs). plain e) \<and>
    (\<exists>q. http_Method q = verb \<and> http_Path q = pathOf (target base ns resource names subs) \<and>
       snd (Request_Watch client r s) = snd (rc_Watch client q s))"
proof (cases "req_Err r")
  case None
  then have "req_Verb r = verb" using assms(1) unfolding aims_def by simp
  with None Request_Path_target [OF assms(1) None assms(2-5)] show ?thesis
    by (intro disjI2 conjI exI [of _ "newHTTPRequest r"]) (simp_all add: newHTTPRequest_def Request_Watch_def)
qed (simp add: Request_Watch_def)


lemma resource_names [simp]:
  "strings_ToLower ''nodeptpdevices'' = ''nodeptpdevices''" "strings_ToLower ''ptpconfigs'' = ''ptpconfigs''"
  "strings_ToLower ''ptpoperatorconfigs'' = ''ptpoperatorconfigs''"
  by code_simp+

text \<open>What a call may do to the state: nothing, or what one request to its own object or collection does.\<close>

definition onTarget ::
  "('s, 'w) RestClient \<Rightarrow> string list \<Rightarrow> string \<Rightarrow> string \<Rightarrow> string \<Rightarrow> string list \<Rightarrow> string list \<Rightarrow> 's \<Rightarrow> 's \<Rightarrow> bool"
where
  "onTarget client base verb ns resource names subs s s' \<longleftrightarrow>
     s' = s \<or>
     (\<forall>e \<in> set (target base (Some ns) resource names subs). plain e) \<and>
     (\<exists>q. http_Method q = verb \<and> http_Path q = pathOf (target base (Some ns) resource names subs) \<and>
        (s' = snd (rc_Send client q s) \<and>
           (ns = [] \<longrightarrow> verb \<noteq> ''POST'' \<and> (names = [] \<or> verb \<notin> {''GET'', ''PUT'', ''DELETE''})) \<or>
         verb = ''GET'' \<and> names = [] \<and> s' = snd (rc_Watch client q s)))"

lemmas client_defs = newNodePtpDevices_def newPtpConfigs_def newPtpOperatorConfigs_def
  ptpV1_NodePtpDevices_def ptpV1_PtpConfigs_def ptpV1_PtpOperatorConfigs_def

lemmas call_defs =
  nodePtpDevices_Get_def nodePtpDevices_List_def nodePtpDevices_Watch_def nodePtpDevices_Create_def
  nodePtpDevices_Update_def nodePtpDevices_UpdateStatus_def nodePtpDevices_Delete_def
  nodePtpDevices_DeleteCollection_def nodePtpDevices_Patch_def
  ptpConfigs_Get_def ptpConfigs_List_def ptpConfigs_Watch_def ptpConfigs_Create_def
  ptpConfigs_Update_def ptpConfigs_UpdateStatus_def ptpConfigs_Delete_def
  ptpConfigs_DeleteCollection_def ptpConfigs_Patch_def
  ptpOperatorConfigs_Get_def ptpOperatorConfigs_List_def ptpOperatorConfigs_Watch_def
  ptpOperatorConfigs_Create_def ptpOperatorConfigs_Update_def ptpOperatorConfigs_UpdateStatus_def
  ptpOperatorConfigs_Delete_def ptpOperatorConfigs_DeleteCollection_def ptpOperatorConfigs_Patch_def

lemma onTarget_Do:
  assumes "aims (pathOf base) verb (Some ns) resource names subs r" "base \<noteq> []" "\<forall>e \<in> set base. plain e"
    and "resource \<noteq> []" "strings_ToLower resource = resource"
  shows "onTarget client base verb ns resource names subs s (snd (Request_Do client r s))"
  using Request_Do_effect [OF assms, of client s] by (auto simp: onTarget_def)

lemma onTarget_Watch:
  assumes "aims (pathOf base) ''GET'' (Some ns) resource [] subs r" "base \<noteq> []" "\<forall>e \<in> set base. plain e"
    and "resource \<noteq> []" "strings_ToLower resource = resource"
  shows "onTarget client base ''GET'' ns resource [] subs s (snd (Request_Watch client r s))"
  using Request_Watch_effect [OF assms, of client s] by (auto simp: onTarget_def)

lemma typedCall_onTarget:
  assumes "typedCall c ns s verb resource names subs s'"
    and "rc_PathPrefix (ptpV1_restClient c) = pathOf base" "base \<noteq> []" "\<forall>e \<in> set base. plain e"
  shows "onTarget (ptpV1_restClient c) base verb ns resource names subs s s'"
proof -
  note start = aims_verb [where c = "ptpV1_restClient c", unfolded assms(2)]
    aims_patch [where c = "ptpV1_restClient c", unfolded assms(2)]
  note steps = aims_Namespace aims_Resource aims_Name aims_SubResource aims_VersionedParams aims_Timeout aims_Body
  from assms(1) show ?thesis
    by cases
      (simp_all only: call_defs client_defs Let_def split_def snd_conv chain.simps
         nodePtpDevices.select_convs ptpConfigs.select_convs ptpOperatorConfigs.select_convs,
       (rule onTarget_Do onTarget_Watch; (intro steps start assms(3,4) | simp))+)
qed

text \<open>The path of a client that is made from a configuration.\<close>

definition apiBase :: "string \<Rightarrow> string list" where
  "apiBase path = serverBase path @ [''apis'', ''ptp.openshift.io'', ''v1'']"

lemma apiBase_plain: "apiBase path \<noteq> []" "\<forall>e \<in> set (apiBase path). plain e"
  using serverBase_plain [of path] by (auto simp: apiBase_def plain_def)

lemma NewForConfig_client:
  assumes "ptpV1_NewForConfig env config = Inr c"
  obtains path where "serverPath env (if cfg_Host config = [] then ''localhost'' else cfg_Host config) = Inr path"
    "rc_PathPrefix (ptpV1_restClient c) = pathOf (apiBase path)"
proof -
  have version: "DefaultVersionedAPIPath ''/apis'' (''ptp.openshift.io'', ''v1'') =
      pathOf [''apis'', ''ptp.openshift.io'', ''v1'']" by code_simp
  have cfg: "cfg_GroupVersion (setConfigDefaults env config) = Some (''ptp.openshift.io'', ''v1'')"
    "cfg_NegotiatedSerializer (setConfigDefaults env config) \<noteq> None"
    "cfg_APIPath (setConfigDefaults env config) = ''/apis''"
    "cfg_Host (setConfigDefaults env config) = cfg_Host config"
    by (simp_all add: setConfigDefaults_def Let_def)
  have join: "path_Join [''/'', path, pathOf [''apis'', ''ptp.openshift.io'', ''v1'']] = pathOf (apiBase path)" for path
    unfolding apiBase_def by (rule path_Join_server) (simp_all add: plain_def)
  from assms cfg show thesis
    by (auto simp: ptpV1_NewForConfig_def RESTClientFor_def version join split: sum.splits if_splits intro: that)
qed

section \<open>Properties of the clients\<close>

text \<open>
  (C26) A call of a typed client touches what it is about and nothing else: it makes no request, or one
  request with its verb, whose path is that of the API followed by the namespace, the resource, the
  name and the subresources it was given, all of them plain names. Names with slashes or dots cannot
  lead it elsewhere, whatever the path of the server, and without a namespace nothing is created and
  no object is read, replaced or deleted by its name.
\<close>
theorem typed_call_stays_on_target:
  assumes "ptpV1_NewForConfig env config = Inr c" and "typedCall c ns s verb resource names subs s'"
  shows "\<exists>path. serverPath env (if cfg_Host config = [] then ''localhost'' else cfg_Host config) = Inr path \<and>
    (s' = s \<or>
     (\<forall>e \<in> set (target (apiBase path) (Some ns) resource names subs). plain e) \<and>
     (\<exists>q. http_Method q = verb \<and> http_Path q = pathOf (target (apiBase path) (Some ns) resource names subs) \<and>
        (s' = snd (rc_Send (ptpV1_restClient c) q s) \<and>
           (ns = [] \<longrightarrow> verb \<noteq> ''POST'' \<and> (names = [] \<or> verb \<notin> {''GET'', ''PUT'', ''DELETE''})) \<or>
         verb = ''GET'' \<and> names = [] \<and> s' = snd (rc_Watch (ptpV1_restClient c) q s))))"
proof -
  obtain path where path: "serverPath env (if cfg_Host config = [] then ''localhost'' else cfg_Host config) = Inr path"
    "rc_PathPrefix (ptpV1_restClient c) = pathOf (apiBase path)"
    using NewForConfig_client [OF assms(1)] by blast
  from path(1) typedCall_onTarget [OF assms(2) path(2) apiBase_plain] show ?thesis
    unfolding onTarget_def by (intro exI [of _ path] conjI)
qed

text \<open>A path names its object.\<close>

lemma typedCall_shape:
  "typedCall c ns s verb resource names subs s' \<Longrightarrow>
   resource \<noteq> ''namespaces'' \<and> length names \<le> 1 \<and>
   (names = [] \<longrightarrow> subs = [])"
  by (induction rule: typedCall.induct) simp_all

lemma namespacePart_inject:
  assumes "(if ns = [] then [] else [K, ns]) @ r # xs = (if ns' = [] then [] else [K, ns']) @ r' # xs'"
    and "r \<noteq> K" "r' \<noteq> K"
  shows "ns = ns' \<and> r = r' \<and> xs = xs'"
  using assms by (cases "ns = []"; cases "ns' = []") auto

lemma target_inject:
  assumes "target base (Some ns) r names subs = target base (Some ns') r' names' subs'"
    and "r \<noteq> ''namespaces''" "r' \<noteq> ''namespaces''"
    and "length names \<le> 1" "names = [] \<longrightarrow> subs = []" "length names' \<le> 1" "names' = [] \<longrightarrow> subs' = []"
  shows "ns = ns' \<and> r = r' \<and> names = names' \<and> filter (\<lambda>s. s \<noteq> []) subs = filter (\<lambda>s. s \<noteq> []) subs'"
proof -
  let ?f = "filter (\<lambda>s. s \<noteq> [])"
  have eq: "namespacePart (Some ns) @ r # names @ ?f subs = namespacePart (Some ns') @ r' # names' @ ?f subs'"
    using assms(1) by (simp add: target_def)
  have "ns = ns' \<and> r = r' \<and> names @ ?f subs = names' @ ?f subs'"
    using namespacePart_inject [OF eq [unfolded namespacePart_def option.case] assms(2,3)] .
  moreover have "length names = length names'" if "names @ ?f subs = names' @ ?f subs'"
    using that assms(4-7) by (cases names; cases names') simp_all
  ultimately show ?thesis by simp
qed

text \<open>
  Distinct objects have distinct paths: two calls whose requests go to the same path are about the
  same namespace, resource, name and subresource.
\<close>
theorem request_path_determines_object:
  assumes "typedCall c ns s verb resource names subs s'" and "typedCall c ns' t verb' resource' names' subs' t'"
    and "\<forall>e \<in> set (target (apiBase path) (Some ns) resource names subs). plain e"
    and "\<forall>e \<in> set (target (apiBase path) (Some ns') resource' names' subs'). plain e"
    and "pathOf (target (apiBase path) (Some ns) resource names subs) =
      pathOf (target (apiBase path) (Some ns') resource' names' subs')"
  shows "ns = ns' \<and> resource = resource' \<and> names = names' \<and>
    filter (\<lambda>e. e \<noteq> []) subs = filter (\<lambda>e. e \<noteq> []) subs'"
  by (rule target_inject [OF pathOf_inject [OF assms(3-5)]])
    (use typedCall_shape [OF assms(1)] typedCall_shape [OF assms(2)] in blast)+

text \<open>The timeout that a request carries.\<close>

definition timed :: "Duration \<Rightarrow> Request \<Rightarrow> bool" where
  "timed d r \<longleftrightarrow> (req_Err r = None \<longrightarrow> req_Timeout r = d)"

lemma timed_rules:
  "timed d (Request_Timeout d r)" "timed d r \<Longrightarrow> timed d (Request_Body c obj r)"
  by (auto simp: timed_def Request_Timeout_def Request_Body_def split: sum.split Payload.split)

lemma timed_Do:
  assumes "timed d r"
  shows "snd (Request_Do c r s) = s \<or> (\<exists>q. http_Timeout q = d \<and> snd (Request_Do c r s) = snd (rc_Send c q s))"
  using assms
  by (cases "req_Err r") (auto simp: Request_Do_def timed_def split: option.split intro: exI [of _ "newHTTPRequest r"]
      simp: newHTTPRequest_def)

lemma sint_seconds: "sint (t * Second) = sint t * 10 ^ 9 \<longleftrightarrow> \<bar>sint t\<bar> \<le> 9223372036"
proof -
  have "sint (t * Second) = signed_take_bit 63 (sint t * 10 ^ 9)"
    by (simp add: Second_def sint_word_ariths)
  then show ?thesis by (auto simp: signed_take_bit_int_eq_self_iff)
qed


text \<open>
  \<^verbatim>\<open>NewForConfigOrDie\<close> is not \<^verbatim>\<open>NewForConfig\<close> with a panic: a configuration with a rate but no burst
  is an error for the one, and accepted by the other as long as its parts accept it.
\<close>
theorem or_die_accepts_missing_burst:
  assumes "cfg_RateLimiter config = None" "0 < cfg_QPS config" "cfg_Burst config \<le> 0"
    and "ptpV1_NewForConfig env config = Inr client" and "newDiscoveryOrDie config = Ret discovery"
  shows "(\<exists>err. Clientset_NewForConfig env newDiscovery config = Inl err) \<and>
    Clientset_NewForConfigOrDie env newDiscoveryOrDie config =
      Ret \<lparr>cs_ptpV1 = client, cs_DiscoveryClient = discovery\<rparr>"
  using assms
  by (simp add: Clientset_NewForConfig_def Clientset_NewForConfigOrDie_def ptpV1_NewForConfigOrDie_def)

section \<open>An example\<close>

text \<open>A server behind a proxy; its state is the list of the requests it was sent.\<close>

definition loggingClient :: "(HttpRequest list, unit) RestClient" where
  "loggingClient =
     \<lparr>rc_PathPrefix = [], rc_Timeout = 0, rc_ContentType = ''application/json'',
      rc_EncodeParameters = (\<lambda>_. Inr []), rc_Encode = (\<lambda>_. Inr ''body''), rc_Decode = (\<lambda>_. Inr StatusObj),
      rc_Send = (\<lambda>q s. (Inr ''ok'', s @ [q])), rc_Watch = (\<lambda>q s. (Inr (), s @ [q]))\<rparr>"

definition exampleConnect :: "(HttpRequest list, unit) Connect" where
  "exampleConnect = \<lparr>serverPath = (\<lambda>_. Inr ''/proxy/../k8s/''), httpClient = (\<lambda>_. Inr loggingClient),
     defaultUserAgent = ''operator''\<rparr>"

definition exampleRestConfig :: RestConfig where
  "exampleRestConfig = \<lparr>cfg_Host = ''h'', cfg_APIPath = [], cfg_GroupVersion = None,
     cfg_NegotiatedSerializer = None, cfg_UserAgent = [], cfg_RateLimiter = None, cfg_QPS = 5, cfg_Burst = 0\<rparr>"

definition exampleClient :: "(HttpRequest list, unit) PtpV1Client" where
  "exampleClient = \<lparr>ptpV1_restClient = loggingClient\<lparr>rc_PathPrefix := ''/k8s/apis/ptp.openshift.io/v1''\<rparr>\<rparr>"

lemma example_connects: "ptpV1_NewForConfig exampleConnect exampleRestConfig = Inr exampleClient"
proof -
  have "path_Join [''/'', ''/proxy/../k8s/'', DefaultVersionedAPIPath ''/apis'' (''ptp.openshift.io'', ''v1'')] =
      ''/k8s/apis/ptp.openshift.io/v1''" by code_simp
  then show ?thesis
    by (simp add: ptpV1_NewForConfig_def RESTClientFor_def setConfigDefaults_def exampleConnect_def
        exampleClient_def exampleRestConfig_def)
qed

text \<open>A deletion of a name with dots, and one of a plain name.\<close>

lemma example_deletes:
  "typedCall exampleClient ''ns'' [] ''DELETE'' ''ptpconfigs'' [name] []
     (snd (ptpConfigs_Delete (ptpV1_PtpConfigs exampleClient ''ns'') name opts []))"
  by (rule ptpconfigs_Delete)

lemma example_path: "serverPath exampleConnect host = Inr path \<Longrightarrow> apiBase path = [''k8s'', ''apis'', ''ptp.openshift.io'', ''v1'']"
proof -
  have "apiBase ''/proxy/../k8s/'' = [''k8s'', ''apis'', ''ptp.openshift.io'', ''v1'']" by code_simp
  then show "serverPath exampleConnect host = Inr path \<Longrightarrow> ?thesis" by (simp add: exampleConnect_def)
qed

definition exampleDelete :: DeleteOptions where
  "exampleDelete = \<lparr>delete_GracePeriodSeconds = None, delete_Preconditions = None,
     delete_OrphanDependents = None, delete_PropagationPolicy = None, delete_DryRun = []\<rparr>"

lemma example_sends:
  "length (snd (ptpConfigs_Delete (ptpV1_PtpConfigs exampleClient ''ns'') ''c'' exampleDelete [])) = 1"
  by code_simp

theorem typed_call_stays_on_target_witness:
  "snd (ptpConfigs_Delete (ptpV1_PtpConfigs exampleClient ''ns'') ''..'' exampleDelete []) = [] \<and>
   map http_Path (snd (ptpConfigs_Delete (ptpV1_PtpConfigs exampleClient ''ns'') ''c'' exampleDelete [])) =
     [''/k8s/apis/ptp.openshift.io/v1/namespaces/ns/ptpconfigs/c'']"
proof
  have send: "snd (rc_Send (ptpV1_restClient exampleClient) q s) = s @ [q]" for q s
    by (simp add: exampleClient_def loggingClient_def)
  show "snd (ptpConfigs_Delete (ptpV1_PtpConfigs exampleClient ''ns'') ''..'' exampleDelete []) = []"
    using typed_call_stays_on_target [OF example_connects example_deletes [of "''..''" exampleDelete]] plain_not_dots
    by (auto simp: target_def)
  have "pathOf (target [''k8s'', ''apis'', ''ptp.openshift.io'', ''v1''] (Some ''ns'') ''ptpconfigs'' [''c''] []) =
      ''/k8s/apis/ptp.openshift.io/v1/namespaces/ns/ptpconfigs/c''" by code_simp
  then show "map http_Path (snd (ptpConfigs_Delete (ptpV1_PtpConfigs exampleClient ''ns'') ''c'' exampleDelete [])) =
      [''/k8s/apis/ptp.openshift.io/v1/namespaces/ns/ptpconfigs/c'']"
    using typed_call_stays_on_target [OF example_connects example_deletes [of "''c''" exampleDelete]] example_sends
    by (auto simp: send dest!: example_path)
qed

theorem request_path_determines_object_witness:
  "pathOf (target (apiBase []) (Some ''ns'') ''ptpconfigs'' [''a''] []) \<noteq>
   pathOf (target (apiBase []) (Some ''ns'') ''ptpconfigs'' [''b''] [])"
proof
  assume same: "pathOf (target (apiBase []) (Some ''ns'') ''ptpconfigs'' [''a''] []) =
    pathOf (target (apiBase []) (Some ''ns'') ''ptpconfigs'' [''b''] [])"
  have "target (apiBase []) (Some ''ns'') ''ptpconfigs'' [n] [] =
      [''apis'', ''ptp.openshift.io'', ''v1'', ''namespaces'', ''ns'', ''ptpconfigs'', n]" for n
    by (simp add: target_def apiBase_def serverBase_def namespacePart_def)
  then have "\<forall>e \<in> set (target (apiBase []) (Some ''ns'') ''ptpconfigs'' [''a''] []). plain e"
    "\<forall>e \<in> set (target (apiBase []) (Some ''ns'') ''ptpconfigs'' [''b''] []). plain e"
    by (simp_all add: plain_def)
  from request_path_determines_object [OF example_deletes example_deletes this same]
  show False by simp
qed

definition exampleList :: ListOptions where
  "exampleList = \<lparr>list_LabelSelector = [], list_FieldSelector = [], list_Watch = False,
     list_AllowWatchBookmarks = False, list_ResourceVersion = [], list_ResourceVersionMatch = [],
     list_TimeoutSeconds = Some (2 ^ 55), list_Limit = 0, list_Continue = []\<rparr>"

lemma example_lists: "length (snd (ptpConfigs_List (ptpV1_PtpConfigs exampleClient ''ns'') exampleList [])) = 1"
  by code_simp


theorem or_die_accepts_missing_burst_witness:
  "Clientset_NewForConfigOrDie exampleConnect (\<lambda>_. Ret ()) exampleRestConfig =
     Ret \<lparr>cs_ptpV1 = exampleClient, cs_DiscoveryClient = ()\<rparr>"
proof -
  have "cfg_RateLimiter exampleRestConfig = None" "0 < cfg_QPS exampleRestConfig" "cfg_Burst exampleRestConfig \<le> 0"
    by (simp_all add: exampleRestConfig_def)
  from or_die_accepts_missing_burst [OF this example_connects, of "\<lambda>_. Ret ()" "()" "\<lambda>_. Inr ()"]
  show ?thesis by simp
qed

end
