(* ===== verification/Fake_Clientset.thy ===== *)
theory Fake_Clientset
  imports Clientset
begin

text \<open>
  The fake clientset for tests, \<^verbatim>\<open>pkg/client/clientset/versioned/fake\<close> and \<^verbatim>\<open>typed/ptp/v1/fake\<close>, on the
  vendored \<^verbatim>\<open>k8s.io/client-go/testing\<close>: actions, reactors, and the tracker that stores the objects and
  tells the watchers what happens to them.

  The state is the list of actions, the objects, and for each watcher the events it was sent; that a
  reader takes events out, and that a channel of a hundred unread events panics, is not modelled. The
  parsers of selectors and the application of patches are parameters.
\<close>

section \<open>Actions\<close>

record GroupVersionResource =
  gvr_Group :: string
  gvr_Version :: string
  gvr_Resource :: string

text \<open>A selector is kept as the text it was parsed from.\<close>

datatype Action =
    GetAction GroupVersionResource string string
  | ListAction GroupVersionResource GroupVersionKind string string string
  | CreateAction GroupVersionResource string Object
  | UpdateAction GroupVersionResource string string Object
  | DeleteAction GroupVersionResource string string
  | DeleteCollectionAction GroupVersionResource string string string
  | PatchAction GroupVersionResource string string string string string
  | WatchAction GroupVersionResource string string string string

fun GetVerb :: "Action \<Rightarrow> string" where
  "GetVerb (GetAction gvr ns name) = ''get''"
| "GetVerb (ListAction gvr gvk ns labels fs) = ''list''"
| "GetVerb (CreateAction gvr ns obj) = ''create''"
| "GetVerb (UpdateAction gvr sub ns obj) = ''update''"
| "GetVerb (DeleteAction gvr ns name) = ''delete''"
| "GetVerb (DeleteCollectionAction gvr ns labels fs) = ''delete-collection''"
| "GetVerb (PatchAction gvr sub ns name pt patch) = ''patch''"
| "GetVerb (WatchAction gvr ns labels fs rv) = ''watch''"

fun GetResource :: "Action \<Rightarrow> GroupVersionResource" where
  "GetResource (GetAction gvr ns name) = gvr"
| "GetResource (ListAction gvr gvk ns labels fs) = gvr"
| "GetResource (CreateAction gvr ns obj) = gvr"
| "GetResource (UpdateAction gvr sub ns obj) = gvr"
| "GetResource (DeleteAction gvr ns name) = gvr"
| "GetResource (DeleteCollectionAction gvr ns labels fs) = gvr"
| "GetResource (PatchAction gvr sub ns name pt patch) = gvr"
| "GetResource (WatchAction gvr ns labels fs rv) = gvr"

fun GetSubresource :: "Action \<Rightarrow> string" where
  "GetSubresource (UpdateAction gvr sub ns obj) = sub"
| "GetSubresource (PatchAction gvr sub ns name pt patch) = sub"
| "GetSubresource _ = []"

fun ActionNamespace :: "Action \<Rightarrow> string" where
  "ActionNamespace (GetAction gvr ns name) = ns"
| "ActionNamespace (ListAction gvr gvk ns labels fs) = ns"
| "ActionNamespace (CreateAction gvr ns obj) = ns"
| "ActionNamespace (UpdateAction gvr sub ns obj) = ns"
| "ActionNamespace (DeleteAction gvr ns name) = ns"
| "ActionNamespace (DeleteCollectionAction gvr ns labels fs) = ns"
| "ActionNamespace (PatchAction gvr sub ns name pt patch) = ns"
| "ActionNamespace (WatchAction gvr ns labels fs rv) = ns"

section \<open>The tracker\<close>

datatype Event = Added Object | Modified Object | Deleted Object

record Fake =
  fake_actions :: "Action list"
  fake_objects :: "((GroupVersionResource \<times> string \<times> string) \<times> Object) list"
  fake_watchers :: "((GroupVersionResource \<times> string) \<times> Event list) list"

abbreviation objNamespace :: "Object \<Rightarrow> string" where "objNamespace obj \<equiv> fst (snd (keyOf obj))"

abbreviation objName :: "Object \<Rightarrow> string" where "objName obj \<equiv> snd (snd (keyOf obj))"

fun setNamespace :: "string \<Rightarrow> Object \<Rightarrow> Object" where
  "setNamespace ns (ConfigMapObj x) = ConfigMapObj (x\<lparr>cm_ObjectMeta := (cm_ObjectMeta x)\<lparr>meta_Namespace := ns\<rparr>\<rparr>)"
| "setNamespace ns (NodeObj x) = NodeObj (x\<lparr>node_ObjectMeta := (node_ObjectMeta x)\<lparr>meta_Namespace := ns\<rparr>\<rparr>)"
| "setNamespace ns (PtpConfigObj x) =
     PtpConfigObj (x\<lparr>config_ObjectMeta := (config_ObjectMeta x)\<lparr>meta_Namespace := ns\<rparr>\<rparr>)"
| "setNamespace ns (PtpOperatorConfigObj x) =
     PtpOperatorConfigObj (x\<lparr>oconfig_ObjectMeta := (oconfig_ObjectMeta x)\<lparr>meta_Namespace := ns\<rparr>\<rparr>)"
| "setNamespace ns (NodePtpDeviceObj x) =
     NodePtpDeviceObj (x\<lparr>ndevice_ObjectMeta := (ndevice_ObjectMeta x)\<lparr>meta_Namespace := ns\<rparr>\<rparr>)"
| "setNamespace ns (UnstructuredObj u) =
     UnstructuredObj (if ns = [] then removeMeta u ''namespace'' else setMeta u ''namespace'' (JString ns))"

definition GroupResource :: "GroupVersionResource \<Rightarrow> string" where
  "GroupResource gvr =
     (if gvr_Group gvr = [] then gvr_Resource gvr else gvr_Resource gvr @ ''.'' @ gvr_Group gvr)"

text \<open>An event goes to the watchers of the namespace and to those of all namespaces.\<close>

definition notify ::
  "GroupVersionResource \<Rightarrow> string \<Rightarrow> Event \<Rightarrow> Fake \<Rightarrow> Fake"
where
  "notify gvr ns ev s =
     s\<lparr>fake_watchers := map (\<lambda>((g, n), evs).
         ((g, n), if g = gvr \<and> (n = ns \<or> n = []) then evs @ [ev] else evs)) (fake_watchers s)\<rparr>"

definition objects_Get ::
  "GroupVersionResource \<Rightarrow> string \<Rightarrow> string \<Rightarrow> Fake \<Rightarrow> error + Object"
where
  "objects_Get gvr ns name s =
     (case map_of (fake_objects s) (gvr, ns, name) of
        None \<Rightarrow> Inl (NewNotFound (GroupResource gvr) name)
      | Some obj \<Rightarrow> Inr obj)"

definition objects_add ::
  "GroupVersionResource \<Rightarrow> Object \<Rightarrow> string \<Rightarrow> bool \<Rightarrow> Fake \<Rightarrow> error option \<times> Fake"
where
  "objects_add gvr obj ns replaceExisting s =
     (let obj = (if length (objNamespace obj) = 0 then setNamespace ns obj else obj) in
      if ns \<noteq> objNamespace obj
      then (Some (NewBadRequest (''request namespace does not match object namespace, request: '' @
        quoteName ns @ '' object: '' @ quoteName (objNamespace obj))), s)
      else let k = (gvr, objNamespace obj, objName obj) in
        case map_of (fake_objects s) k of
          Some _ \<Rightarrow>
            (if replaceExisting
             then (None, (notify gvr ns (Modified obj) s)\<lparr>fake_objects := AList.update k obj (fake_objects s)\<rparr>)
             else (Some (NewAlreadyExists (GroupResource gvr) (objName obj)), s))
        | None \<Rightarrow>
            (if replaceExisting then (Some (NewNotFound (GroupResource gvr) (objName obj)), s)
             else (None, (notify gvr ns (Added obj) s)\<lparr>fake_objects := AList.update k obj (fake_objects s)\<rparr>)))"

definition objects_Delete ::
  "GroupVersionResource \<Rightarrow> string \<Rightarrow> string \<Rightarrow> Fake \<Rightarrow> error option \<times> Fake"
where
  "objects_Delete gvr ns name s =
     (case map_of (fake_objects s) (gvr, ns, name) of
        None \<Rightarrow> (Some (NewNotFound (GroupResource gvr) name), s)
      | Some obj \<Rightarrow>
          (None, (notify gvr ns (Deleted obj) s)\<lparr>fake_objects := AList.delete (gvr, ns, name) (fake_objects s)\<rparr>))"

text \<open>The new watcher is the last one; its number is the answer.\<close>

definition objects_Watch :: "GroupVersionResource \<Rightarrow> string \<Rightarrow> Fake \<Rightarrow> nat \<times> Fake" where
  "objects_Watch gvr ns s =
     (length (fake_watchers s), s\<lparr>fake_watchers := fake_watchers s @ [((gvr, ns), [])]\<rparr>)"

definition filterByNamespace ::
  "((GroupVersionResource \<times> string \<times> string) \<times> Object) list \<Rightarrow> GroupVersionResource \<Rightarrow> string \<Rightarrow> Object list"
where
  "filterByNamespace objs gvr ns =
     insertionSort (\<lambda>a b. if objNamespace a \<noteq> objNamespace b then objNamespace a < objNamespace b
         else objName a < objName b)
       (filter (\<lambda>obj. \<not> (ns \<noteq> [] \<and> objNamespace obj \<noteq> ns))
         (map snd (filter (\<lambda>(k, obj). fst k = gvr) objs)))"

text \<open>Putting objects into a list of their type: the kinds are those of the scheme.\<close>

definition assignItems ::
  "(Object \<Rightarrow> 'a option) \<Rightarrow> ('a TypedList \<Rightarrow> RuntimeObject) \<Rightarrow> Object list \<Rightarrow> error + RuntimeObject"
where
  "assignItems conv mk objs =
     (if list_all (\<lambda>obj. conv obj \<noteq> None) objs
      then Inr (mk (emptyList\<lparr>list_Items := List.map_filter conv objs\<rparr>))
      else Inl (Errorf ''item is not assignable or convertible''))"

definition SetList :: "GroupVersionKind \<Rightarrow> Object list \<Rightarrow> error + RuntimeObject" where
  "SetList gvk objs =
     (if gvk = ptpKind ''PtpConfig'' then assignItems asPtpConfig PtpConfigListObj objs
      else if gvk = ptpKind ''PtpOperatorConfig'' then assignItems asPtpOperatorConfig PtpOperatorConfigListObj objs
      else if gvk = ptpKind ''NodePtpDevice'' then assignItems asNodePtpDevice NodePtpDeviceListObj objs
      else Inl (Errorf (''no kind '' @ quoteName (gvk_Kind gvk @ ''List'') @ '' is registered'')))"

definition objects_List ::
  "GroupVersionResource \<Rightarrow> GroupVersionKind \<Rightarrow> string \<Rightarrow> Fake \<Rightarrow> error + RuntimeObject"
where
  "objects_List gvr gvk ns s = SetList gvk (filterByNamespace (fake_objects s) gvr ns)"

section \<open>Reactors\<close>

text \<open>The parameters: what \<^verbatim>\<open>labels.Parse\<close> and \<^verbatim>\<open>fields.ParseSelector\<close> accept, and the application of a patch.\<close>

record Libraries =
  labels_Parse :: "string \<Rightarrow> (strmap \<Rightarrow> bool) option"
  fields_Parse :: "string \<Rightarrow> bool"
  applyPatch :: "string \<Rightarrow> string \<Rightarrow> Object \<Rightarrow> error + Object"

type_synonym reaction = "Action \<Rightarrow> Fake \<Rightarrow> (bool \<times> RuntimeObject option \<times> error option) \<times> Fake"

text \<open>
  The reaction of the tracker. The actions that create a subresource are those of no typed client and have
  no constructor; that a patch is marshalled, applied in its format and unmarshalled is the parameter.
\<close>

fun ObjectReaction :: "Libraries \<Rightarrow> reaction" where
  "ObjectReaction lib (ListAction gvr gvk ns labels fs) s =
     (case objects_List gvr gvk ns s of
        Inl err \<Rightarrow> ((True, None, Some err), s) | Inr obj \<Rightarrow> ((True, Some obj, None), s))"
| "ObjectReaction lib (GetAction gvr ns name) s =
     (case objects_Get gvr ns name s of
        Inl err \<Rightarrow> ((True, None, Some err), s) | Inr obj \<Rightarrow> ((True, Some (ItemObj obj), None), s))"
| "ObjectReaction lib (CreateAction gvr ns obj) s =
     (case objects_add gvr obj ns False s of
        (Some err, s) \<Rightarrow> ((True, None, Some err), s)
      | (None, s) \<Rightarrow>
          (case objects_Get gvr ns (objName obj) s of
             Inl err \<Rightarrow> ((True, None, Some err), s) | Inr obj \<Rightarrow> ((True, Some (ItemObj obj), None), s)))"
| "ObjectReaction lib (UpdateAction gvr sub ns obj) s =
     (case objects_add gvr obj ns True s of
        (Some err, s) \<Rightarrow> ((True, None, Some err), s)
      | (None, s) \<Rightarrow>
          (case objects_Get gvr ns (objName obj) s of
             Inl err \<Rightarrow> ((True, None, Some err), s) | Inr obj \<Rightarrow> ((True, Some (ItemObj obj), None), s)))"
| "ObjectReaction lib (DeleteAction gvr ns name) s =
     (case objects_Delete gvr ns name s of (e, s) \<Rightarrow> ((True, None, e), s))"
| "ObjectReaction lib (PatchAction gvr sub ns name pt patch) s =
     (case objects_Get gvr ns name s of
        Inl err \<Rightarrow> ((True, None, Some err), s)
      | Inr obj \<Rightarrow>
          (case applyPatch lib pt patch obj of
             Inl err \<Rightarrow> ((True, None, Some err), s)
           | Inr obj \<Rightarrow>
               (case objects_add gvr obj ns True s of
                  (Some err, s) \<Rightarrow> ((True, None, Some err), s)
                | (None, s) \<Rightarrow> ((True, Some (ItemObj obj), None), s))))"
| "ObjectReaction lib action s =
     ((False, None, Some (Errorf (''no reaction implemented for '' @ GetVerb action))), s)"

record Reactor =
  reactor_Verb :: string
  reactor_Resource :: string
  reactor_Reaction :: reaction

record WatchReactor =
  wreactor_Resource :: string
  wreactor_Reaction :: "Action \<Rightarrow> Fake \<Rightarrow> (bool \<times> nat option \<times> error option) \<times> Fake"

definition resourceCovers :: "string \<Rightarrow> Action \<Rightarrow> bool" where
  "resourceCovers resource action =
     (if resource = ''*'' then True
      else if resource = gvr_Resource (GetResource action) then True
      else CHR ''/'' \<in> set resource \<and>
        takeWhile (\<lambda>x. x \<noteq> CHR ''/'') resource = gvr_Resource (GetResource action) \<and>
        tl (dropWhile (\<lambda>x. x \<noteq> CHR ''/'') resource) = GetSubresource action)"

definition Reactor_Handles :: "Reactor \<Rightarrow> Action \<Rightarrow> bool" where
  "Reactor_Handles r action =
     (if \<not> (reactor_Verb r = ''*'' \<or> reactor_Verb r = GetVerb action) then False
      else resourceCovers (reactor_Resource r) action)"

text \<open>The chains of reactors of a fake, beside its state.\<close>

record FakeClient =
  ReactionChain :: "Reactor list"
  WatchReactionChain :: "WatchReactor list"

fun react :: "Reactor list \<Rightarrow> Action \<Rightarrow> RuntimeObject \<Rightarrow> Fake \<Rightarrow> (RuntimeObject option \<times> error option) \<times> Fake" where
  "react [] action defaultReturnObj s = ((Some defaultReturnObj, None), s)"
| "react (r # rs) action defaultReturnObj s =
     (if \<not> Reactor_Handles r action then react rs action defaultReturnObj s
      else case reactor_Reaction r action s of
        ((handled, ret, err), s) \<Rightarrow>
          if \<not> handled then react rs action defaultReturnObj s else ((ret, err), s))"

definition Invokes ::
  "FakeClient \<Rightarrow> Action \<Rightarrow> RuntimeObject \<Rightarrow> Fake \<Rightarrow> (RuntimeObject option \<times> error option) \<times> Fake"
where
  "Invokes c action defaultReturnObj s =
     react (ReactionChain c) action defaultReturnObj (s\<lparr>fake_actions := fake_actions s @ [action]\<rparr>)"

fun reactWatch :: "WatchReactor list \<Rightarrow> Action \<Rightarrow> Fake \<Rightarrow> (nat option \<times> error option) \<times> Fake" where
  "reactWatch [] action s = ((None, Some (Errorf (''unhandled watch: '' @ GetVerb action))), s)"
| "reactWatch (r # rs) action s =
     (if \<not> resourceCovers (wreactor_Resource r) action then reactWatch rs action s
      else case wreactor_Reaction r action s of
        ((handled, ret, err), s) \<Rightarrow> if \<not> handled then reactWatch rs action s else ((ret, err), s))"

definition InvokesWatch :: "FakeClient \<Rightarrow> Action \<Rightarrow> Fake \<Rightarrow> (nat option \<times> error option) \<times> Fake" where
  "InvokesWatch c action s =
     reactWatch (WatchReactionChain c) action (s\<lparr>fake_actions := fake_actions s @ [action]\<rparr>)"

text \<open>The actions with selectors panic when one does not parse.\<close>

definition ExtractFromListOptions :: "Libraries \<Rightarrow> ListOptions \<Rightarrow> (strmap \<Rightarrow> bool) go" where
  "ExtractFromListOptions lib opts =
     (case labels_Parse lib (list_LabelSelector opts) of
        None \<Rightarrow> Panic (''invalid selector '' @ quoteName (list_LabelSelector opts))
      | Some label \<Rightarrow>
          if fields_Parse lib (list_FieldSelector opts) then Ret label
          else Panic (''invalid selector '' @ quoteName (list_FieldSelector opts)))"

definition NewListAction ::
  "Libraries \<Rightarrow> GroupVersionResource \<Rightarrow> GroupVersionKind \<Rightarrow> string \<Rightarrow> ListOptions \<Rightarrow> Action go"
where
  "NewListAction lib gvr gvk ns opts =
     bind_go (ExtractFromListOptions lib opts) (\<lambda>_.
       Ret (ListAction gvr gvk ns (list_LabelSelector opts) (list_FieldSelector opts)))"

definition NewDeleteCollectionAction ::
  "Libraries \<Rightarrow> GroupVersionResource \<Rightarrow> string \<Rightarrow> ListOptions \<Rightarrow> Action go"
where
  "NewDeleteCollectionAction lib gvr ns opts =
     bind_go (ExtractFromListOptions lib opts) (\<lambda>_.
       Ret (DeleteCollectionAction gvr ns (list_LabelSelector opts) (list_FieldSelector opts)))"

definition NewWatchAction ::
  "Libraries \<Rightarrow> GroupVersionResource \<Rightarrow> string \<Rightarrow> ListOptions \<Rightarrow> Action go"
where
  "NewWatchAction lib gvr ns opts =
     bind_go (ExtractFromListOptions lib opts) (\<lambda>_.
       Ret (WatchAction gvr ns (list_LabelSelector opts) (list_FieldSelector opts) (list_ResourceVersion opts)))"

text \<open>A result that is nil, or that is asserted to have the type of the call.\<close>

definition assertObj ::
  "(RuntimeObject \<Rightarrow> 'a option) \<Rightarrow> RuntimeObject option \<times> error option \<Rightarrow> ('a option \<times> error option) go"
where
  "assertObj conv r =
     (case fst r of
        None \<Rightarrow> Ret (None, snd r)
      | Some obj \<Rightarrow>
          (case conv obj of
             None \<Rightarrow> Panic ''interface conversion''
           | Some x \<Rightarrow> Ret (Some x, snd r)))"

section \<open>The typed fakes\<close>

record FakePtpV1 =
  fakeV1_Fake :: FakeClient

subsection \<open>\<^verbatim>\<open>fake_nodeptpdevice.go\<close>\<close>

record FakeNodePtpDevices =
  fakeNodePtpDevices_Fake :: FakePtpV1
  fakeNodePtpDevices_ns :: string

definition nodeptpdevicesResource :: GroupVersionResource where
  "nodeptpdevicesResource = \<lparr>gvr_Group = ''ptp.openshift.io'', gvr_Version = ''v1'', gvr_Resource = ''nodeptpdevices''\<rparr>"

definition nodeptpdevicesKind :: GroupVersionKind where
  "nodeptpdevicesKind = \<lparr>gvk_Group = ''ptp.openshift.io'', gvk_Version = ''v1'', gvk_Kind = ''NodePtpDevice''\<rparr>"

definition FakeNodePtpDevices_Get ::
  "FakeNodePtpDevices \<Rightarrow> string \<Rightarrow> GetOptions \<Rightarrow> Fake \<Rightarrow> (NodePtpDevice option \<times> error option) go \<times> Fake"
where
  "FakeNodePtpDevices_Get c name options s =
     (let (obj, s) = Invokes (fakeV1_Fake (fakeNodePtpDevices_Fake c))
          (GetAction nodeptpdevicesResource (fakeNodePtpDevices_ns c) name) (ItemObj (NodePtpDeviceObj emptyNodePtpDevice)) s
      in (assertObj itemNodePtpDevice obj, s))"

definition FakeNodePtpDevices_List ::
  "FakeNodePtpDevices \<Rightarrow> Libraries \<Rightarrow> ListOptions \<Rightarrow> Fake \<Rightarrow> (NodePtpDevice TypedList option \<times> error option) go \<times> Fake"
where
  "FakeNodePtpDevices_List c lib opts s =
     (case NewListAction lib nodeptpdevicesResource nodeptpdevicesKind (fakeNodePtpDevices_ns c) opts of
        Panic m \<Rightarrow> (Panic m, s)
      | Ret action \<Rightarrow>
          (let (obj, s) = Invokes (fakeV1_Fake (fakeNodePtpDevices_Fake c)) action (NodePtpDeviceListObj emptyList) s
           in (bind_go (assertObj listNodePtpDevice obj) (\<lambda>(ret, err).
                 case ret of
                   None \<Rightarrow> Ret (None, err)
                 | Some list \<Rightarrow>
                     bind_go (ExtractFromListOptions lib opts) (\<lambda>label.
                       Ret (Some \<lparr>list_ListMeta = list_ListMeta list,
                         list_Items = filter (\<lambda>item. label (meta_Labels (ndevice_ObjectMeta item))) (list_Items list)\<rparr>,
                         err))), s)))"

definition FakeNodePtpDevices_Watch ::
  "FakeNodePtpDevices \<Rightarrow> Libraries \<Rightarrow> ListOptions \<Rightarrow> Fake \<Rightarrow> (nat option \<times> error option) go \<times> Fake"
where
  "FakeNodePtpDevices_Watch c lib opts s =
     (case NewWatchAction lib nodeptpdevicesResource (fakeNodePtpDevices_ns c) opts of
        Panic m \<Rightarrow> (Panic m, s)
      | Ret action \<Rightarrow> (let (r, s) = InvokesWatch (fakeV1_Fake (fakeNodePtpDevices_Fake c)) action s in (Ret r, s)))"

definition FakeNodePtpDevices_Create ::
  "FakeNodePtpDevices \<Rightarrow> NodePtpDevice \<Rightarrow> CreateOptions \<Rightarrow> Fake \<Rightarrow> (NodePtpDevice option \<times> error option) go \<times> Fake"
where
  "FakeNodePtpDevices_Create c nodePtpDevice opts s =
     (let (obj, s) = Invokes (fakeV1_Fake (fakeNodePtpDevices_Fake c))
          (CreateAction nodeptpdevicesResource (fakeNodePtpDevices_ns c) (NodePtpDeviceObj nodePtpDevice)) (ItemObj (NodePtpDeviceObj emptyNodePtpDevice)) s
      in (assertObj itemNodePtpDevice obj, s))"

definition FakeNodePtpDevices_Update ::
  "FakeNodePtpDevices \<Rightarrow> NodePtpDevice \<Rightarrow> UpdateOptions \<Rightarrow> Fake \<Rightarrow> (NodePtpDevice option \<times> error option) go \<times> Fake"
where
  "FakeNodePtpDevices_Update c nodePtpDevice opts s =
     (let (obj, s) = Invokes (fakeV1_Fake (fakeNodePtpDevices_Fake c))
          (UpdateAction nodeptpdevicesResource [] (fakeNodePtpDevices_ns c) (NodePtpDeviceObj nodePtpDevice)) (ItemObj (NodePtpDeviceObj emptyNodePtpDevice)) s
      in (assertObj itemNodePtpDevice obj, s))"

definition FakeNodePtpDevices_UpdateStatus ::
  "FakeNodePtpDevices \<Rightarrow> NodePtpDevice \<Rightarrow> UpdateOptions \<Rightarrow> Fake \<Rightarrow> (NodePtpDevice option \<times> error option) go \<times> Fake"
where
  "FakeNodePtpDevices_UpdateStatus c nodePtpDevice opts s =
     (let (obj, s) = Invokes (fakeV1_Fake (fakeNodePtpDevices_Fake c))
          (UpdateAction nodeptpdevicesResource ''status'' (fakeNodePtpDevices_ns c) (NodePtpDeviceObj nodePtpDevice)) (ItemObj (NodePtpDeviceObj emptyNodePtpDevice)) s
      in (assertObj itemNodePtpDevice obj, s))"

definition FakeNodePtpDevices_Delete ::
  "FakeNodePtpDevices \<Rightarrow> string \<Rightarrow> DeleteOptions \<Rightarrow> Fake \<Rightarrow> error option \<times> Fake"
where
  "FakeNodePtpDevices_Delete c name opts s =
     (let (obj, s) = Invokes (fakeV1_Fake (fakeNodePtpDevices_Fake c))
          (DeleteAction nodeptpdevicesResource (fakeNodePtpDevices_ns c) name) (ItemObj (NodePtpDeviceObj emptyNodePtpDevice)) s
      in (snd obj, s))"

definition FakeNodePtpDevices_DeleteCollection ::
  "FakeNodePtpDevices \<Rightarrow> Libraries \<Rightarrow> DeleteOptions \<Rightarrow> ListOptions \<Rightarrow> Fake \<Rightarrow> error option go \<times> Fake"
where
  "FakeNodePtpDevices_DeleteCollection c lib opts listOpts s =
     (case NewDeleteCollectionAction lib nodeptpdevicesResource (fakeNodePtpDevices_ns c) listOpts of
        Panic m \<Rightarrow> (Panic m, s)
      | Ret action \<Rightarrow>
          (let (obj, s) = Invokes (fakeV1_Fake (fakeNodePtpDevices_Fake c)) action (NodePtpDeviceListObj emptyList) s
           in (Ret (snd obj), s)))"

definition FakeNodePtpDevices_Patch ::
  "FakeNodePtpDevices \<Rightarrow> string \<Rightarrow> string \<Rightarrow> string \<Rightarrow> PatchOptions \<Rightarrow> string list \<Rightarrow> Fake \<Rightarrow> (NodePtpDevice option \<times> error option) go \<times> Fake"
where
  "FakeNodePtpDevices_Patch c name pt data opts subresources s =
     (let (obj, s) = Invokes (fakeV1_Fake (fakeNodePtpDevices_Fake c))
          (PatchAction nodeptpdevicesResource (path_Join subresources) (fakeNodePtpDevices_ns c) name pt data) (ItemObj (NodePtpDeviceObj emptyNodePtpDevice)) s
      in (assertObj itemNodePtpDevice obj, s))"

subsection \<open>\<^verbatim>\<open>fake_ptpconfig.go\<close>\<close>

record FakePtpConfigs =
  fakePtpConfigs_Fake :: FakePtpV1
  fakePtpConfigs_ns :: string

definition ptpconfigsResource :: GroupVersionResource where
  "ptpconfigsResource = \<lparr>gvr_Group = ''ptp.openshift.io'', gvr_Version = ''v1'', gvr_Resource = ''ptpconfigs''\<rparr>"

definition ptpconfigsKind :: GroupVersionKind where
  "ptpconfigsKind = \<lparr>gvk_Group = ''ptp.openshift.io'', gvk_Version = ''v1'', gvk_Kind = ''PtpConfig''\<rparr>"

definition FakePtpConfigs_Get ::
  "FakePtpConfigs \<Rightarrow> string \<Rightarrow> GetOptions \<Rightarrow> Fake \<Rightarrow> (PtpConfig option \<times> error option) go \<times> Fake"
where
  "FakePtpConfigs_Get c name options s =
     (let (obj, s) = Invokes (fakeV1_Fake (fakePtpConfigs_Fake c))
          (GetAction ptpconfigsResource (fakePtpConfigs_ns c) name) (ItemObj (PtpConfigObj emptyPtpConfig)) s
      in (assertObj itemPtpConfig obj, s))"

definition FakePtpConfigs_List ::
  "FakePtpConfigs \<Rightarrow> Libraries \<Rightarrow> ListOptions \<Rightarrow> Fake \<Rightarrow> (PtpConfig TypedList option \<times> error option) go \<times> Fake"
where
  "FakePtpConfigs_List c lib opts s =
     (case NewListAction lib ptpconfigsResource ptpconfigsKind (fakePtpConfigs_ns c) opts of
        Panic m \<Rightarrow> (Panic m, s)
      | Ret action \<Rightarrow>
          (let (obj, s) = Invokes (fakeV1_Fake (fakePtpConfigs_Fake c)) action (PtpConfigListObj emptyList) s
           in (bind_go (assertObj listPtpConfig obj) (\<lambda>(ret, err).
                 case ret of
                   None \<Rightarrow> Ret (None, err)
                 | Some list \<Rightarrow>
                     bind_go (ExtractFromListOptions lib opts) (\<lambda>label.
                       Ret (Some \<lparr>list_ListMeta = list_ListMeta list,
                         list_Items = filter (\<lambda>item. label (meta_Labels (config_ObjectMeta item))) (list_Items list)\<rparr>,
                         err))), s)))"

definition FakePtpConfigs_Watch ::
  "FakePtpConfigs \<Rightarrow> Libraries \<Rightarrow> ListOptions \<Rightarrow> Fake \<Rightarrow> (nat option \<times> error option) go \<times> Fake"
where
  "FakePtpConfigs_Watch c lib opts s =
     (case NewWatchAction lib ptpconfigsResource (fakePtpConfigs_ns c) opts of
        Panic m \<Rightarrow> (Panic m, s)
      | Ret action \<Rightarrow> (let (r, s) = InvokesWatch (fakeV1_Fake (fakePtpConfigs_Fake c)) action s in (Ret r, s)))"

definition FakePtpConfigs_Create ::
  "FakePtpConfigs \<Rightarrow> PtpConfig \<Rightarrow> CreateOptions \<Rightarrow> Fake \<Rightarrow> (PtpConfig option \<times> error option) go \<times> Fake"
where
  "FakePtpConfigs_Create c ptpConfig opts s =
     (let (obj, s) = Invokes (fakeV1_Fake (fakePtpConfigs_Fake c))
          (CreateAction ptpconfigsResource (fakePtpConfigs_ns c) (PtpConfigObj ptpConfig)) (ItemObj (PtpConfigObj emptyPtpConfig)) s
      in (assertObj itemPtpConfig obj, s))"

definition FakePtpConfigs_Update ::
  "FakePtpConfigs \<Rightarrow> PtpConfig \<Rightarrow> UpdateOptions \<Rightarrow> Fake \<Rightarrow> (PtpConfig option \<times> error option) go \<times> Fake"
where
  "FakePtpConfigs_Update c ptpConfig opts s =
     (let (obj, s) = Invokes (fakeV1_Fake (fakePtpConfigs_Fake c))
          (UpdateAction ptpconfigsResource [] (fakePtpConfigs_ns c) (PtpConfigObj ptpConfig)) (ItemObj (PtpConfigObj emptyPtpConfig)) s
      in (assertObj itemPtpConfig obj, s))"

definition FakePtpConfigs_UpdateStatus ::
  "FakePtpConfigs \<Rightarrow> PtpConfig \<Rightarrow> UpdateOptions \<Rightarrow> Fake \<Rightarrow> (PtpConfig option \<times> error option) go \<times> Fake"
where
  "FakePtpConfigs_UpdateStatus c ptpConfig opts s =
     (let (obj, s) = Invokes (fakeV1_Fake (fakePtpConfigs_Fake c))
          (UpdateAction ptpconfigsResource ''status'' (fakePtpConfigs_ns c) (PtpConfigObj ptpConfig)) (ItemObj (PtpConfigObj emptyPtpConfig)) s
      in (assertObj itemPtpConfig obj, s))"

definition FakePtpConfigs_Delete ::
  "FakePtpConfigs \<Rightarrow> string \<Rightarrow> DeleteOptions \<Rightarrow> Fake \<Rightarrow> error option \<times> Fake"
where
  "FakePtpConfigs_Delete c name opts s =
     (let (obj, s) = Invokes (fakeV1_Fake (fakePtpConfigs_Fake c))
          (DeleteAction ptpconfigsResource (fakePtpConfigs_ns c) name) (ItemObj (PtpConfigObj emptyPtpConfig)) s
      in (snd obj, s))"

definition FakePtpConfigs_DeleteCollection ::
  "FakePtpConfigs \<Rightarrow> Libraries \<Rightarrow> DeleteOptions \<Rightarrow> ListOptions \<Rightarrow> Fake \<Rightarrow> error option go \<times> Fake"
where
  "FakePtpConfigs_DeleteCollection c lib opts listOpts s =
     (case NewDeleteCollectionAction lib ptpconfigsResource (fakePtpConfigs_ns c) listOpts of
        Panic m \<Rightarrow> (Panic m, s)
      | Ret action \<Rightarrow>
          (let (obj, s) = Invokes (fakeV1_Fake (fakePtpConfigs_Fake c)) action (PtpConfigListObj emptyList) s
           in (Ret (snd obj), s)))"

definition FakePtpConfigs_Patch ::
  "FakePtpConfigs \<Rightarrow> string \<Rightarrow> string \<Rightarrow> string \<Rightarrow> PatchOptions \<Rightarrow> string list \<Rightarrow> Fake \<Rightarrow> (PtpConfig option \<times> error option) go \<times> Fake"
where
  "FakePtpConfigs_Patch c name pt data opts subresources s =
     (let (obj, s) = Invokes (fakeV1_Fake (fakePtpConfigs_Fake c))
          (PatchAction ptpconfigsResource (path_Join subresources) (fakePtpConfigs_ns c) name pt data) (ItemObj (PtpConfigObj emptyPtpConfig)) s
      in (assertObj itemPtpConfig obj, s))"

subsection \<open>\<^verbatim>\<open>fake_ptpoperatorconfig.go\<close>\<close>

record FakePtpOperatorConfigs =
  fakePtpOperatorConfigs_Fake :: FakePtpV1
  fakePtpOperatorConfigs_ns :: string

definition ptpoperatorconfigsResource :: GroupVersionResource where
  "ptpoperatorconfigsResource = \<lparr>gvr_Group = ''ptp.openshift.io'', gvr_Version = ''v1'', gvr_Resource = ''ptpoperatorconfigs''\<rparr>"

definition ptpoperatorconfigsKind :: GroupVersionKind where
  "ptpoperatorconfigsKind = \<lparr>gvk_Group = ''ptp.openshift.io'', gvk_Version = ''v1'', gvk_Kind = ''PtpOperatorConfig''\<rparr>"

definition FakePtpOperatorConfigs_Get ::
  "FakePtpOperatorConfigs \<Rightarrow> string \<Rightarrow> GetOptions \<Rightarrow> Fake \<Rightarrow> (PtpOperatorConfig option \<times> error option) go \<times> Fake"
where
  "FakePtpOperatorConfigs_Get c name options s =
     (let (obj, s) = Invokes (fakeV1_Fake (fakePtpOperatorConfigs_Fake c))
          (GetAction ptpoperatorconfigsResource (fakePtpOperatorConfigs_ns c) name) (ItemObj (PtpOperatorConfigObj emptyPtpOperatorConfig)) s
      in (assertObj itemPtpOperatorConfig obj, s))"

definition FakePtpOperatorConfigs_List ::
  "FakePtpOperatorConfigs \<Rightarrow> Libraries \<Rightarrow> ListOptions \<Rightarrow> Fake \<Rightarrow> (PtpOperatorConfig TypedList option \<times> error option) go \<times> Fake"
where
  "FakePtpOperatorConfigs_List c lib opts s =
     (case NewListAction lib ptpoperatorconfigsResource ptpoperatorconfigsKind (fakePtpOperatorConfigs_ns c) opts of
        Panic m \<Rightarrow> (Panic m, s)
      | Ret action \<Rightarrow>
          (let (obj, s) = Invokes (fakeV1_Fake (fakePtpOperatorConfigs_Fake c)) action (PtpOperatorConfigListObj emptyList) s
           in (bind_go (assertObj listPtpOperatorConfig obj) (\<lambda>(ret, err).
                 case ret of
                   None \<Rightarrow> Ret (None, err)
                 | Some list \<Rightarrow>
                     bind_go (ExtractFromListOptions lib opts) (\<lambda>label.
                       Ret (Some \<lparr>list_ListMeta = list_ListMeta list,
                         list_Items = filter (\<lambda>item. label (meta_Labels (oconfig_ObjectMeta item))) (list_Items list)\<rparr>,
                         err))), s)))"

definition FakePtpOperatorConfigs_Watch ::
  "FakePtpOperatorConfigs \<Rightarrow> Libraries \<Rightarrow> ListOptions \<Rightarrow> Fake \<Rightarrow> (nat option \<times> error option) go \<times> Fake"
where
  "FakePtpOperatorConfigs_Watch c lib opts s =
     (case NewWatchAction lib ptpoperatorconfigsResource (fakePtpOperatorConfigs_ns c) opts of
        Panic m \<Rightarrow> (Panic m, s)
      | Ret action \<Rightarrow> (let (r, s) = InvokesWatch (fakeV1_Fake (fakePtpOperatorConfigs_Fake c)) action s in (Ret r, s)))"

definition FakePtpOperatorConfigs_Create ::
  "FakePtpOperatorConfigs \<Rightarrow> PtpOperatorConfig \<Rightarrow> CreateOptions \<Rightarrow> Fake \<Rightarrow> (PtpOperatorConfig option \<times> error option) go \<times> Fake"
where
  "FakePtpOperatorConfigs_Create c ptpOperatorConfig opts s =
     (let (obj, s) = Invokes (fakeV1_Fake (fakePtpOperatorConfigs_Fake c))
          (CreateAction ptpoperatorconfigsResource (fakePtpOperatorConfigs_ns c) (PtpOperatorConfigObj ptpOperatorConfig)) (ItemObj (PtpOperatorConfigObj emptyPtpOperatorConfig)) s
      in (assertObj itemPtpOperatorConfig obj, s))"

definition FakePtpOperatorConfigs_Update ::
  "FakePtpOperatorConfigs \<Rightarrow> PtpOperatorConfig \<Rightarrow> UpdateOptions \<Rightarrow> Fake \<Rightarrow> (PtpOperatorConfig option \<times> error option) go \<times> Fake"
where
  "FakePtpOperatorConfigs_Update c ptpOperatorConfig opts s =
     (let (obj, s) = Invokes (fakeV1_Fake (fakePtpOperatorConfigs_Fake c))
          (UpdateAction ptpoperatorconfigsResource [] (fakePtpOperatorConfigs_ns c) (PtpOperatorConfigObj ptpOperatorConfig)) (ItemObj (PtpOperatorConfigObj emptyPtpOperatorConfig)) s
      in (assertObj itemPtpOperatorConfig obj, s))"

definition FakePtpOperatorConfigs_UpdateStatus ::
  "FakePtpOperatorConfigs \<Rightarrow> PtpOperatorConfig \<Rightarrow> UpdateOptions \<Rightarrow> Fake \<Rightarrow> (PtpOperatorConfig option \<times> error option) go \<times> Fake"
where
  "FakePtpOperatorConfigs_UpdateStatus c ptpOperatorConfig opts s =
     (let (obj, s) = Invokes (fakeV1_Fake (fakePtpOperatorConfigs_Fake c))
          (UpdateAction ptpoperatorconfigsResource ''status'' (fakePtpOperatorConfigs_ns c) (PtpOperatorConfigObj ptpOperatorConfig)) (ItemObj (PtpOperatorConfigObj emptyPtpOperatorConfig)) s
      in (assertObj itemPtpOperatorConfig obj, s))"

definition FakePtpOperatorConfigs_Delete ::
  "FakePtpOperatorConfigs \<Rightarrow> string \<Rightarrow> DeleteOptions \<Rightarrow> Fake \<Rightarrow> error option \<times> Fake"
where
  "FakePtpOperatorConfigs_Delete c name opts s =
     (let (obj, s) = Invokes (fakeV1_Fake (fakePtpOperatorConfigs_Fake c))
          (DeleteAction ptpoperatorconfigsResource (fakePtpOperatorConfigs_ns c) name) (ItemObj (PtpOperatorConfigObj emptyPtpOperatorConfig)) s
      in (snd obj, s))"

definition FakePtpOperatorConfigs_DeleteCollection ::
  "FakePtpOperatorConfigs \<Rightarrow> Libraries \<Rightarrow> DeleteOptions \<Rightarrow> ListOptions \<Rightarrow> Fake \<Rightarrow> error option go \<times> Fake"
where
  "FakePtpOperatorConfigs_DeleteCollection c lib opts listOpts s =
     (case NewDeleteCollectionAction lib ptpoperatorconfigsResource (fakePtpOperatorConfigs_ns c) listOpts of
        Panic m \<Rightarrow> (Panic m, s)
      | Ret action \<Rightarrow>
          (let (obj, s) = Invokes (fakeV1_Fake (fakePtpOperatorConfigs_Fake c)) action (PtpOperatorConfigListObj emptyList) s
           in (Ret (snd obj), s)))"

definition FakePtpOperatorConfigs_Patch ::
  "FakePtpOperatorConfigs \<Rightarrow> string \<Rightarrow> string \<Rightarrow> string \<Rightarrow> PatchOptions \<Rightarrow> string list \<Rightarrow> Fake \<Rightarrow> (PtpOperatorConfig option \<times> error option) go \<times> Fake"
where
  "FakePtpOperatorConfigs_Patch c name pt data opts subresources s =
     (let (obj, s) = Invokes (fakeV1_Fake (fakePtpOperatorConfigs_Fake c))
          (PatchAction ptpoperatorconfigsResource (path_Join subresources) (fakePtpOperatorConfigs_ns c) name pt data) (ItemObj (PtpOperatorConfigObj emptyPtpOperatorConfig)) s
      in (assertObj itemPtpOperatorConfig obj, s))"

subsection \<open>\<^verbatim>\<open>fake_ptp_client.go\<close> and \<^verbatim>\<open>clientset_generated.go\<close>\<close>

definition FakePtpV1_NodePtpDevices :: "FakePtpV1 \<Rightarrow> string \<Rightarrow> FakeNodePtpDevices" where
  "FakePtpV1_NodePtpDevices c namespace = \<lparr>fakeNodePtpDevices_Fake = c, fakeNodePtpDevices_ns = namespace\<rparr>"

definition FakePtpV1_PtpConfigs :: "FakePtpV1 \<Rightarrow> string \<Rightarrow> FakePtpConfigs" where
  "FakePtpV1_PtpConfigs c namespace = \<lparr>fakePtpConfigs_Fake = c, fakePtpConfigs_ns = namespace\<rparr>"

definition FakePtpV1_PtpOperatorConfigs :: "FakePtpV1 \<Rightarrow> string \<Rightarrow> FakePtpOperatorConfigs" where
  "FakePtpV1_PtpOperatorConfigs c namespace = \<lparr>fakePtpOperatorConfigs_Fake = c, fakePtpOperatorConfigs_ns = namespace\<rparr>"

definition FakePtpV1_RESTClient :: "FakePtpV1 \<Rightarrow> ('s, 'w) RestClient option" where
  "FakePtpV1_RESTClient c = None"

text \<open>
  Adding an object to the tracker: its resource is guessed from its kind. Of the kinds only those of
  the scheme are registered.
\<close>

definition unpluralizedSuffixes :: "string list" where "unpluralizedSuffixes = [''endpoints'']"

definition UnsafeGuessKindToResource :: "GroupVersionKind \<Rightarrow> GroupVersionResource" where
  "UnsafeGuessKindToResource kind =
     (let singularName = strings_ToLower (gvk_Kind kind);
          resource = (\<lambda>r. \<lparr>gvr_Group = gvk_Group kind, gvr_Version = gvk_Version kind, gvr_Resource = r\<rparr>)
      in if gvk_Kind kind = [] then \<lparr>gvr_Group = [], gvr_Version = [], gvr_Resource = []\<rparr>
         else if list_ex (strings_HasSuffix singularName) unpluralizedSuffixes then resource singularName
         else if last singularName = CHR ''s'' then resource (singularName @ ''es'')
         else if last singularName = CHR ''y'' then resource (butlast singularName @ ''ies'')
         else resource (singularName @ ''s''))"

fun ObjectKinds :: "Object \<Rightarrow> error + GroupVersionKind" where
  "ObjectKinds (UnstructuredObj u) =
     (if gvk_Kind (GetGroupVersionKind u) = [] then Inl (Errorf ''unstructured object has no kind'')
      else if gvk_Version (GetGroupVersionKind u) = [] then Inl (Errorf ''unstructured object has no version'')
      else Inr (GetGroupVersionKind u))"
| "ObjectKinds (ConfigMapObj x) = Inl (Errorf ''no kind is registered for the type v1.ConfigMap'')"
| "ObjectKinds (NodeObj x) = Inl (Errorf ''no kind is registered for the type v1.Node'')"
| "ObjectKinds obj = Inr (fst (keyOf obj))"

definition objects_Add :: "Object \<Rightarrow> Fake \<Rightarrow> error option \<times> Fake" where
  "objects_Add obj s =
     (case ObjectKinds obj of
        Inl err \<Rightarrow> (Some err, s)
      | Inr gvk \<Rightarrow>
          objects_add (UnsafeGuessKindToResource gvk) obj (objNamespace obj) False s)"

fun addObjects :: "Object list \<Rightarrow> Fake \<Rightarrow> unit go \<times> Fake" where
  "addObjects [] s = (Ret (), s)"
| "addObjects (obj # objs) s =
     (case objects_Add obj s of
        (Some err, s) \<Rightarrow> (Panic (Error err), s)
      | (None, s) \<Rightarrow> addObjects objs s)"

definition emptyFake :: Fake where
  "emptyFake = \<lparr>fake_actions = [], fake_objects = [], fake_watchers = []\<rparr>"

definition simpleFake :: "Libraries \<Rightarrow> FakeClient" where
  "simpleFake lib =
     \<lparr>ReactionChain = [\<lparr>reactor_Verb = ''*'', reactor_Resource = ''*'', reactor_Reaction = ObjectReaction lib\<rparr>],
      WatchReactionChain = [\<lparr>wreactor_Resource = ''*'', wreactor_Reaction = (\<lambda>action s.
        let (w, s) = objects_Watch (GetResource action) (ActionNamespace action) s
        in ((True, Some w, None), s))\<rparr>]\<rparr>"

record FakeDiscovery =
  fakediscovery_Fake :: FakeClient

text \<open>The tracker of the clientset is the state that is passed on.\<close>

record FakeClientset =
  fakeset_Fake :: FakeClient
  fakeset_discovery :: FakeDiscovery

definition simpleClientset :: "Libraries \<Rightarrow> FakeClientset" where
  "simpleClientset lib =
     \<lparr>fakeset_Fake = simpleFake lib, fakeset_discovery = \<lparr>fakediscovery_Fake = simpleFake lib\<rparr>\<rparr>"

text \<open>The clientset and the state of its fake, for objects that are no lists.\<close>

definition NewSimpleClientset :: "Libraries \<Rightarrow> Object list \<Rightarrow> (FakeClientset \<times> Fake) go" where
  "NewSimpleClientset lib objects =
     (case addObjects objects emptyFake of
        (Panic m, s) \<Rightarrow> Panic m
      | (Ret u, s) \<Rightarrow> Ret (simpleClientset lib, s))"

definition FakeClientset_Discovery :: "FakeClientset \<Rightarrow> FakeDiscovery" where
  "FakeClientset_Discovery c = fakeset_discovery c"

definition FakeClientset_PtpV1 :: "FakeClientset \<Rightarrow> FakePtpV1" where
  "FakeClientset_PtpV1 c = \<lparr>fakeV1_Fake = fakeset_Fake c\<rparr>"

section \<open>The fakes as stores\<close>

text \<open>The objects of one resource by namespace and name, and the states in which they have its type and their place.\<close>

definition storeOf :: "GroupVersionResource \<Rightarrow> (Object \<Rightarrow> 'a option) \<Rightarrow> Fake \<Rightarrow> (string \<times> string \<rightharpoonup> 'a)" where
  "storeOf gvr conv s k = (case map_of (fake_objects s) (gvr, k) of None \<Rightarrow> None | Some obj \<Rightarrow> conv obj)"

definition storeOk :: "GroupVersionResource \<Rightarrow> (Object \<Rightarrow> 'a option) \<Rightarrow> Fake \<Rightarrow> bool" where
  "storeOk gvr conv s \<longleftrightarrow>
     (\<forall>k obj. map_of (fake_objects s) (gvr, k) = Some obj \<longrightarrow> conv obj \<noteq> None \<and> snd (keyOf obj) = k)"

text \<open>Only the objects of one resource differ, and they are still in order.\<close>

definition onlyStore :: "GroupVersionResource \<Rightarrow> (Object \<Rightarrow> 'a option) \<Rightarrow> Fake \<Rightarrow> Fake \<Rightarrow> bool" where
  "onlyStore gvr conv s s' \<longleftrightarrow> storeOk gvr conv s' \<and>
     (\<forall>g k. g \<noteq> gvr \<longrightarrow> map_of (fake_objects s') (g, k) = map_of (fake_objects s) (g, k))"

text \<open>
  The specification of a typed client in a namespace: what get, create, update and delete answer, and
  what they do to the store. An object without a namespace is put into that of the client.
\<close>

definition placed :: "('a \<Rightarrow> string \<times> string) \<Rightarrow> (string \<Rightarrow> 'a \<Rightarrow> 'a) \<Rightarrow> string \<Rightarrow> 'a \<Rightarrow> 'a" where
  "placed place inNamespace ns x = (if fst (place x) = [] then inNamespace ns x else x)"

definition getSpec ::
  "string \<Rightarrow> string \<times> string \<Rightarrow> (string \<times> string \<rightharpoonup> 'a) \<Rightarrow> ('a option \<times> error option) go"
where
  "getSpec resource k m =
     (case m k of None \<Rightarrow> Ret (None, Some (NewNotFound resource (snd k))) | Some x \<Rightarrow> Ret (Some x, None))"

definition writeSpec ::
  "string \<Rightarrow> bool \<Rightarrow> string \<Rightarrow> string \<times> string \<Rightarrow> 'a \<Rightarrow> (string \<times> string \<rightharpoonup> 'a) \<Rightarrow>
   ('a option \<times> error option) go \<Rightarrow> (string \<times> string \<rightharpoonup> 'a) \<Rightarrow> bool"
where
  "writeSpec resource replace ns k y m r m' \<longleftrightarrow>
     (if fst k \<noteq> ns then (\<exists>err. r = Ret (None, Some err) \<and> \<not> IsNotFound err) \<and> m' = m
      else if (m k \<noteq> None) = replace then r = Ret (Some y, None) \<and> m' = m(k \<mapsto> y)
      else r = Ret (None, Some (if replace then NewNotFound resource (snd k) else NewAlreadyExists resource (snd k))) \<and>
        m' = m)"

definition deleteSpec ::
  "string \<Rightarrow> string \<times> string \<Rightarrow> (string \<times> string \<rightharpoonup> 'a) \<Rightarrow> error option \<Rightarrow> (string \<times> string \<rightharpoonup> 'a) \<Rightarrow> bool"
where
  "deleteSpec resource k m e m' \<longleftrightarrow>
     (if m k = None then e = Some (NewNotFound resource (snd k)) \<and> m' = m else e = None \<and> m' = m(k := None))"

text \<open>A client in one namespace that is such a store, in a given state.\<close>

definition implementsStore ::
  "GroupVersionResource \<Rightarrow> (Object \<Rightarrow> 'a option) \<Rightarrow> ('a \<Rightarrow> string \<times> string) \<Rightarrow> (string \<Rightarrow> 'a \<Rightarrow> 'a) \<Rightarrow> string \<Rightarrow>
   (string \<Rightarrow> Fake \<Rightarrow> ('a option \<times> error option) go \<times> Fake) \<Rightarrow>
   ('a \<Rightarrow> Fake \<Rightarrow> ('a option \<times> error option) go \<times> Fake) \<Rightarrow>
   ('a \<Rightarrow> Fake \<Rightarrow> ('a option \<times> error option) go \<times> Fake) \<Rightarrow> (string \<Rightarrow> Fake \<Rightarrow> error option \<times> Fake) \<Rightarrow> Fake \<Rightarrow> bool"
where
  "implementsStore gvr conv place inNamespace ns get create update delete s \<longleftrightarrow>
     (\<forall>name r s'. get name s = (r, s') \<longrightarrow>
        r = getSpec (GroupResource gvr) (ns, name) (storeOf gvr conv s) \<and>
        storeOf gvr conv s' = storeOf gvr conv s \<and> onlyStore gvr conv s s') \<and>
     (\<forall>x r s'. create x s = (r, s') \<longrightarrow>
        writeSpec (GroupResource gvr) False ns (place (placed place inNamespace ns x)) (placed place inNamespace ns x)
          (storeOf gvr conv s) r (storeOf gvr conv s') \<and> onlyStore gvr conv s s') \<and>
     (\<forall>x r s'. update x s = (r, s') \<longrightarrow>
        writeSpec (GroupResource gvr) True ns (place (placed place inNamespace ns x)) (placed place inNamespace ns x)
          (storeOf gvr conv s) r (storeOf gvr conv s') \<and> onlyStore gvr conv s s') \<and>
     (\<forall>name e s'. delete name s = (e, s') \<longrightarrow>
        deleteSpec (GroupResource gvr) (ns, name) (storeOf gvr conv s) e (storeOf gvr conv s') \<and> onlyStore gvr conv s s')"

text \<open>A state with one more action.\<close>

abbreviation recorded :: "Action \<Rightarrow> Fake \<Rightarrow> Fake" where
  "recorded action s \<equiv> s\<lparr>fake_actions := fake_actions s @ [action]\<rparr>"

lemma Invokes_simple:
  "Invokes (simpleFake lib) action d s =
     (case ObjectReaction lib action (recorded action s) of
        ((handled, ret, err), s') \<Rightarrow> if handled then ((ret, err), s') else ((Some d, None), s'))"
  by (simp add: Invokes_def simpleFake_def Reactor_Handles_def resourceCovers_def split: prod.split)

lemma notify_simps [simp]:
  "fake_objects (notify gvr ns ev s) = fake_objects s" "fake_actions (notify gvr ns ev s) = fake_actions s"
  by (simp_all add: notify_def)

text \<open>What one of the typed clients is made of.\<close>

locale fake_resource =
  fixes gvr :: GroupVersionResource and mk :: "'a \<Rightarrow> Object" and conv :: "Object \<Rightarrow> 'a option"
    and item :: "RuntimeObject \<Rightarrow> 'a option" and place :: "'a \<Rightarrow> string \<times> string"
    and inNamespace :: "string \<Rightarrow> 'a \<Rightarrow> 'a"
  assumes conv_iff: "conv obj = Some x \<longleftrightarrow> obj = mk x"
    and item_mk: "item (ItemObj (mk x)) = Some x"
    and key_mk: "snd (keyOf (mk x)) = place x"
    and setNamespace_mk: "setNamespace ns (mk x) = mk (inNamespace ns x)"
    and place_inNamespace: "place (inNamespace ns x) = (ns, snd (place x))"
begin

abbreviation store :: "Fake \<Rightarrow> (string \<times> string \<rightharpoonup> 'a)" where
  "store \<equiv> storeOf gvr conv"

abbreviation put :: "string \<Rightarrow> 'a \<Rightarrow> 'a" where
  "put \<equiv> placed place inNamespace"

lemma store_cases:
  assumes "storeOk gvr conv s"
  shows "map_of (fake_objects s) (gvr, k) = map_option mk (store s k)" "store s k = Some x \<Longrightarrow> place x = k"
proof -
  show 1: "map_of (fake_objects s) (gvr, k) = map_option mk (store s k)"
  proof (cases "map_of (fake_objects s) (gvr, k)")
    case (Some obj)
    then obtain x where "conv obj = Some x" using assms unfolding storeOk_def by blast
    with Some show ?thesis using conv_iff [of obj x] by (simp add: storeOf_def)
  qed (simp add: storeOf_def)
  show "place x = k" if "store s k = Some x"
  proof -
    have "map_of (fake_objects s) (gvr, k) = Some (mk x)" using 1 that by simp
    then show ?thesis using assms key_mk [of x] unfolding storeOk_def by metis
  qed
qed

lemma put_place: "snd (place (put ns x)) = snd (place x)"
  by (simp add: placed_def place_inNamespace)

lemma put_object: "(if length (objNamespace (mk x)) = 0 then setNamespace ns (mk x) else mk x) = mk (put ns x)"
  by (simp add: placed_def key_mk setNamespace_mk)

lemma get_meets:
  assumes "storeOk gvr conv s"
  shows "(let (obj, s') = Invokes (simpleFake lib) (GetAction gvr ns name) d s in (assertObj item obj, s')) =
    (getSpec (GroupResource gvr) (ns, name) (store s), recorded (GetAction gvr ns name) s)"
  using store_cases(1) [OF assms, of "(ns, name)"]
  by (cases "store s (ns, name)") (simp_all add: Invokes_simple objects_Get_def assertObj_def getSpec_def item_mk)

lemma add_meets:
  assumes ok: "storeOk gvr conv s" and add: "objects_add gvr (mk x) ns replace s = (e, s')"
  shows "(if fst (place (put ns x)) \<noteq> ns then (\<exists>msg. e = Some (NewBadRequest msg)) \<and> s' = s
     else if (store s (place (put ns x)) \<noteq> None) = replace
     then e = None \<and> store s' = (store s)(place (put ns x) \<mapsto> put ns x) \<and> onlyStore gvr conv s s'
     else e = Some (if replace then NewNotFound (GroupResource gvr) (snd (place x))
         else NewAlreadyExists (GroupResource gvr) (snd (place x))) \<and> s' = s)"
proof -
  let ?y = "put ns x"
  have obj: "(if length (objNamespace (mk x)) = 0 then setNamespace ns (mk x) else mk x) = mk ?y" by (rule put_object)
  show ?thesis
  proof (cases "fst (place ?y) \<noteq> ns")
    case True
    then show ?thesis using add unfolding objects_add_def obj Let_def by (auto simp: key_mk)
  next
    case False
    let ?k = "(ns, snd (place x))"
    have k: "place ?y = ?k" using False by (simp add: put_place prod_eq_iff)
    have n: "objNamespace (mk ?y) = ns" "objName (mk ?y) = snd (place x)" by (simp_all add: key_mk k)
    have here: "map_of (fake_objects s) (gvr, ?k) = map_option mk (store s ?k)" by (rule store_cases(1) [OF ok])
    have "snd (keyOf (mk ?y)) = ?k" "conv (mk ?y) = Some ?y" using conv_iff [of "mk ?y" ?y] by (simp_all add: key_mk k)
    then have new: "store s2 = (store s)(?k \<mapsto> ?y) \<and> onlyStore gvr conv s s2"
      if "fake_objects s2 = AList.update (gvr, ?k) (mk ?y) (fake_objects s)" for s2
      using ok that by (auto simp: storeOf_def storeOk_def onlyStore_def fun_eq_iff)
    show ?thesis
      using add new unfolding objects_add_def obj Let_def k n here
      by (cases "store s ?k") (auto split: if_splits)
  qed
qed

lemma storeOk_recorded [simp]: "storeOk gvr conv (recorded a s) = storeOk gvr conv s"
  "store (recorded a s) = store s" "onlyStore gvr conv (recorded a s) s' = onlyStore gvr conv s s'"
  by (simp_all add: storeOk_def storeOf_def onlyStore_def fun_eq_iff)

lemma onlyStore_recorded: "storeOk gvr conv s \<Longrightarrow> onlyStore gvr conv s (recorded a s)"
  by (simp add: onlyStore_def storeOk_def)

text \<open>Creating and updating, which differ in the flag and, for the reaction, in nothing else.\<close>

lemma write_meets:
  assumes ok: "storeOk gvr conv s"
    and action: "ObjectReaction lib action (recorded action s) =
      (case objects_add gvr (mk x) ns replace (recorded action s) of
         (Some err, s) \<Rightarrow> ((True, None, Some err), s)
       | (None, s) \<Rightarrow>
           (case objects_Get gvr ns (objName (mk x)) s of
              Inl err \<Rightarrow> ((True, None, Some err), s) | Inr obj \<Rightarrow> ((True, Some (ItemObj obj), None), s)))"
    and run: "(let (obj, s') = Invokes (simpleFake lib) action d s in (assertObj item obj, s')) = (r, s')"
  shows "writeSpec (GroupResource gvr) replace ns (place (put ns x)) (put ns x) (store s) r (store s') \<and>
    onlyStore gvr conv s s'"
proof -
  obtain e s1 where add: "objects_add gvr (mk x) ns replace (recorded action s) = (e, s1)" by force
  have ok': "storeOk gvr conv (recorded action s)" using ok by simp
  note effect = add_meets [OF ok' add]
  show ?thesis
  proof (cases e)
    case (Some err)
    then have "r = Ret (None, Some err)" "s' = s1"
      using run add by (simp_all add: Invokes_simple action assertObj_def)
    with Some effect show ?thesis
      using onlyStore_recorded [OF ok] by (auto simp: writeSpec_def put_place split: if_splits)
  next
    case None
    with effect have here: "fst (place (put ns x)) = ns" "(store s (place (put ns x)) \<noteq> None) = replace"
      "store s1 = (store s)(place (put ns x) \<mapsto> put ns x)" "onlyStore gvr conv s s1"
      by (auto split: if_splits)
    have key: "(ns, objName (mk x)) = place (put ns x)"
      using here(1) by (simp add: key_mk put_place prod_eq_iff)
    have ok1: "storeOk gvr conv s1" using here(4) by (simp add: onlyStore_def)
    have "map_of (fake_objects s1) (gvr, ns, objName (mk x)) = Some (mk (put ns x))"
      unfolding key store_cases(1) [OF ok1] here(3) by simp
    then have "r = Ret (Some (put ns x), None)" "s' = s1"
      using run add None by (simp_all add: Invokes_simple action objects_Get_def assertObj_def item_mk)
    with here show ?thesis by (simp add: writeSpec_def)
  qed
qed

lemma delete_meets:
  assumes ok: "storeOk gvr conv s"
    and run: "(let (obj, s') = Invokes (simpleFake lib) (DeleteAction gvr ns name) d s in (snd obj, s')) = (e, s')"
  shows "deleteSpec (GroupResource gvr) (ns, name) (store s) e (store s') \<and> onlyStore gvr conv s s'"
proof -
  have new: "store s2 = (store s)((ns, name) := None) \<and> onlyStore gvr conv s s2"
    if "fake_objects s2 = AList.delete (gvr, ns, name) (fake_objects s)" for s2
    using ok that by (auto simp: storeOf_def storeOk_def onlyStore_def fun_eq_iff)
  show ?thesis
    using run new onlyStore_recorded [OF ok] store_cases(1) [OF ok, of "(ns, name)"]
    by (cases "store s (ns, name)") (auto simp: Invokes_simple objects_Delete_def deleteSpec_def)
qed

text \<open>A client made of the four reactions is a store.\<close>

lemma client_meets:
  assumes ok: "storeOk gvr conv s"
    and get: "\<And>name. get name s = (let (obj, s) = Invokes (simpleFake lib) (GetAction gvr ns name) d s
      in (assertObj item obj, s))"
    and create: "\<And>x. create x s = (let (obj, s) = Invokes (simpleFake lib) (CreateAction gvr ns (mk x)) d s
      in (assertObj item obj, s))"
    and update: "\<And>x. update x s = (let (obj, s) = Invokes (simpleFake lib) (UpdateAction gvr sub ns (mk x)) d s
      in (assertObj item obj, s))"
    and delete: "\<And>name. delete name s = (let (obj, s) = Invokes (simpleFake lib) (DeleteAction gvr ns name) d s
      in (snd obj, s))"
  shows "implementsStore gvr conv place inNamespace ns get create update delete s"
  unfolding implementsStore_def
proof (intro conjI allI impI)
  fix name r s' assume "get name s = (r, s')"
  then have "r = getSpec (GroupResource gvr) (ns, name) (store s)" "s' = recorded (GetAction gvr ns name) s"
    using get_meets [OF ok] by (simp_all add: get)
  then show "r = getSpec (GroupResource gvr) (ns, name) (store s)" "store s' = store s" "onlyStore gvr conv s s'"
    using onlyStore_recorded [OF ok] by simp_all
next
  fix x r s' assume "create x s = (r, s')"
  then have "(let (obj, s') = Invokes (simpleFake lib) (CreateAction gvr ns (mk x)) d s in (assertObj item obj, s')) = (r, s')"
    by (simp add: create)
  from write_meets [OF ok _ this] show "writeSpec (GroupResource gvr) False ns (place (put ns x)) (put ns x) (store s) r (store s')"
    "onlyStore gvr conv s s'" by simp_all
next
  fix x r s' assume "update x s = (r, s')"
  then have "(let (obj, s') = Invokes (simpleFake lib) (UpdateAction gvr sub ns (mk x)) d s in (assertObj item obj, s')) = (r, s')"
    by (simp add: update)
  from write_meets [OF ok _ this] show "writeSpec (GroupResource gvr) True ns (place (put ns x)) (put ns x) (store s) r (store s')"
    "onlyStore gvr conv s s'" by simp_all
next
  fix name e s' assume "delete name s = (e, s')"
  then have "(let (obj, s') = Invokes (simpleFake lib) (DeleteAction gvr ns name) d s in (snd obj, s')) = (e, s')"
    by (simp add: delete)
  from delete_meets [OF ok this] show "deleteSpec (GroupResource gvr) (ns, name) (store s) e (store s')"
    "onlyStore gvr conv s s'" by simp_all
qed

end

abbreviation devicePlace :: "NodePtpDevice \<Rightarrow> string \<times> string" where
  "devicePlace x \<equiv> (meta_Namespace (ndevice_ObjectMeta x), meta_Name (ndevice_ObjectMeta x))"

abbreviation deviceIn :: "string \<Rightarrow> NodePtpDevice \<Rightarrow> NodePtpDevice" where
  "deviceIn ns x \<equiv> x\<lparr>ndevice_ObjectMeta := (ndevice_ObjectMeta x)\<lparr>meta_Namespace := ns\<rparr>\<rparr>"

abbreviation configPlace :: "PtpConfig \<Rightarrow> string \<times> string" where
  "configPlace x \<equiv> (meta_Namespace (config_ObjectMeta x), meta_Name (config_ObjectMeta x))"

abbreviation configIn :: "string \<Rightarrow> PtpConfig \<Rightarrow> PtpConfig" where
  "configIn ns x \<equiv> x\<lparr>config_ObjectMeta := (config_ObjectMeta x)\<lparr>meta_Namespace := ns\<rparr>\<rparr>"

abbreviation operatorPlace :: "PtpOperatorConfig \<Rightarrow> string \<times> string" where
  "operatorPlace x \<equiv> (meta_Namespace (oconfig_ObjectMeta x), meta_Name (oconfig_ObjectMeta x))"

abbreviation operatorIn :: "string \<Rightarrow> PtpOperatorConfig \<Rightarrow> PtpOperatorConfig" where
  "operatorIn ns x \<equiv> x\<lparr>oconfig_ObjectMeta := (oconfig_ObjectMeta x)\<lparr>meta_Namespace := ns\<rparr>\<rparr>"

interpretation fake_devices: fake_resource nodeptpdevicesResource NodePtpDeviceObj asNodePtpDevice itemNodePtpDevice
  devicePlace deviceIn
proof unfold_locales
  show "asNodePtpDevice obj = Some x \<longleftrightarrow> obj = NodePtpDeviceObj x" for obj x by (cases obj) auto
qed simp_all

interpretation fake_configs: fake_resource ptpconfigsResource PtpConfigObj asPtpConfig itemPtpConfig configPlace configIn
proof unfold_locales
  show "asPtpConfig obj = Some x \<longleftrightarrow> obj = PtpConfigObj x" for obj x by (cases obj) auto
qed simp_all

interpretation fake_operators: fake_resource ptpoperatorconfigsResource PtpOperatorConfigObj asPtpOperatorConfig
  itemPtpOperatorConfig operatorPlace operatorIn
proof unfold_locales
  show "asPtpOperatorConfig obj = Some x \<longleftrightarrow> obj = PtpOperatorConfigObj x" for obj x by (cases obj) auto
qed simp_all

text \<open>The clientset of tests.\<close>

abbreviation fakeV1 :: "Libraries \<Rightarrow> FakePtpV1" where
  "fakeV1 lib \<equiv> FakeClientset_PtpV1 (simpleClientset lib)"

lemmas fake_defs = FakeClientset_PtpV1_def simpleClientset_def FakePtpV1_NodePtpDevices_def FakePtpV1_PtpConfigs_def
  FakePtpV1_PtpOperatorConfigs_def


text \<open>Selectors that select everything, and a patch that does nothing.\<close>

definition plainLibraries :: Libraries where
  "plainLibraries = \<lparr>labels_Parse = (\<lambda>sel. Some (\<lambda>labels. True)), fields_Parse = (\<lambda>sel. True),
     applyPatch = (\<lambda>pt patch obj. Inr obj)\<rparr>"

definition fakeWithConfig :: Fake where
  "fakeWithConfig = snd (objects_Add (PtpConfigObj (emptyPtpConfig\<lparr>config_ObjectMeta :=
     emptyMeta\<lparr>meta_Name := ''a'', meta_Namespace := ''ptp''\<rparr>\<rparr>)) emptyFake)"

lemma fakeWithConfig_ok:
  "storeOk nodeptpdevicesResource asNodePtpDevice fakeWithConfig"
  "storeOk ptpconfigsResource asPtpConfig fakeWithConfig"
  "storeOk ptpoperatorconfigsResource asPtpOperatorConfig fakeWithConfig"
proof -
  have "fake_objects fakeWithConfig = [((ptpconfigsResource, ''ptp'', ''a''), PtpConfigObj (emptyPtpConfig\<lparr>config_ObjectMeta :=
      emptyMeta\<lparr>meta_Name := ''a'', meta_Namespace := ''ptp''\<rparr>\<rparr>))]"
    by code_simp
  then show "storeOk nodeptpdevicesResource asNodePtpDevice fakeWithConfig"
    "storeOk ptpconfigsResource asPtpConfig fakeWithConfig"
    "storeOk ptpoperatorconfigsResource asPtpOperatorConfig fakeWithConfig"
    by (auto simp: storeOk_def nodeptpdevicesResource_def ptpconfigsResource_def ptpoperatorconfigsResource_def
        emptyMeta_def)
qed

definition noWriteOptions :: WriteOptions where
  "noWriteOptions = \<lparr>write_DryRun = [], write_FieldManager = [], write_FieldValidation = []\<rparr>"

definition noDeleteOptions :: DeleteOptions where
  "noDeleteOptions = \<lparr>delete_GracePeriodSeconds = None, delete_Preconditions = None,
     delete_OrphanDependents = None, delete_PropagationPolicy = None, delete_DryRun = []\<rparr>"

definition noListOptions :: ListOptions where
  "noListOptions = \<lparr>list_LabelSelector = [], list_FieldSelector = [], list_Watch = False,
     list_AllowWatchBookmarks = False, list_ResourceVersion = [], list_ResourceVersionMatch = [],
     list_TimeoutSeconds = None, list_Limit = 0, list_Continue = []\<rparr>"


section \<open>What a watcher is told\<close>

text \<open>The objects of a watch, and what an event does to them.\<close>

definition viewOf :: "GroupVersionResource \<Rightarrow> string \<Rightarrow> Fake \<Rightarrow> (string \<times> string \<rightharpoonup> Object)" where
  "viewOf gvr ns s k = (if ns = [] \<or> fst k = ns then map_of (fake_objects s) (gvr, k) else None)"

fun applyEvent :: "Event \<Rightarrow> (string \<times> string \<rightharpoonup> Object) \<Rightarrow> (string \<times> string \<rightharpoonup> Object)" where
  "applyEvent (Added obj) m = m(snd (keyOf obj) \<mapsto> obj)"
| "applyEvent (Modified obj) m = m(snd (keyOf obj) \<mapsto> obj)"
| "applyEvent (Deleted obj) m = m(snd (keyOf obj) := None)"

abbreviation replay :: "Event list \<Rightarrow> (string \<times> string \<rightharpoonup> Object) \<Rightarrow> (string \<times> string \<rightharpoonup> Object)" where
  "replay evs m \<equiv> fold applyEvent evs m"

text \<open>Every object lies where its metadata say; a watcher that has seen the store before sees it now.\<close>

definition keyedStore :: "Fake \<Rightarrow> bool" where
  "keyedStore s \<longleftrightarrow> (\<forall>g k obj. map_of (fake_objects s) (g, k) = Some obj \<longrightarrow> snd (keyOf obj) = k)"

definition follows ::
  "nat \<Rightarrow> GroupVersionResource \<Rightarrow> string \<Rightarrow> (string \<times> string \<rightharpoonup> Object) \<Rightarrow> Fake \<Rightarrow> bool"
where
  "follows w gvr ns m s \<longleftrightarrow> w < length (fake_watchers s) \<and> fst (fake_watchers s ! w) = (gvr, ns) \<and>
     replay (snd (fake_watchers s ! w)) m = viewOf gvr ns s"

text \<open>What a step keeps: the keys, and what each watcher has seen.\<close>

definition tells :: "Fake \<Rightarrow> Fake \<Rightarrow> bool" where
  "tells s s' \<longleftrightarrow> (keyedStore s \<longrightarrow> keyedStore s' \<and>
     (\<forall>w gvr ns m. follows w gvr ns m s \<longrightarrow> follows w gvr ns m s'))"

lemma tells_refl [simp]: "tells s s"
  by (simp add: tells_def)

lemma tells_trans: "tells s s' \<Longrightarrow> tells s' s'' \<Longrightarrow> tells s s''"
  by (simp add: tells_def)

lemma tells_recorded [simp]: "tells s (recorded action s)"
  by (simp add: tells_def keyedStore_def follows_def viewOf_def fun_eq_iff)

text \<open>A change of one object that is told to its watchers.\<close>

lemma tells_change:
  assumes objs: "map_of objs = (map_of (fake_objects s))((g, ns, n) := v)"
    and ev: "\<And>m. keyedStore s \<Longrightarrow> applyEvent ev m = m((ns, n) := v)"
    and v: "\<And>obj. v = Some obj \<Longrightarrow> snd (keyOf obj) = (ns, n)"
  shows "tells s ((notify g ns ev s)\<lparr>fake_objects := objs\<rparr>)" (is "tells s ?s")
  unfolding tells_def
proof (intro impI conjI allI)
  assume keyed: "keyedStore s"
  show "keyedStore ?s" using keyed v by (simp add: keyedStore_def objs)
  fix w gvr m m0 assume f: "follows w gvr m m0 s"
  obtain evs where at: "fake_watchers s ! w = ((gvr, m), evs)" "w < length (fake_watchers s)"
    and seen: "replay evs m0 = viewOf gvr m s"
    using f unfolding follows_def by (metis prod.collapse)
  show "follows w gvr m m0 ?s"
  proof (cases "gvr = g \<and> (m = ns \<or> m = [])")
    case True
    then have "viewOf gvr m ?s = (viewOf gvr m s)((ns, n) := v)" by (auto simp: viewOf_def objs fun_eq_iff)
    with True at seen ev [OF keyed] show ?thesis unfolding follows_def notify_def by simp
  next
    case False
    then have "viewOf gvr m ?s = viewOf gvr m s" by (auto simp: viewOf_def objs fun_eq_iff)
    moreover have "fake_watchers ?s ! w = ((gvr, m), evs)" using False at unfolding notify_def by auto
    ultimately show ?thesis using at(2) seen unfolding follows_def by (simp add: notify_def)
  qed
qed

lemma tells_put:
  assumes "ev = Added obj \<or> ev = Modified obj"
  shows "tells s ((notify gvr (objNamespace obj) ev s)
    \<lparr>fake_objects := AList.update (gvr, snd (keyOf obj)) obj (fake_objects s)\<rparr>)"
proof (rule tells_change)
  show "applyEvent ev m = m((objNamespace obj, objName obj) := Some obj)" for m using assms by auto
qed (auto simp: update_conv')

lemma tells_add: "tells s (snd (objects_add gvr obj ns replace s))"
proof -
  define obj' where "obj' = (if length (objNamespace obj) = 0 then setNamespace ns obj else obj)"
  show ?thesis
    unfolding objects_add_def Let_def obj'_def [symmetric] by (auto intro: tells_put split: option.split)
qed

lemma tells_Delete: "tells s (snd (objects_Delete gvr ns name s))"
proof (cases "map_of (fake_objects s) (gvr, ns, name)")
  case (Some obj)
  have "tells s ((notify gvr ns (Deleted obj) s)\<lparr>fake_objects := AList.delete (gvr, ns, name) (fake_objects s)\<rparr>)"
  proof (rule tells_change)
    show "applyEvent (Deleted obj) m = m((ns, name) := None)" if "keyedStore s" for m
      using that Some unfolding keyedStore_def by fastforce
  qed (auto simp: delete_conv')
  with Some show ?thesis by (simp add: objects_Delete_def)
qed (simp add: objects_Delete_def)

lemma tells_Watch: "tells s (snd (objects_Watch gvr ns s))"
  by (simp add: objects_Watch_def tells_def keyedStore_def follows_def viewOf_def nth_append fun_eq_iff)

text \<open>Every reaction of the tracker, and so every call, does so.\<close>

lemma tells_addE: "objects_add gvr obj ns replace s = (e, s') \<Longrightarrow> tells s s'"
  using tells_add [of s gvr obj ns replace] by simp

lemma tells_DeleteE: "objects_Delete gvr ns name s = (e, s') \<Longrightarrow> tells s s'"
  using tells_Delete [of s gvr ns name] by simp

lemma tells_reaction: "tells s (snd (ObjectReaction lib action s))"
  by (cases action) (auto split: sum.split prod.split option.split dest: tells_addE tells_DeleteE)

lemma tells_Invokes: "tells s (snd (Invokes (simpleFake lib) action d s))"
proof -
  have "tells s (snd (ObjectReaction lib action (recorded action s)))"
    by (rule tells_trans [OF tells_recorded tells_reaction])
  then show ?thesis by (auto simp: Invokes_simple split: prod.split)
qed

lemma InvokesWatch_simple:
  "InvokesWatch (simpleFake lib) action s =
     (let (w, s') = objects_Watch (GetResource action) (ActionNamespace action) (recorded action s)
      in ((Some w, None), s'))"
  by (simp add: InvokesWatch_def simpleFake_def resourceCovers_def split_def Let_def)

lemma tells_InvokesWatch: "tells s (snd (InvokesWatch (simpleFake lib) action s))"
  using tells_trans [OF tells_recorded tells_Watch]
  by (simp add: InvokesWatch_simple split_def Let_def)

text \<open>The calls of the three typed fakes.\<close>

inductive fakeCall :: "Libraries \<Rightarrow> Fake \<Rightarrow> Fake \<Rightarrow> bool" for lib where
  devices_Get: "fakeCall lib s (snd (FakeNodePtpDevices_Get (FakePtpV1_NodePtpDevices (fakeV1 lib) ns) name opts s))"
| devices_List: "fakeCall lib s (snd (FakeNodePtpDevices_List (FakePtpV1_NodePtpDevices (fakeV1 lib) ns) lib opts s))"
| devices_Watch: "fakeCall lib s (snd (FakeNodePtpDevices_Watch (FakePtpV1_NodePtpDevices (fakeV1 lib) ns) lib opts s))"
| devices_Create: "fakeCall lib s (snd (FakeNodePtpDevices_Create (FakePtpV1_NodePtpDevices (fakeV1 lib) ns) x opts s))"
| devices_Update: "fakeCall lib s (snd (FakeNodePtpDevices_Update (FakePtpV1_NodePtpDevices (fakeV1 lib) ns) x opts s))"
| devices_UpdateStatus: "fakeCall lib s (snd (FakeNodePtpDevices_UpdateStatus (FakePtpV1_NodePtpDevices (fakeV1 lib) ns) x opts s))"
| devices_Delete: "fakeCall lib s (snd (FakeNodePtpDevices_Delete (FakePtpV1_NodePtpDevices (fakeV1 lib) ns) name opts s))"
| devices_DeleteCollection: "fakeCall lib s (snd (FakeNodePtpDevices_DeleteCollection (FakePtpV1_NodePtpDevices (fakeV1 lib) ns) lib opts lopts s))"
| devices_Patch: "fakeCall lib s (snd (FakeNodePtpDevices_Patch (FakePtpV1_NodePtpDevices (fakeV1 lib) ns) name pt data opts subs s))"
| configs_Get: "fakeCall lib s (snd (FakePtpConfigs_Get (FakePtpV1_PtpConfigs (fakeV1 lib) ns) name opts s))"
| configs_List: "fakeCall lib s (snd (FakePtpConfigs_List (FakePtpV1_PtpConfigs (fakeV1 lib) ns) lib opts s))"
| configs_Watch: "fakeCall lib s (snd (FakePtpConfigs_Watch (FakePtpV1_PtpConfigs (fakeV1 lib) ns) lib opts s))"
| configs_Create: "fakeCall lib s (snd (FakePtpConfigs_Create (FakePtpV1_PtpConfigs (fakeV1 lib) ns) x opts s))"
| configs_Update: "fakeCall lib s (snd (FakePtpConfigs_Update (FakePtpV1_PtpConfigs (fakeV1 lib) ns) x opts s))"
| configs_UpdateStatus: "fakeCall lib s (snd (FakePtpConfigs_UpdateStatus (FakePtpV1_PtpConfigs (fakeV1 lib) ns) x opts s))"
| configs_Delete: "fakeCall lib s (snd (FakePtpConfigs_Delete (FakePtpV1_PtpConfigs (fakeV1 lib) ns) name opts s))"
| configs_DeleteCollection: "fakeCall lib s (snd (FakePtpConfigs_DeleteCollection (FakePtpV1_PtpConfigs (fakeV1 lib) ns) lib opts lopts s))"
| configs_Patch: "fakeCall lib s (snd (FakePtpConfigs_Patch (FakePtpV1_PtpConfigs (fakeV1 lib) ns) name pt data opts subs s))"
| operators_Get: "fakeCall lib s (snd (FakePtpOperatorConfigs_Get (FakePtpV1_PtpOperatorConfigs (fakeV1 lib) ns) name opts s))"
| operators_List: "fakeCall lib s (snd (FakePtpOperatorConfigs_List (FakePtpV1_PtpOperatorConfigs (fakeV1 lib) ns) lib opts s))"
| operators_Watch: "fakeCall lib s (snd (FakePtpOperatorConfigs_Watch (FakePtpV1_PtpOperatorConfigs (fakeV1 lib) ns) lib opts s))"
| operators_Create: "fakeCall lib s (snd (FakePtpOperatorConfigs_Create (FakePtpV1_PtpOperatorConfigs (fakeV1 lib) ns) x opts s))"
| operators_Update: "fakeCall lib s (snd (FakePtpOperatorConfigs_Update (FakePtpV1_PtpOperatorConfigs (fakeV1 lib) ns) x opts s))"
| operators_UpdateStatus: "fakeCall lib s (snd (FakePtpOperatorConfigs_UpdateStatus (FakePtpV1_PtpOperatorConfigs (fakeV1 lib) ns) x opts s))"
| operators_Delete: "fakeCall lib s (snd (FakePtpOperatorConfigs_Delete (FakePtpV1_PtpOperatorConfigs (fakeV1 lib) ns) name opts s))"
| operators_DeleteCollection: "fakeCall lib s (snd (FakePtpOperatorConfigs_DeleteCollection (FakePtpV1_PtpOperatorConfigs (fakeV1 lib) ns) lib opts lopts s))"
| operators_Patch: "fakeCall lib s (snd (FakePtpOperatorConfigs_Patch (FakePtpV1_PtpOperatorConfigs (fakeV1 lib) ns) name pt data opts subs s))"

lemmas fake_method_defs = FakeNodePtpDevices_Get_def FakeNodePtpDevices_List_def FakeNodePtpDevices_Watch_def
  FakeNodePtpDevices_Create_def FakeNodePtpDevices_Update_def FakeNodePtpDevices_UpdateStatus_def
  FakeNodePtpDevices_Delete_def FakeNodePtpDevices_DeleteCollection_def FakeNodePtpDevices_Patch_def
  FakePtpConfigs_Get_def FakePtpConfigs_List_def FakePtpConfigs_Watch_def FakePtpConfigs_Create_def
  FakePtpConfigs_Update_def FakePtpConfigs_UpdateStatus_def FakePtpConfigs_Delete_def
  FakePtpConfigs_DeleteCollection_def FakePtpConfigs_Patch_def FakePtpOperatorConfigs_Get_def
  FakePtpOperatorConfigs_List_def FakePtpOperatorConfigs_Watch_def FakePtpOperatorConfigs_Create_def
  FakePtpOperatorConfigs_Update_def FakePtpOperatorConfigs_UpdateStatus_def FakePtpOperatorConfigs_Delete_def
  FakePtpOperatorConfigs_DeleteCollection_def FakePtpOperatorConfigs_Patch_def

lemma fakeCall_tells:
  assumes "fakeCall lib s s'"
  shows "tells s s'"
  using assms
  by cases (simp_all add: fake_method_defs fake_defs Let_def split_def tells_Invokes tells_InvokesWatch split: go.split)

text \<open>A new clientset holds its objects where they say, and is watched by nobody.\<close>

lemma keyedStore_addObjects: "keyedStore s \<Longrightarrow> keyedStore (snd (addObjects objs s))"
proof (induction objs arbitrary: s)
  case (Cons obj objs)
  have "keyedStore (snd (objects_Add obj s))"
    using Cons.prems tells_add by (simp add: objects_Add_def tells_def split: sum.split)
  with Cons.IH show ?case by (simp split: prod.split option.split) (metis snd_conv)
qed simp

lemma keyedStore_NewSimpleClientset:
  "NewSimpleClientset lib objs = Ret (cs, s) \<Longrightarrow> keyedStore s \<and> cs = simpleClientset lib"
  using keyedStore_addObjects [of emptyFake objs]
  by (auto simp: NewSimpleClientset_def keyedStore_def emptyFake_def split: prod.splits go.splits)

lemma tells_calls: "(fakeCall lib)\<^sup>*\<^sup>* s s' \<Longrightarrow> tells s s'"
  by (induction rule: rtranclp_induct) (auto intro: tells_trans fakeCall_tells)


text \<open>The watch of the example: a configuration that exists, one that is created, and the first deleted.\<close>

abbreviation testConfigs :: FakePtpConfigs where
  "testConfigs \<equiv> FakePtpV1_PtpConfigs (fakeV1 plainLibraries) ''ptp''"

definition namedConfig :: "string \<Rightarrow> string \<Rightarrow> PtpConfig" where
  "namedConfig ns name = emptyPtpConfig\<lparr>config_ObjectMeta := emptyMeta\<lparr>meta_Name := name, meta_Namespace := ns\<rparr>\<rparr>"

definition watchedFake :: Fake where
  "watchedFake = snd (FakePtpConfigs_Watch testConfigs plainLibraries noListOptions fakeWithConfig)"

definition changedFake :: Fake where
  "changedFake = snd (FakePtpConfigs_Delete testConfigs ''a'' noDeleteOptions
     (snd (FakePtpConfigs_Create testConfigs (namedConfig [] ''b'') noWriteOptions watchedFake)))"

lemma changedFake_calls: "(fakeCall plainLibraries)\<^sup>*\<^sup>* watchedFake changedFake"
proof -
  have "fakeCall plainLibraries watchedFake
      (snd (FakePtpConfigs_Create testConfigs (namedConfig [] ''b'') noWriteOptions watchedFake))"
    by (rule configs_Create)
  moreover have "fakeCall plainLibraries (snd (FakePtpConfigs_Create testConfigs (namedConfig [] ''b'') noWriteOptions watchedFake))
      changedFake"
    unfolding changedFake_def by (rule configs_Delete)
  ultimately show ?thesis by (rule rtranclp.rtrancl_into_rtrancl [OF r_into_rtranclp])
qed


section \<open>Where the fakes are no server\<close>

text \<open>Deleting a collection through a fake deletes nothing and reports success: the tracker has no reaction to
  the action, so it is recorded and the default answer is returned. And updating the status replaces the
  whole object, specification included.
\<close>

theorem fake_collection_stays:
  assumes "labels_Parse lib (list_LabelSelector listOpts) = Some label" "fields_Parse lib (list_FieldSelector listOpts)"
    and ok: "storeOk ptpconfigsResource asPtpConfig s"
    and there: "storeOf ptpconfigsResource asPtpConfig s (configPlace x) = Some old" and ns: "fst (configPlace x) = ns"
      "ns \<noteq> []"
  shows "fst (FakePtpConfigs_DeleteCollection (FakePtpV1_PtpConfigs (fakeV1 lib) ns) lib opts listOpts s) = Ret None \<and>
    fake_objects (snd (FakePtpConfigs_DeleteCollection (FakePtpV1_PtpConfigs (fakeV1 lib) ns) lib opts listOpts s)) =
      fake_objects s \<and>
    fst (FakePtpConfigs_UpdateStatus (FakePtpV1_PtpConfigs (fakeV1 lib) ns) x uopts s) = Ret (Some x, None) \<and>
    storeOf ptpconfigsResource asPtpConfig
        (snd (FakePtpConfigs_UpdateStatus (FakePtpV1_PtpConfigs (fakeV1 lib) ns) x uopts s)) =
      (storeOf ptpconfigsResource asPtpConfig s)(configPlace x \<mapsto> x)"
proof -
  let ?update = "\<lambda>x. FakePtpConfigs_UpdateStatus (FakePtpV1_PtpConfigs (fakeV1 lib) ns) x uopts"
  let ?store = "storeOf ptpconfigsResource asPtpConfig"
  obtain r s' where u: "?update x s = (r, s')" by force
  have "implementsStore ptpconfigsResource asPtpConfig configPlace configIn ns
      (\<lambda>name. FakePtpConfigs_Get (FakePtpV1_PtpConfigs (fakeV1 lib) ns) name gopts)
      (\<lambda>x. FakePtpConfigs_Create (FakePtpV1_PtpConfigs (fakeV1 lib) ns) x copts)
      ?update (\<lambda>name. FakePtpConfigs_Delete (FakePtpV1_PtpConfigs (fakeV1 lib) ns) name dopts) s" for gopts copts dopts
    by (rule fake_configs.client_meets [OF ok])
       (simp_all add: fake_defs FakePtpConfigs_Get_def FakePtpConfigs_Create_def
         FakePtpConfigs_UpdateStatus_def FakePtpConfigs_Delete_def)
  then have "writeSpec (GroupResource ptpconfigsResource) True ns (configPlace (placed configPlace configIn ns x))
      (placed configPlace configIn ns x) (?store s) r (?store s')"
    using u unfolding implementsStore_def by blast
  moreover have "placed configPlace configIn ns x = x" using ns by (simp add: placed_def)
  ultimately have "r = Ret (Some x, None)" "?store s' = (?store s)(configPlace x \<mapsto> x)"
    using there ns(1) unfolding writeSpec_def by simp_all
  moreover have "FakePtpConfigs_DeleteCollection (FakePtpV1_PtpConfigs (fakeV1 lib) ns) lib opts listOpts s = (Ret None,
      recorded (DeleteCollectionAction ptpconfigsResource ns (list_LabelSelector listOpts) (list_FieldSelector listOpts)) s)"
    using assms(1,2) by (simp add: FakePtpConfigs_DeleteCollection_def NewDeleteCollectionAction_def
        ExtractFromListOptions_def fake_defs Invokes_simple)
  ultimately show ?thesis unfolding u by simp
qed

lemma fake_collection_stays_witness:
  "fst (FakePtpConfigs_DeleteCollection testConfigs plainLibraries noDeleteOptions noListOptions fakeWithConfig) = Ret None \<and>
   fake_objects (snd (FakePtpConfigs_DeleteCollection testConfigs plainLibraries noDeleteOptions noListOptions
     fakeWithConfig)) = fake_objects fakeWithConfig \<and> length (fake_objects fakeWithConfig) = 1"
proof -
  have "storeOf ptpconfigsResource asPtpConfig fakeWithConfig (configPlace (namedConfig ''ptp'' ''a'')) =
      Some (namedConfig ''ptp'' ''a'')" by code_simp
  moreover have "fst (configPlace (namedConfig ''ptp'' ''a'')) = ''ptp''" by code_simp
  moreover have "length (fake_objects fakeWithConfig) = 1" by code_simp
  moreover have "labels_Parse plainLibraries (list_LabelSelector noListOptions) = Some (\<lambda>labels. True)"
    "fields_Parse plainLibraries (list_FieldSelector noListOptions)" by (simp_all add: plainLibraries_def)
  ultimately show ?thesis
    using fake_collection_stays [OF _ _ fakeWithConfig_ok(2), of plainLibraries noListOptions "\<lambda>labels. True"
        "namedConfig ''ptp'' ''a''" "namedConfig ''ptp'' ''a''" "''ptp''" noDeleteOptions noWriteOptions] by simp
qed

end
