(* ===== verification/Scheme_Registration.thy ===== *)
theory Scheme_Registration
  imports Fake_Clientset
begin

text \<open>
  The registration of the types: \<^verbatim>\<open>api/v1/groupversion_info.go\<close> with the \<^verbatim>\<open>init\<close> functions beside the types,
  the two \<^verbatim>\<open>register.go\<close> of the clientsets, and the \<^verbatim>\<open>init\<close> of \<^verbatim>\<open>main.go\<close>, on the scheme of the vendored
  \<^verbatim>\<open>k8s.io/apimachinery/pkg/runtime\<close>.

  A Go type is its package and its name. Of a scheme there are the maps between kinds and types; its
  conversions, defaults and name are not modelled.
\<close>

section \<open>Schemes\<close>

type_synonym GroupVersion = "string \<times> string"

datatype GoType = GoType (PkgPath: string) (typeName: string)

record Scheme =
  gvkToType :: "(GroupVersionKind \<times> GoType) list"
  typeToGVK :: "(GoType \<times> GroupVersionKind list) list"
  unversionedTypes :: "(GoType \<times> GroupVersionKind) list"
  unversionedKinds :: "(string \<times> GoType) list"
  observedVersions :: "GroupVersion list"

definition NewScheme :: Scheme where
  "NewScheme = \<lparr>gvkToType = [], typeToGVK = [], unversionedTypes = [], unversionedKinds = [], observedVersions = []\<rparr>"

definition WithKind :: "GroupVersion \<Rightarrow> string \<Rightarrow> GroupVersionKind" where
  "WithKind gv kind = \<lparr>gvk_Group = fst gv, gvk_Version = snd gv, gvk_Kind = kind\<rparr>"

definition APIVersionInternal :: string where "APIVersionInternal = ''__internal''"

definition addObservedVersion :: "GroupVersion \<Rightarrow> Scheme \<Rightarrow> Scheme" where
  "addObservedVersion version s =
     (if length (snd version) = 0 \<or> snd version = APIVersionInternal then s
      else if version \<in> set (observedVersions s) then s
      else s\<lparr>observedVersions := observedVersions s @ [version]\<rparr>)"

definition kindsOf :: "Scheme \<Rightarrow> GoType \<Rightarrow> GroupVersionKind list" where
  "kindsOf s t = (case map_of (typeToGVK s) t of None \<Rightarrow> [] | Some gvks \<Rightarrow> gvks)"

text \<open>The objects that are registered are pointers to structs, so that their types are known.\<close>

definition AddKnownTypeWithName :: "GroupVersionKind \<Rightarrow> GoType \<Rightarrow> Scheme \<Rightarrow> Scheme go" where
  "AddKnownTypeWithName gvk t s =
     (let s = addObservedVersion (gvk_Group gvk, gvk_Version gvk) s in
      if length (gvk_Version gvk) = 0 then Panic (''version is required on all types: '' @ gvk_Kind gvk)
      else if (case map_of (gvkToType s) gvk of None \<Rightarrow> False | Some oldT \<Rightarrow> oldT \<noteq> t)
      then Panic (''Double registration of different types for '' @ gvk_Kind gvk)
      else let s = s\<lparr>gvkToType := AList.update gvk t (gvkToType s)\<rparr> in
        if gvk \<in> set (kindsOf s t) then Ret s
        else Ret (s\<lparr>typeToGVK := AList.update t (kindsOf s t @ [gvk]) (typeToGVK s)\<rparr>))"

fun addKnownTypes :: "GroupVersion \<Rightarrow> GoType list \<Rightarrow> Scheme \<Rightarrow> Scheme go" where
  "addKnownTypes gv [] s = Ret s"
| "addKnownTypes gv (t # types) s =
     bind_go (AddKnownTypeWithName (WithKind gv (typeName t)) t s) (addKnownTypes gv types)"

definition AddKnownTypes :: "GroupVersion \<Rightarrow> GoType list \<Rightarrow> Scheme \<Rightarrow> Scheme go" where
  "AddKnownTypes gv types s = addKnownTypes gv types (addObservedVersion gv s)"

definition addUnversionedType :: "GroupVersion \<Rightarrow> GoType \<Rightarrow> Scheme \<Rightarrow> Scheme go" where
  "addUnversionedType version t s =
     (let gvk = WithKind version (typeName t);
          s = s\<lparr>unversionedTypes := AList.update t gvk (unversionedTypes s)\<rparr> in
      if (case map_of (unversionedKinds s) (gvk_Kind gvk) of None \<Rightarrow> False | Some old \<Rightarrow> t \<noteq> old)
      then Panic (gvk_Kind gvk @ '' has already been registered as unversioned kind'')
      else Ret (s\<lparr>unversionedKinds := AList.update (gvk_Kind gvk) t (unversionedKinds s)\<rparr>))"

fun addUnversionedTypes :: "GroupVersion \<Rightarrow> GoType list \<Rightarrow> Scheme \<Rightarrow> Scheme go" where
  "addUnversionedTypes version [] s = Ret s"
| "addUnversionedTypes version (t # types) s =
     bind_go (addUnversionedType version t s) (addUnversionedTypes version types)"

definition AddUnversionedTypes :: "GroupVersion \<Rightarrow> GoType list \<Rightarrow> Scheme \<Rightarrow> Scheme go" where
  "AddUnversionedTypes version types s =
     bind_go (AddKnownTypes version types (addObservedVersion version s)) (addUnversionedTypes version types)"

text \<open>What a scheme knows of an object: the kinds of its type, and whether they are unversioned.\<close>

definition apiPackage :: string where
  "apiPackage = ''github.com/k8snetworkplumbingwg/ptp-operator/api/v1''"

definition corePackage :: string where "corePackage = ''k8s.io/api/core/v1''"

definition metaPackage :: string where "metaPackage = ''k8s.io/apimachinery/pkg/apis/meta/v1''"

fun goType :: "Object \<Rightarrow> GoType option" where
  "goType (ConfigMapObj x) = Some (GoType corePackage ''ConfigMap'')"
| "goType (NodeObj x) = Some (GoType corePackage ''Node'')"
| "goType (PtpConfigObj x) = Some (GoType apiPackage ''PtpConfig'')"
| "goType (PtpOperatorConfigObj x) = Some (GoType apiPackage ''PtpOperatorConfig'')"
| "goType (NodePtpDeviceObj x) = Some (GoType apiPackage ''NodePtpDevice'')"
| "goType (UnstructuredObj u) = None"

definition Scheme_ObjectKinds :: "Scheme \<Rightarrow> Object \<Rightarrow> error + GroupVersionKind list \<times> bool" where
  "Scheme_ObjectKinds s obj =
     (case goType obj of
        None \<Rightarrow>
          (let gvk = fst (keyOf obj) in
           if length (gvk_Kind gvk) = 0 then Inl (Errorf ''unstructured object has no kind'')
           else if length (gvk_Version gvk) = 0 then Inl (Errorf ''unstructured object has no version'')
           else Inr ([gvk], False))
      | Some t \<Rightarrow>
          (case map_of (typeToGVK s) t of
             None \<Rightarrow> Inl (Errorf (''no kind is registered for the type v1.'' @ typeName t))
           | Some gvks \<Rightarrow> Inr (gvks, map_of (unversionedTypes s) t \<noteq> None)))"

definition Scheme_New :: "Scheme \<Rightarrow> GroupVersionKind \<Rightarrow> error + GoType" where
  "Scheme_New s kind =
     (case map_of (gvkToType s) kind of
        Some t \<Rightarrow> Inr t
      | None \<Rightarrow>
          (case map_of (unversionedKinds s) (gvk_Kind kind) of
             Some t \<Rightarrow> Inr t
           | None \<Rightarrow> Inl (Errorf (''no kind '' @ quoteName (gvk_Kind kind) @ '' is registered''))))"

section \<open>Builders\<close>

definition optionsTypes :: "GoType list" where
  "optionsTypes = map (GoType metaPackage)
     [''ListOptions'', ''GetOptions'', ''DeleteOptions'', ''CreateOptions'', ''UpdateOptions'', ''PatchOptions'']"

definition unversionedMetaTypes :: "GoType list" where
  "unversionedMetaTypes = map (GoType metaPackage)
     [''Status'', ''APIVersions'', ''APIGroupList'', ''APIGroup'', ''APIResourceList'']"

definition Unversioned :: GroupVersion where "Unversioned = ([], ''v1'')"

definition AddToGroupVersion :: "GroupVersion \<Rightarrow> Scheme \<Rightarrow> Scheme go" where
  "AddToGroupVersion groupVersion s =
     bind_go (AddKnownTypeWithName (WithKind groupVersion ''WatchEvent'') (GoType metaPackage ''WatchEvent'') s) (\<lambda>s.
     bind_go (AddKnownTypeWithName (WithKind (fst groupVersion, APIVersionInternal) ''WatchEvent'')
       (GoType metaPackage ''InternalEvent'') s) (\<lambda>s.
     bind_go (AddKnownTypes groupVersion optionsTypes s) (\<lambda>s.
     AddUnversionedTypes Unversioned unversionedMetaTypes s)))"

type_synonym SchemeFunc = "Scheme \<Rightarrow> (error option \<times> Scheme) go"

fun SchemeBuilder_AddToScheme :: "SchemeFunc list \<Rightarrow> SchemeFunc" where
  "SchemeBuilder_AddToScheme [] s = Ret (None, s)"
| "SchemeBuilder_AddToScheme (f # sb) s =
     bind_go (f s) (\<lambda>(err, s).
       if err \<noteq> None then Ret (err, s) else SchemeBuilder_AddToScheme sb s)"

record Builder =
  builder_GroupVersion :: GroupVersion
  builder_SchemeBuilder :: "SchemeFunc list"

definition Builder_Register :: "GoType list \<Rightarrow> Builder \<Rightarrow> Builder" where
  "Builder_Register object bld =
     bld\<lparr>builder_SchemeBuilder := builder_SchemeBuilder bld @ [\<lambda>s.
       bind_go (AddKnownTypes (builder_GroupVersion bld) object s) (\<lambda>s.
       bind_go (AddToGroupVersion (builder_GroupVersion bld) s) (\<lambda>s.
       Ret (None, s)))]\<rparr>"

text \<open>\<^verbatim>\<open>utilruntime.Must\<close>, around a function that adds to a scheme.\<close>

definition Must :: "(error option \<times> Scheme) go \<Rightarrow> Scheme go" where
  "Must r = bind_go r (\<lambda>(err, s). case err of None \<Rightarrow> Ret s | Some e \<Rightarrow> Panic (Error e))"

section \<open>The registrations of the program\<close>

definition GroupVersion :: GroupVersion where "GroupVersion = (''ptp.openshift.io'', ''v1'')"

definition SchemeGroupVersion :: GroupVersion where "SchemeGroupVersion = (''ptp.openshift.io'', ''v1'')"

definition newSchemeBuilder :: Builder where
  "newSchemeBuilder = \<lparr>builder_GroupVersion = GroupVersion, builder_SchemeBuilder = []\<rparr>"

definition nodeptpdevice_types_init :: "Builder \<Rightarrow> Builder" where
  "nodeptpdevice_types_init = Builder_Register [(GoType apiPackage ''NodePtpDevice''), (GoType apiPackage ''NodePtpDeviceList'')]"

definition ptpconfig_types_init :: "Builder \<Rightarrow> Builder" where
  "ptpconfig_types_init = Builder_Register [(GoType apiPackage ''PtpConfig''), (GoType apiPackage ''PtpConfigList'')]"

definition ptpoperatorconfig_types_init :: "Builder \<Rightarrow> Builder" where
  "ptpoperatorconfig_types_init =
     Builder_Register [(GoType apiPackage ''PtpOperatorConfig''), (GoType apiPackage ''PtpOperatorConfigList'')]"

text \<open>The builder once the package is initialised: the files of a package are given in the order of their names.\<close>

definition SchemeBuilder :: Builder where
  "SchemeBuilder =
     ptpoperatorconfig_types_init (ptpconfig_types_init (nodeptpdevice_types_init newSchemeBuilder))"

definition AddToScheme :: SchemeFunc where
  "AddToScheme = SchemeBuilder_AddToScheme (builder_SchemeBuilder SchemeBuilder)"

definition localSchemeBuilder :: "SchemeFunc list" where
  "localSchemeBuilder = [AddToScheme]"

text \<open>The schemes of the clientset and of the fake clientset, and that of the manager.\<close>

definition clientset_scheme_init :: "Scheme go" where
  "clientset_scheme_init =
     bind_go (AddToGroupVersion ([], ''v1'') NewScheme) (\<lambda>s. Must (SchemeBuilder_AddToScheme localSchemeBuilder s))"

definition fake_scheme_init :: "Scheme go" where
  "fake_scheme_init =
     bind_go (AddToGroupVersion ([], ''v1'') NewScheme) (\<lambda>s. Must (SchemeBuilder_AddToScheme localSchemeBuilder s))"

definition main_init :: "SchemeFunc \<Rightarrow> Scheme go" where
  "main_init clientgoscheme_AddToScheme =
     bind_go (Must (clientgoscheme_AddToScheme NewScheme)) (\<lambda>s. Must (AddToScheme s))"

section \<open>What a registration does to a scheme\<close>

text \<open>A kind is of a type exactly when it is among the kinds of the type, once.\<close>

definition schemeOk :: "Scheme \<Rightarrow> bool" where
  "schemeOk s \<longleftrightarrow> (\<forall>g t. map_of (gvkToType s) g = Some t \<longleftrightarrow> g \<in> set (kindsOf s t)) \<and>
     (\<forall>t. distinct (kindsOf s t)) \<and> (\<forall>t. map_of (typeToGVK s) t \<noteq> Some [])"

text \<open>Kinds and unversioned names that the scheme has for another type.\<close>

definition clashes :: "('k \<times> GoType) set \<Rightarrow> ('k \<rightharpoonup> GoType) \<Rightarrow> bool" where
  "clashes K m \<longleftrightarrow> (\<exists>k t old. (k, t) \<in> K \<and> m k = Some old \<and> old \<noteq> t)"

definition clash :: "(GroupVersionKind \<times> GoType) set \<Rightarrow> (string \<times> GoType) set \<Rightarrow> Scheme \<Rightarrow> bool" where
  "clash K U s \<longleftrightarrow> clashes K (map_of (gvkToType s)) \<or> clashes U (map_of (unversionedKinds s))"

text \<open>A scheme with these kinds and names, and otherwise what it had.\<close>

definition withKinds ::
  "(GroupVersionKind \<times> GoType) set \<Rightarrow> (string \<times> GoType) set \<Rightarrow> Scheme \<Rightarrow> Scheme \<Rightarrow> bool"
where
  "withKinds K U s s' \<longleftrightarrow>
     (\<forall>g t. map_of (gvkToType s') g = Some t \<longleftrightarrow> (g, t) \<in> K \<or> map_of (gvkToType s) g = Some t) \<and>
     (\<forall>k t. map_of (unversionedKinds s') k = Some t \<longleftrightarrow> (k, t) \<in> U \<or> map_of (unversionedKinds s) k = Some t) \<and>
     (schemeOk s \<longrightarrow> schemeOk s')"

definition adds ::
  "(GroupVersionKind \<times> GoType) set \<Rightarrow> (string \<times> GoType) set \<Rightarrow> (Scheme \<Rightarrow> Scheme go) \<Rightarrow> bool"
where
  "adds K U f \<longleftrightarrow>
     (\<forall>s. case f s of Panic m \<Rightarrow> clash K U s | Ret s' \<Rightarrow> \<not> clash K U s \<and> withKinds K U s s')"

lemma addsI:
  assumes "\<And>s m. f s = Panic m \<Longrightarrow> clash K U s"
    and "\<And>s s'. f s = Ret s' \<Longrightarrow> \<not> clash K U s \<and> withKinds K U s s'"
  shows "adds K U f"
  using assms unfolding adds_def by (metis go.case go.exhaust)

lemma addsD:
  assumes "adds K U f"
  shows "f s = Panic m \<Longrightarrow> clash K U s" "f s = Ret s' \<Longrightarrow> \<not> clash K U s" "f s = Ret s' \<Longrightarrow> withKinds K U s s'"
  using assms unfolding adds_def by (metis go.case)+

lemma clashes_Un: "clashes (K1 \<union> K2) m \<longleftrightarrow> clashes K1 m \<or> clashes K2 m"
  unfolding clashes_def by blast

lemma clashes_after:
  assumes "\<And>k t. m' k = Some t \<longleftrightarrow> (k, t) \<in> K1 \<or> m k = Some t" "single_valued (K1 \<union> K2)"
  shows "clashes K2 m' \<longleftrightarrow> clashes K2 m"
proof
  assume "clashes K2 m'"
  then obtain k t old where at: "(k, t) \<in> K2" "m' k = Some old" "old \<noteq> t" unfolding clashes_def by blast
  have "(k, old) \<notin> K1" using at assms(2) unfolding single_valued_def by blast
  with at assms(1) show "clashes K2 m" unfolding clashes_def by blast
next
  assume "clashes K2 m"
  then show "clashes K2 m'" using assms(1) unfolding clashes_def by blast
qed

lemma clash_withKinds:
  assumes "withKinds K1 U1 s s'" "single_valued (K1 \<union> K2)" "single_valued (U1 \<union> U2)" "\<not> clash K1 U1 s"
  shows "clash K2 U2 s' \<longleftrightarrow> clash (K1 \<union> K2) (U1 \<union> U2) s"
proof -
  have k: "\<And>g t. map_of (gvkToType s') g = Some t \<longleftrightarrow> (g, t) \<in> K1 \<or> map_of (gvkToType s) g = Some t"
    and u: "\<And>k t. map_of (unversionedKinds s') k = Some t \<longleftrightarrow> (k, t) \<in> U1 \<or> map_of (unversionedKinds s) k = Some t"
    using assms(1) unfolding withKinds_def by blast+
  note clashes_after [OF k assms(2)] clashes_after [OF u assms(3)]
  with assms(4) show ?thesis by (simp add: clash_def clashes_Un)
qed

lemma adds_bind:
  assumes "adds K1 U1 f" "adds K2 U2 g" "single_valued (K1 \<union> K2)" "single_valued (U1 \<union> U2)"
  shows "adds (K1 \<union> K2) (U1 \<union> U2) (\<lambda>s. bind_go (f s) g)"
proof (rule addsI)
  fix s m assume "bind_go (f s) g = Panic m"
  then show "clash (K1 \<union> K2) (U1 \<union> U2) s"
  proof (cases "f s")
    case (Ret s1)
    then have "clash K2 U2 s1" using \<open>bind_go (f s) g = Panic m\<close> addsD(1) [OF assms(2)] by simp
    then show ?thesis
      using clash_withKinds [OF addsD(3) [OF assms(1) Ret] assms(3,4) addsD(2) [OF assms(1) Ret]] by simp
  next
    case (Panic m')
    from addsD(1) [OF assms(1) this] show ?thesis unfolding clash_def clashes_Un by blast
  qed
next
  fix s s' assume "bind_go (f s) g = Ret s'"
  then obtain s1 where f: "f s = Ret s1" and g: "g s1 = Ret s'" by (auto simp: bind_go_Ret_iff)
  have "\<not> clash (K1 \<union> K2) (U1 \<union> U2) s"
    using clash_withKinds [OF addsD(3) [OF assms(1) f] assms(3,4) addsD(2) [OF assms(1) f]] addsD(2) [OF assms(2) g] by simp
  moreover have "withKinds (K1 \<union> K2) (U1 \<union> U2) s s'"
    using addsD(3) [OF assms(1) f] addsD(3) [OF assms(2) g] unfolding withKinds_def by blast
  ultimately show "\<not> clash (K1 \<union> K2) (U1 \<union> U2) s \<and> withKinds (K1 \<union> K2) (U1 \<union> U2) s s'" ..
qed

lemma observed_simps [simp]:
  "gvkToType (addObservedVersion v s) = gvkToType s" "typeToGVK (addObservedVersion v s) = typeToGVK s"
  "unversionedKinds (addObservedVersion v s) = unversionedKinds s"
  "kindsOf (addObservedVersion v s) = kindsOf s"
  by (simp_all add: addObservedVersion_def kindsOf_def fun_eq_iff)

lemma observed_facts [simp]:
  "clash K U (addObservedVersion v s) = clash K U s" "withKinds K U (addObservedVersion v s) s' = withKinds K U s s'"
  "schemeOk (addObservedVersion v s) = schemeOk s"
  by (simp_all add: clash_def withKinds_def schemeOk_def)

lemma adds_observed:
  assumes "adds K U f"
  shows "adds K U (\<lambda>s. f (addObservedVersion v s))"
  using addsD [OF assms, of "addObservedVersion v _"] by (intro addsI) simp_all

lemma adds_none: "adds {} {} Ret"
  by (simp add: adds_def clash_def clashes_def withKinds_def)

text \<open>One kind, one unversioned name, and the lists of them.\<close>

lemma schemeOk_register:
  assumes "schemeOk s" "map_of (gvkToType s) g \<in> {None, Some t}"
    and "gvkToType s' = AList.update g t (gvkToType s)"
    and "kindsOf s' = (kindsOf s)(t := (if g \<in> set (kindsOf s t) then kindsOf s t else kindsOf s t @ [g]))"
    and "\<And>u. map_of (typeToGVK s') u \<noteq> Some []"
  shows "schemeOk s'"
  unfolding schemeOk_def
proof (intro conjI allI)
  show "map_of (gvkToType s') h = Some u \<longleftrightarrow> h \<in> set (kindsOf s' u)" for h u
    using assms(1,2) unfolding schemeOk_def assms(3,4)
    by (auto simp: update_conv') (metis option.distinct(1) option.inject)+
  show "distinct (kindsOf s' u)" for u
    using assms(1) unfolding schemeOk_def assms(4) by simp
qed (rule assms(5))

lemma adds_known:
  assumes "gvk_Version g \<noteq> []"
  shows "adds {(g, t)} {} (AddKnownTypeWithName g t)"
proof (rule addsI)
  fix s m assume "AddKnownTypeWithName g t s = Panic m"
  then show "clash {(g, t)} {} s"
    using assms by (auto simp: AddKnownTypeWithName_def clash_def clashes_def Let_def split: if_splits option.splits)
next
  fix s s' assume r: "AddKnownTypeWithName g t s = Ret s'"
  define s1 where "s1 = addObservedVersion (gvk_Group g, gvk_Version g) s"
  have free: "map_of (gvkToType s) g \<in> {None, Some t}"
    using r assms by (auto simp: AddKnownTypeWithName_def Let_def split: if_splits option.splits)
  have s': "s' = (let s = s1\<lparr>gvkToType := AList.update g t (gvkToType s1)\<rparr> in
      if g \<in> set (kindsOf s1 t) then s
      else s\<lparr>typeToGVK := AList.update t (kindsOf s1 t @ [g]) (typeToGVK s1)\<rparr>)"
    using r assms unfolding s1_def
    by (auto simp: AddKnownTypeWithName_def Let_def kindsOf_def split: if_splits option.splits)
  have kinds: "kindsOf s' = (kindsOf s)(t := (if g \<in> set (kindsOf s t) then kindsOf s t else kindsOf s t @ [g]))"
    unfolding s' by (auto simp: s1_def kindsOf_def Let_def update_conv' fun_eq_iff split: option.splits)
  have maps: "gvkToType s' = AList.update g t (gvkToType s)" "unversionedKinds s' = unversionedKinds s"
    unfolding s' by (auto simp: s1_def Let_def)
  have "schemeOk s'" if ok: "schemeOk s"
  proof (rule schemeOk_register [OF ok free maps(1) kinds])
    show "map_of (typeToGVK s') u \<noteq> Some []" for u
      using ok unfolding s' schemeOk_def by (auto simp: s1_def Let_def update_conv')
  qed
  with free maps show "\<not> clash {(g, t)} {} s \<and> withKinds {(g, t)} {} s s'"
    by (auto simp: clash_def clashes_def withKinds_def update_conv' split: if_splits)
qed

lemma adds_unversioned: "adds {} {(typeName t, t)} (addUnversionedType v t)"
proof (rule addsI)
  fix s m assume "addUnversionedType v t s = Panic m"
  then show "clash {} {(typeName t, t)} s"
    by (auto simp: addUnversionedType_def clash_def clashes_def Let_def WithKind_def split: if_splits option.splits)
next
  fix s s' assume r: "addUnversionedType v t s = Ret s'"
  then have free: "map_of (unversionedKinds s) (typeName t) \<in> {None, Some t}"
    by (auto simp: addUnversionedType_def Let_def WithKind_def split: if_splits option.splits)
  have maps: "gvkToType s' = gvkToType s" "typeToGVK s' = typeToGVK s"
    "unversionedKinds s' = AList.update (typeName t) t (unversionedKinds s)"
    using r by (auto simp: addUnversionedType_def Let_def WithKind_def split: if_splits option.splits)
  then have "schemeOk s' = schemeOk s" by (simp add: schemeOk_def kindsOf_def)
  with free maps show "\<not> clash {} {(typeName t, t)} s \<and> withKinds {} {(typeName t, t)} s s'"
    by (auto simp: clash_def clashes_def withKinds_def update_conv' split: if_splits)
qed

definition kindsIn :: "GroupVersion \<Rightarrow> GoType list \<Rightarrow> (GroupVersionKind \<times> GoType) list" where
  "kindsIn gv types = map (\<lambda>t. (WithKind gv (typeName t), t)) types"

lemma single_valued_kindsIn: "distinct (map typeName types) \<Longrightarrow> single_valued (set (kindsIn gv types))"
  by (auto simp: kindsIn_def single_valued_def WithKind_def dest: distinct_map [THEN iffD1] inj_onD)

lemma single_valued_names: "distinct (map typeName types) \<Longrightarrow> single_valued (set (map (\<lambda>t. (typeName t, t)) types))"
  by (auto simp: single_valued_def dest: distinct_map [THEN iffD1] inj_onD)

lemma adds_addKnownTypes:
  assumes "snd gv \<noteq> []" "distinct (map typeName types)"
  shows "adds (set (kindsIn gv types)) {} (addKnownTypes gv types)"
  using assms(2)
proof (induction types)
  case Nil
  show ?case using adds_none by (simp add: kindsIn_def adds_def)
next
  case (Cons t types)
  have "adds {(WithKind gv (typeName t), t)} {} (AddKnownTypeWithName (WithKind gv (typeName t)) t)"
    using assms(1) by (intro adds_known) (simp add: WithKind_def)
  from adds_bind [OF this Cons.IH] Cons.prems single_valued_kindsIn [OF Cons.prems, of gv]
  show ?case by (simp add: kindsIn_def single_valued_empty)
qed

lemma adds_AddKnownTypes:
  "snd gv \<noteq> [] \<Longrightarrow> distinct (map typeName types) \<Longrightarrow> adds (set (kindsIn gv types)) {} (AddKnownTypes gv types)"
  unfolding AddKnownTypes_def by (rule adds_observed [OF adds_addKnownTypes])

lemma adds_addUnversionedTypes:
  assumes "distinct (map typeName types)"
  shows "adds {} (set (map (\<lambda>t. (typeName t, t)) types)) (addUnversionedTypes v types)"
  using assms
proof (induction types)
  case Nil
  show ?case using adds_none by (simp add: adds_def)
next
  case (Cons t types)
  from adds_bind [OF adds_unversioned Cons.IH] Cons.prems single_valued_names [OF Cons.prems]
  show ?case by (simp add: single_valued_empty)
qed

lemma adds_AddUnversionedTypes:
  assumes "snd v \<noteq> []" "distinct (map typeName types)"
  shows "adds (set (kindsIn v types)) (set (map (\<lambda>t. (typeName t, t)) types)) (AddUnversionedTypes v types)"
proof -
  have first: "adds (set (kindsIn v types)) {} (\<lambda>s. AddKnownTypes v types (addObservedVersion v s))"
    by (rule adds_observed [OF adds_AddKnownTypes [OF assms]])
  have "adds (set (kindsIn v types)) (set (map (\<lambda>t. (typeName t, t)) types))
      (\<lambda>s. bind_go (AddKnownTypes v types (addObservedVersion v s)) (addUnversionedTypes v types))"
    using adds_bind [OF first adds_addUnversionedTypes [OF assms(2)]] single_valued_kindsIn [OF assms(2), of v]
      single_valued_names [OF assms(2)] by simp
  then show ?thesis by (simp add: AddUnversionedTypes_def [abs_def])
qed

text \<open>The kinds of \<^verbatim>\<open>metav1\<close> in a group version, and those of the program; the types with two names never disagree.\<close>

definition metaKinds :: "GroupVersion \<Rightarrow> (GroupVersionKind \<times> GoType) list" where
  "metaKinds gv = [(WithKind gv ''WatchEvent'', GoType metaPackage ''WatchEvent''),
     (WithKind (fst gv, APIVersionInternal) ''WatchEvent'', GoType metaPackage ''InternalEvent'')] @
     kindsIn gv optionsTypes @ kindsIn Unversioned unversionedMetaTypes"

definition unversionedNames :: "(string \<times> GoType) list" where
  "unversionedNames = map (\<lambda>t. (typeName t, t)) unversionedMetaTypes"

definition ptpTypes :: "GoType list" where
  "ptpTypes = map (GoType apiPackage) [''NodePtpDevice'', ''NodePtpDeviceList'', ''PtpConfig'', ''PtpConfigList'',
     ''PtpOperatorConfig'', ''PtpOperatorConfigList'']"

definition ptpKinds :: "(GroupVersionKind \<times> GoType) list" where
  "ptpKinds = kindsIn GroupVersion ptpTypes @ metaKinds GroupVersion"

text \<open>The types are a function of the kinds, and so no two registrations of the program clash.\<close>

definition typeFor :: "string \<Rightarrow> GoType" where
  "typeFor name = (if name \<in> set (map typeName ptpTypes) then GoType apiPackage name else GoType metaPackage name)"

definition typeOfKind :: "GroupVersionKind \<Rightarrow> GoType" where
  "typeOfKind g =
     (if gvk_Version g = APIVersionInternal then GoType metaPackage ''InternalEvent'' else typeFor (gvk_Kind g))"

definition typed :: "(GroupVersionKind \<times> GoType) set \<Rightarrow> bool" where
  "typed K \<longleftrightarrow> (\<forall>(g, t) \<in> K. t = typeOfKind g)"

lemma typed_single_valued: "typed K \<Longrightarrow> single_valued K"
  unfolding typed_def by (intro single_valuedI) (metis case_prodD)

lemma typed_simps [simp]: "typed {}" "typed (insert (g, t) K) \<longleftrightarrow> t = typeOfKind g \<and> typed K"
  "typed (K1 \<union> K2) \<longleftrightarrow> typed K1 \<and> typed K2"
  by (auto simp: typed_def)

lemma typed_kindsIn:
  "snd gv \<noteq> APIVersionInternal \<Longrightarrow> list_all (\<lambda>t. t = typeFor (typeName t)) types \<Longrightarrow> typed (set (kindsIn gv types))"
  by (auto simp: typed_def kindsIn_def typeOfKind_def WithKind_def list_all_iff)

lemma typed_types:
  "list_all (\<lambda>t. t = typeFor (typeName t)) optionsTypes" "list_all (\<lambda>t. t = typeFor (typeName t)) unversionedMetaTypes"
  "list_all (\<lambda>t. t = typeFor (typeName t)) ptpTypes"
  by (simp_all add: typeFor_def optionsTypes_def unversionedMetaTypes_def ptpTypes_def)

lemma distinct_types:
  "distinct (map typeName optionsTypes)" "distinct (map typeName unversionedMetaTypes)" "distinct (map typeName ptpTypes)"
  by (simp_all add: optionsTypes_def unversionedMetaTypes_def ptpTypes_def)

lemma typed_metaKinds:
  assumes "snd gv \<noteq> APIVersionInternal"
  shows "typed (set (metaKinds gv))"
proof -
  have "typeFor ''WatchEvent'' = GoType metaPackage ''WatchEvent''" by (simp add: typeFor_def ptpTypes_def)
  with assms show ?thesis
    by (simp add: metaKinds_def typed_kindsIn typed_types Unversioned_def APIVersionInternal_def)
       (simp add: typeOfKind_def WithKind_def APIVersionInternal_def)
qed

lemma single_valued_unversionedNames: "single_valued (set unversionedNames)"
  unfolding unversionedNames_def by (rule single_valued_names [OF distinct_types(2)])

lemma adds_AddToGroupVersion:
  assumes "snd gv \<noteq> []" "snd gv \<noteq> APIVersionInternal"
  shows "adds (set (metaKinds gv)) (set unversionedNames) (AddToGroupVersion gv)"
proof -
  note within = typed_single_valued single_valued_unversionedNames
  note kinds = typed_metaKinds [OF assms(2)]
  have 1: "adds {(WithKind gv ''WatchEvent'', GoType metaPackage ''WatchEvent'')} {}
      (AddKnownTypeWithName (WithKind gv ''WatchEvent'') (GoType metaPackage ''WatchEvent''))"
    and 2: "adds {(WithKind (fst gv, APIVersionInternal) ''WatchEvent'', GoType metaPackage ''InternalEvent'')} {}
      (AddKnownTypeWithName (WithKind (fst gv, APIVersionInternal) ''WatchEvent'') (GoType metaPackage ''InternalEvent''))"
    using assms(1) by (simp_all add: adds_known WithKind_def APIVersionInternal_def)
  have 3: "adds (set (kindsIn Unversioned unversionedMetaTypes)) (set unversionedNames)
      (AddUnversionedTypes Unversioned unversionedMetaTypes)"
    unfolding unversionedNames_def using distinct_types(2) by (intro adds_AddUnversionedTypes) (simp_all add: Unversioned_def)
  have 4: "adds (set (kindsIn gv optionsTypes) \<union> set (kindsIn Unversioned unversionedMetaTypes)) (set unversionedNames)
      (\<lambda>s. bind_go (AddKnownTypes gv optionsTypes s) (AddUnversionedTypes Unversioned unversionedMetaTypes))"
  proof -
    have "single_valued (set (kindsIn gv optionsTypes) \<union> set (kindsIn Unversioned unversionedMetaTypes))"
      by (rule within(1)) (use kinds in \<open>simp add: metaKinds_def\<close>)
    then show ?thesis using adds_bind [OF adds_AddKnownTypes [OF assms(1) distinct_types(1)] 3] within(2) by simp
  qed
  have 5: "adds (set (tl (metaKinds gv))) (set unversionedNames) (\<lambda>s.
      bind_go (AddKnownTypeWithName (WithKind (fst gv, APIVersionInternal) ''WatchEvent'') (GoType metaPackage ''InternalEvent'') s)
        (\<lambda>s. bind_go (AddKnownTypes gv optionsTypes s) (AddUnversionedTypes Unversioned unversionedMetaTypes)))"
  proof -
    have "single_valued (set (tl (metaKinds gv)))" by (rule within(1)) (use kinds in \<open>simp add: metaKinds_def\<close>)
    then show ?thesis using adds_bind [OF 2 4] within(2) by (simp add: metaKinds_def)
  qed
  have "single_valued (set (metaKinds gv))" by (rule within(1) [OF kinds])
  then show ?thesis
    using adds_bind [OF 1 5] within(2) by (simp add: metaKinds_def AddToGroupVersion_def [abs_def] insert_commute)
qed

text \<open>The functions that are kept in a builder, and those around them.\<close>

definition addsFunc :: "(GroupVersionKind \<times> GoType) set \<Rightarrow> (string \<times> GoType) set \<Rightarrow> SchemeFunc \<Rightarrow> bool" where
  "addsFunc K U f \<longleftrightarrow> adds K U (\<lambda>s. Must (f s)) \<and> (\<forall>s e s'. f s = Ret (e, s') \<longrightarrow> e = None)"

lemma addsFunc_AddToScheme:
  assumes "addsFunc K1 U1 f" "addsFunc K2 U2 (SchemeBuilder_AddToScheme sb)" "typed (K1 \<union> K2)" "single_valued (U1 \<union> U2)"
  shows "addsFunc (K1 \<union> K2) (U1 \<union> U2) (SchemeBuilder_AddToScheme (f # sb))"
proof -
  have "Must (SchemeBuilder_AddToScheme (f # sb) s) =
      bind_go (Must (f s)) (\<lambda>s. Must (SchemeBuilder_AddToScheme sb s))" for s
    using assms(1) unfolding addsFunc_def by (cases "f s") (auto simp: Must_def)
  moreover have "e = None" if "SchemeBuilder_AddToScheme (f # sb) s = Ret (e, s')" for s e s'
    using that assms(1,2) unfolding addsFunc_def by (auto simp: bind_go_Ret_iff split: if_splits) blast
  moreover have "adds (K1 \<union> K2) (U1 \<union> U2) (\<lambda>s. bind_go (Must (f s)) (\<lambda>s. Must (SchemeBuilder_AddToScheme sb s)))"
    using assms unfolding addsFunc_def by (intro adds_bind typed_single_valued) simp_all
  ultimately show ?thesis unfolding addsFunc_def by simp
qed

lemma addsFunc_empty: "addsFunc {} {} (SchemeBuilder_AddToScheme [])"
  using adds_none by (simp add: addsFunc_def adds_def Must_def)

lemma ptp_version: "snd GroupVersion \<noteq> []" "snd GroupVersion \<noteq> APIVersionInternal"
  by (simp_all add: GroupVersion_def APIVersionInternal_def)

lemma addsFunc_Register:
  assumes "distinct (map typeName types)" "list_all (\<lambda>t. t = typeFor (typeName t)) types"
  shows "addsFunc (set (kindsIn GroupVersion types) \<union> set (metaKinds GroupVersion)) (set unversionedNames)
    (\<lambda>s. bind_go (AddKnownTypes GroupVersion types s) (\<lambda>s. bind_go (AddToGroupVersion GroupVersion s) (\<lambda>s. Ret (None, s))))"
    (is "addsFunc ?K ?U ?f")
proof -
  have "Must (?f s) = bind_go (AddKnownTypes GroupVersion types s) (AddToGroupVersion GroupVersion)" for s
    by (cases "AddKnownTypes GroupVersion types s"; simp add: Must_def)
       (metis bind_go.simps go.exhaust case_prod_conv option.simps(4))
  moreover have "typed ?K"
    using typed_kindsIn [OF ptp_version(2) assms(2)] typed_metaKinds [OF ptp_version(2)] by simp
  then have "adds ?K ?U (\<lambda>s. bind_go (AddKnownTypes GroupVersion types s) (AddToGroupVersion GroupVersion))"
    using adds_bind [OF adds_AddKnownTypes [OF ptp_version(1) assms(1)] adds_AddToGroupVersion [OF ptp_version]]
      typed_single_valued single_valued_unversionedNames by simp
  ultimately show ?thesis unfolding addsFunc_def by (auto simp: bind_go_Ret_iff)
qed

lemma SchemeBuilder_funcs:
  "builder_SchemeBuilder SchemeBuilder = map (\<lambda>types s. bind_go (AddKnownTypes GroupVersion types s) (\<lambda>s.
     bind_go (AddToGroupVersion GroupVersion s) (\<lambda>s. Ret (None, s))))
     [[GoType apiPackage ''NodePtpDevice'', GoType apiPackage ''NodePtpDeviceList''],
      [GoType apiPackage ''PtpConfig'', GoType apiPackage ''PtpConfigList''],
      [GoType apiPackage ''PtpOperatorConfig'', GoType apiPackage ''PtpOperatorConfigList'']]"
  by (simp add: SchemeBuilder_def newSchemeBuilder_def nodeptpdevice_types_init_def ptpconfig_types_init_def
      ptpoperatorconfig_types_init_def Builder_Register_def)

lemma addsFunc_program: "addsFunc (set ptpKinds) (set unversionedNames) AddToScheme"
proof -
  let ?types = "\<lambda>a b. [GoType apiPackage a, GoType apiPackage b]"
  have fine: "list_all (\<lambda>t. t = typeFor (typeName t)) (?types a b)" "distinct (map typeName (?types a b))"
    if "(a, b) \<in> {(''NodePtpDevice'', ''NodePtpDeviceList''), (''PtpConfig'', ''PtpConfigList''),
      (''PtpOperatorConfig'', ''PtpOperatorConfigList'')}" for a b
    using that by (auto simp: typeFor_def ptpTypes_def)
  note one = addsFunc_Register [OF fine(2,1)]
  have known: "typed (set (kindsIn GroupVersion (?types a b)))"
    if "(a, b) \<in> {(''NodePtpDevice'', ''NodePtpDeviceList''), (''PtpConfig'', ''PtpConfigList''),
      (''PtpOperatorConfig'', ''PtpOperatorConfigList'')}" for a b
    using that by (intro typed_kindsIn ptp_version fine)
  note facts = known typed_metaKinds [OF ptp_version(2)] single_valued_unversionedNames
  note last = addsFunc_AddToScheme [OF one [of "''PtpOperatorConfig''" "''PtpOperatorConfigList''"] addsFunc_empty]
  note mid = addsFunc_AddToScheme [OF one [of "''PtpConfig''" "''PtpConfigList''"] last]
  note all = addsFunc_AddToScheme [OF one [of "''NodePtpDevice''" "''NodePtpDeviceList''"] mid]
  have "set ptpKinds = (set (kindsIn GroupVersion (?types ''NodePtpDevice'' ''NodePtpDeviceList'')) \<union> set (metaKinds GroupVersion)) \<union>
      ((set (kindsIn GroupVersion (?types ''PtpConfig'' ''PtpConfigList'')) \<union> set (metaKinds GroupVersion)) \<union>
      ((set (kindsIn GroupVersion (?types ''PtpOperatorConfig'' ''PtpOperatorConfigList'')) \<union> set (metaKinds GroupVersion)) \<union> {}))"
    by (auto simp: ptpKinds_def ptpTypes_def kindsIn_def)
  then show ?thesis
    unfolding AddToScheme_def SchemeBuilder_funcs list.map using all facts by simp
qed

text \<open>(C29)
  Adding the types of the API to any scheme: the call panics exactly when the scheme has one of the kinds,
  or one of the unversioned names of \<^verbatim>\<open>metav1\<close>, for another type, and never answers an error. Otherwise the
  scheme has those kinds and what it had before, nothing else, and each of its kinds is listed once under its
  type if that was so before. So the order of the registrations does not matter and a second call adds nothing.
\<close>

theorem add_to_scheme:
  "case AddToScheme s of
     Panic m \<Rightarrow> clash (set ptpKinds) (set unversionedNames) s
   | Ret (err, s') \<Rightarrow> err = None \<and> \<not> clash (set ptpKinds) (set unversionedNames) s \<and>
       withKinds (set ptpKinds) (set unversionedNames) s s'"
proof -
  note program = addsFunc_program [unfolded addsFunc_def]
  show ?thesis
  proof (cases "AddToScheme s")
    case (Ret r)
    then obtain s' where r: "AddToScheme s = Ret (None, s')" using program by (cases r) blast
    then have "Must (AddToScheme s) = Ret s'" by (simp add: Must_def)
    with r show ?thesis using addsD(2,3) [OF conjunct1 [OF program], of s s'] by simp
  next
    case (Panic m)
    then have "Must (AddToScheme s) = Panic m" by (simp add: Must_def)
    with Panic show ?thesis using addsD(1) [OF conjunct1 [OF program], of s m] by simp
  qed
qed

section \<open>The schemes of the program\<close>

lemma schemeOk_NewScheme: "schemeOk NewScheme" "\<not> clash K U NewScheme"
  by (simp_all add: schemeOk_def NewScheme_def kindsOf_def clash_def clashes_def)

text \<open>The scheme of the manager: that of client-go, as long as it has no kind of the API for another type.\<close>

lemma main_scheme:
  assumes "clientgo NewScheme = Ret (None, s)" "schemeOk s" "\<not> clash (set ptpKinds) (set unversionedNames) s"
  shows "\<exists>s'. main_init clientgo = Ret s' \<and> schemeOk s' \<and> withKinds (set ptpKinds) (set unversionedNames) s s'"
proof -
  note program = addsFunc_program [unfolded addsFunc_def, THEN conjunct1]
  have "main_init clientgo = Must (AddToScheme s)" using assms(1) by (simp add: main_init_def Must_def)
  then show ?thesis
    using addsD(1,3) [OF program, of s] assms(2,3) by (cases "Must (AddToScheme s)") (auto simp: withKinds_def)
qed

definition clientsetKinds :: "(GroupVersionKind \<times> GoType) list" where
  "clientsetKinds = metaKinds ([], ''v1'') @ ptpKinds"

lemma typed_ptpKinds: "typed (set ptpKinds)"
  using typed_metaKinds [OF ptp_version(2)] typed_kindsIn [OF ptp_version(2) typed_types(3)]
  by (simp add: ptpKinds_def)

lemma clientset_scheme:
  "\<exists>s. clientset_scheme_init = Ret s \<and> fake_scheme_init = Ret s \<and> schemeOk s \<and>
     withKinds (set clientsetKinds) (set unversionedNames) NewScheme s"
proof -
  let ?U = "set unversionedNames"
  have v1: "snd ([] :: string, ''v1'') \<noteq> []" "snd ([] :: string, ''v1'') \<noteq> APIVersionInternal"
    by (simp_all add: APIVersionInternal_def)
  have "addsFunc (set ptpKinds \<union> {}) (?U \<union> {}) (SchemeBuilder_AddToScheme localSchemeBuilder)"
    unfolding localSchemeBuilder_def using typed_ptpKinds single_valued_unversionedNames
    by (intro addsFunc_AddToScheme addsFunc_program addsFunc_empty) simp_all
  then have "adds (set ptpKinds) ?U (\<lambda>s. Must (SchemeBuilder_AddToScheme localSchemeBuilder s))"
    by (simp add: addsFunc_def)
  from adds_bind [OF adds_AddToGroupVersion [OF v1] this]
  have "adds (set clientsetKinds) ?U (\<lambda>s. bind_go (AddToGroupVersion ([], ''v1'') s)
      (\<lambda>s. Must (SchemeBuilder_AddToScheme localSchemeBuilder s)))"
    using typed_single_valued [of "set (metaKinds ([], ''v1'')) \<union> set ptpKinds"] typed_metaKinds [OF v1(2)] typed_ptpKinds
      single_valued_unversionedNames by (simp add: clientsetKinds_def)
  note all = addsD [OF this, of NewScheme, folded clientset_scheme_init_def]
  have same: "fake_scheme_init = clientset_scheme_init"
    by (simp add: fake_scheme_init_def clientset_scheme_init_def)
  show ?thesis
  proof (cases clientset_scheme_init)
    case (Ret s)
    from all(3) [OF this] have w: "withKinds (set clientsetKinds) ?U NewScheme s" .
    then have "schemeOk s" using schemeOk_NewScheme(1) by (simp add: withKinds_def)
    with Ret w show ?thesis by (intro exI [of _ s]) (simp add: same)
  next
    case (Panic m)
    from all(1) [OF this] schemeOk_NewScheme(2) show ?thesis by blast
  qed
qed

text \<open>In such a scheme a type has exactly the kinds it was registered with.\<close>

lemma clientset_kindsOf:
  assumes "schemeOk s" "withKinds (set clientsetKinds) (set unversionedNames) NewScheme s"
  shows "set (kindsOf s t) = {g. (g, t) \<in> set clientsetKinds}" "distinct (kindsOf s t)"
proof -
  have "map_of (gvkToType s) g = Some t \<longleftrightarrow> (g, t) \<in> set clientsetKinds" for g
    using assms(2) by (simp add: withKinds_def NewScheme_def)
  then show "set (kindsOf s t) = {g. (g, t) \<in> set clientsetKinds}" "distinct (kindsOf s t)"
    using assms(1) unfolding schemeOk_def by auto
qed

lemma mem_kindsIn: "(g, t) \<in> set (kindsIn gv types) \<longleftrightarrow> t \<in> set types \<and> g = WithKind gv (typeName t)"
  by (auto simp: kindsIn_def)

lemma ptp_kinds_of_type:
  "(g, GoType apiPackage name) \<in> set clientsetKinds \<longleftrightarrow> name \<in> set (map typeName ptpTypes) \<and> g = ptpKind name"
  "(g, GoType corePackage name) \<notin> set clientsetKinds"
proof -
  have packages: "apiPackage \<noteq> metaPackage" "corePackage \<noteq> metaPackage" "corePackage \<noteq> apiPackage"
    by (simp_all add: apiPackage_def corePackage_def metaPackage_def)
  then have meta: "GoType apiPackage name \<notin> set optionsTypes" "GoType apiPackage name \<notin> set unversionedMetaTypes"
    "GoType corePackage name \<notin> set optionsTypes" "GoType corePackage name \<notin> set unversionedMetaTypes"
    "GoType corePackage name \<notin> set ptpTypes"
    by (simp_all add: optionsTypes_def unversionedMetaTypes_def ptpTypes_def)
  have own: "GoType apiPackage name \<in> set ptpTypes \<longleftrightarrow> name \<in> set (map typeName ptpTypes)"
    by (simp add: ptpTypes_def)
  show "(g, GoType corePackage name) \<notin> set clientsetKinds"
    using packages meta by (simp add: clientsetKinds_def ptpKinds_def metaKinds_def mem_kindsIn)
  show "(g, GoType apiPackage name) \<in> set clientsetKinds \<longleftrightarrow> name \<in> set (map typeName ptpTypes) \<and> g = ptpKind name"
    unfolding own [symmetric] using packages meta
    by (simp add: clientsetKinds_def ptpKinds_def metaKinds_def mem_kindsIn WithKind_def GroupVersion_def ptpKind_def)
qed

lemma singleton_list:
  assumes "distinct xs" "set xs = {a}"
  shows "xs = [a]"
proof (cases xs)
  case (Cons x ys)
  then have "x = a" "set ys \<subseteq> {a}" "a \<notin> set ys" using assms by auto
  then have "ys = []" by (cases ys) auto
  with Cons \<open>x = a\<close> show ?thesis by simp
qed (use assms in simp)

text \<open>The scheme of the clientsets: its initialisation does not panic, and the scheme answers for every object
  what the tracker of the fake clientset assumes of it, one kind of the API group for the types of the API
  and an error for the others; the kinds of the three lists belong to their types.
\<close>

theorem clientset_scheme_kinds:
  "\<exists>s. clientset_scheme_init = Ret s \<and> fake_scheme_init = Ret s \<and> schemeOk s \<and>
     (\<forall>obj. map_sum id fst (Scheme_ObjectKinds s obj) = map_sum id (\<lambda>gvk. [gvk]) (ObjectKinds obj)) \<and>
     map (\<lambda>kind. Scheme_New s (ptpKind (kind @ ''List''))) [''NodePtpDevice'', ''PtpConfig'', ''PtpOperatorConfig''] =
       map (\<lambda>kind. Inr (GoType apiPackage (kind @ ''List''))) [''NodePtpDevice'', ''PtpConfig'', ''PtpOperatorConfig'']"
proof -
  obtain s where s: "clientset_scheme_init = Ret s" "fake_scheme_init = Ret s" "schemeOk s"
    and kinds: "withKinds (set clientsetKinds) (set unversionedNames) NewScheme s"
    using clientset_scheme by blast
  note of = clientset_kindsOf [OF s(3) kinds]
  have api: "map_of (typeToGVK s) (GoType apiPackage name) = Some [ptpKind name]" if "name \<in> set (map typeName ptpTypes)" for name
  proof -
    have "set (kindsOf s (GoType apiPackage name)) = {ptpKind name}" using of(1) that by (auto simp: ptp_kinds_of_type)
    from singleton_list [OF of(2) this] have "kindsOf s (GoType apiPackage name) = [ptpKind name]" .
    then show ?thesis by (auto simp: kindsOf_def split: option.splits)
  qed
  have core: "map_of (typeToGVK s) (GoType corePackage name) = None" for name
  proof -
    have "kindsOf s (GoType corePackage name) = []"
      using of(1) [of "GoType corePackage name"] by (simp add: ptp_kinds_of_type)
    then show ?thesis using s(3) by (auto simp: kindsOf_def schemeOk_def split: option.splits)
  qed
  have lists: "Scheme_New s (ptpKind name) = Inr (GoType apiPackage name)" if "name \<in> set (map typeName ptpTypes)" for name
  proof -
    have "map_of (gvkToType s) (ptpKind name) = Some (GoType apiPackage name)"
      using kinds that ptp_kinds_of_type(1) [of "ptpKind name" name] unfolding withKinds_def by simp
    then show ?thesis by (simp add: Scheme_New_def)
  qed
  have "map_sum id fst (Scheme_ObjectKinds s obj) = map_sum id (\<lambda>gvk. [gvk]) (ObjectKinds obj)" for obj
    by (cases obj) (simp_all add: Scheme_ObjectKinds_def api core ptpTypes_def)
  moreover have "map (\<lambda>kind. Scheme_New s (ptpKind (kind @ ''List''))) [''NodePtpDevice'', ''PtpConfig'', ''PtpOperatorConfig''] =
      map (\<lambda>kind. Inr (GoType apiPackage (kind @ ''List''))) [''NodePtpDevice'', ''PtpConfig'', ''PtpOperatorConfig'']"
    using lists [of "''NodePtpDeviceList''"] lists [of "''PtpConfigList''"] lists [of "''PtpOperatorConfigList''"]
    by (simp add: ptpTypes_def)
  ultimately show ?thesis using s by blast
qed

end
