(* ===== verification/Controller_Setup.thy ===== *)
theory Controller_Setup
  imports Scheme_Registration Operator_System
begin

text \<open>
  The set-up of the controllers and webhooks, the \<^verbatim>\<open>SetupWithManager\<close> and \<^verbatim>\<open>SetupWebhookWithManager\<close>
  functions with the part of \<^verbatim>\<open>main.go\<close> that calls them, on the builders of the vendored
  controller-runtime, and what its handlers do with the events of a watch.

  A type that is watched is the Go type; its kind comes from the scheme of the manager. The log, the
  metrics and the options that the operator leaves empty are not modelled.
\<close>

section \<open>Controllers and managers\<close>

datatype Reconciler = PtpOperatorConfigReconciler | PtpConfigReconciler

text \<open>The handlers; that for owners has the kind and the group of the owner, and whether only the controller counts.\<close>

datatype EventHandler =
    EnqueueRequestForObject
  | EnqueueRequestForOwner string string bool

record Controller =
  ctrl_Name :: string
  ctrl_Do :: Reconciler
  ctrl_MaxConcurrentReconciles :: int
  ctrl_startWatches :: "(GoType \<times> EventHandler) list"

datatype Webhook = MutatingWebhook GoType | ValidatingWebhook GoType | ConversionWebhook

record ControllerManager =
  mgr_Scheme :: Scheme
  mgr_GroupKindConcurrency :: "(string, int) gomap"
  mgr_MaxConcurrentReconciles :: int
  mgr_Controllers :: "Controller list"
  mgr_Webhooks :: "(string \<times> Webhook) list"

text \<open>The kind of a type that is no partial metadata and whose object names no kind itself.\<close>

definition GVKForObject :: "GoType \<Rightarrow> Scheme \<Rightarrow> error + GroupVersionKind" where
  "GVKForObject t scheme =
     (case map_of (typeToGVK scheme) t of
        None \<Rightarrow> Inl (Errorf (''no kind is registered for the type '' @ typeName t))
      | Some gvks \<Rightarrow>
          if map_of (unversionedTypes scheme) t \<noteq> None
          then Inl (Errorf (''cannot create group-version-kind for unversioned type '' @ typeName t))
          else (case gvks of
              [] \<Rightarrow> Inl (Errorf (''no GroupVersionKind associated with Go type '' @ typeName t))
            | [gvk] \<Rightarrow> Inr gvk
            | _ \<Rightarrow> Inl (Errorf (''multiple GroupVersionKinds associated with Go type '' @ typeName t))))"

section \<open>The builder of a controller\<close>

record ControllerBuilder =
  blder_for :: "GoType option"
  blder_forErr :: "error option"
  blder_owns :: "(GoType \<times> bool) list"
  blder_name :: string

definition NewControllerManagedBy :: ControllerBuilder where
  "NewControllerManagedBy = \<lparr>blder_for = None, blder_forErr = None, blder_owns = [], blder_name = []\<rparr>"

definition Builder_For :: "GoType \<Rightarrow> ControllerBuilder \<Rightarrow> ControllerBuilder" where
  "Builder_For object blder =
     (if blder_for blder \<noteq> None
      then blder\<lparr>blder_forErr := Some (Errorf (''For(...) should only be called once, '' @
        ''could not assign multiple objects for reconciliation''))\<rparr>
      else blder\<lparr>blder_for := Some object, blder_forErr := None\<rparr>)"

text \<open>Without an option the controller among the owners counts only.\<close>

definition Builder_Owns :: "GoType \<Rightarrow> ControllerBuilder \<Rightarrow> ControllerBuilder" where
  "Builder_Owns object blder = blder\<lparr>blder_owns := blder_owns blder @ [(object, False)]\<rparr>"

definition getControllerName :: "ControllerBuilder \<Rightarrow> GroupVersionKind option \<Rightarrow> error + string" where
  "getControllerName blder gvk =
     (if blder_name blder \<noteq> [] then Inr (blder_name blder)
      else case gvk of
        None \<Rightarrow> Inl (Errorf ''one of For() or Named() must be called'')
      | Some gvk \<Rightarrow> Inr (strings_ToLower (gvk_Kind gvk)))"

definition GroupKind_String :: "GroupVersionKind \<Rightarrow> string" where
  "GroupKind_String gvk = (if gvk_Group gvk = [] then gvk_Kind gvk else gvk_Kind gvk @ ''.'' @ gvk_Group gvk)"

text \<open>The number of workers: the option, that of the kind, that of the manager, or one.\<close>

definition maxConcurrent :: "ControllerManager \<Rightarrow> GroupVersionKind option \<Rightarrow> int" where
  "maxConcurrent mgr gvk =
     (case gvk of
        Some gvk \<Rightarrow>
          (case map_of (mgr_GroupKindConcurrency mgr) (GroupKind_String gvk) of
             Some concurrency \<Rightarrow>
               if concurrency > 0 then concurrency
               else if mgr_MaxConcurrentReconciles mgr > 0 then mgr_MaxConcurrentReconciles mgr else 1
           | None \<Rightarrow> if mgr_MaxConcurrentReconciles mgr > 0 then mgr_MaxConcurrentReconciles mgr else 1)
      | None \<Rightarrow> if mgr_MaxConcurrentReconciles mgr > 0 then mgr_MaxConcurrentReconciles mgr else 1)"

definition newController ::
  "string \<Rightarrow> Reconciler \<Rightarrow> int \<Rightarrow> ControllerManager \<Rightarrow> error option \<times> ControllerManager"
where
  "newController name r workers mgr =
     (if length name = 0 then (Some (Errorf ''must specify Name for Controller''), mgr)
      else (None, mgr\<lparr>mgr_Controllers := mgr_Controllers mgr @ [\<lparr>ctrl_Name = name, ctrl_Do = r,
        ctrl_MaxConcurrentReconciles = workers, ctrl_startWatches = []\<rparr>]\<rparr>))"

definition doController ::
  "ControllerBuilder \<Rightarrow> Reconciler \<Rightarrow> ControllerManager \<Rightarrow> error option \<times> ControllerManager"
where
  "doController blder r mgr =
     (case (case blder_for blder of
          None \<Rightarrow> Inr None
        | Some object \<Rightarrow> (case GVKForObject object (mgr_Scheme mgr) of Inl err \<Rightarrow> Inl err | Inr gvk \<Rightarrow> Inr (Some gvk)))
      of
        Inl err \<Rightarrow> (Some err, mgr)
      | Inr gvk \<Rightarrow>
          (case getControllerName blder gvk of
             Inl err \<Rightarrow> (Some err, mgr)
           | Inr name \<Rightarrow> newController name r (maxConcurrent mgr gvk) mgr))"

text \<open>\<^verbatim>\<open>Watch\<close> on the controller that was built last, which has not started.\<close>

definition ctrlWatch :: "GoType \<Rightarrow> EventHandler \<Rightarrow> ControllerManager \<Rightarrow> ControllerManager" where
  "ctrlWatch src evthdler mgr =
     mgr\<lparr>mgr_Controllers := butlast (mgr_Controllers mgr) @
       [(last (mgr_Controllers mgr))\<lparr>ctrl_startWatches := ctrl_startWatches (last (mgr_Controllers mgr)) @ [(src, evthdler)]\<rparr>]\<rparr>"

text \<open>The handler for owners panics unless the scheme has one kind for their type.\<close>

definition NewEnqueueRequestForOwner :: "Scheme \<Rightarrow> GoType \<Rightarrow> bool \<Rightarrow> EventHandler go" where
  "NewEnqueueRequestForOwner scheme ownerType onlyController =
     (case kindsOf scheme ownerType of
        [kind] \<Rightarrow> Ret (EnqueueRequestForOwner (gvk_Kind kind) (gvk_Group kind) onlyController)
      | _ \<Rightarrow> Panic (''expected exactly 1 kind for OwnerType '' @ typeName ownerType))"

fun watchOwned :: "GoType \<Rightarrow> (GoType \<times> bool) list \<Rightarrow> ControllerManager \<Rightarrow> ControllerManager go" where
  "watchOwned ownerType [] mgr = Ret mgr"
| "watchOwned ownerType ((object, matchEveryOwner) # owns) mgr =
     bind_go (NewEnqueueRequestForOwner (mgr_Scheme mgr) ownerType (\<not> matchEveryOwner)) (\<lambda>hdler.
       watchOwned ownerType owns (ctrlWatch object hdler mgr))"

definition doWatch :: "ControllerBuilder \<Rightarrow> ControllerManager \<Rightarrow> (error option \<times> ControllerManager) go" where
  "doWatch blder mgr =
     (case blder_for blder of
        None \<Rightarrow>
          if length (blder_owns blder) > 0
          then Ret (Some (Errorf ''Owns() can only be used together with For()''), mgr)
          else Ret (Some (Errorf (''there are no watches configured, controller will never get triggered. '' @
            ''Use For(), Owns() or Watches() to set them up'')), mgr)
      | Some object \<Rightarrow>
          bind_go (watchOwned object (blder_owns blder) (ctrlWatch object EnqueueRequestForObject mgr)) (\<lambda>mgr.
            Ret (None, mgr)))"

definition Builder_Complete ::
  "Reconciler \<Rightarrow> ControllerManager \<Rightarrow> ControllerBuilder \<Rightarrow> (error option \<times> ControllerManager) go"
where
  "Builder_Complete r mgr blder =
     (case blder_forErr blder of
        Some err \<Rightarrow> Ret (Some err, mgr)
      | None \<Rightarrow>
          (case doController blder r mgr of
             (Some err, mgr) \<Rightarrow> Ret (Some err, mgr)
           | (None, mgr) \<Rightarrow> doWatch blder mgr))"

section \<open>The builder of a webhook\<close>

text \<open>Which types have the methods of \<^verbatim>\<open>admission.Defaulter\<close> and of \<^verbatim>\<open>admission.Validator\<close>.\<close>

definition implementsDefaulter :: "GoType \<Rightarrow> bool" where
  "implementsDefaulter t = False"

definition implementsValidator :: "GoType \<Rightarrow> bool" where
  "implementsValidator t \<longleftrightarrow> t \<in> {GoType apiPackage ''PtpConfig'', GoType apiPackage ''PtpOperatorConfig''}"

definition generateMutatePath :: "GroupVersionKind \<Rightarrow> string" where
  "generateMutatePath gvk = ''/mutate-'' @ strings_ReplaceAll (gvk_Group gvk) (CHR ''.'') ''-'' @ ''-'' @
     gvk_Version gvk @ ''-'' @ strings_ToLower (gvk_Kind gvk)"

definition generateValidatePath :: "GroupVersionKind \<Rightarrow> string" where
  "generateValidatePath gvk = ''/validate-'' @ strings_ReplaceAll (gvk_Group gvk) (CHR ''.'') ''-'' @ ''-'' @
     gvk_Version gvk @ ''-'' @ strings_ToLower (gvk_Kind gvk)"

definition isAlreadyHandled :: "string \<Rightarrow> ControllerManager \<Rightarrow> bool" where
  "isAlreadyHandled path mgr \<longleftrightarrow> path \<in> fst ` set (mgr_Webhooks mgr)"

definition Server_Register :: "string \<Rightarrow> Webhook \<Rightarrow> ControllerManager \<Rightarrow> ControllerManager go" where
  "Server_Register path hook mgr =
     (if path \<in> fst ` set (mgr_Webhooks mgr) then Panic (''can'' @ [CHR 0x27] @ ''t register duplicate path: '' @ path)
      else Ret (mgr\<lparr>mgr_Webhooks := mgr_Webhooks mgr @ [(path, hook)]\<rparr>))"

definition registerDefaultingWebhook ::
  "GoType \<Rightarrow> GroupVersionKind \<Rightarrow> ControllerManager \<Rightarrow> ControllerManager go"
where
  "registerDefaultingWebhook apiType gvk mgr =
     (if implementsDefaulter apiType \<and> \<not> isAlreadyHandled (generateMutatePath gvk) mgr
      then Server_Register (generateMutatePath gvk) (MutatingWebhook apiType) mgr else Ret mgr)"

definition registerValidatingWebhook ::
  "GoType \<Rightarrow> GroupVersionKind \<Rightarrow> ControllerManager \<Rightarrow> ControllerManager go"
where
  "registerValidatingWebhook apiType gvk mgr =
     (if implementsValidator apiType \<and> \<not> isAlreadyHandled (generateValidatePath gvk) mgr
      then Server_Register (generateValidatePath gvk) (ValidatingWebhook apiType) mgr else Ret mgr)"

text \<open>
  Whether a type takes part in conversion: no type of the API has the methods of \<^verbatim>\<open>conversion.Hub\<close> or of
  \<^verbatim>\<open>conversion.Convertible\<close>. The kinds that are asked are those with the group and the name of its own.
\<close>

definition isHub :: "GoType \<Rightarrow> bool" where "isHub t = False"

definition isConvertible :: "GoType \<Rightarrow> bool" where "isConvertible t = False"

definition objectGVKs :: "Scheme \<Rightarrow> GoType \<Rightarrow> error + GroupVersionKind list" where
  "objectGVKs scheme t =
     (case kindsOf scheme t of
        [] \<Rightarrow> Inl (Errorf (''no kind is registered for the type '' @ typeName t))
      | [objGVK] \<Rightarrow> Inr (filter (\<lambda>gvk. gvk_Group gvk = gvk_Group objGVK \<and> gvk_Kind gvk = gvk_Kind objGVK)
          (remdups (map fst (gvkToType scheme))))
      | _ \<Rightarrow> Inl (Errorf (''expect to get only one GVK for '' @ typeName t)))"

fun newInstances :: "Scheme \<Rightarrow> GroupVersionKind list \<Rightarrow> error + GoType list" where
  "newInstances scheme [] = Inr []"
| "newInstances scheme (gvk # gvks) =
     (case Scheme_New scheme gvk of
        Inl err \<Rightarrow> Inl (Errorf (''failed to allocate an instance for gvk '' @ gvk_Kind gvk @ '': '' @ Error err))
      | Inr t \<Rightarrow> (case newInstances scheme gvks of Inl err \<Rightarrow> Inl err | Inr ts \<Rightarrow> Inr (t # ts)))"

definition IsConvertible :: "Scheme \<Rightarrow> GoType \<Rightarrow> error + bool" where
  "IsConvertible scheme t =
     (case objectGVKs scheme t of
        Inl err \<Rightarrow> Inl err
      | Inr gvks \<Rightarrow>
          if length gvks = 0 then Inl (Errorf (''error retrieving gvks for object : '' @ typeName t))
          else (case newInstances scheme gvks of
              Inl err \<Rightarrow> Inl err
            | Inr ts \<Rightarrow>
                (let hubs = filter isHub ts;
                     spokes = filter (\<lambda>t. \<not> isHub t \<and> isConvertible t) ts;
                     nonSpokes = filter (\<lambda>t. \<not> isHub t \<and> \<not> isConvertible t) ts in
                 if length gvks = 1 then Inr False
                 else if length hubs = 0 \<and> length spokes = 0 then Inr False
                 else if length hubs = 1 \<and> length nonSpokes = 0 then Inr True
                 else Inl (Errorf (''implementation of hub and spokes is partial for '' @ typeName t)))))"

definition registerConversionWebhook :: "GoType \<Rightarrow> ControllerManager \<Rightarrow> (error option \<times> ControllerManager) go" where
  "registerConversionWebhook apiType mgr =
     (case IsConvertible (mgr_Scheme mgr) apiType of
        Inl err \<Rightarrow> Ret (Some err, mgr)
      | Inr ok \<Rightarrow>
          if ok \<and> \<not> isAlreadyHandled ''/convert'' mgr
          then bind_go (Server_Register ''/convert'' ConversionWebhook mgr) (\<lambda>mgr. Ret (None, mgr))
          else Ret (None, mgr))"

definition WebhookBuilder_Complete :: "GoType option \<Rightarrow> ControllerManager \<Rightarrow> (error option \<times> ControllerManager) go" where
  "WebhookBuilder_Complete apiType mgr =
     (case apiType of
        None \<Rightarrow> Ret (Some (Errorf ''For() must be called with a valid object''), mgr)
      | Some t \<Rightarrow>
          (case GVKForObject t (mgr_Scheme mgr) of
             Inl err \<Rightarrow> Ret (Some err, mgr)
           | Inr gvk \<Rightarrow>
               bind_go (registerDefaultingWebhook t gvk mgr) (\<lambda>mgr.
               bind_go (registerValidatingWebhook t gvk mgr) (\<lambda>mgr.
               registerConversionWebhook t mgr))))"

section \<open>The set-up of the operator\<close>

abbreviation ptpConfigType :: GoType where "ptpConfigType \<equiv> GoType apiPackage ''PtpConfig''"

abbreviation operatorConfigType :: GoType where "operatorConfigType \<equiv> GoType apiPackage ''PtpOperatorConfig''"

definition daemonSetType :: GoType where "daemonSetType = GoType ''k8s.io/api/apps/v1'' ''DaemonSet''"

definition PtpConfigReconciler_SetupWithManager :: "ControllerManager \<Rightarrow> (error option \<times> ControllerManager) go" where
  "PtpConfigReconciler_SetupWithManager mgr =
     Builder_Complete PtpConfigReconciler mgr (Builder_For ptpConfigType NewControllerManagedBy)"

definition PtpOperatorConfigReconciler_SetupWithManager ::
  "ControllerManager \<Rightarrow> (error option \<times> ControllerManager) go"
where
  "PtpOperatorConfigReconciler_SetupWithManager mgr =
     Builder_Complete PtpOperatorConfigReconciler mgr
       (Builder_Owns daemonSetType (Builder_For operatorConfigType NewControllerManagedBy))"

definition PtpConfig_SetupWebhookWithManager :: "ControllerManager \<Rightarrow> (error option \<times> ControllerManager) go" where
  "PtpConfig_SetupWebhookWithManager mgr = WebhookBuilder_Complete (Some ptpConfigType) mgr"

text \<open>The client it is given is kept in a variable of the package that nothing reads.\<close>

definition PtpOperatorConfig_SetupWebhookWithManager ::
  "'c \<Rightarrow> ControllerManager \<Rightarrow> (error option \<times> ControllerManager) go \<times> 'c option"
where
  "PtpOperatorConfig_SetupWebhookWithManager client mgr =
     (WebhookBuilder_Complete (Some operatorConfigType) mgr, Some client)"

text \<open>The calls of \<^verbatim>\<open>main\<close>, which ends with the first error; with it comes the text that is logged.\<close>

definition orExit ::
  "string \<Rightarrow> (error option \<times> ControllerManager) go \<Rightarrow> (ControllerManager \<Rightarrow> ((string \<times> error) + ControllerManager) go) \<Rightarrow>
   ((string \<times> error) + ControllerManager) go"
where
  "orExit msg r rest = bind_go r (\<lambda>(err, mgr). case err of Some e \<Rightarrow> Ret (Inl (msg, e)) | None \<Rightarrow> rest mgr)"

definition setupControllers :: "'c \<Rightarrow> ControllerManager \<Rightarrow> ((string \<times> error) + ControllerManager) go" where
  "setupControllers client mgr =
     orExit ''unable to create controller'' (PtpOperatorConfigReconciler_SetupWithManager mgr) (\<lambda>mgr.
     orExit ''unable to create controller'' (PtpConfigReconciler_SetupWithManager mgr) (\<lambda>mgr.
     orExit ''unable to create webhook'' (PtpConfig_SetupWebhookWithManager mgr) (\<lambda>mgr.
     orExit ''unable to create webhook'' (fst (PtpOperatorConfig_SetupWebhookWithManager client mgr)) (\<lambda>mgr.
     Ret (Inr mgr)))))"

section \<open>Events\<close>

record ReconcileRequest =
  request_Namespace :: string
  request_Name :: string

datatype WatchEvent = CreateEvent Object | UpdateEvent Object Object | DeleteEvent Object

fun eventObject :: "WatchEvent \<Rightarrow> Object" where
  "eventObject (CreateEvent obj) = obj"
| "eventObject (UpdateEvent old new) = new"
| "eventObject (DeleteEvent obj) = obj"

definition requestFor :: "Object \<Rightarrow> ReconcileRequest" where
  "requestFor obj = \<lparr>request_Namespace = objNamespace obj, request_Name = objName obj\<rparr>"

fun OwnerReferencesOf :: "Object \<Rightarrow> OwnerReference list" where
  "OwnerReferencesOf (ConfigMapObj x) = meta_OwnerReferences (cm_ObjectMeta x)"
| "OwnerReferencesOf (NodeObj x) = meta_OwnerReferences (node_ObjectMeta x)"
| "OwnerReferencesOf (PtpConfigObj x) = meta_OwnerReferences (config_ObjectMeta x)"
| "OwnerReferencesOf (PtpOperatorConfigObj x) = meta_OwnerReferences (oconfig_ObjectMeta x)"
| "OwnerReferencesOf (NodePtpDeviceObj x) = meta_OwnerReferences (ndevice_ObjectMeta x)"
| "OwnerReferencesOf (UnstructuredObj u) = GetOwnerReferences u"

definition getOwnersReferences :: "bool \<Rightarrow> Object \<Rightarrow> OwnerReference list" where
  "getOwnersReferences onlyController object =
     (if \<not> onlyController then OwnerReferencesOf object
      else case GetControllerOf (OwnerReferencesOf object) of Some ownerRef \<Rightarrow> [ownerRef] | None \<Rightarrow> [])"

text \<open>
  The requests for the owners. The parameter is the REST mapping of a kind, group and version: an error,
  or whether objects of the kind have no namespace. The set of requests is a list in one order.
\<close>

type_synonym mapper = "string \<Rightarrow> string \<Rightarrow> string \<Rightarrow> error + bool"

fun ownerRequests ::
  "mapper \<Rightarrow> string \<Rightarrow> string \<Rightarrow> string \<Rightarrow> OwnerReference list \<Rightarrow> ReconcileRequest list \<Rightarrow> ReconcileRequest list"
where
  "ownerRequests mapper kind group' ns [] result = result"
| "ownerRequests mapper kind group' ns (ref # refs) result =
     (case ParseGroupVersion (ref_APIVersion ref) of
        Inl err \<Rightarrow> result
      | Inr refGV \<Rightarrow>
          if ref_Kind ref = kind \<and> fst refGV = group' then
            (case mapper kind group' (snd refGV) of
               Inl err \<Rightarrow> result
             | Inr root \<Rightarrow>
                 ownerRequests mapper kind group' ns refs
                   (List.insert \<lparr>request_Namespace = (if root then [] else ns), request_Name = ref_Name ref\<rparr> result))
          else ownerRequests mapper kind group' ns refs result)"

definition getOwnerReconcileRequest ::
  "mapper \<Rightarrow> string \<Rightarrow> string \<Rightarrow> bool \<Rightarrow> Object \<Rightarrow> ReconcileRequest list \<Rightarrow> ReconcileRequest list"
where
  "getOwnerReconcileRequest mapper kind group' onlyController object result =
     ownerRequests mapper kind group' (objNamespace object) (getOwnersReferences onlyController object) result"

fun handleEvent :: "mapper \<Rightarrow> EventHandler \<Rightarrow> WatchEvent \<Rightarrow> ReconcileRequest list" where
  "handleEvent mapper EnqueueRequestForObject ev = [requestFor (eventObject ev)]"
| "handleEvent mapper (EnqueueRequestForOwner kind group' onlyController) (UpdateEvent old new) =
     getOwnerReconcileRequest mapper kind group' onlyController new
       (getOwnerReconcileRequest mapper kind group' onlyController old [])"
| "handleEvent mapper (EnqueueRequestForOwner kind group' onlyController) ev =
     getOwnerReconcileRequest mapper kind group' onlyController (eventObject ev) []"

text \<open>What a controller enqueues for an event: the watches of the kind of its object have their handlers called.\<close>

definition controllerRequests :: "mapper \<Rightarrow> Scheme \<Rightarrow> Controller \<Rightarrow> WatchEvent \<Rightarrow> ReconcileRequest list" where
  "controllerRequests mapper scheme ctrl ev =
     concat (map (\<lambda>(t, hdler).
       if GVKForObject t scheme = Inr (fst (keyOf (eventObject ev))) then handleEvent mapper hdler ev else [])
       (ctrl_startWatches ctrl))"

definition managerRequests :: "mapper \<Rightarrow> ControllerManager \<Rightarrow> Reconciler \<Rightarrow> WatchEvent \<Rightarrow> ReconcileRequest list" where
  "managerRequests mapper mgr r ev =
     concat (map (\<lambda>ctrl. if ctrl_Do ctrl = r then controllerRequests mapper (mgr_Scheme mgr) ctrl ev else [])
       (mgr_Controllers mgr))"


section \<open>What the set-up wires\<close>

text \<open>A registration makes no type unversioned but those of \<^verbatim>\<open>metav1\<close>.\<close>

definition keepsVersioned :: "(Scheme \<Rightarrow> Scheme go) \<Rightarrow> bool" where
  "keepsVersioned f \<longleftrightarrow> (\<forall>s s' t. f s = Ret s' \<longrightarrow> t \<notin> set unversionedMetaTypes \<longrightarrow>
     map_of (unversionedTypes s') t = map_of (unversionedTypes s) t)"

lemma keepsVersioned_bind: "keepsVersioned f \<Longrightarrow> keepsVersioned g \<Longrightarrow> keepsVersioned (\<lambda>s. bind_go (f s) g)"
  by (auto simp: keepsVersioned_def bind_go_Ret_iff)

lemma keepsVersioned_observed: "unversionedTypes (addObservedVersion v s) = unversionedTypes s"
  by (simp add: addObservedVersion_def)

lemma keepsVersioned_known: "keepsVersioned (AddKnownTypeWithName gvk t)"
  by (auto simp: keepsVersioned_def AddKnownTypeWithName_def Let_def keepsVersioned_observed split: if_splits)

lemma keepsVersioned_addKnownTypes: "keepsVersioned (addKnownTypes gv types)"
proof (induction types)
  case Nil
  show ?case by (simp add: keepsVersioned_def)
next
  case (Cons t types)
  from keepsVersioned_bind [OF keepsVersioned_known Cons.IH, of "WithKind gv (typeName t)" t]
  show ?case by (simp add: keepsVersioned_def)
qed

lemma keepsVersioned_AddKnownTypes: "keepsVersioned (AddKnownTypes gv types)"
  using keepsVersioned_addKnownTypes [of gv types] by (simp add: keepsVersioned_def AddKnownTypes_def keepsVersioned_observed)

lemma keepsVersioned_unversioned: "set types \<subseteq> set unversionedMetaTypes \<Longrightarrow> keepsVersioned (addUnversionedTypes v types)"
proof (induction types)
  case Nil
  show ?case by (simp add: keepsVersioned_def)
next
  case (Cons t types)
  have "keepsVersioned (addUnversionedType v t)"
    using Cons.prems by (auto simp: keepsVersioned_def addUnversionedType_def Let_def update_conv split: if_splits)
  from keepsVersioned_bind [OF this Cons.IH] Cons.prems show ?case by (simp add: keepsVersioned_def)
qed

lemma keepsVersioned_AddUnversionedTypes: "keepsVersioned (AddUnversionedTypes v unversionedMetaTypes)"
  using keepsVersioned_bind [OF keepsVersioned_AddKnownTypes keepsVersioned_unversioned [OF subset_refl], of v unversionedMetaTypes v]
  by (simp add: keepsVersioned_def AddUnversionedTypes_def keepsVersioned_observed)

lemmas keepsVersioned_calls = keepsVersioned_bind keepsVersioned_known keepsVersioned_AddKnownTypes
  keepsVersioned_AddUnversionedTypes

lemma keepsVersioned_AddToGroupVersion: "keepsVersioned (AddToGroupVersion gv)"
  unfolding AddToGroupVersion_def [abs_def] by (intro keepsVersioned_calls)

lemma keepsVersioned_func:
  "keepsVersioned (\<lambda>s. bind_go (f s) (\<lambda>(err, s). Ret s)) \<longleftrightarrow> (\<forall>s err s' t. f s = Ret (err, s') \<longrightarrow>
     t \<notin> set unversionedMetaTypes \<longrightarrow> map_of (unversionedTypes s') t = map_of (unversionedTypes s) t)"
proof -
  have "bind_go (f s) (\<lambda>(err, s). Ret s) = Ret s' \<longleftrightarrow> (\<exists>err. f s = Ret (err, s'))" for s s'
    by (cases "f s") auto
  then show ?thesis unfolding keepsVersioned_def by metis
qed

lemma keepsVersioned_builder:
  assumes "list_all (\<lambda>f. keepsVersioned (\<lambda>s. bind_go (f s) (\<lambda>(err, s). Ret s))) sb"
    and "SchemeBuilder_AddToScheme sb s = Ret (err, s')" "t \<notin> set unversionedMetaTypes"
  shows "map_of (unversionedTypes s') t = map_of (unversionedTypes s) t"
  using assms(1,2)
proof (induction sb arbitrary: s)
  case (Cons f sb)
  then obtain e1 s1 where f: "f s = Ret (e1, s1)"
    and rest: "s1 = s' \<or> SchemeBuilder_AddToScheme sb s1 = Ret (err, s')"
    by (cases "f s") (auto split: if_splits)
  have "map_of (unversionedTypes s1) t = map_of (unversionedTypes s) t"
    using Cons.prems(1) f assms(3) unfolding list.pred_inject keepsVersioned_func by blast
  with rest Cons show ?case by auto
qed simp

lemma keepsVersioned_program: "keepsVersioned (\<lambda>s. bind_go (AddToScheme s) (\<lambda>(err, s). Ret s))"
proof -
  have "keepsVersioned (\<lambda>s. bind_go (bind_go (AddKnownTypes GroupVersion types s) (\<lambda>s.
      bind_go (AddToGroupVersion GroupVersion s) (\<lambda>s. Ret (None :: error option, s)))) (\<lambda>(err, s). Ret s))" for types
  proof -
    have "bind_go (bind_go (AddKnownTypes GroupVersion types s) (\<lambda>s. bind_go (AddToGroupVersion GroupVersion s)
          (\<lambda>s. Ret (None :: error option, s)))) (\<lambda>(err, s). Ret s) =
        bind_go (AddKnownTypes GroupVersion types s) (AddToGroupVersion GroupVersion)" for s
    proof (cases "AddKnownTypes GroupVersion types s")
      case (Ret s1)
      then show ?thesis by (cases "AddToGroupVersion GroupVersion s1") simp_all
    qed simp
    with keepsVersioned_bind [OF keepsVersioned_AddKnownTypes keepsVersioned_AddToGroupVersion, of GroupVersion types GroupVersion]
    show ?thesis by simp
  qed
  then have "list_all (\<lambda>f. keepsVersioned (\<lambda>s. bind_go (f s) (\<lambda>(err, s). Ret s))) (builder_SchemeBuilder SchemeBuilder)"
    by (simp only: SchemeBuilder_funcs list.map list.pred_inject simp_thms)
  from keepsVersioned_builder [OF this] show ?thesis
    unfolding keepsVersioned_func AddToScheme_def by blast
qed

text \<open>What is relied on of the scheme of client-go: none of its types is of the API, and it knows DaemonSets.\<close>

definition clientgoScheme :: "Scheme \<Rightarrow> bool" where
  "clientgoScheme s \<longleftrightarrow> schemeOk s \<and> \<not> clash (set ptpKinds) (set unversionedNames) s \<and>
     (\<forall>name. kindsOf s (GoType apiPackage name) = [] \<and> map_of (unversionedTypes s) (GoType apiPackage name) = None) \<and>
     kindsOf s daemonSetType = [\<lparr>gvk_Group = ''apps'', gvk_Version = ''v1'', gvk_Kind = ''DaemonSet''\<rparr>] \<and>
     map_of (unversionedTypes s) daemonSetType = None"

text \<open>The manager before and after the set-up.\<close>

definition newManager :: "Scheme \<Rightarrow> ControllerManager" where
  "newManager scheme = \<lparr>mgr_Scheme = scheme, mgr_GroupKindConcurrency = [], mgr_MaxConcurrentReconciles = 0,
     mgr_Controllers = [], mgr_Webhooks = []\<rparr>"

definition operatorManager :: "Scheme \<Rightarrow> ControllerManager" where
  "operatorManager scheme = (newManager scheme)
     \<lparr>mgr_Controllers :=
       [\<lparr>ctrl_Name = ''ptpoperatorconfig'', ctrl_Do = PtpOperatorConfigReconciler, ctrl_MaxConcurrentReconciles = 1,
          ctrl_startWatches = [(operatorConfigType, EnqueueRequestForObject),
            (daemonSetType, EnqueueRequestForOwner ''PtpOperatorConfig'' ''ptp.openshift.io'' True)]\<rparr>,
        \<lparr>ctrl_Name = ''ptpconfig'', ctrl_Do = PtpConfigReconciler, ctrl_MaxConcurrentReconciles = 1,
          ctrl_startWatches = [(ptpConfigType, EnqueueRequestForObject)]\<rparr>],
      mgr_Webhooks :=
       [(''/validate-ptp-openshift-io-v1-ptpconfig'', ValidatingWebhook ptpConfigType),
        (''/validate-ptp-openshift-io-v1-ptpoperatorconfig'', ValidatingWebhook operatorConfigType)]\<rparr>"

lemma GVKForObject_kindsOf:
  "kindsOf scheme t = [gvk] \<Longrightarrow> map_of (unversionedTypes scheme) t = None \<Longrightarrow> GVKForObject t scheme = Inr gvk"
  by (auto simp: GVKForObject_def kindsOf_def split: option.splits)

text \<open>The scheme of the manager has one kind for each of the types that are watched.\<close>

lemma metaKinds_package: "(g, t) \<in> set (metaKinds gv) \<Longrightarrow> PkgPath t = metaPackage"
  by (auto simp: metaKinds_def kindsIn_def optionsTypes_def unversionedMetaTypes_def)

lemma ptpKinds_of_type:
  "(g, GoType apiPackage name) \<in> set ptpKinds \<longleftrightarrow> name \<in> set (map typeName ptpTypes) \<and> g = ptpKind name"
proof -
  have "(g, GoType apiPackage name) \<notin> set (metaKinds ([], ''v1''))"
    using metaKinds_package [of g "GoType apiPackage name"] by (auto simp: apiPackage_def metaPackage_def)
  then show ?thesis using ptp_kinds_of_type(1) [of g name] by (simp add: clientsetKinds_def)
qed

lemma operator_scheme:
  assumes "clientgo NewScheme = Ret (None, s)" "clientgoScheme s"
  obtains scheme where "main_init clientgo = Ret scheme" "schemeOk scheme"
    "kindsOf scheme ptpConfigType = [ptpKind ''PtpConfig'']"
    "kindsOf scheme operatorConfigType = [ptpKind ''PtpOperatorConfig'']"
    "GVKForObject ptpConfigType scheme = Inr (ptpKind ''PtpConfig'')"
    "GVKForObject operatorConfigType scheme = Inr (ptpKind ''PtpOperatorConfig'')"
    "GVKForObject daemonSetType scheme = Inr \<lparr>gvk_Group = ''apps'', gvk_Version = ''v1'', gvk_Kind = ''DaemonSet''\<rparr>"
proof -
  note go = assms(2) [unfolded clientgoScheme_def]
  have "\<exists>s'. main_init clientgo = Ret s' \<and> schemeOk s' \<and> withKinds (set ptpKinds) (set unversionedNames) s s'"
    by (rule main_scheme) (use assms(1) go in simp_all)
  then obtain scheme where scheme: "main_init clientgo = Ret scheme" "schemeOk scheme"
      and kinds: "withKinds (set ptpKinds) (set unversionedNames) s scheme" by blast
  have dist: "distinct (kindsOf scheme t)" for t using scheme(2) by (simp add: schemeOk_def)
  have of: "set (kindsOf scheme t) = {g. (g, t) \<in> set ptpKinds} \<union> set (kindsOf s t)" for t
    using kinds scheme(2) go unfolding withKinds_def schemeOk_def by auto
  have ds: "daemonSetType \<notin> snd ` set ptpKinds" "daemonSetType \<notin> set unversionedMetaTypes"
    "GoType apiPackage name \<notin> set unversionedMetaTypes" for name
    by (auto simp: ptpKinds_def kindsIn_def ptpTypes_def metaKinds_def optionsTypes_def unversionedMetaTypes_def daemonSetType_def
        apiPackage_def metaPackage_def)
  have api: "kindsOf scheme (GoType apiPackage name) = [ptpKind name]" if "name \<in> set (map typeName ptpTypes)" for name
    by (rule singleton_list [OF dist])
      (use that go of [of "GoType apiPackage name"] in \<open>simp add: ptpKinds_of_type\<close>)
  have daemon: "kindsOf scheme daemonSetType = [\<lparr>gvk_Group = ''apps'', gvk_Version = ''v1'', gvk_Kind = ''DaemonSet''\<rparr>]"
    by (rule singleton_list [OF dist]) (use ds(1) go of in force)
  have "Must (AddToScheme s) = Ret scheme" using scheme(1) assms(1) by (simp add: main_init_def Must_def)
  then have "bind_go (AddToScheme s) (\<lambda>(err, s). Ret s) = Ret scheme"
    by (auto simp: Must_def bind_go_Ret_iff split: option.splits prod.splits)
  with keepsVersioned_program have "map_of (unversionedTypes scheme) t = map_of (unversionedTypes s) t"
    if "t \<notin> set unversionedMetaTypes" for t
    using that unfolding keepsVersioned_def by blast
  then have "map_of (unversionedTypes scheme) (GoType apiPackage name) = None"
    "map_of (unversionedTypes scheme) daemonSetType = None" for name
    using ds go by simp_all
  then show ?thesis
    using that [of scheme] scheme(1,2) api daemon by (simp add: GVKForObject_kindsOf ptpTypes_def)
qed

lemma orExit_Ret [simp]: "orExit msg (Ret (None, mgr)) rest = rest mgr"
  by (simp add: orExit_def)

lemma newInstances_known: "set gvks \<subseteq> fst ` set (gvkToType scheme) \<Longrightarrow> \<not> isl (newInstances scheme gvks)"
proof (induction gvks)
  case (Cons gvk gvks)
  then obtain t where "map_of (gvkToType scheme) gvk = Some t" by (metis insert_subset list.simps(15) map_of_eq_None_iff not_None_eq)
  then have "Scheme_New scheme gvk = Inr t" by (simp add: Scheme_New_def)
  with Cons show ?case by (cases "newInstances scheme gvks") simp_all
qed simp

lemma IsConvertible_registered:
  assumes "schemeOk scheme" "kindsOf scheme t = [gvk]"
  shows "IsConvertible scheme t = Inr False"
proof -
  let ?gvks = "filter (\<lambda>g. gvk_Group g = gvk_Group gvk \<and> gvk_Kind g = gvk_Kind gvk) (remdups (map fst (gvkToType scheme)))"
  have "map_of (gvkToType scheme) gvk = Some t" using assms by (simp add: schemeOk_def)
  then have "gvk \<in> fst ` set (gvkToType scheme)" by (metis domI dom_map_of_conv_image_fst)
  then have "gvk \<in> set ?gvks" by simp
  then have some: "?gvks \<noteq> []" by (metis empty_iff empty_set)
  obtain ts where "newInstances scheme ?gvks = Inr ts"
    using newInstances_known [of ?gvks scheme] by (cases "newInstances scheme ?gvks") auto
  then show ?thesis
    using some by (simp add: IsConvertible_def objectGVKs_def assms(2) Let_def) (simp add: isHub_def isConvertible_def)
qed

lemmas webhook_calls = WebhookBuilder_Complete_def registerDefaultingWebhook_def registerValidatingWebhook_def
  registerConversionWebhook_def implementsDefaulter_def implementsValidator_def isAlreadyHandled_def Server_Register_def

lemma setup_names:
  "strings_ToLower ''PtpConfig'' = ''ptpconfig''" "strings_ToLower ''PtpOperatorConfig'' = ''ptpoperatorconfig''"
  "generateValidatePath (ptpKind ''PtpConfig'') = ''/validate-ptp-openshift-io-v1-ptpconfig''"
  "generateValidatePath (ptpKind ''PtpOperatorConfig'') = ''/validate-ptp-openshift-io-v1-ptpoperatorconfig''"
  "gvk_Kind (ptpKind kind) = kind" "gvk_Group (ptpKind kind) = ''ptp.openshift.io''"
  by (simp_all add: ptpKind_def generateValidatePath_def) code_simp+

lemma setup_of_scheme:
  assumes "schemeOk scheme"
    and "kindsOf scheme ptpConfigType = [ptpKind ''PtpConfig'']"
    and "kindsOf scheme operatorConfigType = [ptpKind ''PtpOperatorConfig'']"
    and "GVKForObject ptpConfigType scheme = Inr (ptpKind ''PtpConfig'')"
    and "GVKForObject operatorConfigType scheme = Inr (ptpKind ''PtpOperatorConfig'')"
  shows "setupControllers client (newManager scheme) = Ret (Inr (operatorManager scheme))"
proof -
  note convertible = IsConvertible_registered [OF assms(1,2)] IsConvertible_registered [OF assms(1,3)]
  let ?m0 = "newManager scheme" and ?m4 = "operatorManager scheme"
  let ?m1 = "?m0\<lparr>mgr_Controllers := [hd (mgr_Controllers ?m4)]\<rparr>"
  let ?m2 = "?m0\<lparr>mgr_Controllers := mgr_Controllers ?m4\<rparr>"
  let ?m3 = "?m2\<lparr>mgr_Webhooks := [hd (mgr_Webhooks ?m4)]\<rparr>"
  have "PtpOperatorConfigReconciler_SetupWithManager ?m0 = Ret (None, ?m1)"
    by (simp add: PtpOperatorConfigReconciler_SetupWithManager_def Builder_Complete_def Builder_For_def Builder_Owns_def
        NewControllerManagedBy_def doController_def getControllerName_def maxConcurrent_def newController_def doWatch_def
        ctrlWatch_def NewEnqueueRequestForOwner_def operatorManager_def newManager_def assms setup_names)
  moreover have "PtpConfigReconciler_SetupWithManager ?m1 = Ret (None, ?m2)"
    by (simp add: PtpConfigReconciler_SetupWithManager_def Builder_Complete_def Builder_For_def
        NewControllerManagedBy_def doController_def getControllerName_def maxConcurrent_def newController_def doWatch_def
        ctrlWatch_def operatorManager_def newManager_def assms setup_names)
  moreover have "PtpConfig_SetupWebhookWithManager ?m2 = Ret (None, ?m3)"
    by (simp add: PtpConfig_SetupWebhookWithManager_def webhook_calls operatorManager_def newManager_def convertible assms setup_names)
  moreover have "fst (PtpOperatorConfig_SetupWebhookWithManager client ?m3) = Ret (None, ?m4)"
    by (simp add: PtpOperatorConfig_SetupWebhookWithManager_def webhook_calls operatorManager_def newManager_def convertible assms setup_names)
  ultimately show ?thesis by (simp add: setupControllers_def)
qed

text \<open>(C18)
  The set-up of \<^verbatim>\<open>main\<close> never fails: with the scheme of the manager the two controllers and the two webhooks are
  made without a panic and without an error. There are a controller of PtpOperatorConfigs, which also watches
  the DaemonSets for their owners, and one of PtpConfigs, each with one worker, and the webhooks stand at the
  paths that \<^verbatim>\<open>config/webhook/manifests.yaml\<close> gives to the API server; nothing else is registered.
\<close>

theorem setup_wires_operator:
  assumes "clientgo NewScheme = Ret (None, s)" "clientgoScheme s"
  shows "\<exists>scheme. main_init clientgo = Ret scheme \<and>
     setupControllers client (newManager scheme) = Ret (Inr (operatorManager scheme))"
proof -
  from operator_scheme [of clientgo s, OF assms] obtain scheme where "main_init clientgo = Ret scheme"
    "setupControllers client (newManager scheme) = Ret (Inr (operatorManager scheme))"
    using setup_of_scheme by metis
  then show ?thesis by blast
qed

text \<open>A scheme that knows the DaemonSets only.\<close>

definition exClientgo :: SchemeFunc where
  "exClientgo s = bind_go (AddKnownTypes (''apps'', ''v1'') [daemonSetType] s) (\<lambda>s. Ret (None, s))"

abbreviation daemonSetKind :: GroupVersionKind where
  "daemonSetKind \<equiv> \<lparr>gvk_Group = ''apps'', gvk_Version = ''v1'', gvk_Kind = ''DaemonSet''\<rparr>"

definition exClientScheme :: Scheme where
  "exClientScheme = \<lparr>gvkToType = [(daemonSetKind, daemonSetType)], typeToGVK = [(daemonSetType, [daemonSetKind])],
     unversionedTypes = [], unversionedKinds = [], observedVersions = [(''apps'', ''v1'')]\<rparr>"

lemma exClientgo_scheme: "exClientgo NewScheme = Ret (None, exClientScheme)" "clientgoScheme exClientScheme"
proof -
  show "exClientgo NewScheme = Ret (None, exClientScheme)"
    by (simp add: exClientgo_def exClientScheme_def AddKnownTypes_def addObservedVersion_def NewScheme_def WithKind_def
        APIVersionInternal_def AddKnownTypeWithName_def kindsOf_def daemonSetType_def Let_def)
  have kinds: "kindsOf exClientScheme t = (if t = daemonSetType then [daemonSetKind] else [])" for t
    by (simp add: kindsOf_def exClientScheme_def)
  have "daemonSetKind \<notin> fst ` set ptpKinds"
    by (auto simp: ptpKinds_def kindsIn_def WithKind_def metaKinds_def GroupVersion_def Unversioned_def)
  then have "\<not> clash (set ptpKinds) (set unversionedNames) exClientScheme"
    by (auto simp: clash_def clashes_def exClientScheme_def image_iff split: if_splits)
  moreover have "schemeOk exClientScheme"
    using kinds by (auto simp: schemeOk_def exClientScheme_def)
  ultimately show "clientgoScheme exClientScheme"
    by (simp add: clientgoScheme_def kinds) (simp add: exClientScheme_def daemonSetType_def apiPackage_def)
qed

lemma setup_wires_operator_witness:
  "\<exists>scheme. main_init exClientgo = Ret scheme \<and>
     setupControllers () (newManager scheme) = Ret (Inr (operatorManager scheme))"
  by (rule setup_wires_operator [of exClientgo exClientScheme, OF exClientgo_scheme])

section \<open>Which events reach which controller\<close>

fun eventObjects :: "WatchEvent \<Rightarrow> Object list" where
  "eventObjects (UpdateEvent old new) = [old, new]"
| "eventObjects (CreateEvent obj) = [obj]"
| "eventObjects (DeleteEvent obj) = [obj]"

text \<open>The request for the PtpOperatorConfig that controls an object.\<close>

definition configuredBy :: "Object \<Rightarrow> ReconcileRequest set" where
  "configuredBy obj =
     (case GetControllerOf (OwnerReferencesOf obj) of
        None \<Rightarrow> {}
      | Some ref \<Rightarrow>
          if ref_Kind ref = ''PtpOperatorConfig'' \<and> map_sum id fst (ParseGroupVersion (ref_APIVersion ref)) = Inr ''ptp.openshift.io''
          then {\<lparr>request_Namespace = objNamespace obj, request_Name = ref_Name ref\<rparr>} else {})"

text \<open>The requests that the manager of the operator makes, as lists.\<close>

definition operatorMapper :: "mapper \<Rightarrow> bool" where
  "operatorMapper mapper \<longleftrightarrow> (\<forall>version. mapper ''PtpOperatorConfig'' ''ptp.openshift.io'' version = Inr False)"

definition wired :: "mapper \<Rightarrow> ControllerManager \<Rightarrow> bool" where
  "wired mapper mgr \<longleftrightarrow> operatorMapper mapper \<and>
     (\<exists>clientgo s scheme. clientgo NewScheme = Ret (None, s) \<and> clientgoScheme s \<and> main_init clientgo = Ret scheme \<and>
       setupControllers () (newManager scheme) = Ret (Inr mgr))"

lemma wired_operatorManager:
  assumes "wired mapper mgr"
  obtains scheme where "mgr = operatorManager scheme"
    "GVKForObject ptpConfigType scheme = Inr (ptpKind ''PtpConfig'')"
    "GVKForObject operatorConfigType scheme = Inr (ptpKind ''PtpOperatorConfig'')"
    "GVKForObject daemonSetType scheme = Inr daemonSetKind"
proof -
  from assms obtain clientgo s scheme where go: "clientgo NewScheme = Ret (None, s)" "clientgoScheme s"
    "main_init clientgo = Ret scheme" "setupControllers () (newManager scheme) = Ret (Inr mgr)"
    unfolding wired_def by blast
  obtain scheme' where s: "main_init clientgo = Ret scheme'" "schemeOk scheme'"
    "kindsOf scheme' ptpConfigType = [ptpKind ''PtpConfig'']"
    "kindsOf scheme' operatorConfigType = [ptpKind ''PtpOperatorConfig'']"
    and g: "GVKForObject ptpConfigType scheme' = Inr (ptpKind ''PtpConfig'')"
    "GVKForObject operatorConfigType scheme' = Inr (ptpKind ''PtpOperatorConfig'')"
    "GVKForObject daemonSetType scheme' = Inr daemonSetKind"
    by (rule operator_scheme [of clientgo s, OF go(1,2)])
  have "scheme' = scheme" using s(1) go(3) by simp
  with setup_of_scheme [OF s(2-4) g(1,2), of "()"] go(4) have "mgr = operatorManager scheme'" by simp
  then show thesis by (rule that) (rule g)+
qed

lemma wired_requests:
  assumes "wired mapper mgr"
  shows "set (managerRequests mapper mgr PtpConfigReconciler ev) =
      (if fst (keyOf (eventObject ev)) = ptpKind ''PtpConfig'' then {requestFor (eventObject ev)} else {})"
    and "set (managerRequests mapper mgr PtpOperatorConfigReconciler ev) =
      (if fst (keyOf (eventObject ev)) = ptpKind ''PtpOperatorConfig'' then {requestFor (eventObject ev)}
       else if fst (keyOf (eventObject ev)) = daemonSetKind then \<Union> (configuredBy ` set (eventObjects ev)) else {})"
proof -
  obtain scheme where mgr: "mgr = operatorManager scheme"
    and g: "GVKForObject ptpConfigType scheme = Inr (ptpKind ''PtpConfig'')"
    "GVKForObject operatorConfigType scheme = Inr (ptpKind ''PtpOperatorConfig'')"
    "GVKForObject daemonSetType scheme = Inr daemonSetKind"
    by (rule wired_operatorManager [OF assms])
  have "mapper ''PtpOperatorConfig'' ''ptp.openshift.io'' version = Inr False" for version
    using assms by (simp add: wired_def operatorMapper_def)
  then have owner: "set (getOwnerReconcileRequest mapper ''PtpOperatorConfig'' ''ptp.openshift.io'' True obj result) =
      configuredBy obj \<union> set result" for obj result
    by (auto simp: getOwnerReconcileRequest_def getOwnersReferences_def configuredBy_def split: option.splits sum.splits)
  have ds: "set (handleEvent mapper (EnqueueRequestForOwner ''PtpOperatorConfig'' ''ptp.openshift.io'' True) ev) =
      \<Union> (configuredBy ` set (eventObjects ev))"
    by (cases ev) (auto simp: owner)
  have kinds: "ptpKind ''PtpOperatorConfig'' \<noteq> ptpKind ''PtpConfig''" "daemonSetKind \<noteq> ptpKind k" for k
    by (simp_all add: ptpKind_def)
  show "set (managerRequests mapper mgr PtpConfigReconciler ev) =
      (if fst (keyOf (eventObject ev)) = ptpKind ''PtpConfig'' then {requestFor (eventObject ev)} else {})"
    using g by (auto simp: managerRequests_def mgr operatorManager_def newManager_def controllerRequests_def)
  show "set (managerRequests mapper mgr PtpOperatorConfigReconciler ev) =
      (if fst (keyOf (eventObject ev)) = ptpKind ''PtpOperatorConfig'' then {requestFor (eventObject ev)}
       else if fst (keyOf (eventObject ev)) = daemonSetKind then \<Union> (configuredBy ` set (eventObjects ev)) else {})"
    using g kinds(2) ds
    by (auto simp: managerRequests_def mgr operatorManager_def newManager_def controllerRequests_def)
qed

text \<open>(C19)
  Which requests an event puts into the queues of the two controllers that \<^verbatim>\<open>main\<close> sets up: an event of a
  PtpConfig that PtpConfig, for its controller; an event of a PtpOperatorConfig that one, and an event of a
  DaemonSet the PtpOperatorConfig that controls it, or controlled it before, for the other. Events of all
  other kinds, of Nodes and ConfigMaps as of NodePtpDevices, reach nobody.
\<close>

theorem events_reach_controllers:
  assumes "wired mapper mgr"
  shows "set (managerRequests mapper mgr PtpConfigReconciler ev) =
      (if fst (keyOf (eventObject ev)) = ptpKind ''PtpConfig'' then {requestFor (eventObject ev)} else {}) \<and>
    set (managerRequests mapper mgr PtpOperatorConfigReconciler ev) =
      (if fst (keyOf (eventObject ev)) = ptpKind ''PtpOperatorConfig'' then {requestFor (eventObject ev)}
       else if fst (keyOf (eventObject ev)) = daemonSetKind then \<Union> (configuredBy ` set (eventObjects ev)) else {})"
  using wired_requests [OF assms] by (rule conjI)

text \<open>The DaemonSet of the example is deleted; the reconciler of its PtpOperatorConfig hears of it.\<close>

lemma exampleOwned_configured:
  "configuredBy (UnstructuredObj exampleOwned) =
     {\<lparr>request_Namespace = Namespace, request_Name = DefaultOperatorConfigName\<rparr>}"
  "fst (keyOf (UnstructuredObj exampleOwned)) = daemonSetKind"
proof -
  have "map_option (\<lambda>ref. (ref_Kind ref, map_sum id fst (ParseGroupVersion (ref_APIVersion ref)), ref_Name ref))
      (GetControllerOf (OwnerReferencesOf (UnstructuredObj exampleOwned))) =
      Some (''PtpOperatorConfig'', Inr ''ptp.openshift.io'', DefaultOperatorConfigName)"
    by code_simp
  moreover have "objNamespace (UnstructuredObj exampleOwned) = Namespace" by code_simp
  ultimately show "configuredBy (UnstructuredObj exampleOwned) =
     {\<lparr>request_Namespace = Namespace, request_Name = DefaultOperatorConfigName\<rparr>}"
    by (auto simp: configuredBy_def split: option.splits)
  show "fst (keyOf (UnstructuredObj exampleOwned)) = daemonSetKind" by code_simp
qed

text \<open>A manager that was set up.\<close>

definition exManager :: ControllerManager where
  "exManager = (case main_init exClientgo of Ret scheme \<Rightarrow> operatorManager scheme | Panic m \<Rightarrow> newManager NewScheme)"

abbreviation exMapper :: mapper where "exMapper \<equiv> \<lambda>_ _ _. Inr False"

lemma exManager_wired: "wired exMapper exManager"
proof -
  obtain scheme where s: "main_init exClientgo = Ret scheme" "schemeOk scheme"
    "kindsOf scheme ptpConfigType = [ptpKind ''PtpConfig'']"
    "kindsOf scheme operatorConfigType = [ptpKind ''PtpOperatorConfig'']"
    "GVKForObject ptpConfigType scheme = Inr (ptpKind ''PtpConfig'')"
    "GVKForObject operatorConfigType scheme = Inr (ptpKind ''PtpOperatorConfig'')"
    by (rule operator_scheme [of exClientgo exClientScheme, OF exClientgo_scheme])
  with setup_of_scheme [OF s(2-6), of "()"] exClientgo_scheme show ?thesis
    unfolding wired_def operatorMapper_def exManager_def by auto
qed

lemma events_reach_controllers_witness:
  "set (managerRequests exMapper exManager PtpConfigReconciler (DeleteEvent (UnstructuredObj exampleOwned))) = {} \<and>
   set (managerRequests exMapper exManager PtpOperatorConfigReconciler (DeleteEvent (UnstructuredObj exampleOwned))) =
     {\<lparr>request_Namespace = Namespace, request_Name = DefaultOperatorConfigName\<rparr>}"
proof -
  have kinds: "daemonSetKind \<noteq> ptpKind k" for k by (simp add: ptpKind_def)
  with events_reach_controllers [OF exManager_wired, of "DeleteEvent (UnstructuredObj exampleOwned)"]
  show ?thesis using exampleOwned_configured by (simp del: keyOf.simps)
qed

end
