(* ===== verification/Work_Queue.thy ===== *)
theory Work_Queue
  imports Prelude
begin

text \<open>
  The work queue of a controller, the vendored \<^verbatim>\<open>k8s.io/client-go/util/workqueue\<close>: the queue with its
  sets of dirty and of processed items, and the items that are added after a delay. Times are in
  nanoseconds since the start. That \<^verbatim>\<open>Get\<close> blocks is \<open>None\<close>; the channel to the loop that keeps the delayed
  items is left out, so an item waits from the moment it is given to the queue.
\<close>

section \<open>The queue\<close>

record 'a Queue =
  q_queue :: "'a list"
  q_dirty :: "'a set"
  q_processing :: "'a set"
  q_shuttingDown :: bool
  q_waiting :: "('a \<times> nat) list"

definition newQueue :: "'a Queue" where
  "newQueue = \<lparr>q_queue = [], q_dirty = {}, q_processing = {}, q_shuttingDown = False, q_waiting = []\<rparr>"

definition queue_Add :: "'a \<Rightarrow> 'a Queue \<Rightarrow> 'a Queue" where
  "queue_Add item q =
     (if q_shuttingDown q then q
      else if item \<in> q_dirty q then q
      else let q = q\<lparr>q_dirty := insert item (q_dirty q)\<rparr> in
        if item \<in> q_processing q then q else q\<lparr>q_queue := q_queue q @ [item]\<rparr>)"

definition queue_Get :: "'a Queue \<Rightarrow> ('a \<times> 'a Queue) option" where
  "queue_Get q =
     (case q_queue q of
        [] \<Rightarrow> None
      | item # items \<Rightarrow>
          Some (item, q\<lparr>q_queue := items, q_processing := insert item (q_processing q),
            q_dirty := q_dirty q - {item}\<rparr>))"

definition queue_Done :: "'a \<Rightarrow> 'a Queue \<Rightarrow> 'a Queue" where
  "queue_Done item q =
     (let q = q\<lparr>q_processing := q_processing q - {item}\<rparr> in
      if item \<in> q_dirty q then q\<lparr>q_queue := q_queue q @ [item]\<rparr> else q)"

definition queue_ShutDown :: "'a Queue \<Rightarrow> 'a Queue" where
  "queue_ShutDown q = q\<lparr>q_shuttingDown := True\<rparr>"

section \<open>Delays\<close>

text \<open>An item waits once; a second delay counts if it ends sooner.\<close>

definition insertWaiting :: "'a \<Rightarrow> nat \<Rightarrow> ('a \<times> nat) list \<Rightarrow> ('a \<times> nat) list" where
  "insertWaiting item readyAt waiting =
     (case map_of waiting item of
        Some existing \<Rightarrow> if existing > readyAt then AList.update item readyAt waiting else waiting
      | None \<Rightarrow> waiting @ [(item, readyAt)])"

definition queue_AddAfter :: "nat \<Rightarrow> 'a \<Rightarrow> int \<Rightarrow> 'a Queue \<Rightarrow> 'a Queue" where
  "queue_AddAfter now item duration q =
     (if q_shuttingDown q then q
      else if duration \<le> 0 then queue_Add item q
      else q\<lparr>q_waiting := insertWaiting item (now + nat duration) (q_waiting q)\<rparr>)"

text \<open>One round of the waiting loop: the items whose time has come, the earliest first.\<close>

definition readyItems :: "nat \<Rightarrow> 'a Queue \<Rightarrow> 'a list" where
  "readyItems now q = map fst (sort_key snd (filter (\<lambda>(item, readyAt). readyAt \<le> now) (q_waiting q)))"

definition queue_fire :: "nat \<Rightarrow> 'a Queue \<Rightarrow> 'a Queue" where
  "queue_fire now q =
     (if q_shuttingDown q then q
      else fold queue_Add (readyItems now q)
        (q\<lparr>q_waiting := filter (\<lambda>(item, readyAt). \<not> readyAt \<le> now) (q_waiting q)\<rparr>))"

section \<open>What a queue keeps\<close>

definition queueOk :: "'a Queue \<Rightarrow> bool" where
  "queueOk q \<longleftrightarrow> distinct (q_queue q) \<and> set (q_queue q) = q_dirty q - q_processing q \<and>
     distinct (map fst (q_waiting q))"

lemma queueOk_new: "queueOk newQueue"
  by (simp add: queueOk_def newQueue_def)

lemma queueOk_Add: "queueOk q \<Longrightarrow> queueOk (queue_Add x q)"
  by (auto simp: queueOk_def queue_Add_def Let_def)

lemma queue_GetE:
  assumes "queue_Get q = Some (x, q')"
  obtains items where "q_queue q = x # items"
    "q' = q\<lparr>q_queue := items, q_processing := insert x (q_processing q), q_dirty := q_dirty q - {x}\<rparr>"
  using assms by (auto simp: queue_Get_def split: list.splits)

lemma queueOk_Get: "queueOk q \<Longrightarrow> queue_Get q = Some (x, q') \<Longrightarrow> queueOk q'"
  by (elim queue_GetE) (auto simp: queueOk_def)

lemma queueOk_Done: "queueOk q \<Longrightarrow> x \<in> q_processing q \<Longrightarrow> queueOk (queue_Done x q)"
  by (auto simp: queueOk_def queue_Done_def Let_def)

lemma fst_insertWaiting: "fst ` set (insertWaiting x t w) = insert x (fst ` set w)"
proof (cases "map_of w x")
  case (Some u)
  then have "x \<in> fst ` set w" by (metis domI dom_map_of_conv_image_fst)
  with Some show ?thesis by (auto simp: insertWaiting_def dom_update)
qed (auto simp: insertWaiting_def)

lemma distinct_insertWaiting: "distinct (map fst w) \<Longrightarrow> distinct (map fst (insertWaiting x t w))"
  by (auto simp: insertWaiting_def distinct_update map_of_eq_None_iff split: option.split)

lemma queueOk_AddAfter:
  assumes "queueOk q"
  shows "queueOk (queue_AddAfter now x d q)"
proof -
  have "queueOk (q\<lparr>q_waiting := insertWaiting x t (q_waiting q)\<rparr>)" for t
    using assms by (simp add: queueOk_def distinct_insertWaiting)
  with assms queueOk_Add [OF assms] show ?thesis by (auto simp: queue_AddAfter_def)
qed

lemma queueOk_adds: "queueOk q \<Longrightarrow> queueOk (fold queue_Add xs q)"
  by (induction xs arbitrary: q) (auto intro: queueOk_Add)

lemma distinct_filter_fst: "distinct (map fst w) \<Longrightarrow> distinct (map fst (filter P w))"
  by (induction w) auto

lemma queueOk_fire: "queueOk q \<Longrightarrow> queueOk (queue_fire now q)"
  unfolding queue_fire_def by (auto intro!: queueOk_adds) (simp add: queueOk_def distinct_filter_fst)

section \<open>The history of a queue\<close>

text \<open>What was done with a queue, the last first: items that were accepted, taken by a worker and finished.\<close>

datatype 'a QueueEvent = Accepted 'a | Taken 'a | Finished 'a

fun wantedAfter :: "'a QueueEvent list \<Rightarrow> 'a \<Rightarrow> bool" where
  "wantedAfter [] x = False"
| "wantedAfter (Accepted y # h) x = (y = x \<or> wantedAfter h x)"
| "wantedAfter (Taken y # h) x = (y \<noteq> x \<and> wantedAfter h x)"
| "wantedAfter (Finished y # h) x = wantedAfter h x"

fun runningAfter :: "'a QueueEvent list \<Rightarrow> 'a \<Rightarrow> bool" where
  "runningAfter [] x = False"
| "runningAfter (Accepted y # h) x = runningAfter h x"
| "runningAfter (Taken y # h) x = (y = x \<or> runningAfter h x)"
| "runningAfter (Finished y # h) x = (y \<noteq> x \<and> runningAfter h x)"

text \<open>A delay is no event until it ends; only items that are processed are finished.\<close>

inductive queueTrace :: "'a QueueEvent list \<Rightarrow> 'a Queue \<Rightarrow> bool" where
  trace_new: "queueTrace [] newQueue"
| trace_Add: "queueTrace h q \<Longrightarrow> queueTrace (Accepted x # h) (queue_Add x q)"
| trace_Get: "queueTrace h q \<Longrightarrow> queue_Get q = Some (x, q') \<Longrightarrow> queueTrace (Taken x # h) q'"
| trace_Done: "queueTrace h q \<Longrightarrow> x \<in> q_processing q \<Longrightarrow> queueTrace (Finished x # h) (queue_Done x q)"
| trace_AddAfter: "queueTrace h q \<Longrightarrow> 0 < d \<Longrightarrow> queueTrace h (queue_AddAfter now x d q)"
| trace_fire: "queueTrace h q \<Longrightarrow> queueTrace (rev (map Accepted (readyItems now q)) @ h) (queue_fire now q)"

text \<open>What a history says of a queue that is not shut down.\<close>

definition matches :: "'a QueueEvent list \<Rightarrow> 'a Queue \<Rightarrow> bool" where
  "matches h q \<longleftrightarrow> q_dirty q = Collect (wantedAfter h) \<and> q_processing q = Collect (runningAfter h) \<and> \<not> q_shuttingDown q"

lemma matches_Add: "matches h q \<Longrightarrow> matches (Accepted x # h) (queue_Add x q)"
  by (auto simp: matches_def queue_Add_def Let_def)

lemma matches_adds: "matches h q \<Longrightarrow> matches (rev (map Accepted xs) @ h) (fold queue_Add xs q)"
  by (induction xs arbitrary: h q) (use matches_Add in force)+

lemma queueTrace_keeps: "queueTrace h q \<Longrightarrow> queueOk q \<and> matches h q"
proof (induction rule: queueTrace.induct)
  case trace_new
  show ?case using queueOk_new by (simp add: matches_def newQueue_def)
next
  case (trace_Add h q x)
  then show ?case using queueOk_Add [of q x] matches_Add [of h q x] by simp
next
  case (trace_Get h q x q')
  from trace_Get.hyps(2) obtain items where "q' = q\<lparr>q_queue := items, q_processing := insert x (q_processing q),
      q_dirty := q_dirty q - {x}\<rparr>" by (rule queue_GetE)
  then have "q_dirty q' = q_dirty q - {x}" "q_processing q' = insert x (q_processing q)"
    "q_shuttingDown q' = q_shuttingDown q" by simp_all
  with trace_Get.IH have "matches (Taken x # h) q'" unfolding matches_def by auto
  moreover have "queueOk q'" using queueOk_Get [OF conjunct1 [OF trace_Get.IH] trace_Get.hyps(2)] .
  ultimately show ?case by simp
next
  case (trace_Done h q x)
  then have "queueOk (queue_Done x q)" using queueOk_Done [of q x] by simp
  with trace_Done show ?case by (auto simp: matches_def queue_Done_def Let_def)
next
  case (trace_AddAfter h q d now x)
  then have "queueOk (queue_AddAfter now x d q)" using queueOk_AddAfter [of q] by simp
  with trace_AddAfter show ?case by (simp add: matches_def queue_AddAfter_def)
next
  case (trace_fire h q now)
  then have ok: "queueOk (queue_fire now q)" using queueOk_fire [of q] by simp
  let ?q = "q\<lparr>q_waiting := filter (\<lambda>(item, readyAt). \<not> readyAt \<le> now) (q_waiting q)\<rparr>"
  have "matches h ?q" "\<not> q_shuttingDown q" using trace_fire by (simp_all add: matches_def)
  then have "matches (rev (map Accepted (readyItems now q)) @ h) (queue_fire now q)"
    unfolding queue_fire_def using matches_adds by simp
  with ok show ?case ..
qed

text \<open>(C17)
  The work queue loses nothing and runs nothing twice at once: an item is dirty exactly when it was added
  and not taken since, it is processed exactly when it was taken and not finished since, and it stands in
  the queue, once, exactly when it is dirty and not processed. So an item added while it is processed is
  processed again, and a worker is never given an item that another has.
\<close>

theorem work_queue_history:
  assumes "queueTrace h q"
  shows "(x \<in> q_dirty q \<longleftrightarrow> wantedAfter h x) \<and> (x \<in> q_processing q \<longleftrightarrow> runningAfter h x) \<and>
    (x \<in> set (q_queue q) \<longleftrightarrow> wantedAfter h x \<and> \<not> runningAfter h x) \<and> distinct (q_queue q)"
  using queueTrace_keeps [OF assms] by (auto simp: matches_def queueOk_def)

text \<open>An item that is added while it is processed is queued when it is done.\<close>

definition exampleQueue :: "nat Queue" where
  "exampleQueue = queue_Done 1 (queue_Add 1 (snd (the (queue_Get (queue_Add 2 (queue_Add 1 newQueue))))))"

lemma exampleQueue_trace: "queueTrace [Finished 1, Accepted 1, Taken 1, Accepted 2, Accepted 1] exampleQueue"
proof -
  have "queueTrace [Accepted 2, Accepted 1] (queue_Add 2 (queue_Add (1 :: nat) newQueue))"
    by (intro trace_Add trace_new)
  moreover have "queue_Get (queue_Add 2 (queue_Add (1 :: nat) newQueue)) =
      Some (1, snd (the (queue_Get (queue_Add 2 (queue_Add 1 newQueue)))))"
    by (simp add: queue_Get_def queue_Add_def newQueue_def Let_def)
  ultimately have "queueTrace [Accepted 1, Taken 1, Accepted 2, Accepted 1]
      (queue_Add 1 (snd (the (queue_Get (queue_Add 2 (queue_Add (1 :: nat) newQueue))))))"
    by (intro trace_Add) (rule trace_Get)
  then show ?thesis
    unfolding exampleQueue_def by (rule trace_Done) (simp add: queue_Get_def queue_Add_def newQueue_def Let_def)
qed

lemma work_queue_history_witness: "1 \<in> set (q_queue exampleQueue) \<and> 1 \<notin> q_processing exampleQueue"
  using work_queue_history [OF exampleQueue_trace, of 1] by simp

section \<open>The queue of a controller\<close>

text \<open>
  What the loop of a controller relies on: an item that is wanted, at once or after a delay, stays wanted
  until a worker takes it, and a worker keeps what it has taken until it is done.
\<close>

locale work_queue =
  fixes add :: "'a \<Rightarrow> 'q \<Rightarrow> 'q" and get :: "'q \<Rightarrow> ('a \<times> 'q) option" and finish :: "'a \<Rightarrow> 'q \<Rightarrow> 'q"
    and after :: "nat \<Rightarrow> 'a \<Rightarrow> int \<Rightarrow> 'q \<Rightarrow> 'q" and fire :: "nat \<Rightarrow> 'q \<Rightarrow> 'q"
    and wanted :: "'q \<Rightarrow> 'a set" and running :: "'q \<Rightarrow> 'a set" and usable :: "'q \<Rightarrow> bool"
  assumes add: "usable q \<Longrightarrow> usable (add x q) \<and> wanted (add x q) = insert x (wanted q) \<and> running (add x q) = running q"
    and get: "usable q \<Longrightarrow> get q = Some (x, q') \<Longrightarrow>
      usable q' \<and> wanted q \<subseteq> insert x (wanted q') \<and> running q' = insert x (running q)"
    and finish: "usable q \<Longrightarrow> x \<in> running q \<Longrightarrow>
      usable (finish x q) \<and> wanted (finish x q) = wanted q \<and> running (finish x q) = running q - {x}"
    and after: "usable q \<Longrightarrow>
      usable (after now x d q) \<and> wanted (after now x d q) = insert x (wanted q) \<and> running (after now x d q) = running q"
    and fire: "usable q \<Longrightarrow> usable (fire now q) \<and> wanted (fire now q) = wanted q \<and> running (fire now q) = running q"
begin

text \<open>Somebody will still run.\<close>

definition busy :: "'q \<Rightarrow> bool" where
  "busy q \<longleftrightarrow> wanted q \<union> running q \<noteq> {}"

lemma adds: "usable q \<Longrightarrow>
    usable (fold add xs q) \<and> wanted (fold add xs q) = set xs \<union> wanted q \<and> running (fold add xs q) = running q"
  by (induction xs arbitrary: q) (auto simp: add)

lemma busy_adds: "usable q \<Longrightarrow> busy (fold add xs q) \<longleftrightarrow> xs \<noteq> [] \<or> busy q"
  by (auto simp: busy_def adds)

lemma busy_get: "usable q \<Longrightarrow> get q = Some (x, q') \<Longrightarrow> busy q'"
  using get by (auto simp: busy_def)

lemma busy_fire: "usable q \<Longrightarrow> busy (fire now q) = busy q"
  by (simp add: busy_def fire)

lemma busy_again: "usable q \<Longrightarrow> x \<in> running q \<Longrightarrow> busy (finish x (after now x d q))"
  by (simp add: busy_def after finish)

end

definition q_wanted :: "'a Queue \<Rightarrow> 'a set" where
  "q_wanted q = q_dirty q \<union> fst ` set (q_waiting q)"

definition q_usable :: "'a Queue \<Rightarrow> bool" where
  "q_usable q \<longleftrightarrow> queueOk q \<and> \<not> q_shuttingDown q"

lemma adds_fields: "\<not> q_shuttingDown q \<Longrightarrow> q_dirty (fold queue_Add xs q) = set xs \<union> q_dirty q \<and>
    q_processing (fold queue_Add xs q) = q_processing q \<and> q_waiting (fold queue_Add xs q) = q_waiting q \<and>
    \<not> q_shuttingDown (fold queue_Add xs q)"
  by (induction xs arbitrary: q) (auto simp: queue_Add_def Let_def)

lemma fire_wanted:
  assumes "\<not> q_shuttingDown q"
  shows "q_wanted (queue_fire now q) = q_wanted q" "q_processing (queue_fire now q) = q_processing q"
    "\<not> q_shuttingDown (queue_fire now q)"
proof -
  have ready: "set (readyItems now q) = fst ` {e \<in> set (q_waiting q). snd e \<le> now}"
    by (auto simp: readyItems_def split_def)
  let ?q = "q\<lparr>q_waiting := filter (\<lambda>(item, readyAt). \<not> readyAt \<le> now) (q_waiting q)\<rparr>"
  note f = adds_fields [of ?q "readyItems now q"]
  have fire: "queue_fire now q = fold queue_Add (readyItems now q) ?q" using assms by (simp add: queue_fire_def)
  show "q_processing (queue_fire now q) = q_processing q" "\<not> q_shuttingDown (queue_fire now q)"
    using f assms unfolding fire by simp_all
  have "q_wanted (queue_fire now q) = set (readyItems now q) \<union> q_dirty q \<union> fst ` {e \<in> set (q_waiting q). \<not> snd e \<le> now}"
    using f assms unfolding fire by (auto simp: q_wanted_def split_def)
  also have "\<dots> = q_wanted q" unfolding ready by (auto simp: q_wanted_def)
  finally show "q_wanted (queue_fire now q) = q_wanted q" .
qed

interpretation wq: work_queue queue_Add queue_Get queue_Done queue_AddAfter queue_fire q_wanted q_processing q_usable
proof
  fix q :: "'a Queue" and x q' now d
  assume usable: "q_usable q"
  show "q_usable (queue_Add x q) \<and> q_wanted (queue_Add x q) = insert x (q_wanted q) \<and>
      q_processing (queue_Add x q) = q_processing q"
    using usable queueOk_Add [of q x] by (auto simp: q_usable_def q_wanted_def queue_Add_def Let_def)
  show "q_usable q' \<and> q_wanted q \<subseteq> insert x (q_wanted q') \<and> q_processing q' = insert x (q_processing q)"
    if "queue_Get q = Some (x, q')"
    using usable queueOk_Get [OF _ that] that by (auto simp: q_usable_def q_wanted_def elim!: queue_GetE)
  show "q_usable (queue_Done x q) \<and> q_wanted (queue_Done x q) = q_wanted q \<and>
      q_processing (queue_Done x q) = q_processing q - {x}" if "x \<in> q_processing q"
    using usable queueOk_Done [OF _ that] by (auto simp: q_usable_def q_wanted_def queue_Done_def Let_def)
  show "q_usable (queue_AddAfter now x d q) \<and> q_wanted (queue_AddAfter now x d q) = insert x (q_wanted q) \<and>
      q_processing (queue_AddAfter now x d q) = q_processing q"
    using usable queueOk_AddAfter [of q now x d]
    by (auto simp: q_usable_def q_wanted_def queue_AddAfter_def queue_Add_def Let_def fst_insertWaiting split: if_splits)
  show "q_usable (queue_fire now q) \<and> q_wanted (queue_fire now q) = q_wanted q \<and>
      q_processing (queue_fire now q) = q_processing q"
    using usable queueOk_fire [of q now] fire_wanted [of q now] by (simp add: q_usable_def)
qed

end
