(* ===== verification/Event_Loop.thy ===== *)
theory Event_Loop
  imports Controller_Setup Work_Queue
begin

text \<open>
  The operator as it runs: changes of the server become events, events become requests in the work queues
  of the two controllers, and the worker of each controller takes a request, runs the reconciler and is done
  with it, as \<^verbatim>\<open>internal/controller/controller.go\<close> of the vendored controller-runtime does. Every run is one of
  \<open>Operator_System\<close>. What is new is which reconciliations happen at all: what a controller does not watch
  it does not notice.

  A reconciler reads the server itself; that its reads lag behind, through the cache of the manager, is not
  modelled. Events may be delivered in any order, and more than once.
\<close>

section \<open>The worker of a controller\<close>

definition queue_AddRateLimited :: "nat \<Rightarrow> int \<Rightarrow> 'a \<Rightarrow> 'a Queue \<Rightarrow> 'a Queue" where
  "queue_AddRateLimited now delay item q = queue_AddAfter now item delay q"

text \<open>
  What becomes of a request that was reconciled; the parameter is what the rate limiter answers. The
  reconcilers of the operator never ask to be run again at once, and their errors are not terminal.
\<close>

definition reconcileHandler ::
  "nat \<Rightarrow> int \<Rightarrow> ReconcileRequest \<Rightarrow> Result \<Rightarrow> error option \<Rightarrow> ReconcileRequest Queue \<Rightarrow> ReconcileRequest Queue"
where
  "reconcileHandler now delay req result err q =
     (if err \<noteq> None then queue_AddRateLimited now delay req q
      else if result_RequeueAfter result > 0 then queue_AddAfter now req (result_RequeueAfter result) q
      else q)"

text \<open>The state of a worker: between two requests, before and after the call of the reconciler.\<close>

datatype Worker = Idle | Started ReconcileRequest | Ran ReconcileRequest Result "error option"

record 's Loop =
  loop_server :: 's
  loop_events :: "WatchEvent list"
  loop_queue :: "Reconciler \<Rightarrow> ReconcileRequest Queue"
  loop_worker :: "Reconciler \<Rightarrow> Worker"
  loop_now :: nat

section \<open>The steps of the queues\<close>

definition deliverEvent :: "mapper \<Rightarrow> ControllerManager \<Rightarrow> WatchEvent \<Rightarrow> 's Loop \<Rightarrow> 's Loop" where
  "deliverEvent mapper mgr ev l = l\<lparr>loop_events := remove1 ev (loop_events l),
     loop_queue := \<lambda>r. fold queue_Add (managerRequests mapper mgr r ev) (loop_queue l r)\<rparr>"

definition passTime :: "nat \<Rightarrow> 's Loop \<Rightarrow> 's Loop" where
  "passTime t l = l\<lparr>loop_now := t, loop_queue := \<lambda>r. queue_fire t (loop_queue l r)\<rparr>"

definition takeRequest :: "Reconciler \<Rightarrow> ReconcileRequest \<Rightarrow> ReconcileRequest Queue \<Rightarrow> 's Loop \<Rightarrow> 's Loop" where
  "takeRequest r req q l = l\<lparr>loop_queue := (loop_queue l)(r := q), loop_worker := (loop_worker l)(r := Started req)\<rparr>"

definition finishRequest :: "Reconciler \<Rightarrow> int \<Rightarrow> ReconcileRequest \<Rightarrow> Result \<Rightarrow> error option \<Rightarrow> 's Loop \<Rightarrow> 's Loop" where
  "finishRequest r delay req result err l =
     l\<lparr>loop_queue := (loop_queue l)(r := queue_Done req (reconcileHandler (loop_now l) delay req result err (loop_queue l r))),
       loop_worker := (loop_worker l)(r := Idle)\<rparr>"

inductive queueStep :: "mapper \<Rightarrow> ControllerManager \<Rightarrow> 's Loop \<Rightarrow> 's Loop \<Rightarrow> bool"
  for mapper mgr where
  deliver: "ev \<in> set (loop_events l) \<Longrightarrow> queueStep mapper mgr l (deliverEvent mapper mgr ev l)"
| pass: "loop_now l \<le> t \<Longrightarrow> queueStep mapper mgr l (passTime t l)"
| take: "loop_worker l r = Idle \<Longrightarrow> queue_Get (loop_queue l r) = Some (req, q) \<Longrightarrow>
    queueStep mapper mgr l (takeRequest r req q l)"
| finish: "loop_worker l r = Ran req result err \<Longrightarrow> queueStep mapper mgr l (finishRequest r delay req result err l)"

inductive_cases queueStepE: "queueStep mapper mgr l l'"

lemmas queueStep_cases = queueStepE [consumes 1, case_names deliver pass take finish]

section \<open>The steps of the server\<close>

text \<open>Every object that differs has an event.\<close>

definition covers :: "(Key \<rightharpoonup> Object) \<Rightarrow> (Key \<rightharpoonup> Object) \<Rightarrow> WatchEvent list \<Rightarrow> bool" where
  "covers m m' evs \<longleftrightarrow> (\<forall>k. m k \<noteq> m' k \<longrightarrow> (\<exists>ev \<in> set evs. keyOf (eventObject ev) = k))"

definition changed :: "'s \<Rightarrow> WatchEvent list \<Rightarrow> 's Loop \<Rightarrow> 's Loop" where
  "changed s evs l = l\<lparr>loop_server := s, loop_events := loop_events l @ evs\<rparr>"

definition ran :: "Reconciler \<Rightarrow> ReconcileRequest \<Rightarrow> Result \<Rightarrow> error option \<Rightarrow> 's Loop \<Rightarrow> 's Loop" where
  "ran r req result err l = l\<lparr>loop_worker := (loop_worker l)(r := Ran req result err)\<rparr>"

text \<open>A process that starts: its queues are empty, and its watches begin with what is there.\<close>

definition booted :: "'s \<Rightarrow> WatchEvent list \<Rightarrow> 's Loop" where
  "booted s evs = \<lparr>loop_server = s, loop_events = evs, loop_queue = \<lambda>_. newQueue, loop_worker = \<lambda>_. Idle, loop_now = 0\<rparr>"

text \<open>
  The process may end at any time and be started again; it ends when a reconciler panics. The others
  include the end of a watch and the periodic resync, which give events without a change.
\<close>

inductive serverStep :: "'s Client \<Rightarrow> ('s \<Rightarrow> Key \<rightharpoonup> Object) \<Rightarrow> marshaller \<Rightarrow> 's Loop \<Rightarrow> 's Loop \<Rightarrow> bool"
  for c lookup marshal where
  create_default: "createDefaultOperatorConfig newClient c (loop_server l) = (e, s') \<Longrightarrow>
    covers (lookup (loop_server l)) (lookup s') evs \<Longrightarrow> serverStep c lookup marshal l (changed s' evs l)"
| run_operator: "loop_worker l PtpOperatorConfigReconciler = Started req \<Longrightarrow>
    PtpOperatorConfig_Reconcile c (env :: string Env) (loop_server l) = ((result, err), s') \<Longrightarrow>
    covers (lookup (loop_server l)) (lookup s') evs \<Longrightarrow>
    serverStep c lookup marshal l (ran PtpOperatorConfigReconciler req result err (changed s' evs l))"
| run_config: "loop_worker l PtpConfigReconciler = Started req \<Longrightarrow>
    PtpConfig_Reconcile srt marshal c (loop_server l) = (Ret (result, err), s') \<Longrightarrow>
    covers (lookup (loop_server l)) (lookup s') evs \<Longrightarrow>
    serverStep c lookup marshal l (ran PtpConfigReconciler req result err (changed s' evs l))"
| run_panics: "loop_worker l PtpConfigReconciler = Started req \<Longrightarrow>
    PtpConfig_Reconcile srt marshal c (loop_server l) = (Panic m, s') \<Longrightarrow>
    covers Map.empty (lookup s') evs \<Longrightarrow> serverStep c lookup marshal l (booted s' evs)"
| restart: "covers Map.empty (lookup (loop_server l)) evs \<Longrightarrow> serverStep c lookup marshal l (booted (loop_server l) evs)"
| user: "wellTyped (lookup s') \<Longrightarrow>
    lookup s' publishedKey = lookup (loop_server l) publishedKey \<or> lookup s' publishedKey = None \<Longrightarrow>
    covers (lookup (loop_server l)) (lookup s') evs \<Longrightarrow> serverStep c lookup marshal l (changed s' evs l)"

inductive_cases serverStepE: "serverStep c lookup marshal l l'"

lemmas serverStep_cases =
  serverStepE [consumes 1, case_names create_default run_operator run_config run_panics restart user]

inductive loopReachable ::
  "'s Client \<Rightarrow> ('s \<Rightarrow> Key \<rightharpoonup> Object) \<Rightarrow> marshaller \<Rightarrow> mapper \<Rightarrow> ControllerManager \<Rightarrow> 's Loop \<Rightarrow> bool"
  for c lookup marshal mapper mgr where
  loop_boot: "installed (lookup s) \<Longrightarrow> covers Map.empty (lookup s) evs \<Longrightarrow>
    loopReachable c lookup marshal mapper mgr (booted s evs)"
| loop_queues: "loopReachable c lookup marshal mapper mgr l \<Longrightarrow> queueStep mapper mgr l l' \<Longrightarrow>
    loopReachable c lookup marshal mapper mgr l'"
| loop_server: "loopReachable c lookup marshal mapper mgr l \<Longrightarrow> serverStep c lookup marshal l l' \<Longrightarrow>
    loopReachable c lookup marshal mapper mgr l'"

section \<open>The operator as a system of the server\<close>

lemma queueStep_server: "queueStep mapper mgr l l' \<Longrightarrow> loop_server l' = loop_server l"
  by (elim queueStepE) (simp_all add: deliverEvent_def passTime_def takeRequest_def finishRequest_def)

lemma serverStep_step:
  "serverStep c lookup marshal l l' \<Longrightarrow>
   loop_server l' = loop_server l \<or> step c lookup marshal (loop_server l) (loop_server l')"
  by (elim serverStepE)
    (auto simp: changed_def ran_def booted_def intro: start_up operator_config ptp_config others)

lemma loop_reachable:
  "loopReachable c lookup marshal mapper mgr l \<Longrightarrow> reachable c lookup marshal (loop_server l)"
proof (induction rule: loopReachable.induct)
  case (loop_boot s evs)
  then show ?case by (simp add: booted_def reachable_start)
next
  case (loop_queues l l')
  then show ?case using queueStep_server by metis
next
  case (loop_server l l')
  then show ?case using serverStep_step reachable_step by metis
qed


section \<open>What is still to be done\<close>

fun workerItems :: "Worker \<Rightarrow> ReconcileRequest set" where
  "workerItems Idle = {}"
| "workerItems (Started req) = {req}"
| "workerItems (Ran req result err) = {req}"

definition queuesOk :: "'s Loop \<Rightarrow> bool" where
  "queuesOk l \<longleftrightarrow> (\<forall>r. q_usable (loop_queue l r) \<and> q_processing (loop_queue l r) = workerItems (loop_worker l r))"

text \<open>Whether a worker still has to run the reconciler, or is to give the request back to the queue.\<close>

fun again :: "Worker \<Rightarrow> bool" where
  "again Idle \<longleftrightarrow> False"
| "again (Started req) \<longleftrightarrow> True"
| "again (Ran req result err) \<longleftrightarrow> err \<noteq> None \<or> result_RequeueAfter result > 0"

fun ownKind :: "Reconciler \<Rightarrow> GroupVersionKind" where
  "ownKind PtpConfigReconciler = ptpKind ''PtpConfig''"
| "ownKind PtpOperatorConfigReconciler = ptpKind ''PtpOperatorConfig''"

definition announced :: "GroupVersionKind \<Rightarrow> WatchEvent list \<Rightarrow> bool" where
  "announced gvk evs \<longleftrightarrow> (\<exists>ev \<in> set evs. fst (keyOf (eventObject ev)) = gvk)"

definition hasWork :: "Reconciler \<Rightarrow> 's Loop \<Rightarrow> bool" where
  "hasWork r l \<longleftrightarrow> announced (ownKind r) (loop_events l) \<or> q_wanted (loop_queue l r) \<noteq> {} \<or> again (loop_worker l r)"

lemma announced_append [simp]: "announced gvk (evs @ evs') \<longleftrightarrow> announced gvk evs \<or> announced gvk evs'"
  by (auto simp: announced_def)

lemma covers_announced: "covers m m' evs \<Longrightarrow> m k \<noteq> m' k \<Longrightarrow> announced (fst k) evs"
  unfolding covers_def announced_def by metis

lemma covers_new: "covers Map.empty m evs \<Longrightarrow> m k \<noteq> None \<Longrightarrow> announced (fst k) evs"
  by (rule covers_announced) auto

lemma ownKind_requests:
  assumes "wired mapper mgr" "fst (keyOf (eventObject ev)) = ownKind r"
  shows "managerRequests mapper mgr r ev \<noteq> []"
proof (cases r)
  case PtpOperatorConfigReconciler
  with wired_requests(2) [OF assms(1), of ev] assms(2) show ?thesis by auto
next
  case PtpConfigReconciler
  with wired_requests(1) [OF assms(1), of ev] assms(2) show ?thesis by auto
qed

lemma reconcileHandler_queue:
  assumes "q_usable q"
  shows "q_usable (reconcileHandler now delay req result err q)"
    "q_processing (reconcileHandler now delay req result err q) = q_processing q"
    "q_wanted (reconcileHandler now delay req result err q) =
      (if again (Ran req result err) then insert req (q_wanted q) else q_wanted q)"
  using wq.after [OF assms] assms by (simp_all add: reconcileHandler_def queue_AddRateLimited_def)

lemma reconcileHandler_ended [simp]: "reconcileHandler now delay req emptyResult None q = q"
  by (simp add: reconcileHandler_def emptyResult_def)

lemma queuesOk_step:
  assumes "queueStep mapper mgr l l'" "queuesOk l"
  shows "queuesOk l'"
  using assms(1)
proof (cases rule: queueStep_cases)
  case (deliver ev)
  show ?thesis using assms(2) by (simp add: queuesOk_def deliver deliverEvent_def wq.adds)
next
  case (pass t)
  show ?thesis using assms(2) by (simp add: queuesOk_def pass passTime_def wq.fire)
next
  case (take r req q)
  have "q_usable q" "q_processing q = {req}"
    using wq.get [OF _ take(3)] assms(2) take(2) by (auto simp: queuesOk_def)
  with assms(2) show ?thesis by (simp add: queuesOk_def take takeRequest_def)
next
  case (finish r req result err delay)
  let ?q = "reconcileHandler (loop_now l) delay req result err (loop_queue l r)"
  have usable: "q_usable (loop_queue l r)" "q_processing (loop_queue l r) = {req}"
    using assms(2) finish(2) by (simp_all add: queuesOk_def)
  note after = reconcileHandler_queue [OF usable(1), of "loop_now l" delay req result err]
  have "q_usable (queue_Done req ?q)" "q_processing (queue_Done req ?q) = {}"
    using wq.finish [OF after(1), of req] after(2) usable(2) by simp_all
  with assms(2) show ?thesis by (simp add: queuesOk_def finish finishRequest_def)
qed

lemma remove1_keeps: "x \<in> set xs \<Longrightarrow> x = y \<or> x \<in> set (remove1 y xs)"
  by (induction xs) auto

lemma hasWork_step:
  assumes "queueStep mapper mgr l l'" "queuesOk l" "wired mapper mgr" "hasWork r l"
  shows "hasWork r l'"
  using assms(1)
proof (cases rule: queueStep_cases)
  case (deliver ev)
  have wanted: "q_wanted (loop_queue l' r) = set (managerRequests mapper mgr r ev) \<union> q_wanted (loop_queue l r)"
    using assms(2) by (simp add: queuesOk_def deliver deliverEvent_def wq.adds)
  have rest: "loop_events l' = remove1 ev (loop_events l)" "loop_worker l' = loop_worker l"
    by (simp_all add: deliver deliverEvent_def)
  show ?thesis
  proof (cases "fst (keyOf (eventObject ev)) = ownKind r")
    case True
    with ownKind_requests [OF assms(3)] wanted show ?thesis by (simp add: hasWork_def)
  next
    case False
    from False remove1_keeps [of _ "loop_events l" ev] have "announced (ownKind r) (loop_events l) \<Longrightarrow> announced (ownKind r) (loop_events l')"
      unfolding announced_def rest by blast
    with assms(4) wanted rest(2) show ?thesis by (auto simp: hasWork_def)
  qed
next
  case (pass t)
  show ?thesis using assms(2,4) by (simp add: hasWork_def queuesOk_def pass passTime_def wq.fire)
next
  case (take r' req q)
  then show ?thesis using assms(4) by (auto simp: hasWork_def takeRequest_def)
next
  case (finish r' req result err delay)
  show ?thesis
  proof (cases "r' = r")
    case True
    let ?q = "reconcileHandler (loop_now l) delay req result err (loop_queue l r)"
    have usable: "q_usable (loop_queue l r)" "q_processing (loop_queue l r) = {req}"
      using assms(2) finish(2) True by (simp_all add: queuesOk_def)
    note after = reconcileHandler_queue [OF usable(1), of "loop_now l" delay req result err]
    have "q_wanted (queue_Done req ?q) = q_wanted ?q"
      using wq.finish [OF after(1), of req] after(2) usable(2) by simp
    with assms(4) after(3) finish True show ?thesis
      by (auto simp: hasWork_def finishRequest_def split: if_splits)
  next
    case False
    with assms(4) finish show ?thesis by (simp add: hasWork_def finishRequest_def)
  qed
qed

lemma queuesOk_booted: "queuesOk (booted s evs)"
  by (simp add: queuesOk_def booted_def q_usable_def queueOk_new) (simp add: newQueue_def)

lemma queuesOk_server:
  assumes "serverStep c lookup marshal l l'" "queuesOk l"
  shows "queuesOk l'"
proof -
  have "(\<exists>s evs. l' = booted s evs) \<or> loop_queue l' = loop_queue l \<and>
      (\<forall>r. workerItems (loop_worker l' r) = workerItems (loop_worker l r))"
    using assms(1) by (cases rule: serverStep_cases) (auto simp: changed_def ran_def)
  with assms(2) queuesOk_booted show ?thesis unfolding queuesOk_def by metis
qed

lemma loop_queuesOk: "loopReachable c lookup marshal mapper mgr l \<Longrightarrow> queuesOk l"
  by (induction rule: loopReachable.induct) (simp_all add: queuesOk_booted queuesOk_step queuesOk_server)

section \<open>The controller of PtpOperatorConfigs\<close>

context api_client
begin

text \<open>A run that asks for nothing more has created the default configuration.\<close>

lemma operator_run_ends:
  assumes "PtpOperatorConfig_Reconcile c env s = ((result, err), s')"
  shows "again (Ran req result err) \<or> lookup s cfgKey \<noteq> lookup s' cfgKey"
proof -
  obtain g s1 where get: "GetPtpOperatorConfig c Namespace DefaultOperatorConfigName s = (g, s1)" by force
  show ?thesis
  proof (cases g)
    case (Inr cfg)
    have "again (Ran req result err)"
      using assms get Inr by (auto simp: PtpOperatorConfig_Reconcile_def ResyncPeriod_def split: sum.splits option.splits prod.splits)
    then show ?thesis ..
  next
    case (Inl e)
    obtain e2 s2 where cr: "client_Create c (PtpOperatorConfigObj defaultConfig) s1 = (e2, s2)" by force
    have key: "keyOf (PtpOperatorConfigObj defaultConfig) = cfgKey" by (simp add: defaultConfig_def)
    have same: "lookup s1 = lookup s" using typed_get_frame get unfolding GetPtpOperatorConfig_def by metis
    have "err \<noteq> None \<or> e2 = None \<and> s' = s2"
      using assms get Inl cr by (auto simp: PtpOperatorConfig_Reconcile_def split: if_splits option.splits)
    then show ?thesis
    proof
      assume "e2 = None \<and> s' = s2"
      with cr have "client_Create c (PtpOperatorConfigObj defaultConfig) s1 = (None, s')" by simp
      then obtain stored where "lookup s1 cfgKey = None" "lookup s' = (lookup s1)(cfgKey \<mapsto> stored)"
        unfolding key [symmetric] by (rule create_lookup)
      with same show ?thesis by simp
    qed simp
  qed
qed

lemma operator_never_idle:
  assumes "loopReachable c lookup marshal mapper mgr l" "wired mapper mgr"
  shows "lookup (loop_server l) cfgKey \<noteq> None \<Longrightarrow> hasWork PtpOperatorConfigReconciler l"
  using assms(1)
proof (induction rule: loopReachable.induct)
  case (loop_boot s evs)
  then show ?case using covers_new [of "lookup s" evs cfgKey] by (simp add: hasWork_def booted_def)
next
  case (loop_queues l l')
  then show ?case
    using hasWork_step [OF loop_queues.hyps(2) loop_queuesOk [OF loop_queues.hyps(1)] assms(2)] queueStep_server by metis
next
  case (loop_server l l')
  note cfg = loop_server.prems
  let ?kind = "ptpKind ''PtpOperatorConfig''"
  have event: "announced ?kind evs" if "covers m (lookup (loop_server l')) evs" "m cfgKey \<noteq> lookup (loop_server l') cfgKey" for m evs
    using covers_announced [OF that] by simp
  have kept: "hasWork PtpOperatorConfigReconciler (changed s' evs l)"
    if "covers (lookup (loop_server l)) (lookup s') evs" "loop_server l' = s'" for s' evs
  proof (cases "lookup (loop_server l) cfgKey = None")
    case True
    with cfg have "lookup (loop_server l) cfgKey \<noteq> lookup (loop_server l') cfgKey" by metis
    with that event [of "lookup (loop_server l)" evs] show ?thesis by (simp add: hasWork_def changed_def)
  next
    case False
    with loop_server.IH show ?thesis by (auto simp: hasWork_def changed_def)
  qed
  have anew: "hasWork PtpOperatorConfigReconciler l'" if "l' = booted s evs" "covers Map.empty (lookup s) evs" for s evs
    using covers_new [of "lookup s" evs cfgKey] that cfg by (simp add: hasWork_def booted_def)
  from loop_server.hyps(2) show ?case
  proof (cases rule: serverStep_cases)
    case (create_default newClient e s' evs)
    then show ?thesis using kept [of s' evs] by (simp add: changed_def)
  next
    case (run_operator req env result err s' evs)
    have "again (Ran req result err) \<or> announced ?kind evs"
      using operator_run_ends [OF run_operator(3)] event [of "lookup (loop_server l)" evs] run_operator(1,4)
      by (auto simp: changed_def ran_def)
    then show ?thesis by (auto simp: run_operator(1) hasWork_def changed_def ran_def)
  next
    case (run_config req srt result err s' evs)
    then show ?thesis using kept [of s' evs] by (simp add: hasWork_def changed_def ran_def)
  next
    case (run_panics req srt m s' evs)
    then show ?thesis by (intro anew)
  next
    case (restart evs)
    then show ?thesis by (intro anew)
  next
    case (user s' evs)
    then show ?thesis using kept [of s' evs] by (simp add: changed_def)
  qed
qed

end

text \<open>(C6)
  As long as the default PtpOperatorConfig exists the operator is never at rest: in every state that can be
  reached an event of a PtpOperatorConfig is on its way, a request is in the queue or waits for its time, or
  the worker runs or will give its request back. So the manifests are applied again and again, whatever
  fails.
\<close>

theorem operator_keeps_working:
  assumes "api_client c lookup" "wired mapper mgr" "loopReachable c lookup marshal mapper mgr l"
    and "lookup (loop_server l) cfgKey \<noteq> None"
  shows "announced (ptpKind ''PtpOperatorConfig'') (loop_events l) \<or>
    q_wanted (loop_queue l PtpOperatorConfigReconciler) \<noteq> {} \<or> again (loop_worker l PtpOperatorConfigReconciler)"
  using api_client.operator_never_idle [OF assms(1), of marshal mapper mgr l] assms(2-4) by (simp add: hasWork_def)

section \<open>The controller of PtpConfigs\<close>

text \<open>What is published was computed from the PtpConfigs that there are, and from nodes that there were.\<close>

definition upToDate :: "'s Client \<Rightarrow> ('s \<Rightarrow> Key \<rightharpoonup> Object) \<Rightarrow> marshaller \<Rightarrow> (Key \<rightharpoonup> Object) \<Rightarrow> bool" where
  "upToDate c lookup marshal m \<longleftrightarrow> (\<forall>cm. m publishedKey = Some (ConfigMapObj cm) \<longrightarrow> cm_Data cm = [] \<or>
     (\<exists>srt s0 cfgs nodes. reachable c lookup marshal s0 \<and> set cfgs = fleet_Configs (absFleet m) \<and>
        set nodes = fleet_Nodes (absFleet (lookup s0)) \<and>
        nodeData srt marshal \<lparr>configlist_Items = cfgs\<rparr> nodes [] = Ret (Inr (cm_Data cm))))"

text \<open>A server with the resource PtpConfig never answers a list of it with not found.\<close>

definition listsConfigs :: "'s Client \<Rightarrow> bool" where
  "listsConfigs c \<longleftrightarrow> (\<forall>s err. fst (client_List c (ptpKind ''PtpConfig'') s) = Inl err \<longrightarrow> \<not> IsNotFound err)"

lemma listsConfigs_typed: "listsConfigs c \<Longrightarrow> fst (ListPtpConfigs c s) = Inl err \<Longrightarrow> \<not> IsNotFound err"
  by (cases "client_List c (ptpKind ''PtpConfig'') s"; cases "fst (client_List c (ptpKind ''PtpConfig'') s)")
    (auto simp: listsConfigs_def ListPtpConfigs_def typedList_def dest: spec [of _ s])

lemma fleet_Configs_changed:
  assumes "covers m m' evs" "\<not> announced (ptpKind ''PtpConfig'') evs"
  shows "fleet_Configs (absFleet m') = fleet_Configs (absFleet m)"
proof -
  have "m (ptpKind ''PtpConfig'', ns, name) = m' (ptpKind ''PtpConfig'', ns, name)" for ns name
    using covers_announced [OF assms(1), of "(ptpKind ''PtpConfig'', ns, name)"] assms(2) by auto
  then show ?thesis by (simp add: absFleet_def)
qed

lemma fleet_Configs_new:
  assumes "covers Map.empty m evs" "\<not> announced (ptpKind ''PtpConfig'') evs"
  shows "fleet_Configs (absFleet m) = {}"
  using fleet_Configs_changed [OF assms] by (simp add: absFleet_def)

lemma upToDate_kept:
  assumes "upToDate c lookup marshal m" "fleet_Configs (absFleet m') = fleet_Configs (absFleet m)"
    and "\<And>cm. m' publishedKey = Some (ConfigMapObj cm) \<Longrightarrow> m publishedKey = Some (ConfigMapObj cm) \<or> cm_Data cm = []"
  shows "upToDate c lookup marshal m'"
  using assms unfolding upToDate_def by metis

lemma PtpConfig_Reconcile_result: "PtpConfig_Reconcile srt marshal c s = (Ret (result, err), s') \<Longrightarrow> result = emptyResult"
  by (auto simp: PtpConfig_Reconcile_def split: prod.splits sum.splits if_splits go.splits option.splits)

definition configSettled :: "'s Client \<Rightarrow> ('s \<Rightarrow> Key \<rightharpoonup> Object) \<Rightarrow> marshaller \<Rightarrow> 's Loop \<Rightarrow> bool" where
  "configSettled c lookup marshal l \<longleftrightarrow> hasWork PtpConfigReconciler l \<or>
     fleet_Configs (absFleet (lookup (loop_server l))) = {} \<or> upToDate c lookup marshal (lookup (loop_server l))"

lemma configSettled_changed:
  assumes "configSettled c lookup marshal l" "covers (lookup (loop_server l)) (lookup s') evs"
    and "\<And>cm. lookup s' publishedKey = Some (ConfigMapObj cm) \<Longrightarrow>
      lookup (loop_server l) publishedKey = Some (ConfigMapObj cm) \<or> cm_Data cm = []"
  shows "configSettled c lookup marshal (changed s' evs l)"
proof (cases "announced (ptpKind ''PtpConfig'') evs")
  case False
  note same = fleet_Configs_changed [OF assms(2) False]
  show ?thesis
    using assms(1) same upToDate_kept [OF _ same assms(3)]
    by (auto simp: configSettled_def hasWork_def changed_def)
qed (simp add: configSettled_def hasWork_def changed_def)

lemma configSettled_booted: "covers Map.empty (lookup s) evs \<Longrightarrow> configSettled c lookup marshal (booted s evs)"
  using fleet_Configs_new by (auto simp: configSettled_def hasWork_def booted_def)

context api_client
begin

lemma config_run:
  assumes "PtpConfig_Reconcile srt marshal c s = (Ret (result, err), s')" "reachable c lookup marshal s" "listsConfigs c"
  shows "again (Ran req result err) \<or> upToDate c lookup marshal (lookup s')"
proof -
  note typed = reachable_wellTyped [OF assms(2)]
  show ?thesis
  proof (cases rule: PtpConfig_Reconcile_cases [OF assms(1) typed])
    case 1
    with PtpConfig_Reconcile_result [OF assms(1)] listsConfigs_typed [OF assms(3)] show ?thesis by auto
  next
    case (2 cfgs nodes d cm stored)
    note fleet = lists_of_fleet [OF typed 2(2,3)]
    have "cm_Data stored = d" "lookup s' publishedKey = Some (ConfigMapObj stored)" using 2(6,7) by simp_all
    moreover have "fleet_Configs (absFleet (lookup s')) = fleet_Configs (absFleet (lookup s))"
      by (simp add: absFleet_upd [OF 2(6)])
    ultimately have "upToDate c lookup marshal (lookup s')"
      unfolding upToDate_def using 2(4) fleet(1,3) assms(2) by auto
    then show ?thesis ..
  qed
qed

lemma loop_configSettled:
  assumes "loopReachable c lookup marshal mapper mgr l" "wired mapper mgr" "listsConfigs c"
  shows "configSettled c lookup marshal l"
  using assms(1)
proof (induction rule: loopReachable.induct)
  case (loop_boot s evs)
  then show ?case by (intro configSettled_booted)
next
  case (loop_queues l l')
  then show ?case
    using hasWork_step [OF loop_queues.hyps(2) loop_queuesOk [OF loop_queues.hyps(1)] assms(2)] queueStep_server
    unfolding configSettled_def by metis
next
  case (loop_server l l')
  note old = configSettled_changed [OF loop_server.IH]
  have worker: "configSettled c lookup marshal (ran PtpOperatorConfigReconciler req result err k) = configSettled c lookup marshal k"
    for req result err k
    by (simp add: configSettled_def hasWork_def ran_def)
  from loop_server.hyps(2) show ?case
  proof (cases rule: serverStep_cases)
    case (create_default newClient e s' evs)
    from operatorCalls_published [OF createDefault_calls [OF create_default(2)]] old [OF create_default(3)]
    show ?thesis unfolding create_default(1) by blast
  next
    case (run_operator req env result err s' evs)
    from operatorCalls_published [OF operator_Reconcile_calls [OF run_operator(3)]] old [OF run_operator(4)]
    show ?thesis unfolding run_operator(1) worker by blast
  next
    case (run_config req srt result err s' evs)
    from config_run [OF run_config(3) loop_reachable [OF loop_server.hyps(1)] assms(3), of req]
    show ?thesis by (auto simp: run_config(1) configSettled_def hasWork_def ran_def changed_def)
  next
    case (run_panics req srt m s' evs)
    then show ?thesis using configSettled_booted by simp
  next
    case (restart evs)
    then show ?thesis using configSettled_booted by simp
  next
    case (user s' evs)
    have "configSettled c lookup marshal (changed s' evs l)" by (rule old [OF user(4)]) (use user(3) in auto)
    then show ?thesis unfolding user(1) .
  qed
qed

end

text \<open>(C4)
  What the daemons read follows the PtpConfigs: in every state that can be reached, if there are PtpConfigs,
  no event of one is on its way, no request is in the queue of their controller or waits for its time, and
  its worker has nothing more to do, then the data of the ConfigMap are empty or were computed from exactly
  the PtpConfigs that there are, for the nodes of some state of the system.
\<close>

theorem published_follows_configs:
  assumes "api_client c lookup" "wired mapper mgr" "listsConfigs c" "loopReachable c lookup marshal mapper mgr l"
    and "\<not> hasWork PtpConfigReconciler l" "fleet_Configs (absFleet (lookup (loop_server l))) \<noteq> {}"
    and "lookup (loop_server l) publishedKey = Some (ConfigMapObj cm)" "cm_Data cm \<noteq> []"
  shows "\<exists>srt s0 cfgs nodes. reachable c lookup marshal s0 \<and>
    set cfgs = fleet_Configs (absFleet (lookup (loop_server l))) \<and> set nodes = fleet_Nodes (absFleet (lookup s0)) \<and>
    nodeData srt marshal \<lparr>configlist_Items = cfgs\<rparr> nodes [] = Ret (Inr (cm_Data cm))"
  using api_client.loop_configSettled [OF assms(1) assms(4,2,3)] assms(5-8)
  by (simp add: configSettled_def upToDate_def)

section \<open>Letting the controller of PtpConfigs work\<close>

text \<open>A run of its reconciler, and runs of that controller with nobody else in between.\<close>

definition configRun :: "'s Client \<Rightarrow> ('s \<Rightarrow> Key \<rightharpoonup> Object) \<Rightarrow> marshaller \<Rightarrow> 's Loop \<Rightarrow> 's Loop \<Rightarrow> bool" where
  "configRun c lookup marshal l l' \<longleftrightarrow> (\<exists>req srt result err s' evs. loop_worker l PtpConfigReconciler = Started req \<and>
     PtpConfig_Reconcile srt marshal c (loop_server l) = (Ret (result, err), s') \<and>
     covers (lookup (loop_server l)) (lookup s') evs \<and> l' = ran PtpConfigReconciler req result err (changed s' evs l))"

definition progress ::
  "'s Client \<Rightarrow> ('s \<Rightarrow> Key \<rightharpoonup> Object) \<Rightarrow> marshaller \<Rightarrow> mapper \<Rightarrow> ControllerManager \<Rightarrow> 's Loop \<Rightarrow> 's Loop \<Rightarrow> bool"
where
  "progress c lookup marshal mapper mgr = (\<lambda>l l'. queueStep mapper mgr l l' \<or> configRun c lookup marshal l l')\<^sup>*\<^sup>*"

lemma progress_refl: "progress c lookup marshal mapper mgr l l"
  by (simp add: progress_def)

lemma progress_trans:
  "progress c lookup marshal mapper mgr l1 l2 \<Longrightarrow> progress c lookup marshal mapper mgr l2 l3 \<Longrightarrow>
   progress c lookup marshal mapper mgr l1 l3"
  unfolding progress_def by (rule rtranclp_trans)

lemma progress_queues: "(queueStep mapper mgr)\<^sup>*\<^sup>* l l' \<Longrightarrow> progress c lookup marshal mapper mgr l l'"
  unfolding progress_def by (erule rtranclp_mono [THEN predicate2D, rotated]) auto

lemma progress_step: "queueStep mapper mgr l l' \<Longrightarrow> progress c lookup marshal mapper mgr l l'"
  by (rule progress_queues) auto

lemma progress_run: "configRun c lookup marshal l l' \<Longrightarrow> progress c lookup marshal mapper mgr l l'"
  unfolding progress_def by auto

lemma configRun_server: "configRun c lookup marshal l l' \<Longrightarrow> serverStep c lookup marshal l l'"
  unfolding configRun_def by (elim exE conjE) (simp add: run_config)

lemma progress_reachable:
  assumes "progress c lookup marshal mapper mgr l l'" "loopReachable c lookup marshal mapper mgr l"
  shows "loopReachable c lookup marshal mapper mgr l'"
  using assms(1) unfolding progress_def
  by (induction rule: rtranclp_induct) (use assms(2) loop_queues loop_server configRun_server in blast)+

lemma queueSteps_keep:
  assumes "(queueStep mapper mgr)\<^sup>*\<^sup>* l l'" "queuesOk l" "wired mapper mgr"
  shows "queuesOk l' \<and> loop_server l' = loop_server l \<and> (hasWork r l \<longrightarrow> hasWork r l')"
  using assms(1)
proof (induction rule: rtranclp_induct)
  case base
  show ?case using assms(2) by simp
next
  case (step l1 l2)
  then show ?case
    using queuesOk_step [OF step.hyps(2)] queueStep_server [OF step.hyps(2)] hasWork_step [OF step.hyps(2) _ assms(3)] by simp
qed

text \<open>All events are delivered.\<close>

definition delivered :: "mapper \<Rightarrow> ControllerManager \<Rightarrow> 's Loop \<Rightarrow> 's Loop" where
  "delivered mapper mgr l = l\<lparr>loop_events := [], loop_queue := \<lambda>r.
     fold queue_Add (concat (map (managerRequests mapper mgr r) (loop_events l))) (loop_queue l r)\<rparr>"

lemma deliver_all: "(queueStep mapper mgr)\<^sup>*\<^sup>* l (delivered mapper mgr l)"
proof (induction "loop_events l" arbitrary: l)
  case Nil
  then have "delivered mapper mgr l = l" by (simp add: delivered_def)
  then show ?case by simp
next
  case (Cons ev evs)
  then have "queueStep mapper mgr l (deliverEvent mapper mgr ev l)" by (intro deliver) (metis list.set_intros(1))
  moreover have evs: "loop_events (deliverEvent mapper mgr ev l) = evs"
    by (simp add: deliverEvent_def Cons.hyps(2) [symmetric])
  moreover have "delivered mapper mgr (deliverEvent mapper mgr ev l) = delivered mapper mgr l"
    unfolding delivered_def evs unfolding deliverEvent_def by (simp add: Cons.hyps(2) [symmetric])
  ultimately show ?case using Cons.hyps(1) [of "deliverEvent mapper mgr ev l"]
    by (metis converse_rtranclp_into_rtranclp)
qed

text \<open>Events of other kinds leave the controller of PtpConfigs as it is.\<close>

lemma unannounced_requests:
  assumes "wired mapper mgr" "\<not> announced (ptpKind ''PtpConfig'') evs"
  shows "fold queue_Add (concat (map (managerRequests mapper mgr PtpConfigReconciler) evs)) q = q"
  using assms(2)
proof (induction evs arbitrary: q)
  case (Cons ev evs)
  then have "managerRequests mapper mgr PtpConfigReconciler ev = []"
    using wired_requests(1) [OF assms(1), of ev] by (auto simp: announced_def)
  with Cons show ?case by (simp add: announced_def)
qed simp

lemma delivered_idle:
  assumes "wired mapper mgr" "\<not> announced (ptpKind ''PtpConfig'') (loop_events l)"
  shows "loop_queue (delivered mapper mgr l) PtpConfigReconciler = loop_queue l PtpConfigReconciler"
    "loop_worker (delivered mapper mgr l) = loop_worker l" "loop_server (delivered mapper mgr l) = loop_server l"
    "loop_events (delivered mapper mgr l) = []"
  using unannounced_requests [OF assms] by (simp_all add: delivered_def)

lemma covers_update:
  assumes "wellTyped m" "wellTyped m'" "m' = m(k := v)"
  shows "\<exists>evs. covers m m' evs \<and> (\<forall>ev \<in> set evs. keyOf (eventObject ev) = k)"
proof (cases v)
  case (Some obj)
  with assms(3) have "m' k = Some obj" by simp
  with assms(2) have "keyOf obj = k" by (rule wellTypedD)
  then show ?thesis by (intro exI [of _ "[CreateEvent obj]"]) (simp add: covers_def assms(3))
next
  case None
  show ?thesis
  proof (cases "m k")
    case (Some obj)
    with assms(1) have "keyOf obj = k" by (rule wellTypedD)
    then show ?thesis by (intro exI [of _ "[DeleteEvent obj]"]) (simp add: covers_def assms(3))
  next
    case None
    then have "covers m m' []" using \<open>v = None\<close> by (simp add: covers_def assms(3))
    then show ?thesis by (intro exI [of _ "[]"]) simp
  qed
qed


section \<open>The controller of PtpConfigs gets its work done\<close>

text \<open>A fleet with the same configurations and nodes.\<close>

definition fleetAs :: "Fleet \<Rightarrow> Fleet \<Rightarrow> bool" where
  "fleetAs f f' \<longleftrightarrow> fleet_Configs f' = fleet_Configs f \<and> fleet_Nodes f' = fleet_Nodes f"

lemma fleetAs_refl: "fleetAs f f"
  by (simp add: fleetAs_def)

lemma fleetAs_derived:
  assumes "fleetAs f f'"
  shows "fleetProfiles f' = fleetProfiles f" "fleetRecommend f' = fleetRecommend f" "fleet_Nodes f' = fleet_Nodes f"
    "fleet_Configs f' = fleet_Configs f"
  using assms by (simp_all add: fleetAs_def fleetProfiles_def fleetRecommend_def)

lemma fleetAs_publishable: "fleetAs f f' \<Longrightarrow> publishable marshal f' = publishable marshal f"
  by (simp add: publishable_def uniquelyNamed_def deployable_def fleetAs_derived)

lemma fleetAs_publishes: "fleetAs f f' \<Longrightarrow> publishes marshal f' f'' = publishes marshal f f''"
  by (simp add: publishes_def fleetAs_derived)

lemma publishes_fleetAs: "publishes marshal f f' \<Longrightarrow> fleetAs f f'"
  by (simp add: publishes_def fleetAs_def)

text \<open>Where the controller can publish the fleet.\<close>

definition canPublish :: "('s \<Rightarrow> Key \<rightharpoonup> Object) \<Rightarrow> Fleet \<Rightarrow> 's Loop \<Rightarrow> bool" where
  "canPublish lookup f l \<longleftrightarrow> queuesOk l \<and> wellTyped (lookup (loop_server l)) \<and>
     (\<exists>cm. lookup (loop_server l) publishedKey = Some (ConfigMapObj cm)) \<and>
     fleetAs f (absFleet (lookup (loop_server l)))"

context reliable_client
begin

text \<open>A worker that has started publishes, and the event of the ConfigMap is delivered to nobody.\<close>

lemma work_started:
  fixes srt :: recommendSort
  assumes "wired mapper mgr" "sort_slice_contract srt" "publishable marshal f" "canPublish lookup f l"
    and "loop_worker l PtpConfigReconciler = Started req" "loop_events l = []"
  shows "\<exists>l'. progress c lookup marshal mapper mgr l l' \<and> canPublish lookup f l' \<and>
    publishes marshal f (absFleet (lookup (loop_server l'))) \<and>
    loop_worker l' PtpConfigReconciler = Idle \<and> loop_events l' = [] \<and>
    loop_queue l' PtpConfigReconciler = queue_Done req (loop_queue l PtpConfigReconciler)"
proof -
  let ?s = "loop_server l"
  obtain cm where cm: "lookup ?s publishedKey = Some (ConfigMapObj cm)"
    and ok: "queuesOk l" "wellTyped (lookup ?s)" "fleetAs f (absFleet (lookup ?s))"
    using assms(4) unfolding canPublish_def by blast
  from Reconcile_publishes [OF assms(2) ok(2) cm] assms(3) ok(3) obtain s'
    where run: "PtpConfig_Reconcile srt marshal c ?s = (Ret (emptyResult, None), s')"
      and pub: "publishes marshal f (absFleet (lookup s'))"
    by (auto simp: fleetAs_publishable fleetAs_publishes)
  have key: "keyOf (ConfigMapObj cm) = publishedKey" using ok(2) cm by (rule wellTypedD)
  define evs where "evs = [UpdateEvent (ConfigMapObj cm) (ConfigMapObj cm)]"
  have effect: "(\<exists>cm'. lookup s' publishedKey = Some (ConfigMapObj cm')) \<and> wellTyped (lookup s') \<and>
      covers (lookup ?s) (lookup s') evs"
  proof (cases rule: PtpConfig_Reconcile_cases [OF run ok(2)])
    case 1
    with cm ok(2) show ?thesis by (simp add: covers_def)
  next
    case (2 cfgs nodes d cm0 stored)
    have "covers (lookup ?s) (lookup s') evs" using key by (simp add: covers_def evs_def 2(6) del: keyOf.simps)
    with 2 ok(2) show ?thesis using wellTyped_upd [of "lookup ?s" "ConfigMapObj stored" publishedKey] by simp
  qed
  let ?l1 = "ran PtpConfigReconciler req emptyResult None (changed s' evs l)"
  let ?l2 = "delivered mapper mgr ?l1"
  let ?l3 = "finishRequest PtpConfigReconciler 0 req emptyResult None ?l2"
  have "configRun c lookup marshal l ?l1" unfolding configRun_def using assms(5) run effect by blast
  have kind: "fst publishedKey \<noteq> ptpKind ''PtpConfig''" by (simp add: cmKey_def coreKind_def ptpKind_def)
  have unseen: "\<not> announced (ptpKind ''PtpConfig'') (loop_events ?l1)"
    using assms(6) kind key by (simp add: changed_def ran_def announced_def evs_def del: keyOf.simps)
  note idle = delivered_idle [OF assms(1) unseen]
  have worker: "loop_worker ?l2 PtpConfigReconciler = Ran req emptyResult None" by (simp add: idle) (simp add: ran_def)
  have "(queueStep mapper mgr)\<^sup>*\<^sup>* ?l1 ?l3"
    using deliver_all [of mapper mgr ?l1] finish [OF worker, of mapper mgr 0] by (rule rtranclp.rtrancl_into_rtrancl)
  note queues = this
  have "queuesOk ?l1" using queuesOk_server [OF configRun_server] \<open>configRun c lookup marshal l ?l1\<close> ok(1) by blast
  from queueSteps_keep [OF queues this assms(1)] have l3: "queuesOk ?l3" "loop_server ?l3 = s'"
    by (simp_all add: ran_def changed_def)
  have queue: "loop_queue ?l3 PtpConfigReconciler = queue_Done req (loop_queue l PtpConfigReconciler)"
    by (simp add: finishRequest_def idle) (simp add: ran_def changed_def)
  have over: "loop_worker ?l3 PtpConfigReconciler = Idle" "loop_events ?l3 = []"
    by (simp_all add: finishRequest_def idle)
  have "progress c lookup marshal mapper mgr l ?l3"
    using progress_trans [OF progress_run progress_queues [OF queues]] \<open>configRun c lookup marshal l ?l1\<close> by blast
  moreover have "canPublish lookup f ?l3"
    using l3 effect publishes_fleetAs [OF pub] by (simp add: canPublish_def)
  moreover have "publishes marshal f (absFleet (lookup (loop_server ?l3)))" using l3(2) pub by simp
  ultimately show ?thesis using queue over by blast
qed

text \<open>The requests in the queue are worked off one by one.\<close>

lemma work_off:
  fixes srt :: recommendSort
  assumes "wired mapper mgr" "sort_slice_contract srt" "publishable marshal f" "canPublish lookup f l"
    and "loop_worker l PtpConfigReconciler = Idle" "loop_events l = []" "q_waiting (loop_queue l PtpConfigReconciler) = []"
    and "q_queue (loop_queue l PtpConfigReconciler) = reqs"
    and "reqs \<noteq> [] \<or> publishes marshal f (absFleet (lookup (loop_server l)))"
  shows "\<exists>l'. progress c lookup marshal mapper mgr l l' \<and> \<not> hasWork PtpConfigReconciler l' \<and>
    publishes marshal f (absFleet (lookup (loop_server l')))"
  using assms(4-9)
proof (induction reqs arbitrary: l)
  case Nil
  have "queueOk (loop_queue l PtpConfigReconciler)" "q_processing (loop_queue l PtpConfigReconciler) = {}"
    using Nil.prems(1,2) by (simp_all add: canPublish_def queuesOk_def q_usable_def)
  with Nil.prems(4,5) have "q_wanted (loop_queue l PtpConfigReconciler) = {}" by (simp add: q_wanted_def queueOk_def)
  with Nil.prems have "\<not> hasWork PtpConfigReconciler l" by (simp add: hasWork_def announced_def)
  with Nil.prems(6) progress_refl show ?case by blast
next
  case (Cons req reqs)
  let ?q = "loop_queue l PtpConfigReconciler"
  let ?q1 = "?q\<lparr>q_queue := reqs, q_processing := insert req (q_processing ?q), q_dirty := q_dirty ?q - {req}\<rparr>"
  let ?l1 = "takeRequest PtpConfigReconciler req ?q1 l"
  have "queue_Get ?q = Some (req, ?q1)" using Cons.prems(5) by (simp add: queue_Get_def)
  then have step: "queueStep mapper mgr l ?l1" using take [of l PtpConfigReconciler req ?q1 mapper mgr] Cons.prems(2) by simp
  have "canPublish lookup f ?l1"
    using Cons.prems(1) queuesOk_step [OF step] queueStep_server [OF step] by (simp add: canPublish_def)
  moreover have "loop_worker ?l1 PtpConfigReconciler = Started req" "loop_events ?l1 = []"
    "loop_queue ?l1 PtpConfigReconciler = ?q1"
    using Cons.prems(3) by (simp_all add: takeRequest_def)
  ultimately obtain l2 where l2: "progress c lookup marshal mapper mgr ?l1 l2" "canPublish lookup f l2"
    "publishes marshal f (absFleet (lookup (loop_server l2)))" "loop_worker l2 PtpConfigReconciler = Idle" "loop_events l2 = []"
    "loop_queue l2 PtpConfigReconciler = queue_Done req ?q1"
    using work_started [OF assms(1-3), of ?l1 req] by auto
  have "q_queue (queue_Done req ?q1) = reqs" "q_waiting (queue_Done req ?q1) = []"
    using Cons.prems(4) by (simp_all add: queue_Done_def Let_def)
  with l2 have "\<exists>l'. progress c lookup marshal mapper mgr l2 l' \<and> \<not> hasWork PtpConfigReconciler l' \<and>
      publishes marshal f (absFleet (lookup (loop_server l')))"
    by (intro Cons.IH) simp_all
  then obtain l' where l': "progress c lookup marshal mapper mgr l2 l'" "\<not> hasWork PtpConfigReconciler l'"
    "publishes marshal f (absFleet (lookup (loop_server l')))" by blast
  note progress_trans [OF progress_step [OF step] progress_trans [OF l2(1) l'(1)]]
  with l'(2,3) show ?case by blast
qed

text \<open>Events are delivered, delays end, and a worker that has run gives its request back.\<close>

lemma work_done:
  fixes srt :: recommendSort
  assumes "wired mapper mgr" "sort_slice_contract srt" "publishable marshal f" "canPublish lookup f l"
    and "hasWork PtpConfigReconciler l \<or> publishes marshal f (absFleet (lookup (loop_server l)))"
    and "\<And>req. loop_worker l PtpConfigReconciler \<noteq> Started req"
  shows "\<exists>l'. progress c lookup marshal mapper mgr l l' \<and> \<not> hasWork PtpConfigReconciler l' \<and>
    publishes marshal f (absFleet (lookup (loop_server l')))"
proof -
  obtain l1 where l1: "(queueStep mapper mgr)\<^sup>*\<^sup>* l l1" "loop_worker l1 PtpConfigReconciler = Idle"
  proof (cases "loop_worker l PtpConfigReconciler")
    case Idle
    then show thesis using that [of l] by simp
  next
    case (Ran req result err)
    let ?l1 = "finishRequest PtpConfigReconciler 0 req result err l"
    have "queueStep mapper mgr l ?l1" using Ran by (rule finish)
    then show thesis using that [of ?l1] by (simp add: finishRequest_def r_into_rtranclp)
  qed (use assms(6) in simp)
  let ?l2 = "delivered mapper mgr l1"
  define t where "t = Max (insert (loop_now ?l2) (snd ` set (q_waiting (loop_queue ?l2 PtpConfigReconciler))))"
  let ?l3 = "passTime t ?l2"
  have "loop_now ?l2 \<le> t" by (simp add: t_def)
  from pass [OF this] have "queueStep mapper mgr ?l2 ?l3" .
  with deliver_all [of mapper mgr l1] have "(queueStep mapper mgr)\<^sup>*\<^sup>* l1 ?l3" by (rule rtranclp.rtrancl_into_rtrancl)
  with l1(1) have steps: "(queueStep mapper mgr)\<^sup>*\<^sup>* l ?l3" by (rule rtranclp_trans)
  have "queuesOk l" using assms(4) by (simp add: canPublish_def)
  note kept = queueSteps_keep [OF steps this assms(1), of PtpConfigReconciler]
  have l3: "canPublish lookup f ?l3" "loop_worker ?l3 PtpConfigReconciler = Idle" "loop_events ?l3 = []"
    using assms(4) kept l1(2) by (simp_all add: canPublish_def) (simp_all add: passTime_def delivered_def)
  let ?q = "loop_queue ?l3 PtpConfigReconciler"
  have usable: "q_usable ?q" "q_processing ?q = {}" using kept l3(2) by (simp_all add: queuesOk_def)
  have waiting: "q_waiting ?q = []"
  proof -
    let ?q0 = "loop_queue ?l2 PtpConfigReconciler"
    have "readyAt \<le> t" if "(item, readyAt) \<in> set (q_waiting ?q0)" for item readyAt
      unfolding t_def by (rule Max_ge) (use that in force)+
    then have "filter (\<lambda>(item, readyAt). \<not> readyAt \<le> t) (q_waiting ?q0) = []" by (auto simp: filter_empty_conv)
    moreover have "\<not> q_shuttingDown ?q0"
      using queueSteps_keep [OF rtranclp_trans [OF l1(1) deliver_all] \<open>queuesOk l\<close> assms(1)]
      by (simp add: queuesOk_def q_usable_def)
    ultimately show ?thesis
      using adds_fields [of "?q0\<lparr>q_waiting := []\<rparr>" "readyItems t ?q0"] by (simp add: passTime_def queue_fire_def)
  qed
  have "q_queue ?q \<noteq> [] \<or> publishes marshal f (absFleet (lookup (loop_server ?l3)))"
    using assms(5) kept l3(2,3) waiting usable by (auto simp: hasWork_def announced_def q_wanted_def q_usable_def queueOk_def)
  from work_off [OF assms(1-3) l3 waiting refl this] progress_trans [OF progress_queues [OF steps]] show ?thesis by blast
qed

end

context reliable_client
begin

lemma config_work:
  fixes srt :: recommendSort
  assumes "wired mapper mgr" "sort_slice_contract srt" "loopReachable c lookup marshal mapper mgr l"
    and "hasWork PtpConfigReconciler l" "lookup (loop_server l) publishedKey = Some (ConfigMapObj cm)"
    and "publishable marshal (absFleet (lookup (loop_server l)))"
  shows "\<exists>l'. progress c lookup marshal mapper mgr l l' \<and> \<not> hasWork PtpConfigReconciler l' \<and>
    publishes marshal (absFleet (lookup (loop_server l))) (absFleet (lookup (loop_server l')))"
proof -
  let ?f = "absFleet (lookup (loop_server l))" and ?l1 = "delivered mapper mgr l"
  have "queuesOk l" using assms(3) by (rule loop_queuesOk)
  from queueSteps_keep [OF deliver_all this assms(1), of PtpConfigReconciler]
  have l1: "canPublish lookup ?f ?l1" "hasWork PtpConfigReconciler ?l1"
    using assms(4,5) reachable_wellTyped [OF loop_reachable [OF assms(3)]] by (simp_all add: canPublish_def fleetAs_refl)
  have "\<exists>l2. progress c lookup marshal mapper mgr ?l1 l2 \<and> canPublish lookup ?f l2 \<and>
      (hasWork PtpConfigReconciler l2 \<or> publishes marshal ?f (absFleet (lookup (loop_server l2)))) \<and>
      (\<forall>req. loop_worker l2 PtpConfigReconciler \<noteq> Started req)"
  proof (cases "\<exists>req. loop_worker ?l1 PtpConfigReconciler = Started req")
    case True
    then obtain req where "loop_worker ?l1 PtpConfigReconciler = Started req" ..
    from work_started [OF assms(1,2,6) l1(1) this] show ?thesis by (auto simp: delivered_def)
  next
    case False
    with l1 progress_refl show ?thesis by blast
  qed
  then obtain l2 where l2: "progress c lookup marshal mapper mgr ?l1 l2" "canPublish lookup ?f l2"
    "hasWork PtpConfigReconciler l2 \<or> publishes marshal ?f (absFleet (lookup (loop_server l2)))"
    "\<And>req. loop_worker l2 PtpConfigReconciler \<noteq> Started req" by blast
  from work_done [OF assms(1,2,6) l2(2-4)] progress_trans [OF progress_queues [OF deliver_all] progress_trans [OF l2(1)]]
  show ?thesis by blast
qed

end


section \<open>An example\<close>

text \<open>The installation of \<open>exInstalled\<close> when the process has started, and with a node more.\<close>

definition exBooted :: "Tracker Loop" where
  "exBooted = booted exInstalled [CreateEvent (PtpConfigObj exFleetConfig), CreateEvent (NodeObj exNode),
     CreateEvent (ConfigMapObj (exPublished\<lparr>cm_Data := []\<rparr>))]"

definition exSecondNode :: Node where
  "exSecondNode = \<lparr>node_ObjectMeta = emptyMeta\<lparr>meta_Name := ''n2''\<rparr>\<rparr>"

lemma exBooted_reachable: "loopReachable trackerClient map_of exMarshal exMapper exManager exBooted"
  unfolding exBooted_def
proof (rule loop_boot)
  show "installed (map_of exInstalled)"
    by (auto simp: installed_def wellTyped_def exInstalled_def exFleetConfig_def exPublished_def cmKey_def ex_defs
        coreKind_def ptpKind_def split: if_splits)
  show "covers Map.empty (map_of exInstalled) [CreateEvent (PtpConfigObj exFleetConfig), CreateEvent (NodeObj exNode),
     CreateEvent (ConfigMapObj (exPublished\<lparr>cm_Data := []\<rparr>))]"
    by (auto simp: covers_def exInstalled_def exFleetConfig_def exPublished_def cmKey_def ex_defs split: if_splits)
qed

lemma exInstalled_fleet:
  "fleet_Configs (absFleet (map_of exInstalled)) = {exFleetConfig}" "fleet_Nodes (absFleet (map_of exInstalled)) = {exNode}"
  "map_of exInstalled publishedKey = Some (ConfigMapObj (exPublished\<lparr>cm_Data := []\<rparr>))"
  by (auto simp: absFleet_def exInstalled_def cmKey_def coreKind_def ptpKind_def)

lemma exInstalled_publishable: "publishable exMarshal (absFleet (map_of exInstalled))"
proof -
  have "publishable exMarshal (absFleet (map_of (exTracker exFleetConfig)))"
    by (simp add: publishable_def exFleet_unique exTracker_fleet exFleet_deployable exMarshal_def)
  moreover have "fleetAs (absFleet (map_of (exTracker exFleetConfig))) (absFleet (map_of exInstalled))"
    by (simp add: fleetAs_def exTracker_fleet exInstalled_fleet)
  ultimately show ?thesis by (simp add: fleetAs_publishable)
qed

lemma exBooted_work: "hasWork PtpConfigReconciler exBooted" "loop_server exBooted = exInstalled"
  by (simp_all add: hasWork_def exBooted_def booted_def announced_def)


text \<open>The state in which its controller has done its work.\<close>

lemma exSettled:
  obtains l cm where "loopReachable trackerClient map_of exMarshal exMapper exManager l" "\<not> hasWork PtpConfigReconciler l"
    "fleet_Configs (absFleet (map_of (loop_server l))) \<noteq> {}"
    "map_of (loop_server l) publishedKey = Some (ConfigMapObj cm)" "dom (map_of (cm_Data cm)) = {''n1''}"
proof -
  obtain l where l: "progress trackerClient map_of exMarshal exMapper exManager exBooted l" "\<not> hasWork PtpConfigReconciler l"
    "publishes exMarshal (absFleet (map_of exInstalled)) (absFleet (map_of (loop_server l)))"
    using reliable_client.config_work [OF tracker_contract(2) exManager_wired ins.sort_slice_contract_axioms exBooted_reachable
        exBooted_work(1), unfolded exBooted_work(2), OF exInstalled_fleet(3) exInstalled_publishable]
    by (elim exE conjE)
  have "dom (fleet_Published (absFleet (map_of (loop_server l)))) = {''n1''}"
    using l(3) by (simp add: publishes_def exInstalled_fleet ex_defs)
  then obtain cm where "map_of (loop_server l) publishedKey = Some (ConfigMapObj cm)" "dom (map_of (cm_Data cm)) = {''n1''}"
    by (auto simp: absFleet_def split: option.splits Object.splits)
  moreover have "fleet_Configs (absFleet (map_of (loop_server l))) \<noteq> {}"
    using l(3) by (simp add: publishes_def exInstalled_fleet)
  ultimately show thesis using that progress_reachable [OF l(1) exBooted_reachable] l(2) by simp
qed

lemma published_follows_configs_witness:
  "\<exists>(l :: Tracker Loop) cm srt s0 cfgs nodes. map_of (loop_server l) publishedKey = Some (ConfigMapObj cm) \<and> cm_Data cm \<noteq> [] \<and>
     reachable trackerClient map_of exMarshal s0 \<and> set cfgs = fleet_Configs (absFleet (map_of (loop_server l))) \<and>
     set nodes = fleet_Nodes (absFleet (map_of s0)) \<and>
     nodeData srt exMarshal \<lparr>configlist_Items = cfgs\<rparr> nodes [] = Ret (Inr (cm_Data cm))"
proof -
  obtain l cm where l: "loopReachable trackerClient map_of exMarshal exMapper exManager l" "\<not> hasWork PtpConfigReconciler l"
    "fleet_Configs (absFleet (map_of (loop_server l))) \<noteq> {}"
    "map_of (loop_server l) publishedKey = Some (ConfigMapObj cm)" and data: "dom (map_of (cm_Data cm)) = {''n1''}"
    by (rule exSettled)
  have some: "cm_Data cm \<noteq> []" using data by (cases "cm_Data cm") auto
  have "listsConfigs trackerClient" by (simp add: listsConfigs_def trackerClient_def tracker_List_def)
  from published_follows_configs [OF tracker_contract(1) exManager_wired this l some] obtain srt s0 cfgs nodes where
    "reachable trackerClient map_of exMarshal s0 \<and> set cfgs = fleet_Configs (absFleet (map_of (loop_server l))) \<and>
     set nodes = fleet_Nodes (absFleet (map_of s0)) \<and>
     nodeData srt exMarshal \<lparr>configlist_Items = cfgs\<rparr> nodes [] = Ret (Inr (cm_Data cm))"
    by (elim exE) (rule that)
  with l(4) some show ?thesis
    by (intro exI [of _ l] exI [of _ cm] exI [of _ srt] exI [of _ s0] exI [of _ cfgs] exI [of _ nodes] conjI) simp_all
qed


text \<open>The cluster with the default configuration when the process has started.\<close>

definition exConfigured :: "Tracker Loop" where
  "exConfigured = booted exampleFleet [CreateEvent (PtpOperatorConfigObj exampleConfig), CreateEvent (NodeObj exampleNode)]"

lemma exConfigured_reachable: "loopReachable trackerClient map_of exMarshal exMapper exManager exConfigured"
  unfolding exConfigured_def
proof (rule loop_boot)
  show "installed (map_of exampleFleet)"
    by (auto simp: installed_def wellTyped_def exampleFleet_def exampleConfig_def exampleNode_def cmKey_def emptyMeta_def
        coreKind_def ptpKind_def split: if_splits)
  show "covers Map.empty (map_of exampleFleet) [CreateEvent (PtpOperatorConfigObj exampleConfig), CreateEvent (NodeObj exampleNode)]"
    by (auto simp: covers_def exampleFleet_def exampleConfig_def exampleNode_def emptyMeta_def split: if_splits)
qed

lemma operator_keeps_working_witness:
  "announced (ptpKind ''PtpOperatorConfig'') (loop_events exConfigured) \<or>
   q_wanted (loop_queue exConfigured PtpOperatorConfigReconciler) \<noteq> {} \<or> again (loop_worker exConfigured PtpOperatorConfigReconciler)"
  by (rule operator_keeps_working [OF tracker_contract(1) exManager_wired exConfigured_reachable])
    (simp add: exConfigured_def booted_def example_fleet)


end
