(* ===== verification/Spec2Isabelle.thy ===== *)
theory Spec2Isabelle
  imports Ptp_Config_Webhook Operator_Config_Webhook Bootstrap Deep_Copy Event_Loop
begin

text \<open>
  Verification of the PTP operator, a Kubernetes operator in Go that deploys the PTP daemon on the
  nodes of a cluster and hands every node its PTP profiles.

  \<^bold>\<open>The program.\<close> \<^verbatim>\<open>main.go\<close> starts a controller manager with two reconcilers and two admission
  webhooks. The reconciler of PtpOperatorConfig (\<^verbatim>\<open>controllers/ptpoperatorconfig_controller.go\<close>) creates
  the default configuration, a NodePtpDevice per node and two ConfigMaps, renders the manifests of
  \<^verbatim>\<open>bindata\<close> (\<^verbatim>\<open>pkg/render\<close>) and applies them (\<^verbatim>\<open>pkg/apply\<close>). The reconciler of PtpConfig
  (\<^verbatim>\<open>controllers/ptpconfig_controller.go\<close>) computes the recommended profiles of every node
  (\<^verbatim>\<open>controllers/recommend.go\<close>) and writes them into the ConfigMap \<^verbatim>\<open>ptp-configmap\<close>, which the daemons
  read. The webhooks (\<^verbatim>\<open>api/v1\<close>) admit or refuse configurations. All state is on the API server; the
  parts interact only through it.

  \<^bold>\<open>The theories.\<close>
  \<^item> \<open>Prelude\<close>: Go maps, errors, panics, the contract of \<^verbatim>\<open>sort.Slice\<close>, maps that grow or change at
    some keys only, and generic lemmas.
  \<^item> \<open>Api_Types\<close>: the resources of \<^verbatim>\<open>api/v1\<close> and the names of \<^verbatim>\<open>pkg/names\<close>, one record per struct.
  \<^item> \<open>Recommend\<close>: \<^verbatim>\<open>recommend.go\<close>. The loop over the sorted recommendations is proved to select the
    eligible ones of least priority value, whatever order the sort gives to equal priorities; the cases
    where it panics, and where its length check misses a profile, are stated.
  \<^item> \<open>Go_Strings\<close>, \<open>Go_Regexp\<close>, \<open>Go_Time\<close>: what the code uses of Go's \<^verbatim>\<open>strings\<close>, \<^verbatim>\<open>regexp\<close> (derivatives)
    and \<^verbatim>\<open>time\<close> (RFC 3339).
  \<^item> \<open>Ptp4l_Conf\<close>, \<open>Ptp_Config_Webhook\<close>, \<open>Semver\<close>, \<open>Operator_Config_Webhook\<close>: the ptp4l parser with its
    round trip, the selection of interfaces, and admission, characterised by what is admitted.
  \<^item> \<open>Unstructured\<close>, \<open>Apply_Merge\<close>, \<open>Owner_Reference\<close>: objects as JSON with the accessors of the vendored
    apimachinery, the merge of an object with the one on the server, and \<^verbatim>\<open>SetControllerReference\<close>.
  \<^item> \<open>Cluster\<close>: the client of the API server, a record of calls that thread the state of the server, under
    three contracts (locales): \<open>api_client\<close> (what a call that succeeds did, that one that fails did
    nothing), \<open>reliable_client\<close> (no call fails without a reason) and \<open>verbatim_client\<close>. The object
    tracker of the vendored client-go is the instance.
  \<^item> \<open>Apply_Object\<close>, \<open>Render\<close>: \<^verbatim>\<open>ApplyObject\<close> against the contracts; reading, executing and decoding
    manifests.
  \<^item> \<open>Operator_Config_Controller\<close>, \<open>Operator_Reconcile\<close>: the reconciler of PtpOperatorConfig, the effect of
    each of its steps, and the frame, the result, the progress and the fixed point of a reconciliation.
  \<^item> \<open>Ptp_Config_Controller\<close>: the reconciler of PtpConfig as the implementation of one step of an
    abstract fleet (\<open>absFleet\<close>, \<open>publishes\<close>), all or nothing.
  \<^item> \<open>Leader_Election\<close>, \<open>Manager\<close>: the times of the leader election as 64-bit words, and \<^verbatim>\<open>main.go\<close> with
    the wait for the webhook server, whose loop is shown to end.
  \<^item> \<open>Go_Heap\<close>, \<open>Deep_Copy\<close>: the store with its addresses, and the copy functions that
    \<^verbatim>\<open>zz_generated.deepcopy.go\<close> has for every type; each generated body is the copy its type asks for, and
    a copy shares no address with its original.
  \<^item> \<open>Rest_Request\<close>, \<open>Clientset\<close>: the builder of requests of the vendored client-go with \<^verbatim>\<open>path.Join\<close>, and
    the typed clientset of \<^verbatim>\<open>pkg/client\<close>; a call stays on the object it names, whatever the name.
  \<^item> \<open>Fake_Clientset\<close>: the fake clientset for tests on the tracker of client-go; its clients are stores of
    objects by namespace and name, and a watcher is told every change.
  \<^item> \<open>Scheme_Registration\<close>: the registration of the types with the schemes of the manager and of the
    clientsets, when it panics and which kinds a scheme has afterwards.
  \<^item> \<open>Operator_System\<close>: all of it as a step relation with users and other controllers in between, and
    invariants of its reachable states.
  \<^item> \<open>Work_Queue\<close>: the work queue of client-go with its delays; an item that is added is not lost and is never
    processed twice at once. What a controller relies on is the locale \<open>work_queue\<close>.
  \<^item> \<open>Controller_Setup\<close>: the \<^verbatim>\<open>SetupWithManager\<close> and \<^verbatim>\<open>SetupWebhookWithManager\<close> functions on the builders of
    controller-runtime, what \<^verbatim>\<open>main\<close> has set up when it starts the manager, and which events make which requests.
  \<^item> \<open>Event_Loop\<close>: the operator as it runs, with events, queues, workers, failures and restarts. Each run is one
    of \<open>Operator_System\<close>; what is published follows the PtpConfigs, the work on them gets done, the other
    controller never rests, and changes of Nodes and of the ConfigMap itself go unnoticed.
  \<^item> \<open>Bootstrap\<close>: from an installation without a configuration to published profiles, through the start-up
    and one run of each reconciler.

  \<^bold>\<open>Conventions.\<close> A pointer is an option, a slice a list, a map an association list in one order in which
  \<^verbatim>\<open>range\<close> may visit it, an error a value of \<open>error\<close>, a nil dereference the value \<open>Panic\<close> of \<open>go\<close>. Code that
  is not in the repository, or that depends on the machine, is a parameter: the API server, the
  environment and the file system, the template engine with its functions, the YAML decoder, the
  conversion of a DaemonSet to and from JSON, \<^verbatim>\<open>json.Marshal\<close>, \<^verbatim>\<open>url.Parse\<close>, \<^verbatim>\<open>regexp.Compile\<close> on a user's
  text, \<^verbatim>\<open>sort.Slice\<close>, the clock, the transport and the codecs of a REST client, the parsers of selectors
  and the application of a patch.

  \<^bold>\<open>Bounds.\<close> No definition uses fuel but the wait for the webhook server, a \<open>partial_function\<close>: its loop
  is shown to end within 32 polls, because each poll but the last is followed by a sleep of at least a
  second and the limit is 30 seconds. Durations of the leader election are words of 64 bits and do not
  wrap; priorities and scheduling values are only compared, so \<open>int\<close> stands for \<^verbatim>\<open>int64\<close>.

  \<^bold>\<open>Not modelled.\<close> The cache of the manager, so that a reconciler reads what the server has; the leader
  election among several processes; the serving of the webhooks over HTTP; logging and metrics; the test
  helpers under \<^verbatim>\<open>test\<close>; of the vendored code everything but the functions named in the theories.
\<close>

end
